(* ===== verification/Prelude.thy ===== *)
theory Prelude
  imports Main
begin

text \<open>
  Shared material.  A Go method that talks to the Kubernetes API server is a tree
  of requests: it either has finished, or it issues one request and continues
  with the response.  The tree is well founded, so every method of the model
  finishes after finitely many requests whatever the responses are.

  The theory gives sequencing (with and without the early return of a Go
  function), the relation \<open>runs\<close> of all traces a tree can produce against an
  arbitrary environment, the function \<open>exec\<close> that runs a tree against one given
  server, and the composition lemmas every component uses.
\<close>

named_theorems io_simps \<open>equations that evaluate request trees\<close>
named_theorems run_elims \<open>elimination rules for runs of composed trees\<close>

section \<open>Request trees\<close>

datatype ('q, 'r, 'a) prog =
    Ret 'a
  | Req 'q "'r \<Rightarrow> ('q, 'r, 'a) prog"

primrec prog_bind :: "('q, 'r, 'a) prog \<Rightarrow> ('a \<Rightarrow> ('q, 'r, 'b) prog) \<Rightarrow> ('q, 'r, 'b) prog" where
  "prog_bind (Ret a) f = f a"
| "prog_bind (Req q k) f = Req q (\<lambda>r. prog_bind (k r) f)"

text \<open>
  A statement of a Go function either falls through with a value (\<open>Inr\<close>) or
  has executed a \<open>return\<close> (\<open>Inl\<close>); \<open>andthen\<close> skips the rest after a return.
\<close>

definition andthen ::
  "('q, 'r, 'e + 'a) prog \<Rightarrow> ('a \<Rightarrow> ('q, 'r, 'e + 'b) prog) \<Rightarrow> ('q, 'r, 'e + 'b) prog" where
  "andthen m f = prog_bind m (\<lambda>x. case x of Inl e \<Rightarrow> Ret (Inl e) | Inr a \<Rightarrow> f a)"

lemma prog_bind_assoc:
  "prog_bind (prog_bind m f) g = prog_bind m (\<lambda>a. prog_bind (f a) g)"
  by (induction m) simp_all

lemma prog_bind_Ret [simp]: "prog_bind m Ret = m"
  by (induction m) simp_all

lemma andthen_simps [simp, io_simps]:
  "andthen (Ret (Inl e)) f = Ret (Inl e)"
  "andthen (Ret (Inr a)) f = f a"
  "andthen (Req q k) f = Req q (\<lambda>r. andthen (k r) f)"
  by (simp_all add: andthen_def)

lemma andthen_assoc: "andthen (andthen m f) g = andthen m (\<lambda>a. andthen (f a) g)"
  unfolding andthen_def prog_bind_assoc
  by (rule arg_cong [where f = "prog_bind m"]) (auto split: sum.split)

section \<open>All runs against an arbitrary environment\<close>

text \<open>
  \<open>runs p t a\<close>: some environment answers the requests of \<open>p\<close> so that \<open>p\<close>
  issues exactly the requests of the trace \<open>t\<close>, in that order and with those
  answers, and finishes with \<open>a\<close>.  The answers are arbitrary, which covers
  faults of the server and other clients working on it at the same time.
\<close>

type_synonym ('q, 'r) trace = "('q \<times> 'r) list"

inductive runs :: "('q, 'r, 'a) prog \<Rightarrow> ('q, 'r) trace \<Rightarrow> 'a \<Rightarrow> bool" where
  runs_ret: "runs (Ret a) [] a"
| runs_req: "runs (k r) t a \<Longrightarrow> runs (Req q k) ((q, r) # t) a"

inductive_simps runs_Ret [simp, io_simps]: "runs (Ret a) t b"
inductive_simps runs_Req [simp, io_simps]: "runs (Req q k) t b"

code_pred runs .

text \<open>Branching of the program, as a disjunction of its branches.\<close>

lemma runs_case_sum [io_simps]:
  "runs (case r of Inl e \<Rightarrow> f e | Inr a \<Rightarrow> g a) t x \<longleftrightarrow>
     (\<exists>e. r = Inl e \<and> runs (f e) t x) \<or> (\<exists>a. r = Inr a \<and> runs (g a) t x)"
  by (cases r) simp_all

lemma runs_case_option [io_simps]:
  "runs (case r of None \<Rightarrow> f | Some a \<Rightarrow> g a) t x \<longleftrightarrow>
     (r = None \<and> runs f t x) \<or> (\<exists>a. r = Some a \<and> runs (g a) t x)"
  by (cases r) simp_all

lemma runs_if [io_simps]:
  "runs (if b then p else q) t x \<longleftrightarrow> (b \<and> runs p t x) \<or> (\<not> b \<and> runs q t x)"
  by simp

lemma runs_prog_bind:
  "runs (prog_bind m f) t b \<longleftrightarrow> (\<exists>t1 t2 a. t = t1 @ t2 \<and> runs m t1 a \<and> runs (f a) t2 b)"
proof (induction m arbitrary: t)
  case (Ret a)
  then show ?case by auto
next
  case (Req q k)
  show ?case
  proof
    assume "runs (prog_bind (Req q k) f) t b"
    then obtain r t' where t: "t = (q, r) # t'" and r: "runs (prog_bind (k r) f) t' b"
      by auto
    from r Req.IH [of "k r" t'] obtain t1 t2 a
      where "t' = t1 @ t2" "runs (k r) t1 a" "runs (f a) t2 b" by auto
    with t show "\<exists>t1 t2 a. t = t1 @ t2 \<and> runs (Req q k) t1 a \<and> runs (f a) t2 b"
      by (intro exI [of _ "(q, r) # t1"] exI [of _ t2] exI [of _ a]) auto
  next
    assume "\<exists>t1 t2 a. t = t1 @ t2 \<and> runs (Req q k) t1 a \<and> runs (f a) t2 b"
    then show "runs (prog_bind (Req q k) f) t b"
      using Req.IH by fastforce
  qed
qed

lemma runs_andthen:
  "runs (andthen m f) t b \<longleftrightarrow>
     (\<exists>e. b = Inl e \<and> runs m t (Inl e)) \<or>
     (\<exists>t1 t2 a. t = t1 @ t2 \<and> runs m t1 (Inr a) \<and> runs (f a) t2 b)"
  (is "?L \<longleftrightarrow> ?R")
proof
  assume ?L
  then obtain t1 t2 x where "t = t1 @ t2" and "runs m t1 x"
    and "runs (case x of Inl e \<Rightarrow> Ret (Inl e) | Inr a \<Rightarrow> f a) t2 b"
    unfolding andthen_def runs_prog_bind by blast
  then show ?R by (cases x) auto
next
  assume ?R
  then show ?L
  proof (elim disjE exE conjE)
    fix e
    assume "b = Inl e" and "runs m t (Inl e)"
    then show ?L unfolding andthen_def runs_prog_bind
      by (intro exI [of _ t] exI [of _ "[]"] exI [of _ "Inl e"]) simp
  next
    fix t1 t2 a
    assume "t = t1 @ t2" and "runs m t1 (Inr a)" and "runs (f a) t2 b"
    then show ?L unfolding andthen_def runs_prog_bind
      by (intro exI [of _ t1] exI [of _ t2] exI [of _ "Inr a"]) simp
  qed
qed

lemma runs_andthenE [run_elims]:
  assumes "runs (andthen m f) t b"
  obtains (returned) e where "b = Inl e" "runs m t (Inl e)"
  | (continued) t1 t2 a where "t = t1 @ t2" "runs m t1 (Inr a)" "runs (f a) t2 b"
  using assms unfolding runs_andthen by blast

text \<open>Every tree finishes against every environment that answers its requests.\<close>

lemma runs_total: "\<exists>t a. runs p t a \<and> (\<forall>(q, r) \<in> set t. r = answer q)"
proof (induction p)
  case (Ret a)
  then show ?case by auto
next
  case (Req q k)
  then obtain t a where "runs (k (answer q)) t a" "\<forall>(q, r) \<in> set t. r = answer q"
    by blast
  then show ?case
    by (intro exI [of _ "(q, answer q) # t"] exI [of _ a]) auto
qed

section \<open>Safety of all runs\<close>

definition always :: "(('q, 'r) trace \<Rightarrow> bool) \<Rightarrow> ('q, 'r, 'a) prog \<Rightarrow> bool" where
  "always P p \<longleftrightarrow> (\<forall>t a. runs p t a \<longrightarrow> P t)"

lemma alwaysD: "always P p \<Longrightarrow> runs p t a \<Longrightarrow> P t"
  unfolding always_def by blast

text \<open>
  Trace properties that hold of a concatenation when they hold of both parts
  compose along the sequencing of the program.
\<close>

locale segment_property =
  fixes P :: "('q, 'r) trace \<Rightarrow> bool"
  assumes nil: "P []"
    and append: "P t1 \<Longrightarrow> P t2 \<Longrightarrow> P (t1 @ t2)"
begin

lemma always_Ret [simp]: "always P (Ret a)"
  by (simp add: always_def nil)

lemma always_prog_bind:
  "always P m \<Longrightarrow> (\<And>a. always P (f a)) \<Longrightarrow> always P (prog_bind m f)"
  unfolding always_def runs_prog_bind by (blast intro: append)

lemma always_andthen:
  "always P m \<Longrightarrow> (\<And>a. always P (f a)) \<Longrightarrow> always P (andthen m f)"
  unfolding always_def runs_andthen by (blast intro: append)

end

text \<open>
  A contract of a statement speaks about its trace and about how it ended:
  \<open>None\<close> when it fell through, \<open>Some e\<close> when it returned \<open>e\<close>.  A contract that
  composes along traces is inherited by a sequence of statements.
\<close>

definition obeys ::
  "(('q, 'r) trace \<Rightarrow> 'e option \<Rightarrow> bool) \<Rightarrow> ('q, 'r, 'e + 'a) prog \<Rightarrow> bool" where
  "obeys D p \<longleftrightarrow>
     (\<forall>t x. runs p t x \<longrightarrow> D t (case x of Inl e \<Rightarrow> Some e | Inr _ \<Rightarrow> None))"

lemma obeysI:
  assumes "\<And>t e. runs p t (Inl e) \<Longrightarrow> D t (Some e)" "\<And>t a. runs p t (Inr a) \<Longrightarrow> D t None"
  shows "obeys D p"
  unfolding obeys_def using assms by (auto split: sum.split)

lemma obeys_returned: "obeys D p \<Longrightarrow> runs p t (Inl e) \<Longrightarrow> D t (Some e)"
  unfolding obeys_def by fastforce

lemma obeys_continued: "obeys D p \<Longrightarrow> runs p t (Inr a) \<Longrightarrow> D t None"
  unfolding obeys_def by fastforce

locale statement_contract =
  fixes D :: "('q, 'r) trace \<Rightarrow> 'e option \<Rightarrow> bool"
  assumes fall_through: "D [] None"
    and sequence: "D t1 None \<Longrightarrow> D t2 x \<Longrightarrow> D (t1 @ t2) x"
begin

lemma obeys_Ret: "obeys D (Ret (Inr a))"
  by (simp add: obeys_def fall_through)

lemma obeys_andthen:
  assumes "obeys D m" and "\<And>a. obeys D (f a)"
  shows "obeys D (andthen m f)"
proof (rule obeysI)
  fix t e
  assume "runs (andthen m f) t (Inl e)"
  then show "D t (Some e)"
  proof (cases rule: runs_andthenE)
    case (returned e')
    with assms(1) show ?thesis by (auto intro: obeys_returned)
  next
    case (continued t1 t2 a)
    with assms show ?thesis by (auto intro: sequence obeys_continued obeys_returned)
  qed
next
  fix t b
  assume "runs (andthen m f) t (Inr b)"
  then show "D t None"
  proof (cases rule: runs_andthenE)
    case (returned e')
    then show ?thesis by simp
  next
    case (continued t1 t2 a)
    with assms show ?thesis by (auto intro: sequence obeys_continued)
  qed
qed

end

sublocale segment_property \<subseteq> statement_contract "\<lambda>t _. P t"
  by unfold_locales (rule nil, rule append)

section \<open>Running a tree against a server\<close>

primrec exec :: "('q \<Rightarrow> 's \<Rightarrow> 'r \<times> 's) \<Rightarrow> ('q, 'r, 'a) prog \<Rightarrow> 's \<Rightarrow> 'a \<times> 's" where
  "exec srv (Ret a) s = (a, s)"
| "exec srv (Req q k) s = (case srv q s of (r, s') \<Rightarrow> exec srv (k r) s')"

lemma exec_prog_bind:
  "exec srv (prog_bind m f) s = (case exec srv m s of (a, s') \<Rightarrow> exec srv (f a) s')"
  by (induction m arbitrary: s) (simp_all split: prod.split)

lemma exec_andthen:
  "exec srv (andthen m f) s =
     (case exec srv m s of
        (Inl e, s') \<Rightarrow> (Inl e, s')
      | (Inr a, s') \<Rightarrow> exec srv (f a) s')"
  by (auto simp: andthen_def exec_prog_bind split: prod.split sum.split)

text \<open>A run against a server is one of the runs against arbitrary environments.\<close>

lemma exec_runs: "exec srv p s = (a, s') \<Longrightarrow> \<exists>t. runs p t a"
proof (induction p arbitrary: s)
  case (Ret b)
  then show ?case by auto
next
  case (Req q k)
  obtain r s1 where "srv q s = (r, s1)" by (cases "srv q s")
  with Req.prems have "exec srv (k r) s1 = (a, s')" by simp
  then obtain t where "runs (k r) t a" using Req.IH by blast
  then show ?case by auto
qed

text \<open>An invariant of the server's state that every request keeps is kept by every run.\<close>

lemma exec_invariant:
  assumes step: "\<And>q s. I s \<Longrightarrow> I (snd (srv q s))" and "I s"
  shows "I (snd (exec srv p s))"
  using \<open>I s\<close>
proof (induction p arbitrary: s)
  case (Ret a)
  then show ?case by simp
next
  case (Req q k)
  from Req.prems have "I (snd (srv q s))" by (rule step)
  then show ?case using Req.IH by (simp add: case_prod_beta)
qed

text \<open>The run against a server together with its trace.\<close>

primrec traced :: "('q \<Rightarrow> 's \<Rightarrow> 'r \<times> 's) \<Rightarrow> ('q, 'r, 'a) prog \<Rightarrow> 's \<Rightarrow> ('q, 'r) trace \<times> 'a \<times> 's" where
  "traced srv (Ret a) s = ([], a, s)"
| "traced srv (Req q k) s = (case srv q s of (r, s') \<Rightarrow>
     (case traced srv (k r) s' of (t, a, s'') \<Rightarrow> ((q, r) # t, a, s'')))"

lemma traced_runs: "traced srv p s = (t, a, s') \<Longrightarrow> runs p t a"
  by (induction p arbitrary: s t) (auto split: prod.splits)

lemma runs_traced: "runs p (fst (traced srv p s)) (fst (snd (traced srv p s)))"
  by (rule traced_runs [of srv p s _ _ "snd (snd (traced srv p s))"]) simp

lemma snd_traced: "snd (traced srv p s) = exec srv p s"
  by (induction p arbitrary: s) (simp_all add: case_prod_beta)

text \<open>An invariant of the events holds of the whole trace.\<close>

lemma traced_events:
  assumes "\<And>q s. P (q, fst (srv q s))"
  shows "list_all P (fst (traced srv p s))"
  by (induction p arbitrary: s) (simp_all add: case_prod_beta assms)

end
