(* ===== verification/KubeTypes.thy ===== *)
theory KubeTypes
  imports Prelude "HOL-Library.Word" "HOL-Library.Finite_Map"
begin

text \<open>
  The Kubernetes object types of the structs the operators build.  A record
  holds the fields the sources set or read; a field no source mentions keeps
  Go's zero value and is left out.  A Go pointer or a map that may be nil is an
  option, a Go \<open>map[string]string\<close> is a finite map, and an \<open>int32\<close> is a
  32-bit word.
\<close>

section \<open>Go values\<close>

type_synonym int32 = "32 word"
type_synonym string_map = "(string, string) fmap"

text \<open>
  Go errors: what the API server answers (a reason and a message, as
  \<open>metav1.Status\<close> carries them) and the errors made with \<open>fmt.Errorf\<close>.
\<close>

datatype go_error = StatusError string string | Errorf string

section \<open>Object metadata\<close>

record OwnerReference =
  or_kind :: string
  or_name :: string
  or_controller :: bool

record ObjectMeta =
  om_name :: string
  om_namespace :: string
  om_labels :: "string_map option"
  om_finalizers :: "string list"
  om_deletionTimestamp :: "nat option"
  om_ownerReferences :: "OwnerReference list"

text \<open>The literal \<open>metav1.ObjectMeta{Name: n, Namespace: ns}\<close>, every other field zero.\<close>

definition mkMeta :: "string \<Rightarrow> string \<Rightarrow> ObjectMeta" where
  "mkMeta n ns = \<lparr>om_name = n, om_namespace = ns, om_labels = None, om_finalizers = [],
     om_deletionTimestamp = None, om_ownerReferences = []\<rparr>"

lemma mkMeta_simps [simp]:
  "om_name (mkMeta n ns) = n"
  "om_namespace (mkMeta n ns) = ns"
  "om_labels (mkMeta n ns) = None"
  "om_finalizers (mkMeta n ns) = []"
  "om_deletionTimestamp (mkMeta n ns) = None"
  "om_ownerReferences (mkMeta n ns) = []"
  by (simp_all add: mkMeta_def)

record NamespacedName =
  nn_namespace :: string
  nn_name :: string

section \<open>core/v1\<close>

record ServiceAccount =
  sa_meta :: ObjectMeta

datatype PersistentVolumeAccessMode = ReadWriteOnce | ReadOnlyMany | ReadWriteMany

text \<open>
  \<open>resource.Quantity\<close> is a number; the model keeps it in thousandths, so that
  the milli-units of the format have a value.
\<close>

type_synonym quantity = int

record PersistentVolumeClaim =
  pvc_meta :: ObjectMeta
  pvc_accessModes :: "PersistentVolumeAccessMode list"
  pvc_requests :: "(string, quantity) fmap"
  pvc_storageClassName :: "string option"

record ContainerPort =
  cp_name :: string
  cp_containerPort :: int32
  cp_protocol :: string

record SecurityContext =
  sc_add :: "string list"
  sc_drop :: "string list"
  sc_privileged :: "bool option"
  sc_allowPrivilegeEscalation :: "bool option"

record EnvVar =
  ev_name :: string
  ev_value :: string
  ev_fieldPath :: "string option"

record VolumeMount =
  vm_name :: string
  vm_mountPath :: string

record Container =
  c_image :: string
  c_name :: string
  c_command :: "string list"
  c_ports :: "ContainerPort list"
  c_securityContext :: "SecurityContext option"
  c_args :: "string list"
  c_env :: "EnvVar list"
  c_imagePullPolicy :: string
  c_volumeMounts :: "VolumeMount list"

datatype HostPathType = HostPathUnset | HostPathDirectoryOrCreate | HostPathDirectory

record HostPathVolumeSource =
  hp_path :: string
  hp_type :: "HostPathType option"

record VolumeSource =
  vs_hostPath :: "HostPathVolumeSource option"
  vs_claimName :: "string option"  \<comment> \<open>\<open>PersistentVolumeClaim.ClaimName\<close>\<close>

record Volume =
  v_name :: string
  v_source :: VolumeSource

record PodSpec =
  ps_containers :: "Container list"
  ps_nodeSelector :: "string_map option"
  ps_serviceAccountName :: string
  ps_volumes :: "Volume list"

record Pod =
  pod_meta :: ObjectMeta

record ServicePort =
  sp_name :: string
  sp_port :: int32
  sp_protocol :: string

record Service =
  svc_meta :: ObjectMeta
  svc_ports :: "ServicePort list"
  svc_selector :: "string_map option"

section \<open>apps/v1, rbac/v1, storage/v1, security/v1\<close>

record Deployment =
  dep_meta :: ObjectMeta
  dep_replicas :: "int32 option"
  dep_matchLabels :: "string_map option"
  dep_templateLabels :: "string_map option"
  dep_podSpec :: PodSpec

record PolicyRule =
  pr_apiGroups :: "string list"
  pr_resources :: "string list"
  pr_resourceNames :: "string list"
  pr_verbs :: "string list"

record Subject =
  sub_kind :: string
  sub_name :: string
  sub_namespace :: string

record RoleRef =
  rr_kind :: string
  rr_name :: string
  rr_apiGroup :: string

text \<open>\<open>ClusterRole\<close> and \<open>Role\<close> have the same fields, and so have the two bindings.\<close>

record ClusterRole =
  role_meta :: ObjectMeta
  role_rules :: "PolicyRule list"

type_synonym Role = ClusterRole

record ClusterRoleBinding =
  rb_meta :: ObjectMeta
  rb_subjects :: "Subject list"
  rb_roleRef :: RoleRef

type_synonym RoleBinding = ClusterRoleBinding

record StorageClass =
  stc_meta :: ObjectMeta
  stc_provisioner :: string
  stc_parameters :: "string_map option"

datatype Strategy = MustRunAs | RunAsAny

datatype FSType =
    FSTypeConfigMap | FSTypeDownwardAPI | FSTypeEmptyDir
  | FSTypePersistentVolumeClaim | FSTypeHostPath | FSTypeSecret

record SecurityContextConstraints =
  scc_meta :: ObjectMeta
  scc_allowHostDirVolumePlugin :: bool
  scc_allowHostIPC :: bool
  scc_allowHostNetwork :: bool
  scc_allowHostPID :: bool
  scc_allowHostPorts :: bool
  scc_allowPrivilegedContainer :: bool
  scc_allowedCapabilities :: "string list"
  scc_defaultAddCapabilities :: "string list"
  scc_priority :: "int32 option"
  scc_readOnlyRootFilesystem :: bool
  scc_requiredDropCapabilities :: "string list"
  scc_runAsUser :: Strategy
  scc_seLinuxContext :: Strategy
  scc_users :: "string list"
  scc_supplementalGroups :: Strategy
  scc_volumes :: "FSType list"
  scc_fsGroup :: Strategy

end
