(* ===== verification/NfsTypes.thy ===== *)
theory NfsTypes
  imports KubeTypes
begin

text \<open>
  The custom resource of the operator (\<open>7.nfsprovisioner_type.go\<close>).  A slice
  that is nil and an empty slice are different Go values, so \<open>Nodes\<close> is an
  option; so is the map \<open>NodeSelector\<close>, which the controller compares with nil.
\<close>

record NFSProvisionerSpec =
  HostPathDir :: string
  Pvc :: string
  StorageSize :: string
  SCForNFSPvc :: string
  NodeSelector :: "string_map option"
  SCForNFSProvisioner :: string

record NFSProvisionerStatus =
  Nodes :: "string list option"
  Error :: string

record NFSProvisioner =
  nfs_meta :: ObjectMeta
  Spec :: NFSProvisionerSpec
  Status :: NFSProvisionerStatus

record NFSProvisionerList =
  Items :: "NFSProvisioner list"

text \<open>The zero value \<open>&NFSProvisioner{}\<close> a handler starts from.\<close>

definition zeroNFSProvisioner :: NFSProvisioner where
  "zeroNFSProvisioner =
     \<lparr>nfs_meta = mkMeta '''' '''',
      Spec = \<lparr>HostPathDir = '''', Pvc = '''', StorageSize = '''', SCForNFSPvc = '''',
              NodeSelector = None, SCForNFSProvisioner = ''''\<rparr>,
      Status = \<lparr>Nodes = None, Error = ''''\<rparr>\<rparr>"

abbreviation nfsName :: "NFSProvisioner \<Rightarrow> string" where
  "nfsName m \<equiv> om_name (nfs_meta m)"

abbreviation nfsNamespace :: "NFSProvisioner \<Rightarrow> string" where
  "nfsNamespace m \<equiv> om_namespace (nfs_meta m)"

end
