(* ===== verification/KubeApi.thy ===== *)
theory KubeApi
  imports NfsTypes
begin

text \<open>
  The interface of the operators to the code they call: the requests a
  controller-runtime client sends, the objects they carry, and the library
  functions that are not part of the repository, as the fields of a record.
  A method of a reconciler is a request tree over these requests.
\<close>

section \<open>Objects and keys\<close>

datatype kind =
    ServiceAccountK | SCCK | PersistentVolumeClaimK | ClusterRoleK | ClusterRoleBindingK
  | RoleK | RoleBindingK | DeploymentK | ServiceK | StorageClassK
  | NFSProvisionerK | MemcachedK | PodK

text \<open>
  The custom resource of the memcached tutorial: its Go type is generated into
  another module, and these are the fields its controller uses.
\<close>

record Memcached =
  mc_meta :: ObjectMeta
  mc_Size :: int32
  mc_Nodes :: "string list option"

datatype kobj =
    ServiceAccountO ServiceAccount
  | SCCO SecurityContextConstraints
  | PersistentVolumeClaimO PersistentVolumeClaim
  | ClusterRoleO ClusterRole
  | ClusterRoleBindingO ClusterRoleBinding
  | RoleO Role
  | RoleBindingO RoleBinding
  | DeploymentO Deployment
  | ServiceO Service
  | StorageClassO StorageClass
  | NFSProvisionerO NFSProvisioner
  | MemcachedO Memcached
  | PodListO "Pod list"

fun kobj_kind :: "kobj \<Rightarrow> kind" where
  "kobj_kind (ServiceAccountO _) = ServiceAccountK"
| "kobj_kind (SCCO _) = SCCK"
| "kobj_kind (PersistentVolumeClaimO _) = PersistentVolumeClaimK"
| "kobj_kind (ClusterRoleO _) = ClusterRoleK"
| "kobj_kind (ClusterRoleBindingO _) = ClusterRoleBindingK"
| "kobj_kind (RoleO _) = RoleK"
| "kobj_kind (RoleBindingO _) = RoleBindingK"
| "kobj_kind (DeploymentO _) = DeploymentK"
| "kobj_kind (ServiceO _) = ServiceK"
| "kobj_kind (StorageClassO _) = StorageClassK"
| "kobj_kind (NFSProvisionerO _) = NFSProvisionerK"
| "kobj_kind (MemcachedO _) = MemcachedK"
| "kobj_kind (PodListO _) = PodK"

fun kobj_meta :: "kobj \<Rightarrow> ObjectMeta" where
  "kobj_meta (ServiceAccountO x) = sa_meta x"
| "kobj_meta (SCCO x) = scc_meta x"
| "kobj_meta (PersistentVolumeClaimO x) = pvc_meta x"
| "kobj_meta (ClusterRoleO x) = role_meta x"
| "kobj_meta (ClusterRoleBindingO x) = rb_meta x"
| "kobj_meta (RoleO x) = role_meta x"
| "kobj_meta (RoleBindingO x) = rb_meta x"
| "kobj_meta (DeploymentO x) = dep_meta x"
| "kobj_meta (ServiceO x) = svc_meta x"
| "kobj_meta (StorageClassO x) = stc_meta x"
| "kobj_meta (NFSProvisionerO x) = nfs_meta x"
| "kobj_meta (MemcachedO x) = mc_meta x"
| "kobj_meta (PodListO _) = mkMeta '''' ''''"

text \<open>
  The server files an object under its kind, namespace and name; the kinds that
  are not namespaced ignore the namespace of a request.
\<close>

type_synonym key = "kind \<times> string \<times> string"

definition cluster_scoped :: "kind \<Rightarrow> bool" where
  "cluster_scoped k \<longleftrightarrow> k \<in> {SCCK, ClusterRoleK, ClusterRoleBindingK, StorageClassK}"

definition mkKey :: "kind \<Rightarrow> NamespacedName \<Rightarrow> key" where
  "mkKey k n = (k, if cluster_scoped k then '''' else nn_namespace n, nn_name n)"

text \<open>An object of a namespaced kind has a namespace.\<close>

definition addressable :: "key \<Rightarrow> bool" where
  "addressable k \<longleftrightarrow> cluster_scoped (fst k) \<or> fst (snd k) \<noteq> ''''"

lemma addressable_mkKey [simp]:
  "addressable (mkKey k n) \<longleftrightarrow> cluster_scoped k \<or> nn_namespace n \<noteq> ''''"
  by (simp add: addressable_def mkKey_def)

definition key_of :: "kobj \<Rightarrow> key" where
  "key_of x = mkKey (kobj_kind x)
     \<lparr>nn_namespace = om_namespace (kobj_meta x), nn_name = om_name (kobj_meta x)\<rparr>"

section \<open>Requests\<close>

text \<open>
  The two loggers of the sources: the reconciler's own (\<open>r.Log.WithValues(\<dots>)\<close>,
  tagged with the request) and the package-level one.  The key/value arguments
  of a log call are a variadic list.
\<close>

datatype logger = RLog NamespacedName | PkgLog

datatype logval = LStr string | LErr go_error

datatype request =
    Get kind NamespacedName
  | Create kobj
  | Update kobj
  | StatusUpdate kobj
  | Delete kobj
  | ListPods string string_map
  | LogInfo logger string "logval list"
  | LogError logger go_error string "logval list"

text \<open>
  A client call returns an error or leaves the object it was given filled in.
  The response to a log call carries nothing a program looks at.
\<close>

type_synonym response = "go_error + kobj"
type_synonym event = "request \<times> response"
type_synonym 'a io = "(request, response, 'a) prog"

fun is_log :: "request \<Rightarrow> bool" where
  "is_log (LogInfo _ _ _) = True"
| "is_log (LogError _ _ _ _) = True"
| "is_log _ = False"

fun is_write :: "request \<Rightarrow> bool" where
  "is_write (Create _) = True"
| "is_write (Update _) = True"
| "is_write (StatusUpdate _) = True"
| "is_write (Delete _) = True"
| "is_write _ = False"

section \<open>The result of Reconcile\<close>

record Result =
  Requeue :: bool

datatype ret =
    Return Result "go_error option"
  | Panic string

type_synonym 'a stmt = "(ret + 'a) io"

definition proceed :: "unit stmt" where
  "proceed = Ret (Inr ())"

lemma andthen_proceed: "andthen p (\<lambda>_. proceed) = p"
proof -
  have "(\<lambda>x. case x of Inl e \<Rightarrow> Ret (Inl e) | Inr _ \<Rightarrow> proceed) = Ret"
    by (auto simp: proceed_def split: sum.split)
  then show ?thesis by (simp add: andthen_def)
qed

definition returns :: "bool \<Rightarrow> go_error option \<Rightarrow> 'a stmt" where
  "returns b e = Ret (Inl (Return \<lparr>Requeue = b\<rparr> e))"

definition panics :: "string \<Rightarrow> 'a stmt" where
  "panics msg = Ret (Inl (Panic msg))"

definition logInfo :: "logger \<Rightarrow> string \<Rightarrow> logval list \<Rightarrow> 'a io \<Rightarrow> 'a io" where
  "logInfo lg msg kvs k = Req (LogInfo lg msg kvs) (\<lambda>_. k)"

definition logError :: "logger \<Rightarrow> go_error \<Rightarrow> string \<Rightarrow> logval list \<Rightarrow> 'a io \<Rightarrow> 'a io" where
  "logError lg e msg kvs k = Req (LogError lg e msg kvs) (\<lambda>_. k)"

lemmas stmt_defs = proceed_def returns_def panics_def logInfo_def logError_def

section \<open>Library functions that are not part of the repository\<close>

text \<open>
  \<open>apimachinery\<close>'s error predicates, \<open>resource.MustParse\<close> (which panics, here
  \<open>None\<close>, on a malformed quantity), \<open>Time.IsZero\<close>, and controller-runtime's
  finalizer helpers and \<open>SetControllerReference\<close>.  The last one gets the kind
  and metadata of the owner and of the controlled object and gives the metadata
  of the controlled object after the call; no source looks at its error.
\<close>

record lib =
  IsNotFound :: "go_error \<Rightarrow> bool"
  IgnoreNotFound :: "go_error \<Rightarrow> go_error option"
  IsZero :: "nat option \<Rightarrow> bool"
  MustParse :: "string \<Rightarrow> quantity option"
  AddFinalizer :: "ObjectMeta \<Rightarrow> string \<Rightarrow> ObjectMeta"
  RemoveFinalizer :: "ObjectMeta \<Rightarrow> string \<Rightarrow> ObjectMeta"
  SetControllerReference :: "kind \<Rightarrow> ObjectMeta \<Rightarrow> kind \<Rightarrow> ObjectMeta \<Rightarrow> ObjectMeta"

text \<open>
  What the documentation of these functions promises.  Nothing is assumed of
  \<open>MustParse\<close>.
\<close>

locale k8s_lib =
  fixes L :: lib
  assumes ignoreNotFound: "IgnoreNotFound L e = (if IsNotFound L e then None else Some e)"
    and isZero_nil: "IsZero L None"
    and addFinalizer: "AddFinalizer L m f =
          m\<lparr>om_finalizers := (if f \<in> set (om_finalizers m) then om_finalizers m
                              else om_finalizers m @ [f])\<rparr>"
    and removeFinalizer: "RemoveFinalizer L m f =
          m\<lparr>om_finalizers := filter (\<lambda>g. g \<noteq> f) (om_finalizers m)\<rparr>"
    and setController_name: "om_name (SetControllerReference L ok om k m) = om_name m"
    and setController_namespace:
          "om_namespace (SetControllerReference L ok om k m) = om_namespace m"
    and setController_labels: "om_labels (SetControllerReference L ok om k m) = om_labels m"
    and setController_finalizers:
          "om_finalizers (SetControllerReference L ok om k m) = om_finalizers m"
    and setController_deletionTimestamp:
          "om_deletionTimestamp (SetControllerReference L ok om k m) = om_deletionTimestamp m"
begin

lemmas setController [simp] =
  setController_name setController_namespace setController_labels
  setController_finalizers setController_deletionTimestamp

lemma addFinalizer_mem [simp]: "f \<in> set (om_finalizers (AddFinalizer L m f))"
  by (simp add: addFinalizer)

lemma removeFinalizer_mem [simp]: "f \<notin> set (om_finalizers (RemoveFinalizer L m f))"
  by (simp add: removeFinalizer)

lemma finalizer_helpers_frame [simp]:
  "om_name (AddFinalizer L m f) = om_name m"
  "om_namespace (AddFinalizer L m f) = om_namespace m"
  "om_deletionTimestamp (AddFinalizer L m f) = om_deletionTimestamp m"
  "om_name (RemoveFinalizer L m f) = om_name m"
  "om_namespace (RemoveFinalizer L m f) = om_namespace m"
  "om_deletionTimestamp (RemoveFinalizer L m f) = om_deletionTimestamp m"
  by (simp_all add: addFinalizer removeFinalizer)

end

text \<open>
  A concrete library with these laws, for any quantity parser \<open>parse\<close>: the
  owner reference is set unless the object belongs to another namespace or the
  owner is namespaced and the object is not.
\<close>

definition set_owner :: "kind \<Rightarrow> ObjectMeta \<Rightarrow> kind \<Rightarrow> ObjectMeta \<Rightarrow> ObjectMeta" where
  "set_owner ok om k m =
     (if om_namespace om \<noteq> '''' \<and> om_namespace om \<noteq> om_namespace m then m
      else m\<lparr>om_ownerReferences := om_ownerReferences m @
               [\<lparr>or_kind = (if ok = MemcachedK then ''Memcached'' else ''NFSProvisioner''),
                 or_name = om_name om, or_controller = True\<rparr>]\<rparr>)"

definition std_lib :: "(string \<Rightarrow> quantity option) \<Rightarrow> lib" where
  "std_lib parse =
     \<lparr>IsNotFound = (\<lambda>e. case e of StatusError r _ \<Rightarrow> r = ''NotFound'' | Errorf _ \<Rightarrow> False),
      IgnoreNotFound = (\<lambda>e. case e of
         StatusError r m \<Rightarrow> if r = ''NotFound'' then None else Some (StatusError r m)
       | Errorf m \<Rightarrow> Some (Errorf m)),
      IsZero = (\<lambda>t. t = None \<or> t = Some 0),
      MustParse = parse,
      AddFinalizer = (\<lambda>m f. if f \<in> set (om_finalizers m) then m
                            else m\<lparr>om_finalizers := om_finalizers m @ [f]\<rparr>),
      RemoveFinalizer = (\<lambda>m f. m\<lparr>om_finalizers := filter (\<lambda>g. g \<noteq> f) (om_finalizers m)\<rparr>),
      SetControllerReference = set_owner\<rparr>"

lemma std_lib_laws: "k8s_lib (std_lib parse)"
  by unfold_locales (auto simp: std_lib_def set_owner_def split: go_error.split)

interpretation std: k8s_lib "std_lib parse" for parse
  by (rule std_lib_laws)

end
