(* ===== verification/Defaults.thy ===== *)
theory Defaults
  imports KubeTypes
begin

text \<open>
  Package \<open>defaults\<close> (\<open>6.defaults-values.go\<close>): the names and values the
  controller falls back to.
\<close>

definition SecurityContextContrants :: string where
  "SecurityContextContrants = ''nfs-provisioner''"
definition HostPathDir_default :: string where
  "HostPathDir_default = ''/home/core/nfs''"
definition StorageSize_default :: string where
  "StorageSize_default = ''10G''"
definition Pvc_default :: string where
  "Pvc_default = ''nfs-server''"
definition SCForNFSPvc_default :: string where
  "SCForNFSPvc_default = ''local-sc''"
definition ServiceAccount_default :: string where
  "ServiceAccount_default = ''nfs-provisioner''"
definition ClusterRole_default :: string where
  "ClusterRole_default = ''nfs-provisioner-runner''"
definition ClusterRoleBinding_default :: string where
  "ClusterRoleBinding_default = ''nfs-provisioner-runner''"
definition Role_default :: string where
  "Role_default = ''leader-locking-nfs-provisioner''"
definition RoleBinding_default :: string where
  "RoleBinding_default = ''leader-locking-nfs-provisioner''"
definition Deployment_default :: string where
  "Deployment_default = ''nfs-provisioner''"
definition Service_default :: string where
  "Service_default = ''nfs-provisioner''"
definition SCForNFSProvisioner_default :: string where
  "SCForNFSProvisioner_default = ''nfs''"

definition NodeSelector_default :: string_map where
  "NodeSelector_default = fmap_of_list [(''app'', ''nfs-provisioner'')]"

lemmas defaults_defs =
  SecurityContextContrants_def HostPathDir_default_def StorageSize_default_def
  Pvc_default_def SCForNFSPvc_default_def ServiceAccount_default_def ClusterRole_default_def
  ClusterRoleBinding_default_def Role_default_def RoleBinding_default_def
  Deployment_default_def Service_default_def SCForNFSProvisioner_default_def
  NodeSelector_default_def

end
