(* ===== verification/NfsBuilders.thy ===== *)
theory NfsBuilders
  imports KubeApi Defaults
begin

text \<open>
  The objects the finished controller creates (\<open>5.full_finished_controller.go\<close>,
  the methods \<open>\<dots>ForNFSProvisioner\<close>, \<open>getVolumeSpec\<close> and the label function), and
  how they fit together: keys, labels, ports, bindings and volumes.
\<close>

section \<open>Builders\<close>

text \<open>\<open>ctrl.SetControllerReference(m, x, r.Scheme)\<close> with its error ignored.\<close>

definition ownedBy :: "lib \<Rightarrow> NFSProvisioner \<Rightarrow> kind \<Rightarrow> ObjectMeta \<Rightarrow> ObjectMeta" where
  "ownedBy L m k om = SetControllerReference L NFSProvisionerK (nfs_meta m) k om"

definition labelsForNFSProvisioner :: "string \<Rightarrow> string_map" where
  "labelsForNFSProvisioner name = 
     fmap_of_list [(''app'', ''nfs-provisioner''), (''nfsprovisioner_cr'', name)]"

definition getVolumeSpec :: "NFSProvisioner \<Rightarrow> string \<Rightarrow> VolumeSource io" where
  "getVolumeSpec m t =
     (let hostPathDir = HostPathDir (Spec m);
          pvcName = (if Pvc (Spec m) \<noteq> '''' then Pvc (Spec m) else Pvc_default)
      in if t = ''HOSTPATH'' then
           logInfo PkgLog ''StorageType is HOSTPATH'' []
             (Ret \<lparr>vs_hostPath = Some \<lparr>hp_path = hostPathDir, hp_type = Some HostPathDirectory\<rparr>,
                   vs_claimName = None\<rparr>)
         else
           logInfo PkgLog ''StorageType is PVC'' []
             (Ret \<lparr>vs_hostPath = None, vs_claimName = Some pvcName\<rparr>))"

definition nfsContainerPorts :: "ContainerPort list" where
  "nfsContainerPorts =
     [\<lparr>cp_name = ''nfs'', cp_containerPort = 2049, cp_protocol = ''''\<rparr>,
      \<lparr>cp_name = ''nfs-udp'', cp_containerPort = 2049, cp_protocol = ''UDP''\<rparr>,
      \<lparr>cp_name = ''nlockmgr'', cp_containerPort = 32803, cp_protocol = ''''\<rparr>,
      \<lparr>cp_name = ''nlockmgr-udp'', cp_containerPort = 32803, cp_protocol = ''UDP''\<rparr>,
      \<lparr>cp_name = ''mountd'', cp_containerPort = 20048, cp_protocol = ''''\<rparr>,
      \<lparr>cp_name = ''mountd-udp'', cp_containerPort = 20048, cp_protocol = ''UDP''\<rparr>,
      \<lparr>cp_name = ''rquotad'', cp_containerPort = 875, cp_protocol = ''''\<rparr>,
      \<lparr>cp_name = ''rquotad-udp'', cp_containerPort = 875, cp_protocol = ''UDP''\<rparr>,
      \<lparr>cp_name = ''rpcbind'', cp_containerPort = 111, cp_protocol = ''''\<rparr>,
      \<lparr>cp_name = ''rpcbind-udp'', cp_containerPort = 111, cp_protocol = ''UDP''\<rparr>,
      \<lparr>cp_name = ''statd'', cp_containerPort = 662, cp_protocol = ''''\<rparr>,
      \<lparr>cp_name = ''statd-udp'', cp_containerPort = 662, cp_protocol = ''UDP''\<rparr>]"

definition nfsEnv :: "EnvVar list" where
  "nfsEnv =
     [\<lparr>ev_name = ''POD_IP'', ev_value = '''', ev_fieldPath = Some ''status.podIP''\<rparr>,
      \<lparr>ev_name = ''SERVICE_NAME'', ev_value = ''nfs-provisioner'', ev_fieldPath = None\<rparr>,
      \<lparr>ev_name = ''POD_NAMESPACE'', ev_value = '''', ev_fieldPath = Some ''metadata.namespace''\<rparr>]"

definition deploymentForNFSProvisioner :: "lib \<Rightarrow> NFSProvisioner \<Rightarrow> string \<Rightarrow> Deployment io" where
  "deploymentForNFSProvisioner L m storageType =
     (let ls = labelsForNFSProvisioner (nfsName m);
          nodeSelector = NodeSelector_default;
          nodeSelector = (case NodeSelector (Spec m) of Some ns \<Rightarrow> ns | None \<Rightarrow> nodeSelector);
          nodeSelector = (if storageType = ''PVC'' then fmempty else nodeSelector);
          sa = ServiceAccount_default
      in prog_bind (getVolumeSpec m storageType) (\<lambda>volumeSourceSpec. Ret
       \<lparr>dep_meta = ownedBy L m DeploymentK (mkMeta Deployment_default (nfsNamespace m)),
        dep_replicas = None,
        dep_matchLabels = Some ls,
        dep_templateLabels = Some ls,
        dep_podSpec =
          \<lparr>ps_containers =
             [\<lparr>c_image = ''quay.io/kubernetes_incubator/nfs-provisioner:latest'',
               c_name = ''nfs-provisioner'',
               c_command = [],
               c_ports = nfsContainerPorts,
               c_securityContext = Some
                 \<lparr>sc_add = [''DAC_READ_SEARCH'', ''SYS_RESOURCE''],
                  sc_drop = [''KILL'', ''MKNOD'', ''SYS_CHROOT''],
                  sc_privileged = None, sc_allowPrivilegeEscalation = None\<rparr>,
               c_args = [CHR 0x27 # ''-provisioner=example.com/nfs'' @ [CHR 0x27]],
               c_env = nfsEnv,
               c_imagePullPolicy = ''IfNotPresent'',
               c_volumeMounts = [\<lparr>vm_name = ''export-volume'', vm_mountPath = ''/export''\<rparr>]\<rparr>],
           ps_nodeSelector = Some nodeSelector,
           ps_serviceAccountName = sa,
           ps_volumes = [\<lparr>v_name = ''export-volume'', v_source = volumeSourceSpec\<rparr>]\<rparr>\<rparr>))"

definition sccForNFSProvisioner :: "lib \<Rightarrow> NFSProvisioner \<Rightarrow> SecurityContextConstraints" where
  "sccForNFSProvisioner L m =
     \<lparr>scc_meta = ownedBy L m SCCK (mkMeta SecurityContextContrants (nfsNamespace m)),
      scc_allowHostDirVolumePlugin = True,
      scc_allowHostIPC = False,
      scc_allowHostNetwork = False,
      scc_allowHostPID = False,
      scc_allowHostPorts = False,
      scc_allowPrivilegedContainer = False,
      scc_allowedCapabilities = [''DAC_READ_SEARCH'', ''SYS_RESOURCE''],
      scc_defaultAddCapabilities = [],
      scc_priority = None,
      scc_readOnlyRootFilesystem = False,
      scc_requiredDropCapabilities = [''KILL'', ''MKNOD'', ''SYS_CHROOT''],
      scc_runAsUser = RunAsAny,
      scc_seLinuxContext = MustRunAs,
      scc_users = [''system:serviceaccount:'' @ nfsNamespace m @ '':'' @ ServiceAccount_default],
      scc_supplementalGroups = RunAsAny,
      scc_volumes = [FSTypeConfigMap, FSTypeDownwardAPI, FSTypeEmptyDir,
        FSTypePersistentVolumeClaim, FSTypeHostPath, FSTypeSecret],
      scc_fsGroup = MustRunAs\<rparr>"

text \<open>\<open>resource.MustParse\<close> panics on a malformed size; the panic carries the string.\<close>

definition pvcForNFSProvisioner :: "lib \<Rightarrow> NFSProvisioner \<Rightarrow> ret + PersistentVolumeClaim" where
  "pvcForNFSProvisioner L m =
     (let scName = (if SCForNFSPvc (Spec m) \<noteq> '''' then SCForNFSPvc (Spec m)
                    else SCForNFSPvc_default);
          pvcSize = (if StorageSize (Spec m) \<noteq> '''' then StorageSize (Spec m)
                     else StorageSize_default)
      in case MustParse L pvcSize of
           None \<Rightarrow> Inl (Panic pvcSize)
         | Some q \<Rightarrow> Inr
             \<lparr>pvc_meta = ownedBy L m PersistentVolumeClaimK (mkMeta Pvc_default (nfsNamespace m)),
              pvc_accessModes = [ReadWriteOnce],
              pvc_requests = fmap_of_list [(''storage'', q)],
              pvc_storageClassName = Some scName\<rparr>)"

definition serviceAccountForNFSProvisioner :: "lib \<Rightarrow> NFSProvisioner \<Rightarrow> ServiceAccount" where
  "serviceAccountForNFSProvisioner L m =
     \<lparr>sa_meta = ownedBy L m ServiceAccountK (mkMeta ServiceAccount_default (nfsNamespace m))\<rparr>"

definition clusterRoleForNFSProvisioner :: "lib \<Rightarrow> NFSProvisioner \<Rightarrow> ClusterRole" where
  "clusterRoleForNFSProvisioner L m =
     \<lparr>role_meta = ownedBy L m ClusterRoleK (mkMeta ClusterRole_default ''''),
      role_rules =
        [\<lparr>pr_apiGroups = [''''], pr_resources = [''persistentvolumes''], pr_resourceNames = [],
          pr_verbs = [''get'', ''list'', ''watch'', ''create'', ''delete'']\<rparr>,
         \<lparr>pr_apiGroups = [''''], pr_resources = [''persistentvolumeclaims''],
          pr_resourceNames = [], pr_verbs = [''get'', ''list'', ''watch'', ''update'']\<rparr>,
         \<lparr>pr_apiGroups = [''storage.k8s.io''], pr_resources = [''storageclasses''],
          pr_resourceNames = [], pr_verbs = [''get'', ''list'', ''watch'']\<rparr>,
         \<lparr>pr_apiGroups = [''''], pr_resources = [''events''], pr_resourceNames = [],
          pr_verbs = [''create'', ''update'', ''patch'']\<rparr>,
         \<lparr>pr_apiGroups = [''policy''], pr_resources = [''podsecuritypolicies''],
          pr_resourceNames = [''nfs-provisioner''], pr_verbs = [''use'']\<rparr>]\<rparr>"

definition clusterRoleBindingForNFSProvisioner :: "lib \<Rightarrow> NFSProvisioner \<Rightarrow> ClusterRoleBinding" where
  "clusterRoleBindingForNFSProvisioner L m =
     \<lparr>rb_meta = ownedBy L m ClusterRoleBindingK (mkMeta ClusterRoleBinding_default ''''),
      rb_subjects = [\<lparr>sub_kind = ''ServiceAccount'', sub_name = ServiceAccount_default,
                      sub_namespace = nfsNamespace m\<rparr>],
      rb_roleRef = \<lparr>rr_kind = ''ClusterRole'', rr_name = ClusterRole_default,
                    rr_apiGroup = ''rbac.authorization.k8s.io''\<rparr>\<rparr>"

definition roleForNFSProvisioner :: "lib \<Rightarrow> NFSProvisioner \<Rightarrow> Role" where
  "roleForNFSProvisioner L m =
     \<lparr>role_meta = ownedBy L m RoleK (mkMeta Role_default (nfsNamespace m)),
      role_rules =
        [\<lparr>pr_apiGroups = [''''], pr_resources = [''endpoints''], pr_resourceNames = [],
          pr_verbs = [''get'', ''list'', ''watch'', ''create'', ''update'', ''delete'']\<rparr>,
         \<lparr>pr_apiGroups = [''''], pr_resources = [''services''], pr_resourceNames = [],
          pr_verbs = [''get'']\<rparr>]\<rparr>"

definition roleBindingForNFSProvisioner :: "lib \<Rightarrow> NFSProvisioner \<Rightarrow> RoleBinding" where
  "roleBindingForNFSProvisioner L m =
     \<lparr>rb_meta = ownedBy L m RoleBindingK (mkMeta RoleBinding_default (nfsNamespace m)),
      rb_subjects = [\<lparr>sub_kind = ''ServiceAccount'', sub_name = ServiceAccount_default,
                      sub_namespace = nfsNamespace m\<rparr>],
      rb_roleRef = \<lparr>rr_kind = ''Role'', rr_name = Role_default,
                    rr_apiGroup = ''rbac.authorization.k8s.io''\<rparr>\<rparr>"

definition nfsServicePorts :: "ServicePort list" where
  "nfsServicePorts =
     [\<lparr>sp_name = ''nfs'', sp_port = 2049, sp_protocol = ''''\<rparr>,
      \<lparr>sp_name = ''nfs-udp'', sp_port = 2049, sp_protocol = ''UDP''\<rparr>,
      \<lparr>sp_name = ''nlockmgr'', sp_port = 32803, sp_protocol = ''''\<rparr>,
      \<lparr>sp_name = ''nlockmgr-udp'', sp_port = 32803, sp_protocol = ''UDP''\<rparr>,
      \<lparr>sp_name = ''mountd'', sp_port = 20048, sp_protocol = ''''\<rparr>,
      \<lparr>sp_name = ''mountd-udp'', sp_port = 20048, sp_protocol = ''UDP''\<rparr>,
      \<lparr>sp_name = ''rquotad'', sp_port = 875, sp_protocol = ''''\<rparr>,
      \<lparr>sp_name = ''rquotad-udp'', sp_port = 875, sp_protocol = ''UDP''\<rparr>,
      \<lparr>sp_name = ''rpcbind'', sp_port = 111, sp_protocol = ''''\<rparr>,
      \<lparr>sp_name = ''rpcbind-udp'', sp_port = 111, sp_protocol = ''UDP''\<rparr>,
      \<lparr>sp_name = ''statd'', sp_port = 662, sp_protocol = ''''\<rparr>,
      \<lparr>sp_name = ''statd-udp'', sp_port = 662, sp_protocol = ''UDP''\<rparr>]"

definition serviceForNFSProvisioner :: "lib \<Rightarrow> NFSProvisioner \<Rightarrow> Service" where
  "serviceForNFSProvisioner L m =
     (let ls = labelsForNFSProvisioner (nfsName m)
      in \<lparr>svc_meta = ownedBy L m ServiceK
            ((mkMeta Service_default (nfsNamespace m))\<lparr>om_labels := Some ls\<rparr>),
          svc_ports = nfsServicePorts,
          svc_selector = Some ls\<rparr>)"

definition storageclassForNFSProvisioner :: "lib \<Rightarrow> NFSProvisioner \<Rightarrow> StorageClass" where
  "storageclassForNFSProvisioner L m =
     (let scName = (if SCForNFSProvisioner (Spec m) \<noteq> '''' then SCForNFSProvisioner (Spec m)
                    else SCForNFSProvisioner_default)
      in \<lparr>stc_meta = ownedBy L m StorageClassK (mkMeta scName ''''),
          stc_provisioner = ''example.com/nfs'',
          stc_parameters = Some (fmap_of_list [(''mountOptions'', ''vers=4.1'')])\<rparr>)"

lemmas builder_defs =
  sccForNFSProvisioner_def serviceAccountForNFSProvisioner_def clusterRoleForNFSProvisioner_def
  clusterRoleBindingForNFSProvisioner_def roleForNFSProvisioner_def roleBindingForNFSProvisioner_def
  serviceForNFSProvisioner_def storageclassForNFSProvisioner_def ownedBy_def

end
