(* ===== verification/NfsReconcile.thy ===== *)
theory NfsReconcile
  imports NfsBuilders
begin

text \<open>
  \<open>Reconcile\<close> of the finished controller (\<open>5.full_finished_controller.go\<close>).  Each
  numbered block of the method (one per managed resource, then the deletion
  logic) is one definition, and \<open>Reconcile\<close> runs them in the order of the source.
\<close>

section \<open>Validation and the slice helpers\<close>

definition validate :: "NFSProvisioner \<Rightarrow> go_error option" where
  "validate m =
     (let pvc = Pvc (Spec m); sc = SCForNFSPvc (Spec m); hostPathDir = HostPathDir (Spec m)
      in if pvc \<noteq> '''' \<and> (sc \<noteq> '''' \<or> hostPathDir \<noteq> '''') then
           Some (Errorf ''scForPvc or hostPathDir can not set with Pvc'')
         else if hostPathDir \<noteq> '''' \<and> (sc \<noteq> '''' \<or> pvc \<noteq> '''') then
           Some (Errorf ''scForPvc or Pvc can not set with hostPathDir'')
         else if sc \<noteq> '''' \<and> (pvc \<noteq> '''' \<or> hostPathDir \<noteq> '''') then
           Some (Errorf ''Pvc or hostPathDir can not set with scForPvc'')
         else None)"

fun containsString :: "string list \<Rightarrow> string \<Rightarrow> bool" where
  "containsString [] s = False"
| "containsString (item # sl) s = (if item = s then True else containsString sl s)"

fun removeString_loop :: "string list \<Rightarrow> string \<Rightarrow> string list \<Rightarrow> string list" where
  "removeString_loop [] s result = result"
| "removeString_loop (item # sl) s result =
     (if item = s then removeString_loop sl s result
      else removeString_loop sl s (result @ [item]))"

definition removeString :: "string list \<Rightarrow> string \<Rightarrow> string list" where
  "removeString sl s = removeString_loop sl s []"

definition finalizerName :: string where
  "finalizerName = ''nfsprovisioner.finalizers.jhouse.io''"

section \<open>The blocks of Reconcile\<close>

definition specMessage :: "NFSProvisioner \<Rightarrow> string" where
  "specMessage m = ''pvc: '' @ Pvc (Spec m) @ '' | sc: '' @ SCForNFSPvc (Spec m) @
     '' | hostPathDir: '' @ HostPathDir (Spec m)"

text \<open>
  The rejection of an invalid spec.  The inner \<open>err\<close> of the status update hides
  the validation error, so the last \<open>return\<close> gives the nil error.
\<close>

definition rejectInvalid :: "logger \<Rightarrow> NFSProvisioner \<Rightarrow> unit stmt" where
  "rejectInvalid lg m =
     (case validate m of
        None \<Rightarrow> proceed
      | Some err \<Rightarrow>
          logError lg err (specMessage m) []
          (let m = m\<lparr>Status := \<lparr>Nodes = Some [], Error = specMessage m\<rparr>\<rparr>
           in Req (StatusUpdate (NFSProvisionerO m)) (\<lambda>r. case r of
                Inl err \<Rightarrow> logError lg err ''Failed to update nfsprovisioner status'' []
                             (returns False (Some err))
              | Inr _ \<Rightarrow> returns False None)))"

definition ensureSCC :: "lib \<Rightarrow> logger \<Rightarrow> NFSProvisioner \<Rightarrow> unit stmt" where
  "ensureSCC L lg m =
     Req (Get SCCK \<lparr>nn_namespace = '''', nn_name = ''nfs-provisioner''\<rparr>) (\<lambda>r. case r of
       Inl err \<Rightarrow>
         if IsNotFound L err then
           let scc = sccForNFSProvisioner L m; name = LStr (om_name (scc_meta scc))
           in logInfo lg ''Creating a new SecurityContextConstraints''
                [LStr ''SecurityContextConstraints.Name'', name]
                (Req (Create (SCCO scc)) (\<lambda>r. case r of
                   Inl err \<Rightarrow> logError lg err ''Failed to create a new SecurityContextConstraints''
                     [LStr ''SecurityContextConstraints.Name'', name] (returns False (Some err))
                 | Inr _ \<Rightarrow> proceed))
         else proceed
     | Inr _ \<Rightarrow> proceed)"

definition storageTypeOf :: "NFSProvisioner \<Rightarrow> string" where
  "storageTypeOf m = (if HostPathDir (Spec m) \<noteq> '''' then ''HOSTPATH'' else ''PVC'')"

definition ensurePVC :: "lib \<Rightarrow> logger \<Rightarrow> NFSProvisioner \<Rightarrow> unit stmt" where
  "ensurePVC L lg m =
     (let pvcName = (if Pvc (Spec m) \<noteq> '''' then Pvc (Spec m) else Pvc_default)
      in if HostPathDir (Spec m) \<noteq> '''' then proceed
         else Req (Get PersistentVolumeClaimK
                     \<lparr>nn_namespace = nfsNamespace m, nn_name = pvcName\<rparr>) (\<lambda>r. case r of
           Inl err \<Rightarrow>
             if IsNotFound L err then
               case pvcForNFSProvisioner L m of
                 Inl panic \<Rightarrow> Ret (Inl panic)
               | Inr pvc \<Rightarrow>
                   let kvs = [LStr ''PersistentVolumeClaim.Namespace'',
                              LStr (om_namespace (pvc_meta pvc)),
                              LStr ''PersistentVolumeClaim.Name'', LStr (om_name (pvc_meta pvc))]
                   in logInfo lg ''Creating a new PersistentVolumeClaim'' kvs
                        (Req (Create (PersistentVolumeClaimO pvc)) (\<lambda>r. case r of
                           Inl err \<Rightarrow> logError lg err ''Failed to create a new PersistentVolumeClaim''
                             kvs (returns False (Some err))
                         | Inr _ \<Rightarrow> proceed))
             else proceed
         | Inr _ \<Rightarrow> proceed))"

definition ensureServiceAccount :: "lib \<Rightarrow> logger \<Rightarrow> NFSProvisioner \<Rightarrow> unit stmt" where
  "ensureServiceAccount L lg m =
     Req (Get ServiceAccountK
            \<lparr>nn_namespace = nfsNamespace m, nn_name = ServiceAccount_default\<rparr>) (\<lambda>r. case r of
       Inl err \<Rightarrow>
         if IsNotFound L err then
           let sa = serviceAccountForNFSProvisioner L m;
               kvs = [LStr ''Serviceaccount.Namespace'', LStr (om_namespace (sa_meta sa)),
                      LStr ''Serviceaccount.Name'', LStr (om_name (sa_meta sa))]
           in logInfo lg ''Creating a new Serviceaccount'' kvs
                (Req (Create (ServiceAccountO sa)) (\<lambda>r. case r of
                   Inl err \<Rightarrow> logError lg err ''Failed to create a new Serviceaccount'' kvs
                     (returns False (Some err))
                 | Inr _ \<Rightarrow> proceed))
         else proceed
     | Inr _ \<Rightarrow> proceed)"

text \<open>
  The four RBAC blocks test \<open>err != nil\<close> only: they create on any error of the
  lookup, not only on "not found".
\<close>

definition ensureClusterRole :: "lib \<Rightarrow> logger \<Rightarrow> NFSProvisioner \<Rightarrow> unit stmt" where
  "ensureClusterRole L lg m =
     Req (Get ClusterRoleK \<lparr>nn_namespace = '''', nn_name = ClusterRole_default\<rparr>) (\<lambda>r. case r of
       Inl err \<Rightarrow>
         let cr = clusterRoleForNFSProvisioner L m
         in logInfo lg ''Creating a new ClusterRole''
              [LStr ''ClusterRole.Name'', LStr (om_name (role_meta cr))]
              (Req (Create (ClusterRoleO cr)) (\<lambda>r. case r of
                 Inl err \<Rightarrow> logError lg err ''Failed to create a ClusterRole for NFSProvisioner''
                   [LStr ''ClusterRole.Namespace'', LStr (om_namespace (role_meta cr)),
                    LStr ''ClusterRole.Name'', LStr (om_name (role_meta cr))]
                   (returns False (Some err))
               | Inr _ \<Rightarrow> proceed))
     | Inr _ \<Rightarrow> proceed)"

definition ensureClusterRoleBinding :: "lib \<Rightarrow> logger \<Rightarrow> NFSProvisioner \<Rightarrow> unit stmt" where
  "ensureClusterRoleBinding L lg m =
     Req (Get ClusterRoleBindingK
            \<lparr>nn_namespace = '''', nn_name = ClusterRoleBinding_default\<rparr>) (\<lambda>r. case r of
       Inl err \<Rightarrow>
         let crb = clusterRoleBindingForNFSProvisioner L m;
             kvs = [LStr ''ClusterRoleBinding.Name'', LStr (om_name (rb_meta crb))]
         in logInfo lg ''Creating a new ClusterRoleBinding'' kvs
              (Req (Create (ClusterRoleBindingO crb)) (\<lambda>r. case r of
                 Inl err \<Rightarrow>
                   logError lg err ''Failed to create a ClusterRoleBinding for NFSProvisioner'' kvs
                     (returns False (Some err))
               | Inr _ \<Rightarrow> proceed))
     | Inr _ \<Rightarrow> proceed)"

definition ensureRole :: "lib \<Rightarrow> logger \<Rightarrow> NFSProvisioner \<Rightarrow> unit stmt" where
  "ensureRole L lg m =
     Req (Get RoleK \<lparr>nn_namespace = nfsNamespace m, nn_name = Role_default\<rparr>) (\<lambda>r. case r of
       Inl err \<Rightarrow>
         let role = roleForNFSProvisioner L m;
             kvs = [LStr ''Role.Namespace'', LStr (om_namespace (role_meta role)),
                    LStr ''Role.Name'', LStr (om_name (role_meta role))]
         in logInfo lg ''Creating a new Role'' kvs
              (Req (Create (RoleO role)) (\<lambda>r. case r of
                 Inl err \<Rightarrow> logError lg err ''Failed to create a Role for NFSProvisioner'' kvs
                   (returns False (Some err))
               | Inr _ \<Rightarrow> proceed))
     | Inr _ \<Rightarrow> proceed)"

text \<open>
  The log calls of this block print \<open>roleBindingFound\<close>, the object the failed
  lookup was to fill, not the object that is created.  A failed lookup leaves it
  at its zero value.
\<close>

definition ensureRoleBinding :: "lib \<Rightarrow> logger \<Rightarrow> NFSProvisioner \<Rightarrow> unit stmt" where
  "ensureRoleBinding L lg m =
     Req (Get RoleBindingK
            \<lparr>nn_namespace = nfsNamespace m, nn_name = RoleBinding_default\<rparr>) (\<lambda>r. case r of
       Inl err \<Rightarrow>
         let roleBinding = roleBindingForNFSProvisioner L m;
             roleBindingFound = mkMeta '''' ''''
         in logInfo lg ''Creating a new RoleBinding''
              [LStr ''RoleBinding.Namespace'', LStr (om_namespace roleBindingFound),
               LStr ''roleBinding.Name'', LStr (om_name roleBindingFound)]
              (Req (Create (RoleBindingO roleBinding)) (\<lambda>r. case r of
                 Inl err \<Rightarrow> logError lg err ''Failed to create a RoleBinding for NFSProvisioner''
                   [LStr ''roleBinding.Namespace'', LStr (om_namespace roleBindingFound),
                    LStr ''roleBinding.Name'', LStr (om_name roleBindingFound)]
                   (returns False (Some err))
               | Inr _ \<Rightarrow> proceed))
     | Inr _ \<Rightarrow> proceed)"

definition ensureDeployment :: "lib \<Rightarrow> logger \<Rightarrow> NFSProvisioner \<Rightarrow> unit stmt" where
  "ensureDeployment L lg m =
     Req (Get DeploymentK
            \<lparr>nn_namespace = nfsNamespace m, nn_name = Deployment_default\<rparr>) (\<lambda>r. case r of
       Inl err \<Rightarrow>
         if IsNotFound L err then
           prog_bind (deploymentForNFSProvisioner L m (storageTypeOf m)) (\<lambda>dep.
             let kvs = [LStr ''Deployment.Namespace'', LStr (om_namespace (dep_meta dep)),
                        LStr ''Deployment.Name'', LStr (om_name (dep_meta dep))]
             in logInfo lg ''Creating a new Deployment'' kvs
                  (Req (Create (DeploymentO dep)) (\<lambda>r. case r of
                     Inl err \<Rightarrow> logError lg err ''Failed to create a Deployment for NFSProvisioner''
                       kvs (returns False (Some err))
                   | Inr _ \<Rightarrow> proceed)))
         else proceed
     | Inr _ \<Rightarrow> proceed)"

definition ensureService :: "lib \<Rightarrow> logger \<Rightarrow> NFSProvisioner \<Rightarrow> unit stmt" where
  "ensureService L lg m =
     Req (Get ServiceK \<lparr>nn_namespace = nfsNamespace m, nn_name = Service_default\<rparr>) (\<lambda>r. case r of
       Inl err \<Rightarrow>
         if IsNotFound L err then
           let svc = serviceForNFSProvisioner L m;
               kvs = [LStr ''Service.Namespace'', LStr (om_namespace (svc_meta svc)),
                      LStr ''Service.Name'', LStr (om_name (svc_meta svc))]
           in logInfo lg ''Creating a new Service'' kvs
                (Req (Create (ServiceO svc)) (\<lambda>r. case r of
                   Inl err \<Rightarrow> logError lg err ''Failed to create a Service for NFSProvisioner''
                     kvs (returns False (Some err))
                 | Inr _ \<Rightarrow> proceed))
         else proceed
     | Inr _ \<Rightarrow> proceed)"

definition ensureStorageClass :: "lib \<Rightarrow> logger \<Rightarrow> NFSProvisioner \<Rightarrow> unit stmt" where
  "ensureStorageClass L lg m =
     (let scName = (if SCForNFSProvisioner (Spec m) \<noteq> '''' then SCForNFSProvisioner (Spec m)
                    else SCForNFSProvisioner_default)
      in Req (Get StorageClassK \<lparr>nn_namespace = '''', nn_name = scName\<rparr>) (\<lambda>r. case r of
           Inl err \<Rightarrow>
             if IsNotFound L err \<and> SCForNFSProvisioner (Spec m) = '''' then
               let sc = storageclassForNFSProvisioner L m;
                   kvs = [LStr ''Storageclass.Name'', LStr (om_name (stc_meta sc))]
               in logInfo lg ''Creating a new Storageclass'' kvs
                    (Req (Create (StorageClassO sc)) (\<lambda>r. case r of
                       Inl err \<Rightarrow>
                         logError lg err ''Failed to create a Storageclass for NFSProvisioner'' kvs
                           (returns False (Some err))
                     | Inr _ \<Rightarrow> proceed))
             else proceed
         | Inr _ \<Rightarrow> proceed))"

text \<open>
  \<open>deleteExternalResources\<close> returns an error or nil.  The object handed to
  \<open>Delete\<close> is the one the lookup filled.
\<close>

definition deleteIfFound ::
  "kind \<Rightarrow> string \<Rightarrow> string \<Rightarrow> string \<Rightarrow> logval list \<Rightarrow> (go_error + unit) io" where
  "deleteIfFound k name msg failmsg kvs =
     Req (Get k \<lparr>nn_namespace = '''', nn_name = name\<rparr>) (\<lambda>r. case r of
       Inr found \<Rightarrow>
         logInfo PkgLog msg []
           (Req (Delete found) (\<lambda>r. case r of
              Inl err \<Rightarrow> logError PkgLog err failmsg kvs (Ret (Inl err))
            | Inr _ \<Rightarrow> Ret (Inr ())))
     | Inl err \<Rightarrow> Ret (Inr ()))"

definition deleteExternalResources :: "NFSProvisioner \<Rightarrow> (go_error + unit) io" where
  "deleteExternalResources m =
     andthen
       (deleteIfFound ClusterRoleK ClusterRole_default
          ''Deleting ClusterRole for NFSProvisioner''
          ''Failed to delete ClusterRole for NFSProvisioner''
          [LStr ''ClusterRole.Name'', LStr ClusterRole_default])
       (\<lambda>_. deleteIfFound ClusterRoleBindingK ClusterRoleBinding_default
          ''Deleting ClusterRoleBinding for NFSProvisioner''
          ''Failed to delete ClusterRoleBinding for NFSProvisioner''
          [LStr ''ClusterRoleBinding.Name'', LStr ClusterRoleBinding_default])"

definition finalizeNFSProvisioner :: "lib \<Rightarrow> logger \<Rightarrow> NFSProvisioner \<Rightarrow> unit stmt" where
  "finalizeNFSProvisioner L lg m =
     (if IsZero L (om_deletionTimestamp (nfs_meta m)) then
        if \<not> containsString (om_finalizers (nfs_meta m)) finalizerName then
          logInfo lg ''Adding Finalizer for the NFSProvisioner'' []
            (let m = m\<lparr>nfs_meta := AddFinalizer L (nfs_meta m) finalizerName\<rparr>
             in Req (Update (NFSProvisionerO m)) (\<lambda>r. case r of
                  Inl err \<Rightarrow>
                    logError lg err ''Failed to update CR NFSProvisioner to add finalizer'' []
                      (returns False (Some err))
                | Inr _ \<Rightarrow> returns True None))
        else returns True None
      else
        if containsString (om_finalizers (nfs_meta m)) finalizerName then
          prog_bind (deleteExternalResources m) (\<lambda>r. case r of
            Inl err \<Rightarrow> logError lg err ''Failed to delete external resoureces'' []
              (returns False (Some err))
          | Inr _ \<Rightarrow>
              logInfo lg ''Removing Finalizer for the NFSProvisioner'' []
                (let m = m\<lparr>nfs_meta := RemoveFinalizer L (nfs_meta m) finalizerName\<rparr>
                 in Req (Update (NFSProvisionerO m)) (\<lambda>r. case r of
                      Inl err \<Rightarrow> logError lg err
                        ''Failed to update CR NFSProvisioner with finalizer to remove finalizer'' []
                        (returns False (Some err))
                    | Inr _ \<Rightarrow> returns False None)))
        else returns False None)"

section \<open>Reconcile\<close>

text \<open>
  \<open>Get\<close> fills the typed struct it is given; the typed client has no other object
  to put there, and the struct starts as the zero value.
\<close>

fun asNFSProvisioner :: "kobj \<Rightarrow> NFSProvisioner" where
  "asNFSProvisioner (NFSProvisionerO m) = m"
| "asNFSProvisioner _ = zeroNFSProvisioner"

definition ensureAll :: "lib \<Rightarrow> logger \<Rightarrow> NFSProvisioner \<Rightarrow> unit stmt" where
  "ensureAll L lg m =
     andthen (ensureSCC L lg m) (\<lambda>_.
     andthen (ensurePVC L lg m) (\<lambda>_.
     andthen (ensureServiceAccount L lg m) (\<lambda>_.
     andthen (ensureClusterRole L lg m) (\<lambda>_.
     andthen (ensureClusterRoleBinding L lg m) (\<lambda>_.
     andthen (ensureRole L lg m) (\<lambda>_.
     andthen (ensureRoleBinding L lg m) (\<lambda>_.
     andthen (ensureDeployment L lg m) (\<lambda>_.
     andthen (ensureService L lg m) (\<lambda>_.
     ensureStorageClass L lg m)))))))))"

definition fetchNFSProvisioner :: "lib \<Rightarrow> NamespacedName \<Rightarrow> NFSProvisioner stmt" where
  "fetchNFSProvisioner L req =
     Req (Get NFSProvisionerK req) (\<lambda>r. case r of
       Inl err \<Rightarrow>
         if IsNotFound L err then
           logInfo (RLog req)
             ''NFSProvisioner resource not found. Ignoring since object must be deleted'' []
             (returns False None)
         else logError (RLog req) err ''Failed to get NFSProvisioner'' []
             (returns False (IgnoreNotFound L err))
     | Inr x \<Rightarrow> Ret (Inr (asNFSProvisioner x)))"

definition Reconcile_body :: "lib \<Rightarrow> NamespacedName \<Rightarrow> unit stmt" where
  "Reconcile_body L req =
     andthen (fetchNFSProvisioner L req) (\<lambda>m.
     andthen (rejectInvalid (RLog req) m) (\<lambda>_.
     andthen (ensureAll L (RLog req) m) (\<lambda>_.
     finalizeNFSProvisioner L (RLog req) m)))"

text \<open>Every path of the body ends in a \<open>return\<close> of the method.\<close>

definition Reconcile :: "lib \<Rightarrow> NamespacedName \<Rightarrow> ret io" where
  "Reconcile L req =
     prog_bind (Reconcile_body L req) (\<lambda>x. case x of
       Inl r \<Rightarrow> Ret r
     | Inr _ \<Rightarrow> Ret (Return \<lparr>Requeue = True\<rparr> None))"

end
