(* ===== verification/EnsureBlock.thy ===== *)
theory EnsureBlock
  imports KubeApi
begin

text \<open>
  The shape all "check if it exists, if not create it" blocks of the controllers
  share, as two combinators, with what every run of such a block looks like.
  The theories of the controllers prove their blocks equal to instances of them.
\<close>

section \<open>The two combinators\<close>

primrec emit :: "request list \<Rightarrow> 'a io \<Rightarrow> 'a io" where
  "emit [] p = p"
| "emit (q # qs) p = Req q (\<lambda>_. emit qs p)"

definition unless_found ::
  "kind \<Rightarrow> NamespacedName \<Rightarrow> (go_error \<Rightarrow> bool) \<Rightarrow> unit stmt \<Rightarrow> unit stmt" where
  "unless_found k n cond body =
     Req (Get k n) (\<lambda>r. case r of
       Inl err \<Rightarrow> if cond err then body else proceed
     | Inr _ \<Rightarrow> proceed)"

definition create_or ::
  "request list \<Rightarrow> kobj \<Rightarrow> (go_error \<Rightarrow> request) \<Rightarrow> (go_error \<Rightarrow> unit stmt) \<Rightarrow> unit stmt" where
  "create_or pre obj failed after =
     emit pre (Req (Create obj) (\<lambda>r. case r of
       Inl err \<Rightarrow> emit [failed err] (after err)
     | Inr _ \<Rightarrow> proceed))"

definition report :: "go_error \<Rightarrow> unit stmt" where
  "report err = returns False (Some err)"

lemmas block_defs = unless_found_def create_or_def report_def stmt_defs

text \<open>A log followed by a statement, as the combinators write it.\<close>

lemma emit_logs [simp]:
  "logInfo lg msg kvs p = emit [LogInfo lg msg kvs] p"
  "logError lg e msg kvs p = emit [LogError lg e msg kvs] p"
  by (simp_all add: logInfo_def logError_def)

lemma emit_append: "emit qs (emit qs' p) = emit (qs @ qs') p"
  by (induction qs) simp_all

lemma emit_bind: "prog_bind (emit qs p) f = emit qs (prog_bind p f)"
  by (induction qs) simp_all

section \<open>Runs of a block\<close>

lemma runs_emit:
  "runs (emit qs p) t x \<longleftrightarrow>
     (\<exists>lt t'. t = lt @ t' \<and> map fst lt = qs \<and> runs p t' x)"
proof (induction qs arbitrary: t)
  case Nil
  then show ?case by simp
next
  case (Cons q qs)
  show ?case
  proof
    assume "runs (emit (q # qs) p) t x"
    then obtain r t1 where t: "t = (q, r) # t1" and "runs (emit qs p) t1 x" by auto
    then obtain lt t' where "t1 = lt @ t'" "map fst lt = qs" "runs p t' x"
      using Cons.IH by auto
    with t show "\<exists>lt t'. t = lt @ t' \<and> map fst lt = q # qs \<and> runs p t' x"
      by (intro exI [of _ "(q, r) # lt"] exI [of _ t']) simp
  next
    assume "\<exists>lt t'. t = lt @ t' \<and> map fst lt = q # qs \<and> runs p t' x"
    then obtain r lt t' where t: "t = (q, r) # lt @ t'" and "map fst lt = qs" "runs p t' x"
      by (auto simp: map_eq_Cons_conv)
    then have "runs (emit qs p) (lt @ t') x" using Cons.IH by blast
    with t show "runs (emit (q # qs) p) t x" by simp
  qed
qed

lemma runs_unless_found:
  assumes "runs (unless_found k n cond body) t x"
  obtains (found) y where "t = [(Get k n, Inr y)]" "x = Inr ()"
  | (skipped) e where "t = [(Get k n, Inl e)]" "\<not> cond e" "x = Inr ()"
  | (entered) e t' where "t = (Get k n, Inl e) # t'" "cond e" "runs body t' x"
proof -
  from assms obtain r t' where t: "t = (Get k n, r) # t'"
    and r: "runs (case r of Inl err \<Rightarrow> if cond err then body else proceed | Inr _ \<Rightarrow> proceed) t' x"
    unfolding unless_found_def by auto
  show thesis
  proof (cases r)
    case (Inl e)
    with t r skipped entered show thesis by (cases "cond e") (simp_all add: proceed_def)
  next
    case (Inr y)
    with t r found show thesis by (simp add: proceed_def)
  qed
qed

lemma runs_create_or:
  assumes "runs (create_or pre obj failed after) t x"
  obtains (created) lt y where "t = lt @ [(Create obj, Inr y)]" "map fst lt = pre" "x = Inr ()"
  | (failed) lt e r t' where "t = lt @ (Create obj, Inl e) # (failed e, r) # t'"
      "map fst lt = pre" "runs (after e) t' x"
proof -
  from assms obtain lt t0 where t: "t = lt @ t0" and pre: "map fst lt = pre"
    and "runs (Req (Create obj) (\<lambda>r. case r of
           Inl err \<Rightarrow> emit [failed err] (after err) | Inr _ \<Rightarrow> proceed)) t0 x"
    unfolding create_or_def runs_emit by blast
  then obtain r t1 where t0: "t0 = (Create obj, r) # t1"
    and r: "runs (case r of Inl err \<Rightarrow> emit [failed err] (after err) | Inr _ \<Rightarrow> proceed) t1 x"
    by auto
  show thesis
  proof (cases r)
    case (Inl e)
    with r obtain r' t' where "t1 = (failed e, r') # t'" "runs (after e) t' x" by auto
    with t pre t0 Inl failed show thesis by simp
  next
    case (Inr y)
    with r have "t1 = []" "x = Inr ()" by (simp_all add: proceed_def)
    with t pre t0 Inr created show thesis by simp
  qed
qed

lemma runs_report [simp]:
  "runs (report e) t x \<longleftrightarrow> t = [] \<and> x = Inl (Return \<lparr>Requeue = False\<rparr> (Some e))"
  by (simp add: report_def returns_def)

section \<open>Contracts of statements\<close>

subsection \<open>Errors are reported\<close>

text \<open>No write of the trace failed.\<close>

definition clean :: "event list \<Rightarrow> bool" where
  "clean t \<longleftrightarrow> (\<forall>(q, r) \<in> set t. is_write q \<longrightarrow> \<not> isl r)"

lemma clean_simps [simp]:
  "clean []"
  "clean ((q, r) # t) \<longleftrightarrow> (is_write q \<longrightarrow> \<not> isl r) \<and> clean t"
  "clean (t1 @ t2) \<longleftrightarrow> clean t1 \<and> clean t2"
  by (auto simp: clean_def)

lemma clean_logs: "list_all is_log (map fst t) \<Longrightarrow> clean t"
  by (induction t) (auto elim: is_log.elims)

text \<open>
  The trace ends with a call that answered the error \<open>e\<close>, no write failed before
  it, and what follows is logging that mentions \<open>e\<close>.
\<close>

definition ends_with_error :: "event list \<Rightarrow> go_error \<Rightarrow> bool" where
  "ends_with_error t e \<longleftrightarrow>
     (\<exists>t0 q logs. t = t0 @ (q, Inl e) # logs \<and> clean t0 \<and> \<not> is_log q
        \<and> list_all is_log (map fst logs)
        \<and> (\<exists>lg msg kvs. LogError lg e msg kvs \<in> set (map fst logs)))"

lemma ends_with_errorI:
  "clean t0 \<Longrightarrow> \<not> is_log q \<Longrightarrow> list_all is_log (map fst logs) \<Longrightarrow>
   LogError lg e msg kvs \<in> set (map fst logs) \<Longrightarrow>
   ends_with_error (t0 @ (q, Inl e) # logs) e"
  unfolding ends_with_error_def by blast

lemma ends_with_error_prepend:
  assumes "clean t1" "ends_with_error t2 e"
  shows "ends_with_error (t1 @ t2) e"
proof -
  from assms(2) obtain t0 q logs lg msg kvs where
    "t2 = t0 @ (q, Inl e) # logs" "clean t0" "\<not> is_log q" "list_all is_log (map fst logs)"
    "LogError lg e msg kvs \<in> set (map fst logs)"
    unfolding ends_with_error_def by blast
  with assms(1) show ?thesis
    using ends_with_errorI [of "t1 @ t0" q logs lg e msg kvs] by simp
qed

fun reports_errors :: "event list \<Rightarrow> ret option \<Rightarrow> bool" where
  "reports_errors t (Some (Return res (Some e))) \<longleftrightarrow> \<not> Requeue res \<and> ends_with_error t e"
| "reports_errors t _ \<longleftrightarrow> clean t"

interpretation errors: statement_contract reports_errors
proof
  show "reports_errors [] None" by simp
next
  fix t1 t2 x
  assume "reports_errors t1 None" and 2: "reports_errors t2 x"
  then have 1: "clean t1" by simp
  from 2 show "reports_errors (t1 @ t2) x"
    by (cases "(t2, x)" rule: reports_errors.cases) (auto simp: 1 intro: ends_with_error_prepend)
qed

lemma ends_with_error_log:
  assumes "ends_with_error t e" "is_log q"
  shows "ends_with_error (t @ [(q, r)]) e"
proof -
  from assms(1) obtain t0 q0 logs lg msg kvs where
    "t = t0 @ (q0, Inl e) # logs" "clean t0" "\<not> is_log q0" "list_all is_log (map fst logs)"
    "LogError lg e msg kvs \<in> set (map fst logs)"
    unfolding ends_with_error_def by blast
  then show ?thesis
    using ends_with_errorI [of t0 q0 "logs @ [(q, r)]" lg e msg kvs] assms(2) by simp
qed

text \<open>The same for a function that returns an error or nil.\<close>

fun gives_error :: "event list \<Rightarrow> go_error option \<Rightarrow> bool" where
  "gives_error t (Some e) \<longleftrightarrow> ends_with_error t e"
| "gives_error t None \<longleftrightarrow> clean t"

interpretation go_errors: statement_contract gives_error
proof
  show "gives_error [] None" by simp
next
  fix t1 t2 x
  assume "gives_error t1 None" "gives_error t2 x"
  then show "gives_error (t1 @ t2) x"
    by (cases x) (auto intro: ends_with_error_prepend)
qed

subsection \<open>Nothing is created over an existing object\<close>

text \<open>
  Every creation follows, with only logging in between, a lookup of the same key
  that the server answered with an error.
\<close>

definition guarded :: "event list \<Rightarrow> bool" where
  "guarded t \<longleftrightarrow>
     (\<forall>u x r v. t = u @ (Create x, r) # v \<longrightarrow>
        (\<exists>u' k n e logs. u = u' @ (Get k n, Inl e) # logs \<and> mkKey k n = key_of x
           \<and> list_all is_log (map fst logs)))"

lemma guarded_append:
  assumes "guarded t1" "guarded t2"
  shows "guarded (t1 @ t2)"
  unfolding guarded_def
proof (intro allI impI)
  fix u x r v
  assume "t1 @ t2 = u @ (Create x, r) # v"
  then consider w where "t1 = u @ (Create x, r) # w" | w where "u = t1 @ w" "t2 = w @ (Create x, r) # v"
  proof -
    assume eq: "t1 @ t2 = u @ (Create x, r) # v"
      and left: "\<And>w. t1 = u @ (Create x, r) # w \<Longrightarrow> thesis"
      and right: "\<And>w. u = t1 @ w \<Longrightarrow> t2 = w @ (Create x, r) # v \<Longrightarrow> thesis"
    from eq obtain us where "t1 = u @ us \<and> us @ t2 = (Create x, r) # v
        \<or> t1 @ us = u \<and> t2 = us @ (Create x, r) # v"
      unfolding append_eq_append_conv2 by blast
    then show thesis using left right [of us] right [of "[]"] by (cases us) auto
  qed
  then show "\<exists>u' k n e logs. u = u' @ (Get k n, Inl e) # logs \<and> mkKey k n = key_of x
           \<and> list_all is_log (map fst logs)"
  proof cases
    case (1 w)
    with assms(1) show ?thesis unfolding guarded_def by blast
  next
    case (2 w)
    with assms(2) obtain u' k n e logs
      where "w = u' @ (Get k n, Inl e) # logs" "mkKey k n = key_of x" "list_all is_log (map fst logs)"
      unfolding guarded_def by blast
    with 2 show ?thesis by (intro exI [of _ "t1 @ u'"]) auto
  qed
qed

lemma guarded_no_create:
  "(\<And>x r. (Create x, r) \<notin> set t) \<Longrightarrow> guarded t"
  unfolding guarded_def by (metis in_set_conv_decomp)

interpretation guards: segment_property guarded
  by unfold_locales (simp add: guarded_def, rule guarded_append)

subsection \<open>Only certain requests are issued\<close>

definition requests_in :: "(request \<Rightarrow> bool) \<Rightarrow> event list \<Rightarrow> bool" where
  "requests_in P t \<longleftrightarrow> list_all P (map fst t)"

lemma requests_in_simps [simp]:
  "requests_in P []"
  "requests_in P ((q, r) # t) \<longleftrightarrow> P q \<and> requests_in P t"
  "requests_in P (t1 @ t2) \<longleftrightarrow> requests_in P t1 \<and> requests_in P t2"
  by (simp_all add: requests_in_def)

lemma requests_inD: "requests_in P t \<Longrightarrow> (q, r) \<in> set t \<Longrightarrow> P q"
  by (force simp: requests_in_def list_all_iff)

lemma requests_in_logs:
  "map fst lt = pre \<Longrightarrow> list_all is_log pre \<Longrightarrow> (\<And>q. is_log q \<Longrightarrow> P q) \<Longrightarrow> requests_in P lt"
  by (auto simp: requests_in_def list_all_iff)

interpretation requests: segment_property "requests_in P" for P
  by unfold_locales simp_all

subsection \<open>How a statement ends\<close>

definition ends_in :: "(ret \<Rightarrow> bool) \<Rightarrow> event list \<Rightarrow> ret option \<Rightarrow> bool" where
  "ends_in R t x \<longleftrightarrow> (case x of None \<Rightarrow> True | Some r \<Rightarrow> R r)"

interpretation endings: statement_contract "ends_in R" for R
  by unfold_locales (simp_all add: ends_in_def)

subsection \<open>The number of API calls\<close>

definition api_calls :: "event list \<Rightarrow> nat" where
  "api_calls t = length (filter (\<lambda>(q, r). \<not> is_log q) t)"

lemma api_calls_simps [simp]:
  "api_calls [] = 0"
  "api_calls ((q, r) # t) = (if is_log q then 0 else 1) + api_calls t"
  "api_calls (t1 @ t2) = api_calls t1 + api_calls t2"
  by (simp_all add: api_calls_def)

lemma api_calls_logs: "list_all is_log (map fst t) \<Longrightarrow> api_calls t = 0"
  by (induction t) auto

definition calls_at_most :: "nat \<Rightarrow> 'a io \<Rightarrow> bool" where
  "calls_at_most n p \<longleftrightarrow> (\<forall>t x. runs p t x \<longrightarrow> api_calls t \<le> n)"

lemma calls_at_mostD: "calls_at_most n p \<Longrightarrow> runs p t x \<Longrightarrow> api_calls t \<le> n"
  by (simp add: calls_at_most_def) blast

lemma calls_at_most_mono: "calls_at_most n p \<Longrightarrow> n \<le> n' \<Longrightarrow> calls_at_most n' p"
  unfolding calls_at_most_def by (meson le_trans)

lemma calls_at_most_prog_bind:
  "calls_at_most n p \<Longrightarrow> (\<And>a. calls_at_most n' (f a)) \<Longrightarrow> calls_at_most (n + n') (prog_bind p f)"
  unfolding calls_at_most_def runs_prog_bind
  by (metis add_mono api_calls_simps(3))

lemma calls_at_most_andthen:
  assumes "calls_at_most n p" "\<And>a. calls_at_most n' (f a)"
  shows "calls_at_most (n + n') (andthen p f)"
  unfolding andthen_def
  by (rule calls_at_most_prog_bind [OF assms(1)])
    (auto simp: calls_at_most_def split: sum.split intro: calls_at_mostD [OF assms(2)])

section \<open>Blocks that manage one object\<close>

text \<open>
  A block that looks an object up and creates one when the lookup fails with an
  error it accepts; it logs the failure of the creation and returns it.  A
  managed block creates the object under the key it has looked up.
\<close>

locale creating_block =
  fixes blk :: "unit stmt" and k :: kind and n :: NamespacedName
    and cond :: "go_error \<Rightarrow> bool" and pre :: "request list" and obj :: kobj
    and lg :: logger and msg :: string and kvs :: "logval list"
  assumes shape:
      "blk = unless_found k n cond (create_or pre obj (\<lambda>e. LogError lg e msg kvs) report)"
    and pre_logs: "list_all is_log pre"
begin

lemma block_run:
  assumes "runs blk t x"
  obtains (found) y where "t = [(Get k n, Inr y)]" "x = Inr ()"
  | (skipped) e where "t = [(Get k n, Inl e)]" "\<not> cond e" "x = Inr ()"
  | (created) e lt y where "t = (Get k n, Inl e) # lt @ [(Create obj, Inr y)]" "cond e"
      "list_all is_log (map fst lt)" "x = Inr ()"
  | (failed) e lt e' r where
      "t = (Get k n, Inl e) # lt @ [(Create obj, Inl e'), (LogError lg e' msg kvs, r)]" "cond e"
      "list_all is_log (map fst lt)" "x = Inl (Return \<lparr>Requeue = False\<rparr> (Some e'))"
  using assms unfolding shape
proof (cases rule: runs_unless_found)
  case (found y)
  then show thesis by (rule that(1))
next
  case (skipped e)
  then show thesis by (rule that(2))
next
  case (entered e t')
  from \<open>runs (create_or _ _ _ _) t' x\<close> show thesis
  proof (cases rule: runs_create_or)
    case (created lt y)
    with entered pre_logs that(3) show thesis by simp
  next
    case (failed lt e' r t'')
    with entered pre_logs that(4) show thesis by simp
  qed
qed

lemma errors: "obeys reports_errors blk"
proof (rule obeysI)
  fix t r
  assume "runs blk t (Inl r)"
  then show "reports_errors t (Some r)"
  proof (cases rule: block_run)
    case (failed e lt e' r')
    have "ends_with_error (((Get k n, Inl e) # lt) @ (Create obj, Inl e') #
            [(LogError lg e' msg kvs, r')]) e'"
      by (rule ends_with_errorI [where lg = lg and msg = msg and kvs = kvs])
        (simp_all add: clean_logs [OF failed(3)])
    with failed show ?thesis by simp
  qed simp_all
next
  fix t a
  assume "runs blk t (Inr a)"
  then show "reports_errors t None"
    by (cases rule: block_run) (simp_all add: clean_logs)
qed

lemma requests:
  assumes "\<And>q. is_log q \<Longrightarrow> P q" "P (Get k n)" "\<And>e. cond e \<Longrightarrow> P (Create obj)"
  shows "obeys (\<lambda>t _. requests_in P t) blk"
  unfolding obeys_def
proof (intro allI impI)
  fix t x
  assume "runs blk t x"
  then show "requests_in P t"
    by (cases rule: block_run) (auto simp: assms intro: requests_in_logs)
qed

lemma ending:
  assumes "\<And>e. R (Return \<lparr>Requeue = False\<rparr> (Some e))"
  shows "obeys (ends_in R) blk"
  unfolding obeys_def
proof (intro allI impI)
  fix t x
  assume "runs blk t x"
  then show "ends_in R t (case x of Inl e \<Rightarrow> Some e | Inr _ \<Rightarrow> None)"
    by (cases rule: block_run) (simp_all add: ends_in_def assms)
qed

lemma calls: "calls_at_most 2 blk"
  unfolding calls_at_most_def
proof (intro allI impI)
  fix t x
  assume "runs blk t x"
  then show "api_calls t \<le> 2"
    by (cases rule: block_run) (auto simp: api_calls_logs)
qed

end

locale managed_block = creating_block +
  assumes own_key: "key_of obj = mkKey k n"
begin

lemma guard: "obeys (\<lambda>t _. guarded t) blk"
proof -
  have one: "guarded ((Get k n, Inl e) # lt @ (Create obj, r) # v)"
    if lt: "list_all is_log (map fst lt)" and v: "list_all is_log (map fst v)" for e lt r v
  proof -
    have "u = (Get k n, Inl e) # lt \<and> x = obj"
      if "(Get k n, Inl e) # lt @ (Create obj, r) # v = u @ (Create x, r') # w" for u x r' w
    proof -
      have no: "(Create x, r') \<notin> set lt" "(Create x, r') \<notin> set v"
        using lt v by (force simp: list_all_iff)+
      from that show ?thesis
        by (cases u) (use no in \<open>auto simp: append_eq_append_conv2 Cons_eq_append_conv append_eq_Cons_conv\<close>)
    qed
    with lt show ?thesis
      unfolding guarded_def by (metis append_Nil own_key)
  qed
  show ?thesis
    unfolding obeys_def
  proof (intro allI impI)
    fix t x
    assume "runs blk t x"
    then show "guarded t"
    proof (cases rule: block_run)
      case (created e lt y)
      then show ?thesis using one [of lt "[]"] by simp
    next
      case (failed e lt e' r)
      then show ?thesis using one [of lt "[(LogError lg e' msg kvs, r)]"] by simp
    qed (auto intro: guarded_no_create)
  qed
qed

end

section \<open>Blocks that pass over a failed creation\<close>

text \<open>
  Such a block may log the failure, one way or another, and goes on.  The object
  it creates need not have the key it has looked up.
\<close>

locale passing_block =
  fixes blk :: "unit stmt" and k :: kind and n :: NamespacedName
    and cond :: "go_error \<Rightarrow> bool" and pre :: "request list" and obj :: kobj
    and failed :: "go_error \<Rightarrow> request list"
  assumes pass_shape: "blk = unless_found k n cond (emit pre (Req (Create obj) (\<lambda>r. case r of
        Inl err \<Rightarrow> emit (failed err) proceed | Inr _ \<Rightarrow> proceed)))"
    and pass_logs: "list_all is_log pre" "list_all is_log (failed e)"
begin

lemma pass_run:
  assumes "runs blk t x"
  obtains (looked) r where "t = [(Get k n, r)]" "x = Inr ()"
  | (created) e lt a ft where "t = (Get k n, Inl e) # lt @ (Create obj, a) # ft" "cond e"
      "list_all is_log (map fst lt)" "list_all is_log (map fst ft)" "x = Inr ()"
  using assms unfolding pass_shape
proof (cases rule: runs_unless_found)
  case (entered e t')
  from entered(3) obtain lt a t'' where t': "t' = lt @ (Create obj, a) # t''" "map fst lt = pre"
    and r: "runs (case a of Inl err \<Rightarrow> emit (failed err) proceed | Inr _ \<Rightarrow> proceed) t'' x"
    unfolding runs_emit by auto
  have "list_all is_log (map fst t'') \<and> x = Inr ()"
    using r pass_logs(2) by (cases a) (auto simp: runs_emit proceed_def)
  with entered t' pass_logs(1) show thesis by (intro created [of e lt a t'']) simp_all
qed (auto intro: looked)

lemma passes: "runs blk t x \<Longrightarrow> x = Inr ()"
  by (cases rule: pass_run) simp_all

lemma pass_requests:
  assumes "\<And>q. is_log q \<Longrightarrow> P q" "P (Get k n)" "P (Create obj)"
  shows "obeys (\<lambda>t _. requests_in P t) blk"
  unfolding obeys_def
proof (intro allI impI)
  fix t x
  assume "runs blk t x"
  then show "requests_in P t"
    by (cases rule: pass_run) (auto simp: assms intro: requests_in_logs)
qed

lemma pass_calls: "calls_at_most 2 blk"
  unfolding calls_at_most_def
  by (auto elim!: pass_run simp: api_calls_logs)

end

locale swallowing_block =
  fixes blk :: "unit stmt" and k :: kind and n :: NamespacedName
    and cond :: "go_error \<Rightarrow> bool" and pre :: "request list" and obj :: kobj
    and lg :: logger and msg :: string and kvs :: "logval list"
  assumes swallow_shape:
      "blk = unless_found k n cond (create_or pre obj (\<lambda>e. LogError lg e msg kvs) (\<lambda>_. proceed))"
    and swallow_logs: "list_all is_log pre"

sublocale swallowing_block \<subseteq> passing_block blk k n cond pre obj "\<lambda>e. [LogError lg e msg kvs]"
  by unfold_locales (simp_all add: swallow_shape swallow_logs create_or_def)

section \<open>Other statements\<close>

lemma proceed_contracts [simp]:
  "obeys reports_errors proceed"
  "obeys (\<lambda>t _. guarded t) proceed"
  "obeys (\<lambda>t _. requests_in P t) proceed"
  "obeys (ends_in R) proceed"
  "calls_at_most n proceed"
  by (simp_all add: obeys_def proceed_def calls_at_most_def guarded_def ends_in_def)

text \<open>A block that panics instead of creating.\<close>

lemma panic_block:
  assumes "runs (unless_found k n cond (Ret (Inl (Panic msg)))) t x"
  obtains r where "t = [(Get k n, r)]" "x = Inr ()"
  | r where "t = [(Get k n, r)]" "x = Inl (Panic msg)"
  using assms by (auto elim!: runs_unless_found)

lemma panic_block_contracts:
  "obeys reports_errors (unless_found k n cond (Ret (Inl (Panic msg))))"
  "obeys (\<lambda>t _. guarded t) (unless_found k n cond (Ret (Inl (Panic msg))))"
  "P (Get k n) \<Longrightarrow> obeys (\<lambda>t _. requests_in P t) (unless_found k n cond (Ret (Inl (Panic msg))))"
  "R (Panic msg) \<Longrightarrow> obeys (ends_in R) (unless_found k n cond (Ret (Inl (Panic msg))))"
  "calls_at_most 2 (unless_found k n cond (Ret (Inl (Panic msg))))"
  unfolding obeys_def calls_at_most_def ends_in_def
  by (auto elim!: panic_block intro: guarded_no_create)

end
