(* ===== verification/NfsTraces.thy ===== *)
theory NfsTraces
  imports NfsReconcile EnsureBlock
begin

text \<open>
  What every run of the finished controller looks like, whatever the API server
  answers: each block of \<open>Reconcile\<close> is an instance of the shared shape of
  \<open>EnsureBlock\<close>, so the contracts proved there hold of every block, and they
  compose along \<open>Reconcile\<close>.
\<close>

section \<open>The keys of the managed objects\<close>

abbreviation nn :: "string \<Rightarrow> string \<Rightarrow> NamespacedName" where
  "nn ns name \<equiv> \<lparr>nn_namespace = ns, nn_name = name\<rparr>"

definition managed_keys :: "NFSProvisioner \<Rightarrow> key list" where
  "managed_keys m =
     [mkKey SCCK (nn '''' ''nfs-provisioner''),
      mkKey PersistentVolumeClaimK (nn (nfsNamespace m) Pvc_default),
      mkKey ServiceAccountK (nn (nfsNamespace m) ServiceAccount_default),
      mkKey ClusterRoleK (nn '''' ClusterRole_default),
      mkKey ClusterRoleBindingK (nn '''' ClusterRoleBinding_default),
      mkKey RoleK (nn (nfsNamespace m) Role_default),
      mkKey RoleBindingK (nn (nfsNamespace m) RoleBinding_default),
      mkKey DeploymentK (nn (nfsNamespace m) Deployment_default),
      mkKey ServiceK (nn (nfsNamespace m) Service_default),
      mkKey StorageClassK (nn '''' SCForNFSProvisioner_default)]"

section \<open>The blocks are instances of the shared shape\<close>

text \<open>The value of a tree whose requests do not influence its result.\<close>

definition io_value :: "'a io \<Rightarrow> 'a" where
  "io_value p = fst (exec (\<lambda>q s. (Inl (Errorf ''''), s)) p ())"

definition volumeLog :: "string \<Rightarrow> request" where
  "volumeLog st = LogInfo PkgLog
     (if st = ''HOSTPATH'' then ''StorageType is HOSTPATH'' else ''StorageType is PVC'') []"

lemma getVolumeSpec_emits:
  "getVolumeSpec m st = emit [volumeLog st] (Ret (io_value (getVolumeSpec m st)))"
  by (simp add: getVolumeSpec_def volumeLog_def io_value_def Let_def)

lemma deployment_emits:
  "deploymentForNFSProvisioner L m st =
     emit [volumeLog st] (Ret (io_value (deploymentForNFSProvisioner L m st)))"
  by (simp add: deploymentForNFSProvisioner_def getVolumeSpec_def volumeLog_def io_value_def Let_def)

lemma deployment_bind:
  "prog_bind (deploymentForNFSProvisioner L m st) f =
     Req (volumeLog st) (\<lambda>_. f (io_value (deploymentForNFSProvisioner L m st)))"
  by (subst deployment_emits) simp

context k8s_lib
begin

lemma ownedBy_simps [simp]:
  "om_name (ownedBy L m k om) = om_name om"
  "om_namespace (ownedBy L m k om) = om_namespace om"
  "om_finalizers (ownedBy L m k om) = om_finalizers om"
  "om_labels (ownedBy L m k om) = om_labels om"
  by (simp_all add: ownedBy_def)

lemma deployment_meta [simp]:
  "om_name (dep_meta (io_value (deploymentForNFSProvisioner L m st))) = Deployment_default"
  "om_namespace (dep_meta (io_value (deploymentForNFSProvisioner L m st))) = nfsNamespace m"
  "om_finalizers (dep_meta (io_value (deploymentForNFSProvisioner L m st))) = []"
  by (simp_all add: deploymentForNFSProvisioner_def getVolumeSpec_def io_value_def Let_def)

lemma builder_meta [simp]:
  "om_name (scc_meta (sccForNFSProvisioner L m)) = SecurityContextContrants"
  "om_namespace (scc_meta (sccForNFSProvisioner L m)) = nfsNamespace m"
  "om_finalizers (scc_meta (sccForNFSProvisioner L m)) = []"
  "om_name (sa_meta (serviceAccountForNFSProvisioner L m)) = ServiceAccount_default"
  "om_namespace (sa_meta (serviceAccountForNFSProvisioner L m)) = nfsNamespace m"
  "om_finalizers (sa_meta (serviceAccountForNFSProvisioner L m)) = []"
  "om_name (role_meta (clusterRoleForNFSProvisioner L m)) = ClusterRole_default"
  "om_namespace (role_meta (clusterRoleForNFSProvisioner L m)) = ''''"
  "om_finalizers (role_meta (clusterRoleForNFSProvisioner L m)) = []"
  "om_name (rb_meta (clusterRoleBindingForNFSProvisioner L m)) = ClusterRoleBinding_default"
  "om_namespace (rb_meta (clusterRoleBindingForNFSProvisioner L m)) = ''''"
  "om_finalizers (rb_meta (clusterRoleBindingForNFSProvisioner L m)) = []"
  "om_name (role_meta (roleForNFSProvisioner L m)) = Role_default"
  "om_namespace (role_meta (roleForNFSProvisioner L m)) = nfsNamespace m"
  "om_finalizers (role_meta (roleForNFSProvisioner L m)) = []"
  "om_name (rb_meta (roleBindingForNFSProvisioner L m)) = RoleBinding_default"
  "om_namespace (rb_meta (roleBindingForNFSProvisioner L m)) = nfsNamespace m"
  "om_finalizers (rb_meta (roleBindingForNFSProvisioner L m)) = []"
  "om_name (svc_meta (serviceForNFSProvisioner L m)) = Service_default"
  "om_namespace (svc_meta (serviceForNFSProvisioner L m)) = nfsNamespace m"
  "om_finalizers (svc_meta (serviceForNFSProvisioner L m)) = []"
  "om_namespace (stc_meta (storageclassForNFSProvisioner L m)) = ''''"
  "om_finalizers (stc_meta (storageclassForNFSProvisioner L m)) = []"
  by (simp_all add: builder_defs Let_def)

lemma storageclass_name [simp]:
  "om_name (stc_meta (storageclassForNFSProvisioner L m)) =
     (if SCForNFSProvisioner (Spec m) \<noteq> '''' then SCForNFSProvisioner (Spec m)
      else SCForNFSProvisioner_default)"
  by (simp add: storageclassForNFSProvisioner_def Let_def)

lemma pvc_meta [simp]:
  "pvcForNFSProvisioner L m = Inr pvc \<Longrightarrow> om_name (pvc_meta pvc) = Pvc_default"
  "pvcForNFSProvisioner L m = Inr pvc \<Longrightarrow> om_namespace (pvc_meta pvc) = nfsNamespace m"
  "pvcForNFSProvisioner L m = Inr pvc \<Longrightarrow> om_finalizers (pvc_meta pvc) = []"
  by (auto simp: pvcForNFSProvisioner_def Let_def split: option.splits)

end

sublocale k8s_lib \<subseteq> scc: managed_block "ensureSCC L lg m" SCCK
    "nn '''' ''nfs-provisioner''" "IsNotFound L"
    "[LogInfo lg ''Creating a new SecurityContextConstraints''
        [LStr ''SecurityContextConstraints.Name'', LStr SecurityContextContrants]]"
    "SCCO (sccForNFSProvisioner L m)" lg
    "''Failed to create a new SecurityContextConstraints''"
    "[LStr ''SecurityContextConstraints.Name'', LStr SecurityContextContrants]"
  for lg m
  by unfold_locales
    (simp_all add: ensureSCC_def block_defs Let_def key_of_def mkKey_def
      cluster_scoped_def SecurityContextContrants_def volumeLog_def cong: sum.case_cong if_cong)

sublocale k8s_lib \<subseteq> sa: managed_block "ensureServiceAccount L lg m" ServiceAccountK
    "nn (nfsNamespace m) ServiceAccount_default" "IsNotFound L"
    "[LogInfo lg ''Creating a new Serviceaccount''
        [LStr ''Serviceaccount.Namespace'', LStr (nfsNamespace m), LStr ''Serviceaccount.Name'', LStr ServiceAccount_default]]"
    "ServiceAccountO (serviceAccountForNFSProvisioner L m)" lg
    "''Failed to create a new Serviceaccount''"
    "[LStr ''Serviceaccount.Namespace'', LStr (nfsNamespace m), LStr ''Serviceaccount.Name'', LStr ServiceAccount_default]"
  for lg m
  by unfold_locales
    (simp_all add: ensureServiceAccount_def block_defs Let_def key_of_def mkKey_def
      cluster_scoped_def SecurityContextContrants_def volumeLog_def cong: sum.case_cong if_cong)

sublocale k8s_lib \<subseteq> cr: managed_block "ensureClusterRole L lg m" ClusterRoleK
    "nn '''' ClusterRole_default" "\<lambda>_. True"
    "[LogInfo lg ''Creating a new ClusterRole''
        [LStr ''ClusterRole.Name'', LStr ClusterRole_default]]"
    "ClusterRoleO (clusterRoleForNFSProvisioner L m)" lg
    "''Failed to create a ClusterRole for NFSProvisioner''"
    "[LStr ''ClusterRole.Namespace'', LStr '''', LStr ''ClusterRole.Name'', LStr ClusterRole_default]"
  for lg m
  by unfold_locales
    (simp_all add: ensureClusterRole_def block_defs Let_def key_of_def mkKey_def
      cluster_scoped_def SecurityContextContrants_def volumeLog_def cong: sum.case_cong if_cong)

sublocale k8s_lib \<subseteq> crb: managed_block "ensureClusterRoleBinding L lg m" ClusterRoleBindingK
    "nn '''' ClusterRoleBinding_default" "\<lambda>_. True"
    "[LogInfo lg ''Creating a new ClusterRoleBinding''
        [LStr ''ClusterRoleBinding.Name'', LStr ClusterRoleBinding_default]]"
    "ClusterRoleBindingO (clusterRoleBindingForNFSProvisioner L m)" lg
    "''Failed to create a ClusterRoleBinding for NFSProvisioner''"
    "[LStr ''ClusterRoleBinding.Name'', LStr ClusterRoleBinding_default]"
  for lg m
  by unfold_locales
    (simp_all add: ensureClusterRoleBinding_def block_defs Let_def key_of_def mkKey_def
      cluster_scoped_def SecurityContextContrants_def volumeLog_def cong: sum.case_cong if_cong)

sublocale k8s_lib \<subseteq> role: managed_block "ensureRole L lg m" RoleK
    "nn (nfsNamespace m) Role_default" "\<lambda>_. True"
    "[LogInfo lg ''Creating a new Role''
        [LStr ''Role.Namespace'', LStr (nfsNamespace m), LStr ''Role.Name'', LStr Role_default]]"
    "RoleO (roleForNFSProvisioner L m)" lg
    "''Failed to create a Role for NFSProvisioner''"
    "[LStr ''Role.Namespace'', LStr (nfsNamespace m), LStr ''Role.Name'', LStr Role_default]"
  for lg m
  by unfold_locales
    (simp_all add: ensureRole_def block_defs Let_def key_of_def mkKey_def
      cluster_scoped_def SecurityContextContrants_def volumeLog_def cong: sum.case_cong if_cong)

sublocale k8s_lib \<subseteq> rb: managed_block "ensureRoleBinding L lg m" RoleBindingK
    "nn (nfsNamespace m) RoleBinding_default" "\<lambda>_. True"
    "[LogInfo lg ''Creating a new RoleBinding''
        [LStr ''RoleBinding.Namespace'', LStr '''', LStr ''roleBinding.Name'', LStr '''']]"
    "RoleBindingO (roleBindingForNFSProvisioner L m)" lg
    "''Failed to create a RoleBinding for NFSProvisioner''"
    "[LStr ''roleBinding.Namespace'', LStr '''', LStr ''roleBinding.Name'', LStr '''']"
  for lg m
  by unfold_locales
    (simp_all add: ensureRoleBinding_def block_defs Let_def key_of_def mkKey_def
      cluster_scoped_def SecurityContextContrants_def volumeLog_def cong: sum.case_cong if_cong)

sublocale k8s_lib \<subseteq> dep: managed_block "ensureDeployment L lg m" DeploymentK
    "nn (nfsNamespace m) Deployment_default" "IsNotFound L"
    "[volumeLog (storageTypeOf m), LogInfo lg ''Creating a new Deployment''
        [LStr ''Deployment.Namespace'', LStr (nfsNamespace m), LStr ''Deployment.Name'', LStr Deployment_default]]"
    "DeploymentO (io_value (deploymentForNFSProvisioner L m (storageTypeOf m)))" lg
    "''Failed to create a Deployment for NFSProvisioner''"
    "[LStr ''Deployment.Namespace'', LStr (nfsNamespace m), LStr ''Deployment.Name'', LStr Deployment_default]"
  for lg m
  by unfold_locales
    (simp_all add: ensureDeployment_def deployment_bind block_defs Let_def key_of_def mkKey_def
      cluster_scoped_def SecurityContextContrants_def volumeLog_def cong: sum.case_cong if_cong)

sublocale k8s_lib \<subseteq> svc: managed_block "ensureService L lg m" ServiceK
    "nn (nfsNamespace m) Service_default" "IsNotFound L"
    "[LogInfo lg ''Creating a new Service''
        [LStr ''Service.Namespace'', LStr (nfsNamespace m), LStr ''Service.Name'', LStr Service_default]]"
    "ServiceO (serviceForNFSProvisioner L m)" lg
    "''Failed to create a Service for NFSProvisioner''"
    "[LStr ''Service.Namespace'', LStr (nfsNamespace m), LStr ''Service.Name'', LStr Service_default]"
  for lg m
  by unfold_locales
    (simp_all add: ensureService_def block_defs Let_def key_of_def mkKey_def
      cluster_scoped_def SecurityContextContrants_def volumeLog_def cong: sum.case_cong if_cong)

sublocale k8s_lib \<subseteq> stc: managed_block "ensureStorageClass L lg m" StorageClassK
    "nn '''' (if SCForNFSProvisioner (Spec m) \<noteq> '''' then SCForNFSProvisioner (Spec m)
         else SCForNFSProvisioner_default)" "\<lambda>e. IsNotFound L e \<and> SCForNFSProvisioner (Spec m) = ''''"
    "[LogInfo lg ''Creating a new Storageclass''
        [LStr ''Storageclass.Name'',
         LStr (if SCForNFSProvisioner (Spec m) \<noteq> '''' then SCForNFSProvisioner (Spec m)
               else SCForNFSProvisioner_default)]]"
    "StorageClassO (storageclassForNFSProvisioner L m)" lg
    "''Failed to create a Storageclass for NFSProvisioner''"
    "[LStr ''Storageclass.Name'',
      LStr (if SCForNFSProvisioner (Spec m) \<noteq> '''' then SCForNFSProvisioner (Spec m)
            else SCForNFSProvisioner_default)]"
  for lg m
  by unfold_locales
    (simp_all add: ensureStorageClass_def block_defs Let_def key_of_def mkKey_def
      cluster_scoped_def SecurityContextContrants_def volumeLog_def cong: sum.case_cong if_cong)

section \<open>The volume claim block\<close>

text \<open>
  This block looks up the claim the spec names but creates the one called
  \<open>Pvc_default\<close>, so it is a managed block only when the spec names no claim.
\<close>

abbreviation pvcNameOf :: "NFSProvisioner \<Rightarrow> string" where
  "pvcNameOf m \<equiv> (if Pvc (Spec m) \<noteq> '''' then Pvc (Spec m) else Pvc_default)"

sublocale k8s_lib \<subseteq> pvc: creating_block
    "unless_found PersistentVolumeClaimK (nn (nfsNamespace m) name) (IsNotFound L)
       (create_or [LogInfo lg ''Creating a new PersistentVolumeClaim'' kvs]
          (PersistentVolumeClaimO c)
          (\<lambda>e. LogError lg e ''Failed to create a new PersistentVolumeClaim'' kvs) report)"
    PersistentVolumeClaimK "nn (nfsNamespace m) name" "IsNotFound L"
    "[LogInfo lg ''Creating a new PersistentVolumeClaim'' kvs]"
    "PersistentVolumeClaimO c" lg "''Failed to create a new PersistentVolumeClaim''" kvs
  for lg m name kvs c
  by unfold_locales simp_all

abbreviation pvcSizeOf :: "NFSProvisioner \<Rightarrow> string" where
  "pvcSizeOf m \<equiv> (if StorageSize (Spec m) \<noteq> [] then StorageSize (Spec m) else StorageSize_default)"

lemma pvcFor_cases:
  obtains (panics) "pvcForNFSProvisioner L m = Inl (Panic (pvcSizeOf m))"
      "MustParse L (pvcSizeOf m) = None"
  | (claim) c q where "pvcForNFSProvisioner L m = Inr c" "MustParse L (pvcSizeOf m) = Some q"
      "pvc_requests c = fmap_of_list [(''storage'', q)]"
proof (cases "MustParse L (pvcSizeOf m)")
  case None
  then show thesis by (intro panics) (simp_all add: pvcForNFSProvisioner_def Let_def)
next
  case (Some q)
  show thesis
    by (rule claim [OF _ Some]) (simp add: pvcForNFSProvisioner_def Let_def Some, simp)
qed

context k8s_lib
begin

lemma ensurePVC_hostPath: "HostPathDir (Spec m) \<noteq> '''' \<Longrightarrow> ensurePVC L lg m = proceed"
  by (simp add: ensurePVC_def)

lemma ensurePVC_panics:
  "HostPathDir (Spec m) = '''' \<Longrightarrow> pvcForNFSProvisioner L m = Inl p \<Longrightarrow>
   ensurePVC L lg m = unless_found PersistentVolumeClaimK (nn (nfsNamespace m) (pvcNameOf m))
     (IsNotFound L) (Ret (Inl p))"
  by (simp add: ensurePVC_def block_defs Let_def cong: sum.case_cong if_cong)

lemma ensurePVC_claim:
  "HostPathDir (Spec m) = '''' \<Longrightarrow> pvcForNFSProvisioner L m = Inr c \<Longrightarrow>
   ensurePVC L lg m =
     (let kvs = [LStr ''PersistentVolumeClaim.Namespace'', LStr (nfsNamespace m),
                 LStr ''PersistentVolumeClaim.Name'', LStr Pvc_default]
      in unless_found PersistentVolumeClaimK (nn (nfsNamespace m) (pvcNameOf m)) (IsNotFound L)
           (create_or [LogInfo lg ''Creating a new PersistentVolumeClaim'' kvs]
              (PersistentVolumeClaimO c)
              (\<lambda>e. LogError lg e ''Failed to create a new PersistentVolumeClaim'' kvs) report))"
  by (simp add: ensurePVC_def block_defs Let_def cong: sum.case_cong if_cong)

text \<open>What holds of the block in each of its three shapes.\<close>

lemma ensurePVC_rule:
  assumes "C proceed"
    and "\<And>p. C (unless_found PersistentVolumeClaimK (nn (nfsNamespace m) (pvcNameOf m))
                 (IsNotFound L) (Ret (Inl (Panic p))))"
    and "\<And>kvs c. pvcForNFSProvisioner L m = Inr c \<Longrightarrow> HostPathDir (Spec m) = '''' \<Longrightarrow>
           C (unless_found PersistentVolumeClaimK (nn (nfsNamespace m) (pvcNameOf m)) (IsNotFound L)
               (create_or [LogInfo lg ''Creating a new PersistentVolumeClaim'' kvs]
                  (PersistentVolumeClaimO c)
                  (\<lambda>e. LogError lg e ''Failed to create a new PersistentVolumeClaim'' kvs) report))"
  shows "C (ensurePVC L lg m)"
proof (cases "HostPathDir (Spec m) = ''''")
  case False
  with assms(1) show ?thesis by (simp add: ensurePVC_hostPath)
next
  case True
  show ?thesis
  proof (cases rule: pvcFor_cases [of L m])
    case panics
    with True assms(2) show ?thesis by (simp only: ensurePVC_panics)
  next
    case (claim c q)
    with True assms(3) show ?thesis by (simp only: ensurePVC_claim Let_def)
  qed
qed

lemma pvc_key:
  "pvcForNFSProvisioner L m = Inr c \<Longrightarrow>
   key_of (PersistentVolumeClaimO c) = mkKey PersistentVolumeClaimK (nn (nfsNamespace m) Pvc_default)"
  by (simp add: key_of_def)

lemma ensurePVC_guard:
  assumes "Pvc (Spec m) = ''''"
  shows "obeys (\<lambda>t _. guarded t) (ensurePVC L lg m)"
proof (rule ensurePVC_rule)
  fix kvs c
  assume "pvcForNFSProvisioner L m = Inr c"
  then have "managed_block (unless_found PersistentVolumeClaimK (nn (nfsNamespace m) Pvc_default)
      (IsNotFound L) (create_or [LogInfo lg ''Creating a new PersistentVolumeClaim'' kvs]
        (PersistentVolumeClaimO c)
        (\<lambda>e. LogError lg e ''Failed to create a new PersistentVolumeClaim'' kvs) report))
      PersistentVolumeClaimK (nn (nfsNamespace m) Pvc_default) (IsNotFound L)
      [LogInfo lg ''Creating a new PersistentVolumeClaim'' kvs] (PersistentVolumeClaimO c) lg
      ''Failed to create a new PersistentVolumeClaim'' kvs"
    by unfold_locales (simp_all add: pvc_key)
  from managed_block.guard [OF this] assms
  show "obeys (\<lambda>t _. guarded t) (unless_found PersistentVolumeClaimK
      (nn (nfsNamespace m) (pvcNameOf m)) (IsNotFound L)
      (create_or [LogInfo lg ''Creating a new PersistentVolumeClaim'' kvs]
        (PersistentVolumeClaimO c)
        (\<lambda>e. LogError lg e ''Failed to create a new PersistentVolumeClaim'' kvs) report))"
    by simp
qed (simp_all add: panic_block_contracts)

section \<open>All blocks together\<close>

lemma ensureAll_errors: "obeys reports_errors (ensureAll L lg m)"
  unfolding ensureAll_def
  by (intro errors.obeys_andthen scc.errors sa.errors cr.errors crb.errors role.errors rb.errors
      dep.errors svc.errors stc.errors)
    (rule ensurePVC_rule, simp_all add: panic_block_contracts pvc.errors)

lemma ensureAll_guard:
  "Pvc (Spec m) = '''' \<Longrightarrow> obeys (\<lambda>t _. guarded t) (ensureAll L lg m)"
  unfolding ensureAll_def
  by (intro guards.obeys_andthen scc.guard sa.guard cr.guard crb.guard role.guard rb.guard
      dep.guard svc.guard stc.guard ensurePVC_guard)

lemma ensureAll_calls: "calls_at_most 20 (ensureAll L lg m)"
proof -
  have "calls_at_most 2 (ensurePVC L lg m)"
    by (rule ensurePVC_rule) (simp_all add: panic_block_contracts pvc.calls)
  then have "calls_at_most (2+(2+(2+(2+(2+(2+(2+(2+(2+2))))))))) (ensureAll L lg m)"
    unfolding ensureAll_def
    by (intro calls_at_most_andthen scc.calls sa.calls cr.calls crb.calls role.calls rb.calls
        dep.calls svc.calls stc.calls)
  then show ?thesis by simp
qed

end

section \<open>Fetching, rejecting, finalizing\<close>

context k8s_lib
begin

lemma fetch_errors: "obeys reports_errors (fetchNFSProvisioner L req)"
proof -
  have "ends_with_error [(Get NFSProvisionerK req, Inl e), (LogError (RLog req) e msg [], r)] e"
    for e msg r
    by (rule ends_with_errorI [of "[]", simplified]) simp_all
  then show ?thesis
    by (auto simp: obeys_def fetchNFSProvisioner_def stmt_defs ignoreNotFound io_simps)
qed

lemma fetch_guard: "obeys (\<lambda>t _. guarded t) (fetchNFSProvisioner L req)"
  by (auto simp: obeys_def fetchNFSProvisioner_def stmt_defs io_simps intro!: guarded_no_create)

lemma reject_errors: "obeys reports_errors (rejectInvalid lg m)"
proof -
  have "ends_with_error [(LogError lg e0 m0 [], r0), (StatusUpdate x, Inl e),
          (LogError lg e msg [], r)] e" for e0 m0 r0 x e msg r
    by (rule ends_with_errorI [of "[(LogError lg e0 m0 [], r0)]", simplified]) simp_all
  then show ?thesis
    by (auto simp: obeys_def rejectInvalid_def stmt_defs io_simps)
qed

lemma reject_guard: "obeys (\<lambda>t _. guarded t) (rejectInvalid lg m)"
  by (auto simp: obeys_def rejectInvalid_def stmt_defs io_simps intro!: guarded_no_create)

end

section \<open>Runs of the deletion logic\<close>

lemma deleteIfFound_run:
  assumes "runs (deleteIfFound k name msg failmsg kvs) t x"
  obtains (absent) e where "t = [(Get k (nn '''' name), Inl e)]" "x = Inr ()"
  | (deleted) y r z where
      "t = [(Get k (nn '''' name), Inr y), (LogInfo PkgLog msg [], r), (Delete y, Inr z)]" "x = Inr ()"
  | (failed) y r e r' where
      "t = [(Get k (nn '''' name), Inr y), (LogInfo PkgLog msg [], r), (Delete y, Inl e),
            (LogError PkgLog e failmsg kvs, r')]" "x = Inl e"
  using assms unfolding deleteIfFound_def logInfo_def logError_def
  by (auto simp: io_simps)

lemma deleteIfFound_contracts:
  "obeys gives_error (deleteIfFound k name msg failmsg kvs)"
  "obeys (\<lambda>t _. guarded t) (deleteIfFound k name msg failmsg kvs)"
  "calls_at_most 2 (deleteIfFound k name msg failmsg kvs)"
proof -
  have ends: "ends_with_error [(Get k (nn '''' name), Inr y), (LogInfo PkgLog msg [], r),
      (Delete y, Inl e), (LogError PkgLog e failmsg kvs, r')] e" for y r e r'
    by (rule ends_with_errorI [of "[(Get k (nn '''' name), Inr y), (LogInfo PkgLog msg [], r)]",
          simplified]) simp_all
  show "obeys gives_error (deleteIfFound k name msg failmsg kvs)"
    by (rule obeysI) (auto elim!: deleteIfFound_run simp: ends)
  show "obeys (\<lambda>t _. guarded t) (deleteIfFound k name msg failmsg kvs)"
    by (rule obeysI) (auto elim!: deleteIfFound_run intro!: guarded_no_create)
  show "calls_at_most 2 (deleteIfFound k name msg failmsg kvs)"
    unfolding calls_at_most_def by (auto elim!: deleteIfFound_run)
qed

lemma deleteExternal_contracts:
  "obeys gives_error (deleteExternalResources m)"
  "obeys (\<lambda>t _. guarded t) (deleteExternalResources m)"
  "calls_at_most 4 (deleteExternalResources m)"
  unfolding deleteExternalResources_def
  by (intro go_errors.obeys_andthen guards.obeys_andthen deleteIfFound_contracts)+
    (rule calls_at_most_mono [OF calls_at_most_andthen [OF deleteIfFound_contracts(3)
        deleteIfFound_contracts(3)]], simp)

text \<open>The seven ways through the deletion logic at the end of \<open>Reconcile\<close>.\<close>

lemma finalize_run:
  assumes "runs (finalizeNFSProvisioner L lg m) t x"
  obtains (live_done) "IsZero L (om_deletionTimestamp (nfs_meta m))"
      "containsString (om_finalizers (nfs_meta m)) finalizerName"
      "t = []" "x = Inl (Return \<lparr>Requeue = True\<rparr> None)"
  | (added) r y where "IsZero L (om_deletionTimestamp (nfs_meta m))"
      "\<not> containsString (om_finalizers (nfs_meta m)) finalizerName"
      "t = [(LogInfo lg ''Adding Finalizer for the NFSProvisioner'' [], r),
        (Update (NFSProvisionerO (m\<lparr>nfs_meta := AddFinalizer L (nfs_meta m) finalizerName\<rparr>)), Inr y)]"
      "x = Inl (Return \<lparr>Requeue = True\<rparr> None)"
  | (add_failed) r e msg r' where "IsZero L (om_deletionTimestamp (nfs_meta m))"
      "\<not> containsString (om_finalizers (nfs_meta m)) finalizerName"
      "t = [(LogInfo lg ''Adding Finalizer for the NFSProvisioner'' [], r),
        (Update (NFSProvisionerO (m\<lparr>nfs_meta := AddFinalizer L (nfs_meta m) finalizerName\<rparr>)), Inl e),
        (LogError lg e msg [], r')]"
      "x = Inl (Return \<lparr>Requeue = False\<rparr> (Some e))"
  | (deleted_done) "\<not> IsZero L (om_deletionTimestamp (nfs_meta m))"
      "\<not> containsString (om_finalizers (nfs_meta m)) finalizerName"
      "t = []" "x = Inl (Return \<lparr>Requeue = False\<rparr> None)"
  | (cleanup_failed) t1 e msg r where "\<not> IsZero L (om_deletionTimestamp (nfs_meta m))"
      "containsString (om_finalizers (nfs_meta m)) finalizerName"
      "runs (deleteExternalResources m) t1 (Inl e)" "t = t1 @ [(LogError lg e msg [], r)]"
      "x = Inl (Return \<lparr>Requeue = False\<rparr> (Some e))"
  | (removed) t1 r y where "\<not> IsZero L (om_deletionTimestamp (nfs_meta m))"
      "containsString (om_finalizers (nfs_meta m)) finalizerName"
      "runs (deleteExternalResources m) t1 (Inr ())"
      "t = t1 @ [(LogInfo lg ''Removing Finalizer for the NFSProvisioner'' [], r),
        (Update (NFSProvisionerO (m\<lparr>nfs_meta := RemoveFinalizer L (nfs_meta m) finalizerName\<rparr>)), Inr y)]"
      "x = Inl (Return \<lparr>Requeue = False\<rparr> None)"
  | (remove_failed) t1 r e msg r' where "\<not> IsZero L (om_deletionTimestamp (nfs_meta m))"
      "containsString (om_finalizers (nfs_meta m)) finalizerName"
      "runs (deleteExternalResources m) t1 (Inr ())"
      "t = t1 @ [(LogInfo lg ''Removing Finalizer for the NFSProvisioner'' [], r),
        (Update (NFSProvisionerO (m\<lparr>nfs_meta := RemoveFinalizer L (nfs_meta m) finalizerName\<rparr>)), Inl e),
        (LogError lg e msg [], r')]"
      "x = Inl (Return \<lparr>Requeue = False\<rparr> (Some e))"
  using assms unfolding finalizeNFSProvisioner_def Let_def stmt_defs
  by (auto simp: io_simps runs_prog_bind split: if_split_asm)

context k8s_lib
begin

lemma finalize_errors: "obeys reports_errors (finalizeNFSProvisioner L lg m)"
  unfolding obeys_def
proof (intro allI impI)
  fix t and x :: "ret + unit"
  assume "runs (finalizeNFSProvisioner L lg m) t x"
  then show "reports_errors t (case x of Inl e \<Rightarrow> Some e | Inr _ \<Rightarrow> None)"
  proof (cases rule: finalize_run)
    case (add_failed r e msg r')
    then show ?thesis
      using ends_with_errorI [of "[(LogInfo lg ''Adding Finalizer for the NFSProvisioner'' [], r)]"
          "Update (NFSProvisionerO (m\<lparr>nfs_meta := AddFinalizer L (nfs_meta m) finalizerName\<rparr>))"
          "[(LogError lg e msg [], r')]" lg e msg "[]"] by simp
  next
    case (cleanup_failed t1 e msg r)
    then have "ends_with_error t1 e"
      using obeys_returned [OF deleteExternal_contracts(1)] by fastforce
    with cleanup_failed show ?thesis by (simp add: ends_with_error_log)
  next
    case (removed t1 r y)
    then have "clean t1" using obeys_continued [OF deleteExternal_contracts(1)] by fastforce
    with removed show ?thesis by simp
  next
    case (remove_failed t1 r e msg r')
    then have "clean t1" using obeys_continued [OF deleteExternal_contracts(1)] by fastforce
    with remove_failed show ?thesis
      using ends_with_errorI
          [of "t1 @ [(LogInfo lg ''Removing Finalizer for the NFSProvisioner'' [], r)]"
          "Update (NFSProvisionerO (m\<lparr>nfs_meta := RemoveFinalizer L (nfs_meta m) finalizerName\<rparr>))"
          "[(LogError lg e msg [], r')]" lg e msg "[]"] by simp
  qed simp_all
qed

lemma finalize_guard: "obeys (\<lambda>t _. guarded t) (finalizeNFSProvisioner L lg m)"
proof -
  have "guarded t1" if "runs (deleteExternalResources m) t1 y" for t1 y
    using that deleteExternal_contracts(2) by (cases y) (auto dest: obeys_returned obeys_continued)
  then show ?thesis
    unfolding obeys_def by (auto elim!: finalize_run intro!: guarded_append intro: guarded_no_create)
qed

lemma finalize_calls: "calls_at_most 5 (finalizeNFSProvisioner L lg m)"
  unfolding calls_at_most_def
  by (auto elim!: finalize_run dest: calls_at_mostD [OF deleteExternal_contracts(3)])

end

section \<open>Runs of Reconcile\<close>

lemma finalize_returns: "\<not> runs (finalizeNFSProvisioner L lg m) t (Inr a)"
  by (auto elim: finalize_run)

lemma fetch_run:
  assumes "runs (fetchNFSProvisioner L req) t x"
  obtains (missing) e r where "IsNotFound L e"
      "t = [(Get NFSProvisionerK req, Inl e), (LogInfo (RLog req)
         ''NFSProvisioner resource not found. Ignoring since object must be deleted'' [], r)]"
      "x = Inl (Return \<lparr>Requeue = False\<rparr> None)"
  | (failed) e r where "\<not> IsNotFound L e"
      "t = [(Get NFSProvisionerK req, Inl e),
        (LogError (RLog req) e ''Failed to get NFSProvisioner'' [], r)]"
      "x = Inl (Return \<lparr>Requeue = False\<rparr> (IgnoreNotFound L e))"
  | (fetched) y where "t = [(Get NFSProvisionerK req, Inr y)]" "x = Inr (asNFSProvisioner y)"
  using assms unfolding fetchNFSProvisioner_def stmt_defs
  by (auto simp: io_simps split: if_split_asm)

lemma reject_run:
  assumes "runs (rejectInvalid lg m) t x"
  obtains (valid) "validate m = None" "t = []" "x = Inr ()"
  | (rejected) err r y where "validate m = Some err"
      "t = [(LogError lg err (specMessage m) [], r),
        (StatusUpdate (NFSProvisionerO (m\<lparr>Status := \<lparr>Nodes = Some [], Error = specMessage m\<rparr>\<rparr>)), Inr y)]"
      "x = Inl (Return \<lparr>Requeue = False\<rparr> None)"
  | (status_failed) err r e r' where "validate m = Some err"
      "t = [(LogError lg err (specMessage m) [], r),
        (StatusUpdate (NFSProvisionerO (m\<lparr>Status := \<lparr>Nodes = Some [], Error = specMessage m\<rparr>\<rparr>)), Inl e),
        (LogError lg e ''Failed to update nfsprovisioner status'' [], r')]"
      "x = Inl (Return \<lparr>Requeue = False\<rparr> (Some e))"
  using assms unfolding rejectInvalid_def stmt_defs Let_def
  by (auto simp: io_simps)

lemma runs_Reconcile: "runs (Reconcile L req) t r \<longleftrightarrow> runs (Reconcile_body L req) t (Inl r)"
proof -
  have "\<not> runs (Reconcile_body L req) t (Inr a)" for t a
    unfolding Reconcile_body_def by (auto elim!: runs_andthenE simp: finalize_returns)
  then show ?thesis
    unfolding Reconcile_def runs_prog_bind
    by (auto simp: io_simps split: sum.splits)
qed

text \<open>The four ways through \<open>Reconcile\<close>.\<close>

lemma Reconcile_run:
  assumes "runs (Reconcile L req) t r"
  obtains (not_fetched) "runs (fetchNFSProvisioner L req) t (Inl r)"
  | (rejected) y t' err where "t = (Get NFSProvisionerK req, Inr y) # t'"
      "validate (asNFSProvisioner y) = Some err"
      "runs (rejectInvalid (RLog req) (asNFSProvisioner y)) t' (Inl r)"
  | (stopped) y t' where "t = (Get NFSProvisionerK req, Inr y) # t'"
      "validate (asNFSProvisioner y) = None"
      "runs (ensureAll L (RLog req) (asNFSProvisioner y)) t' (Inl r)"
  | (finished) y t' t'' where "t = (Get NFSProvisionerK req, Inr y) # t' @ t''"
      "validate (asNFSProvisioner y) = None"
      "runs (ensureAll L (RLog req) (asNFSProvisioner y)) t' (Inr ())"
      "runs (finalizeNFSProvisioner L (RLog req) (asNFSProvisioner y)) t'' (Inl r)"
proof -
  from assms have "runs (Reconcile_body L req) t (Inl r)" by (simp add: runs_Reconcile)
  then show thesis
    unfolding Reconcile_body_def
  proof (cases rule: runs_andthenE)
    case (returned e)
    then show thesis using not_fetched by simp
  next
    case (continued t1 t2 m)
    from continued(2) obtain y where y: "t1 = [(Get NFSProvisionerK req, Inr y)]" "m = asNFSProvisioner y"
      by (auto elim: fetch_run)
    from continued(3) show thesis
    proof (cases rule: runs_andthenE)
      case (returned e)
      then have "runs (rejectInvalid (RLog req) m) t2 (Inl r)" by simp
      moreover from this obtain err where "validate m = Some err" by (auto elim: reject_run)
      ultimately show thesis using continued(1) y rejected by simp
    next
      case (continued t3 t4 a)
      then have v: "validate m = None" "t3 = []" by (auto elim: reject_run)
      from \<open>runs (andthen (ensureAll _ _ _) _) t4 _\<close> show thesis
        by (cases rule: runs_andthenE)
          (use v y \<open>t = t1 @ t2\<close> \<open>t2 = t3 @ t4\<close> stopped finished in auto)
    qed
  qed
qed

section \<open>The requests of the creation blocks\<close>

context k8s_lib
begin

lemma block_keys [simp]:
  "key_of (SCCO (sccForNFSProvisioner L m)) = mkKey SCCK (nn '''' ''nfs-provisioner'')"
  "key_of (ServiceAccountO (serviceAccountForNFSProvisioner L m)) =
     mkKey ServiceAccountK (nn (nfsNamespace m) ServiceAccount_default)"
  "key_of (ClusterRoleO (clusterRoleForNFSProvisioner L m)) =
     mkKey ClusterRoleK (nn '''' ClusterRole_default)"
  "key_of (ClusterRoleBindingO (clusterRoleBindingForNFSProvisioner L m)) =
     mkKey ClusterRoleBindingK (nn '''' ClusterRoleBinding_default)"
  "key_of (RoleO (roleForNFSProvisioner L m)) = mkKey RoleK (nn (nfsNamespace m) Role_default)"
  "key_of (RoleBindingO (roleBindingForNFSProvisioner L m)) =
     mkKey RoleBindingK (nn (nfsNamespace m) RoleBinding_default)"
  "key_of (DeploymentO (io_value (deploymentForNFSProvisioner L m st))) =
     mkKey DeploymentK (nn (nfsNamespace m) Deployment_default)"
  "key_of (ServiceO (serviceForNFSProvisioner L m)) =
     mkKey ServiceK (nn (nfsNamespace m) Service_default)"
  "SCForNFSProvisioner (Spec m) = '''' \<Longrightarrow>
     key_of (StorageClassO (storageclassForNFSProvisioner L m)) =
     mkKey StorageClassK (nn '''' SCForNFSProvisioner_default)"
  by (simp_all add: scc.own_key sa.own_key cr.own_key crb.own_key role.own_key rb.own_key
      dep.own_key svc.own_key stc.own_key) (simp_all add: key_of_def)

end

definition managed_kinds :: "kind list" where
  "managed_kinds = [SCCK, PersistentVolumeClaimK, ServiceAccountK, ClusterRoleK, ClusterRoleBindingK,
     RoleK, RoleBindingK, DeploymentK, ServiceK, StorageClassK]"

text \<open>
  The objects the blocks create: the claim only when the volume is not a host
  path, the storage class only when the spec names none.
\<close>

definition managed_objects :: "lib \<Rightarrow> NFSProvisioner \<Rightarrow> kobj list" where
  "managed_objects L m =
     [SCCO (sccForNFSProvisioner L m)] @
     (if HostPathDir (Spec m) \<noteq> '''' then []
      else case pvcForNFSProvisioner L m of Inl _ \<Rightarrow> [] | Inr c \<Rightarrow> [PersistentVolumeClaimO c]) @
     [ServiceAccountO (serviceAccountForNFSProvisioner L m),
      ClusterRoleO (clusterRoleForNFSProvisioner L m),
      ClusterRoleBindingO (clusterRoleBindingForNFSProvisioner L m),
      RoleO (roleForNFSProvisioner L m),
      RoleBindingO (roleBindingForNFSProvisioner L m),
      DeploymentO (io_value (deploymentForNFSProvisioner L m (storageTypeOf m))),
      ServiceO (serviceForNFSProvisioner L m)] @
     (if SCForNFSProvisioner (Spec m) = '''' then [StorageClassO (storageclassForNFSProvisioner L m)]
      else [])"

context k8s_lib
begin

lemma managed_objects_keys: "x \<in> set (managed_objects L m) \<Longrightarrow> key_of x \<in> set (managed_keys m)"
  by (auto simp: managed_objects_def managed_keys_def pvc_key split: if_split_asm sum.split_asm)

text \<open>
  Besides logging, the blocks look objects up and create managed objects.  They
  create nothing else: \<open>P\<close> holds of all their requests when it holds of those.
\<close>

lemma ensureAll_requests:
  assumes logs: "\<And>q. is_log q \<Longrightarrow> P q" and gets: "\<And>k n. k \<in> set managed_kinds \<Longrightarrow> P (Get k n)"
    and creates: "\<And>x. x \<in> set (managed_objects L m) \<Longrightarrow> P (Create x)"
  shows "obeys (\<lambda>t _. requests_in P t) (ensureAll L lg m)"
proof -
  note intros = logs gets creates
  have "obeys (\<lambda>t _. requests_in P t) (ensurePVC L lg m)"
    by (rule ensurePVC_rule)
      (auto intro!: panic_block_contracts pvc.requests intros simp: managed_objects_def managed_kinds_def)
  then show ?thesis
    unfolding ensureAll_def
    by (intro requests.obeys_andthen)
      (assumption | rule scc.requests sa.requests cr.requests crb.requests role.requests
        rb.requests dep.requests svc.requests stc.requests intros
      | simp add: managed_objects_def managed_kinds_def)+
qed

text \<open>A block that stops the method returns the error of its creation, or panics.\<close>

lemma ensureAll_ending:
  assumes "\<And>e. R (Return \<lparr>Requeue = False\<rparr> (Some e))" "\<And>p. R (Panic p)"
  shows "obeys (ends_in R) (ensureAll L lg m)"
proof -
  have "obeys (ends_in R) (ensurePVC L lg m)"
    by (rule ensurePVC_rule) (auto intro!: panic_block_contracts pvc.ending assms)
  then show ?thesis
    unfolding ensureAll_def
    by (intro endings.obeys_andthen)
      (assumption | rule scc.ending sa.ending cr.ending crb.ending role.ending
        rb.ending dep.ending svc.ending stc.ending assms)+
qed

end

end
