(* ===== verification/ApiServer.thy ===== *)
theory ApiServer
  imports EnsureBlock
begin

text \<open>
  The API server as the operators see it: a contract over an observation \<open>store\<close>
  of the server's state, and a reference server in memory that meets it.  The
  contract \<open>api_server\<close> lets any call fail; \<open>healthy_server\<close> adds that calls
  succeed when nothing in the store forbids it.  A healthy server accepts every
  addressable object that is not there yet: it does not validate the contents, so that a
  cluster that turns down a particular object is an \<open>api_server\<close> and not a
  \<open>healthy_server\<close> (\<open>NfsWellformed\<close> says which of the server's conditions the created
  objects meet).  Both speak of a server that
  nobody else uses between the calls; runs with other clients at work are the
  subject of the traces (\<open>runs\<close>), which assume nothing of the answers.
\<close>

section \<open>What an update keeps\<close>

text \<open>
  What the server keeps of an object \<open>x\<close> it is given: the finalizers and the spec,
  field by field.  It may fill in what the client left unset, as it does with the
  number of replicas, the protocol of a port and the storage class of a claim, and
  it keeps the volume types of the security constraints as a set.  The deletion
  mark and the status are its own.
\<close>

fun same_spec :: "kobj \<Rightarrow> kobj \<Rightarrow> bool" where
  "same_spec (NFSProvisionerO x) w = (case w of NFSProvisionerO y \<Rightarrow> Spec y = Spec x | _ \<Rightarrow> False)"
| "same_spec (MemcachedO x) w = (case w of MemcachedO y \<Rightarrow> mc_Size y = mc_Size x | _ \<Rightarrow> False)"
| "same_spec (DeploymentO x) w = (case w of DeploymentO y \<Rightarrow>
     (dep_replicas x \<noteq> None \<longrightarrow> dep_replicas y = dep_replicas x) \<and>
     dep_matchLabels y = dep_matchLabels x \<and> dep_templateLabels y = dep_templateLabels x \<and>
     ps_serviceAccountName (dep_podSpec y) = ps_serviceAccountName (dep_podSpec x) \<and>
     ps_volumes (dep_podSpec y) = ps_volumes (dep_podSpec x) \<and>
     map (\<lambda>c. (c_name c, c_image c, c_args c)) (ps_containers (dep_podSpec y)) =
       map (\<lambda>c. (c_name c, c_image c, c_args c)) (ps_containers (dep_podSpec x))
   | _ \<Rightarrow> False)"
| "same_spec (PersistentVolumeClaimO x) w = (case w of PersistentVolumeClaimO y \<Rightarrow>
     pvc_accessModes y = pvc_accessModes x \<and> pvc_requests y = pvc_requests x \<and>
     (pvc_storageClassName x \<noteq> None \<longrightarrow> pvc_storageClassName y = pvc_storageClassName x)
   | _ \<Rightarrow> False)"
| "same_spec (SCCO x) w = (case w of SCCO y \<Rightarrow>
     scc_users y = scc_users x \<and> scc_allowedCapabilities y = scc_allowedCapabilities x \<and>
     set (scc_volumes y) = set (scc_volumes x) | _ \<Rightarrow> False)"
| "same_spec (ClusterRoleO x) w = (case w of ClusterRoleO y \<Rightarrow> role_rules y = role_rules x | _ \<Rightarrow> False)"
| "same_spec (RoleO x) w = (case w of RoleO y \<Rightarrow> role_rules y = role_rules x | _ \<Rightarrow> False)"
| "same_spec (ClusterRoleBindingO x) w = (case w of ClusterRoleBindingO y \<Rightarrow>
     rb_subjects y = rb_subjects x \<and> rb_roleRef y = rb_roleRef x | _ \<Rightarrow> False)"
| "same_spec (RoleBindingO x) w = (case w of RoleBindingO y \<Rightarrow>
     rb_subjects y = rb_subjects x \<and> rb_roleRef y = rb_roleRef x | _ \<Rightarrow> False)"
| "same_spec (ServiceO x) w = (case w of ServiceO y \<Rightarrow>
     svc_selector y = svc_selector x \<and>
     map (\<lambda>p. (sp_name p, sp_port p)) (svc_ports y) = map (\<lambda>p. (sp_name p, sp_port p)) (svc_ports x)
   | _ \<Rightarrow> False)"
| "same_spec (StorageClassO x) w = (case w of StorageClassO y \<Rightarrow>
     stc_provisioner y = stc_provisioner x | _ \<Rightarrow> False)"
| "same_spec x w = (kobj_kind w = kobj_kind x)"

fun with_status :: "kobj \<Rightarrow> kobj \<Rightarrow> kobj" where
  "with_status (NFSProvisionerO z) x =
     (case x of NFSProvisionerO y \<Rightarrow> NFSProvisionerO (z\<lparr>Status := Status y\<rparr>) | _ \<Rightarrow> NFSProvisionerO z)"
| "with_status (MemcachedO z) x =
     (case x of MemcachedO y \<Rightarrow> MemcachedO (z\<lparr>mc_Nodes := mc_Nodes y\<rparr>) | _ \<Rightarrow> MemcachedO z)"
| "with_status z x = z"

text \<open>The object \<open>w\<close> the server holds after it accepted the update \<open>x\<close> of \<open>z\<close>.\<close>

definition updated :: "kobj \<Rightarrow> kobj \<Rightarrow> kobj \<Rightarrow> bool" where
  "updated z x w \<longleftrightarrow> key_of w = key_of x \<and> same_spec x w \<and> with_status w z = w \<and>
     om_finalizers (kobj_meta w) = om_finalizers (kobj_meta x) \<and>
     om_deletionTimestamp (kobj_meta w) = om_deletionTimestamp (kobj_meta z)"

section \<open>The contract\<close>

locale api_server = k8s_lib L for L :: lib +
  fixes srv :: "request \<Rightarrow> 's \<Rightarrow> response \<times> 's"
    and store :: "'s \<Rightarrow> key \<Rightarrow> kobj option"
  assumes keyed: "store s key = Some x \<Longrightarrow> key_of x = key"
    and addressed: "store s key = Some x \<Longrightarrow> addressable key"
    and reads: "\<not> is_write q \<Longrightarrow> srv q s = (r, s') \<Longrightarrow> store s' = store s"
    and failed_writes: "is_write q \<Longrightarrow> srv q s = (Inl e, s') \<Longrightarrow> store s' = store s"
    and get_found: "srv (Get k n) s = (Inr x, s') \<Longrightarrow> store s (mkKey k n) = Some x"
    and get_missing:
      "srv (Get k n) s = (Inl e, s') \<Longrightarrow> IsNotFound L e \<Longrightarrow> store s (mkKey k n) = None"
    and create_ok: "srv (Create x) s = (Inr y, s') \<Longrightarrow>
      store s (key_of x) = None \<and> store s' = (store s)(key_of x \<mapsto> y) \<and>
      om_finalizers (kobj_meta y) = om_finalizers (kobj_meta x) \<and> same_spec x y"
    and update_ok: "srv (Update x) s = (Inr y, s') \<Longrightarrow>
      \<exists>z. store s (key_of x) = Some z \<and>
        (if \<not> IsZero L (om_deletionTimestamp (kobj_meta z)) \<and> om_finalizers (kobj_meta x) = []
         then store s' = (store s)(key_of x := None)
         else \<exists>w. store s' = (store s)(key_of x \<mapsto> w) \<and> updated z x w)"
    and status_ok: "srv (StatusUpdate x) s = (Inr y, s') \<Longrightarrow>
      \<exists>z. store s (key_of x) = Some z \<and> store s' = (store s)(key_of x \<mapsto> with_status z x)"
    and delete_ok: "srv (Delete x) s = (Inr y, s') \<Longrightarrow>
      \<exists>z. store s (key_of x) = Some z \<and>
        (if om_finalizers (kobj_meta z) = [] then store s' = (store s)(key_of x := None)
         else \<exists>w. store s' = (store s)(key_of x \<mapsto> w))"

locale healthy_server = api_server +
  assumes get_serves: "store s (mkKey k n) = Some x \<Longrightarrow> fst (srv (Get k n) s) = Inr x"
    and get_notfound: "store s (mkKey k n) = None \<Longrightarrow>
      \<exists>e. fst (srv (Get k n) s) = Inl e \<and> IsNotFound L e"
    and create_accepts: "store s (key_of x) = None \<Longrightarrow> addressable (key_of x) \<Longrightarrow>
      \<exists>y. fst (srv (Create x) s) = Inr y"
    and create_conflicts: "store s (key_of x) = Some z \<Longrightarrow>
      \<exists>e. fst (srv (Create x) s) = Inl e \<and> \<not> IsNotFound L e"
    and create_refuses: "\<not> addressable (key_of x) \<Longrightarrow>
      \<exists>e. fst (srv (Create x) s) = Inl e \<and> \<not> IsNotFound L e"
    and update_accepts: "store s (key_of x) = Some z \<Longrightarrow> \<exists>y. fst (srv (Update x) s) = Inr y"
    and status_accepts: "store s (key_of x) = Some z \<Longrightarrow> \<exists>y. fst (srv (StatusUpdate x) s) = Inr y"
    and delete_accepts: "store s (key_of x) = Some z \<Longrightarrow> \<exists>y. fst (srv (Delete x) s) = Inr y"

section \<open>Genuine answers\<close>

text \<open>
  The server answers a lookup with an object filed under the key asked for.  It
  is the only thing some of the properties need to know about the server.
\<close>

definition genuine :: "event list \<Rightarrow> bool" where
  "genuine t \<longleftrightarrow> (\<forall>(q, r) \<in> set t. case q of
     Get k n \<Rightarrow> (case r of Inr x \<Rightarrow> key_of x = mkKey k n | Inl _ \<Rightarrow> True) | _ \<Rightarrow> True)"

lemma genuine_simps [simp]:
  "genuine []"
  "genuine ((q, r) # t) \<longleftrightarrow> (case q of
     Get k n \<Rightarrow> (case r of Inr x \<Rightarrow> key_of x = mkKey k n | Inl _ \<Rightarrow> True) | _ \<Rightarrow> True) \<and> genuine t"
  "genuine (t1 @ t2) \<longleftrightarrow> genuine t1 \<and> genuine t2"
  by (auto simp: genuine_def)


context api_server
begin

lemma traced_genuine: "genuine (fst (traced srv p s))"
proof -
  have "case q of Get k n \<Rightarrow> (case fst (srv q s) of Inr x \<Rightarrow> key_of x = mkKey k n | Inl _ \<Rightarrow> True)
      | _ \<Rightarrow> True" for q s
    by (cases q; cases "srv q s") (auto split: sum.split dest!: get_found keyed)
  then have "list_all (\<lambda>(q, r). case q of
      Get k n \<Rightarrow> (case r of Inr x \<Rightarrow> key_of x = mkKey k n | Inl _ \<Rightarrow> True) | _ \<Rightarrow> True)
      (fst (traced srv p s))"
    by (intro traced_events) simp
  then show ?thesis by (simp add: genuine_def list_all_iff)
qed

end

section \<open>The reference server\<close>

record cluster =
  objs :: "key \<Rightarrow> kobj option"
  pods :: "Pod list"

fun map_meta :: "(ObjectMeta \<Rightarrow> ObjectMeta) \<Rightarrow> kobj \<Rightarrow> kobj" where
  "map_meta f (ServiceAccountO x) = ServiceAccountO (x\<lparr>sa_meta := f (sa_meta x)\<rparr>)"
| "map_meta f (SCCO x) = SCCO (x\<lparr>scc_meta := f (scc_meta x)\<rparr>)"
| "map_meta f (PersistentVolumeClaimO x) = PersistentVolumeClaimO (x\<lparr>pvc_meta := f (pvc_meta x)\<rparr>)"
| "map_meta f (ClusterRoleO x) = ClusterRoleO (x\<lparr>role_meta := f (role_meta x)\<rparr>)"
| "map_meta f (ClusterRoleBindingO x) = ClusterRoleBindingO (x\<lparr>rb_meta := f (rb_meta x)\<rparr>)"
| "map_meta f (RoleO x) = RoleO (x\<lparr>role_meta := f (role_meta x)\<rparr>)"
| "map_meta f (RoleBindingO x) = RoleBindingO (x\<lparr>rb_meta := f (rb_meta x)\<rparr>)"
| "map_meta f (DeploymentO x) = DeploymentO (x\<lparr>dep_meta := f (dep_meta x)\<rparr>)"
| "map_meta f (ServiceO x) = ServiceO (x\<lparr>svc_meta := f (svc_meta x)\<rparr>)"
| "map_meta f (StorageClassO x) = StorageClassO (x\<lparr>stc_meta := f (stc_meta x)\<rparr>)"
| "map_meta f (NFSProvisionerO x) = NFSProvisionerO (x\<lparr>nfs_meta := f (nfs_meta x)\<rparr>)"
| "map_meta f (MemcachedO x) = MemcachedO (x\<lparr>mc_meta := f (mc_meta x)\<rparr>)"
| "map_meta f (PodListO x) = PodListO x"

text \<open>
  A new object is stored without a deletion mark, and without a namespace when
  its kind is not namespaced.
\<close>

definition admitted :: "kobj \<Rightarrow> kobj" where
  "admitted x = map_meta (\<lambda>m. m\<lparr>om_namespace :=
       (if cluster_scoped (kobj_kind x) then '''' else om_namespace m),
     om_deletionTimestamp := None\<rparr>) x"

definition merged :: "kobj \<Rightarrow> kobj \<Rightarrow> kobj" where
  "merged z x = with_status
     (map_meta (\<lambda>m. m\<lparr>om_deletionTimestamp := om_deletionTimestamp (kobj_meta z)\<rparr>) x) z"

definition notFound :: "go_error" where
  "notFound = StatusError ''NotFound'' ''not found''"

definition alreadyExists :: "go_error" where
  "alreadyExists = StatusError ''AlreadyExists'' ''already exists''"

definition marked :: "kobj \<Rightarrow> bool" where
  "marked z \<longleftrightarrow> om_deletionTimestamp (kobj_meta z) \<noteq> None \<and> om_deletionTimestamp (kobj_meta z) \<noteq> Some 0"

definition methodNotAllowed :: "go_error" where
  "methodNotAllowed = StatusError ''MethodNotAllowed'' ''an empty namespace may not be set during creation''"

text \<open>
  Objects are filed under their own keys: the lookup ignores an entry that is not,
  or that has no namespace although its kind needs one.
\<close>

definition mem_store :: "cluster \<Rightarrow> key \<Rightarrow> kobj option" where
  "mem_store s k = (case objs s k of
     Some x \<Rightarrow> if key_of x = k \<and> addressable k then Some x else None | None \<Rightarrow> None)"

fun mem_srv :: "request \<Rightarrow> cluster \<Rightarrow> response \<times> cluster" where
  "mem_srv (Get k n) s = (case mem_store s (mkKey k n) of
     Some x \<Rightarrow> (Inr x, s) | None \<Rightarrow> (Inl notFound, s))"
| "mem_srv (Create x) s = (if \<not> addressable (key_of x) then (Inl methodNotAllowed, s) else
   case mem_store s (key_of x) of
     Some _ \<Rightarrow> (Inl alreadyExists, s)
   | None \<Rightarrow> (Inr (admitted x), s\<lparr>objs := (objs s)(key_of x \<mapsto> admitted x)\<rparr>))"
| "mem_srv (Update x) s = (case mem_store s (key_of x) of
     None \<Rightarrow> (Inl notFound, s)
   | Some z \<Rightarrow>
       (Inr (merged z x),
        if marked z \<and> om_finalizers (kobj_meta x) = []
        then s\<lparr>objs := (objs s)(key_of x := None)\<rparr>
        else s\<lparr>objs := (objs s)(key_of x \<mapsto> merged z x)\<rparr>))"
| "mem_srv (StatusUpdate x) s = (case mem_store s (key_of x) of
     None \<Rightarrow> (Inl notFound, s)
   | Some z \<Rightarrow> (Inr (with_status z x), s\<lparr>objs := (objs s)(key_of x \<mapsto> with_status z x)\<rparr>))"
| "mem_srv (Delete x) s = (case mem_store s (key_of x) of
     None \<Rightarrow> (Inl notFound, s)
   | Some z \<Rightarrow>
       if om_finalizers (kobj_meta z) = [] then (Inr x, s\<lparr>objs := (objs s)(key_of x := None)\<rparr>)
       else (Inr x, s\<lparr>objs := (objs s)(key_of x \<mapsto>
              (if marked z then z else map_meta (\<lambda>m. m\<lparr>om_deletionTimestamp := Some 1\<rparr>) z))\<rparr>))"
| "mem_srv (ListPods ns sel) s =
     (Inr (PodListO (filter (\<lambda>p. om_namespace (pod_meta p) = ns \<and>
        sel \<subseteq>\<^sub>f (case om_labels (pod_meta p) of None \<Rightarrow> fmempty | Some l \<Rightarrow> l)) (pods s))), s)"
| "mem_srv (LogInfo _ _ _) s = (Inl (Errorf ''''), s)"
| "mem_srv (LogError _ _ _ _) s = (Inl (Errorf ''''), s)"

lemma kobj_kind_map_meta [simp]: "kobj_kind (map_meta f x) = kobj_kind x"
  by (cases x) simp_all

lemma key_of_map_meta [simp]:
  assumes "\<And>m. om_name (f m) = om_name m" "\<And>m. om_namespace (f m) = om_namespace m"
  shows "key_of (map_meta f x) = key_of x"
  using assms by (cases x) (simp_all add: key_of_def)

lemma finalizers_map_meta [simp]:
  "(\<And>m. om_finalizers (f m) = om_finalizers m) \<Longrightarrow>
   om_finalizers (kobj_meta (map_meta f x)) = om_finalizers (kobj_meta x)"
  by (cases x) simp_all

lemma key_of_admitted [simp]: "key_of (admitted x) = key_of x"
  by (cases x) (simp_all add: admitted_def key_of_def mkKey_def)

lemma finalizers_admitted [simp]:
  "om_finalizers (kobj_meta (admitted x)) = om_finalizers (kobj_meta x)"
  by (simp add: admitted_def)

lemma meta_with_status [simp]:
  "kobj_meta (with_status z x) = kobj_meta z" "kobj_kind (with_status z x) = kobj_kind z"
  by (cases z; auto split: kobj.split)+

lemma key_of_with_status [simp]: "key_of (with_status z x) = key_of z"
  by (simp add: key_of_def)

lemma with_status_idem [simp]: "with_status (with_status z x) x = with_status z x"
  by (cases z) (auto split: kobj.splits)

lemma same_spec_with_status [simp]: "same_spec x (with_status w z) = same_spec x w"
  by (cases x) (auto split: kobj.splits)

lemma same_spec_map_meta [simp]: "same_spec x (map_meta f x)"
  by (cases x) simp_all

lemma same_spec_admitted [simp]: "same_spec x (admitted x)"
  by (simp add: admitted_def)

lemma key_of_merged [simp]: "key_of (merged z x) = key_of x"
  by (simp add: merged_def)

lemma updated_merged:
  assumes "key_of z = key_of x"
  shows "updated z x (merged z x)"
proof -
  have "kobj_kind z = kobj_kind x" using assms by (simp add: key_of_def mkKey_def)
  then have "om_deletionTimestamp (kobj_meta (merged z x)) = om_deletionTimestamp (kobj_meta z)"
    by (cases x; cases z) (simp_all add: merged_def)
  then show ?thesis by (simp add: updated_def merged_def)
qed

lemma mem_store_keyed: "mem_store s k = Some x \<Longrightarrow> key_of x = k"
  by (simp add: mem_store_def split: option.splits if_splits)

lemma mem_store_addressed: "mem_store s k = Some x \<Longrightarrow> addressable k"
  by (simp add: mem_store_def split: option.splits if_splits)

lemma mem_store_upd [simp]:
  "key_of y = k \<Longrightarrow> addressable k \<Longrightarrow> mem_store (s\<lparr>objs := (objs s)(k \<mapsto> y)\<rparr>) = (mem_store s)(k \<mapsto> y)"
  "mem_store (s\<lparr>objs := (objs s)(k := None)\<rparr>) = (mem_store s)(k := None)"
  by (auto simp: mem_store_def fun_eq_iff)

lemma mem_store_cong: "objs s' = objs s \<Longrightarrow> mem_store s' = mem_store s"
  by (simp add: mem_store_def fun_eq_iff)

lemma mem_healthy: "healthy_server (std_lib parse) mem_srv mem_store"
proof (unfold_locales, goal_cases)
  case (1 s key x)
  then show ?case by (rule mem_store_keyed)
next
  case (2 s key x)
  then show ?case by (rule mem_store_addressed)
next
  case (3 q s r s')
  then show ?case by (cases q) (auto split: option.splits)
next
  case (4 q s e s')
  then show ?case by (cases q) (auto split: option.splits if_splits)
next
  case (5 k n s x s')
  then show ?case by (auto split: option.splits)
next
  case (6 k n s e s')
  then show ?case by (auto split: option.splits)
next
  case (7 x s y s')
  then show ?case by (auto split: option.splits if_splits)
next
  case (8 x s y s')
  then obtain z where z: "mem_store s (key_of x) = Some z" and s': "s' =
      (if marked z \<and> om_finalizers (kobj_meta x) = [] then s\<lparr>objs := (objs s)(key_of x := None)\<rparr>
       else s\<lparr>objs := (objs s)(key_of x \<mapsto> merged z x)\<rparr>)"
    by (auto split: option.splits)
  have "key_of z = key_of x" using z by (rule mem_store_keyed)
  then have "updated z x (merged z x)" by (rule updated_merged)
  moreover have "\<not> IsZero (std_lib parse) (om_deletionTimestamp (kobj_meta z)) \<longleftrightarrow> marked z"
    by (simp add: std_lib_def marked_def)
  ultimately show ?case using z s' mem_store_addressed [OF z] by (intro exI [of _ z]) auto
next
  case (9 x s y s')
  then obtain z where z: "mem_store s (key_of x) = Some z"
    and "s' = s\<lparr>objs := (objs s)(key_of x \<mapsto> with_status z x)\<rparr>"
    by (auto split: option.splits)
  with mem_store_keyed [OF z] mem_store_addressed [OF z] show ?case by (intro exI [of _ z]) simp
next
  case (10 x s y s')
  then obtain z where z: "mem_store s (key_of x) = Some z" and s': "s' =
      (if om_finalizers (kobj_meta z) = [] then s\<lparr>objs := (objs s)(key_of x := None)\<rparr>
       else s\<lparr>objs := (objs s)(key_of x \<mapsto>
              (if marked z then z else map_meta (\<lambda>m. m\<lparr>om_deletionTimestamp := Some 1\<rparr>) z))\<rparr>)"
    by (auto split: option.splits if_splits)
  with mem_store_keyed [OF z] mem_store_addressed [OF z] show ?case by (intro exI [of _ z]) auto
qed (auto simp: notFound_def alreadyExists_def methodNotAllowed_def std_lib_def
  dest: mem_store_addressed split: option.splits)

interpretation mem: healthy_server "std_lib parse" mem_srv mem_store for parse
  by (rule mem_healthy)

text \<open>
  A server with a plan of faults in front of another one: each entry of the plan
  decides whether the next call fails, with which error, or is passed on.  A
  fault is never "not found", which would be an answer about the store.
\<close>

fun faulty :: "(request \<Rightarrow> 's \<Rightarrow> response \<times> 's) \<Rightarrow> request \<Rightarrow>
    string option list \<times> 's \<Rightarrow> response \<times> (string option list \<times> 's)" where
  "faulty srv q ([], s) = (case srv q s of (r, s') \<Rightarrow> (r, [], s'))"
| "faulty srv q (None # fs, s) = (case srv q s of (r, s') \<Rightarrow> (r, fs, s'))"
| "faulty srv q (Some msg # fs, s) = (Inl (StatusError ''InternalError'' msg), fs, s)"

lemma faulty_pass:
  assumes "faulty srv q s = (r, s')"
  shows "srv q (snd s) = (r, snd s') \<or>
    (snd s' = snd s \<and> (\<exists>msg. r = Inl (StatusError ''InternalError'' msg)))"
  using assms by (cases "(srv, q, s)" rule: faulty.cases) (auto split: prod.splits)

lemma faulty_ok: "faulty srv q s = (Inr y, s') \<Longrightarrow> srv q (snd s) = (Inr y, snd s')"
  by (drule faulty_pass) simp

lemma faulty_contract: "api_server (std_lib parse) (faulty mem_srv) (mem_store \<circ> snd)"
proof (unfold_locales, goal_cases)
  case (1 s key x)
  then show ?case by (simp add: mem_store_keyed)
next
  case (2 s key x)
  then show ?case by (simp add: mem_store_addressed)
next
  case (3 q s r s')
  from faulty_pass [OF 3(2)] show ?case using 3(1) by (auto dest: mem.reads)
next
  case (4 q s e s')
  from faulty_pass [OF 4(2)] show ?case using 4(1) by (auto dest: mem.failed_writes)
next
  case (5 k n s x s')
  from mem.get_found [OF faulty_ok [OF 5]] show ?case by simp
next
  case (6 k n s e s')
  from faulty_pass [OF 6(1)] show ?case
  proof
    assume "mem_srv (Get k n) (snd s) = (Inl e, snd s')"
    from mem.get_missing [OF this 6(2)] show ?thesis by simp
  next
    assume "snd s' = snd s \<and> (\<exists>msg. Inl e = (Inl (StatusError ''InternalError'' msg) :: response))"
    with 6(2) show ?thesis by (auto simp: std_lib_def)
  qed
next
  case (7 x s y s')
  show ?case unfolding comp_apply by (rule mem.create_ok [OF faulty_ok [OF 7]])
next
  case (8 x s y s')
  show ?case unfolding comp_apply by (rule mem.update_ok [OF faulty_ok [OF 8]])
next
  case (9 x s y s')
  show ?case unfolding comp_apply by (rule mem.status_ok [OF faulty_ok [OF 9]])
next
  case (10 x s y s')
  show ?case unfolding comp_apply by (rule mem.delete_ok [OF faulty_ok [OF 10]])
qed

interpretation faulty_mem: api_server "std_lib parse" "faulty mem_srv" "mem_store \<circ> snd" for parse
  by (rule faulty_contract)

section \<open>Bringing objects into existence\<close>

text \<open>
  From \<open>f\<close> to \<open>g\<close> every key of \<open>K\<close> has come to exist, nothing that existed has
  changed, nothing outside \<open>K\<close> has changed, and what is new under a key carries no
  finalizer and is what \<open>B\<close> asks for under that key.
\<close>

definition ensured :: "('k \<Rightarrow> kobj \<Rightarrow> bool) \<Rightarrow> 'k set \<Rightarrow>
    ('k \<Rightarrow> kobj option) \<Rightarrow> ('k \<Rightarrow> kobj option) \<Rightarrow> bool" where
  "ensured B K f g \<longleftrightarrow>
     (\<forall>k. f k \<noteq> None \<longrightarrow> g k = f k) \<and> (\<forall>k. k \<notin> K \<longrightarrow> g k = f k) \<and>
     (\<forall>k. k \<in> K \<longrightarrow> g k \<noteq> None) \<and>
     (\<forall>k x. f k = None \<longrightarrow> g k = Some x \<longrightarrow> om_finalizers (kobj_meta x) = [] \<and> B k x)"

text \<open>One of the objects \<open>xs\<close> has the key, and the server holds it with its spec.\<close>

definition built_from :: "kobj list \<Rightarrow> key \<Rightarrow> kobj \<Rightarrow> bool" where
  "built_from xs k y \<longleftrightarrow> list_ex (\<lambda>x. key_of x = k \<and> same_spec x y) xs"

lemma built_from_member: "x \<in> set xs \<Longrightarrow> same_spec x y \<Longrightarrow> built_from xs (key_of x) y"
  by (auto simp: built_from_def list_ex_iff)

lemma ensured_refl: "(\<And>k. k \<in> K \<Longrightarrow> f k \<noteq> None) \<Longrightarrow> ensured B K f f"
  by (auto simp: ensured_def)

lemma ensured_trans:
  assumes "ensured B K1 f g" "ensured B K2 g h"
  shows "ensured B (K1 \<union> K2) f h"
  unfolding ensured_def
proof (intro conjI allI impI)
  fix k
  show "f k \<noteq> None \<Longrightarrow> h k = f k" "k \<notin> K1 \<union> K2 \<Longrightarrow> h k = f k"
    "k \<in> K1 \<union> K2 \<Longrightarrow> h k \<noteq> None"
    using assms by (auto simp: ensured_def)
next
  fix k x
  assume "f k = None" "h k = Some x"
  then show "om_finalizers (kobj_meta x) = []" "B k x"
    using assms by (cases "g k"; auto simp: ensured_def)+
qed

lemma ensured_new:
  "f k = None \<Longrightarrow> om_finalizers (kobj_meta x) = [] \<Longrightarrow> B k x \<Longrightarrow> ensured B {k} f (f(k \<mapsto> x))"
  by (auto simp: ensured_def)

lemma ensured_keeps: "ensured B K f g \<Longrightarrow> f k = Some x \<Longrightarrow> g k = Some x"
  by (auto simp: ensured_def)

lemma ensured_exists: "ensured B K f g \<Longrightarrow> k \<in> K \<or> f k \<noteq> None \<Longrightarrow> g k \<noteq> None"
  by (auto simp: ensured_def)

lemma ensured_idle: "ensured B K f g \<Longrightarrow> (\<And>k. k \<in> K \<Longrightarrow> f k \<noteq> None) \<Longrightarrow> g = f"
  unfolding ensured_def by (rule ext) metis

lemma ensured_mono: "ensured B K f g \<Longrightarrow> (\<And>k x. B k x \<Longrightarrow> B' k x) \<Longrightarrow> ensured B' K f g"
  unfolding ensured_def by blast

lemma ensured_built: "ensured B K f g \<Longrightarrow> f k = None \<Longrightarrow> g k = Some x \<Longrightarrow> B k x"
  unfolding ensured_def by blast

text \<open>
  The statement \<open>p\<close> falls through on every server state in which the keys \<open>A\<close>
  exist, having ensured the keys \<open>K\<close>.
\<close>

definition achieves ::
  "(request \<Rightarrow> 's \<Rightarrow> response \<times> 's) \<Rightarrow> ('s \<Rightarrow> 'k \<Rightarrow> kobj option) \<Rightarrow>
   'k set \<Rightarrow> ('k \<Rightarrow> kobj \<Rightarrow> bool) \<Rightarrow> 'k set \<Rightarrow> unit stmt \<Rightarrow> bool" where
  "achieves srv store A B K p \<longleftrightarrow>
     (\<forall>s. (\<forall>k. k \<in> A \<longrightarrow> store s k \<noteq> None) \<longrightarrow>
        (\<exists>s'. exec srv p s = (Inr (), s') \<and> ensured B K (store s) (store s')))"

lemma achievesD:
  assumes "achieves srv store A B K p" "\<And>k. k \<in> A \<Longrightarrow> store s k \<noteq> None"
  obtains s' where "exec srv p s = (Inr (), s')" "ensured B K (store s) (store s')"
  using assms unfolding achieves_def by blast

lemma achieves_andthen:
  assumes "achieves srv store A B K1 p" "\<And>a. achieves srv store A B K2 (f a)"
  shows "achieves srv store A B (K1 \<union> K2) (andthen p f)"
  unfolding achieves_def
proof (intro allI impI)
  fix s
  assume A: "\<forall>k. k \<in> A \<longrightarrow> store s k \<noteq> None"
  then obtain s1 where 1: "exec srv p s = (Inr (), s1)" "ensured B K1 (store s) (store s1)"
    using achievesD [OF assms(1)] by metis
  then have "store s1 k \<noteq> None" if "k \<in> A" for k
    using A that ensured_exists by metis
  then obtain s2 where "exec srv (f ()) s1 = (Inr (), s2)" "ensured B K2 (store s1) (store s2)"
    using achievesD [OF assms(2)] by metis
  with 1 show "\<exists>s'. exec srv (andthen p f) s = (Inr (), s') \<and> ensured B (K1 \<union> K2) (store s) (store s')"
    by (auto simp: exec_andthen intro: ensured_trans)
qed

lemma achieves_proceed [simp]: "achieves srv store A B {} proceed"
  by (auto simp: achieves_def proceed_def ensured_def)

context api_server
begin

lemma exec_emit:
  assumes "list_all is_log qs"
  shows "\<exists>s'. exec srv (emit qs p) s = exec srv p s' \<and> store s' = store s"
  using assms
proof (induction qs arbitrary: s)
  case Nil
  then show ?case by auto
next
  case (Cons q qs)
  obtain r s1 where q: "srv q s = (r, s1)" by (cases "srv q s")
  have "\<not> is_write q" using Cons.prems by (cases q) auto
  then have "store s1 = store s" using q by (rule reads)
  with q Cons show ?case by fastforce
qed

end

context healthy_server
begin

lemma get_cases:
  obtains (found) x s' where "srv (Get k n) s = (Inr x, s')" "store s (mkKey k n) = Some x"
      "store s' = store s"
  | (absent) e s' where "srv (Get k n) s = (Inl e, s')" "IsNotFound L e"
      "store s (mkKey k n) = None" "store s' = store s"
proof (cases "store s (mkKey k n)")
  case None
  from get_notfound [OF this] None absent show thesis
    by (cases "srv (Get k n) s") (auto dest: reads [rotated])
next
  case (Some x)
  from get_serves [OF this] Some found show thesis
    by (cases "srv (Get k n) s") (auto dest: reads [rotated])
qed

text \<open>
  A block that accepts "not found", creates an object under the key it has looked
  up and falls through after a success ensures that key.
\<close>

lemma creation_achieves:
  assumes shape: "blk = unless_found k n cond (emit pre (Req (Create obj) h))"
    and done_: "\<And>y. h (Inr y) = proceed" and logs: "list_all is_log pre"
    and own_key: "key_of obj = mkKey k n" and addr: "addressable (mkKey k n)"
    and cond: "\<And>e. IsNotFound L e \<Longrightarrow> cond e"
    and fin: "om_finalizers (kobj_meta obj) = []"
    and made: "\<And>y. same_spec obj y \<Longrightarrow> B (mkKey k n) y"
  shows "achieves srv store A B {mkKey k n} blk"
  unfolding achieves_def
proof (intro allI impI)
  fix s
  show "\<exists>s'. exec srv blk s = (Inr (), s') \<and> ensured B {mkKey k n} (store s) (store s')"
  proof (cases rule: get_cases [of k n s])
    case (found x s1)
    then show ?thesis
      by (auto simp: shape unless_found_def proceed_def intro!: ensured_refl)
  next
    case (absent e s1)
    obtain s2 where s2: "exec srv (emit pre (Req (Create obj) h)) s1 = exec srv (Req (Create obj) h) s2"
      "store s2 = store s1"
      using exec_emit [OF logs] by blast
    from absent s2 own_key have "store s2 (key_of obj) = None" by simp
    from create_accepts [OF this] obtain y s3 where c: "srv (Create obj) s2 = (Inr y, s3)"
      unfolding own_key using addr by (metis prod.collapse)
    have "ensured B {mkKey k n} (store s) (store s3)"
      using create_ok [OF c] s2 absent own_key fin made by (auto intro: ensured_new)
    moreover have "exec srv blk s = (Inr (), s3)"
      using absent(1) s2(1) c cond [OF absent(2)] by (simp add: shape unless_found_def done_ proceed_def)
    ultimately show ?thesis by blast
  qed
qed

lemma block_achieves:
  assumes "managed_block blk k n cond pre obj lg msg kvs" and "addressable (mkKey k n)"
    and "\<And>e. IsNotFound L e \<Longrightarrow> cond e" and "om_finalizers (kobj_meta obj) = []"
    and "\<And>y. same_spec obj y \<Longrightarrow> B (mkKey k n) y"
  shows "achieves srv store A B {mkKey k n} blk"
proof (rule creation_achieves)
  have shape: "blk = unless_found k n cond (create_or pre obj (\<lambda>e. LogError lg e msg kvs) report)"
    using assms(1) by (simp add: managed_block_def creating_block_def)
  show "blk = unless_found k n cond (emit pre (Req (Create obj) (\<lambda>r. case r of
      Inl err \<Rightarrow> emit [LogError lg err msg kvs] (report err) | Inr _ \<Rightarrow> proceed)))"
    using shape unfolding create_or_def .
  show "list_all is_log pre" "key_of obj = mkKey k n"
    using assms(1) by (auto simp: managed_block_def creating_block_def managed_block_axioms_def)
qed (use assms(2-5) in simp_all)

end

end
