(* ===== verification/Scenarios.thy ===== *)
theory Scenarios
  imports NfsTraces ApiServer
begin

text \<open>
  Concrete resources and clusters on which the properties of the finished
  controller are evaluated: a resource \<open>demo\<close> in the namespace \<open>ns\<close>, the library
  \<open>std_lib\<close> with a parser that rejects the single size \<open>bad\<close>, and the reference
  server with or without a plan of faults.
\<close>

definition demoLib :: lib where
  "demoLib = std_lib (\<lambda>s. if s = ''bad'' then None else Some 10)"

lemma demoLib: "k8s_lib demoLib"
  by (simp add: demoLib_def std_lib_laws)

definition demoReq :: NamespacedName where
  "demoReq = \<lparr>nn_namespace = ''ns'', nn_name = ''demo''\<rparr>"

definition demoSpec :: NFSProvisionerSpec where
  "demoSpec = Spec zeroNFSProvisioner"

definition demoCR :: "NFSProvisionerSpec \<Rightarrow> string list \<Rightarrow> nat option \<Rightarrow> NFSProvisioner" where
  "demoCR spec fins del = zeroNFSProvisioner
     \<lparr>nfs_meta := (mkMeta ''demo'' ''ns'')\<lparr>om_finalizers := fins, om_deletionTimestamp := del\<rparr>,
      Spec := spec\<rparr>"

definition cluster_of :: "kobj list \<Rightarrow> Pod list \<Rightarrow> cluster" where
  "cluster_of xs ps = \<lparr>objs = map_of (map (\<lambda>x. (key_of x, x)) xs), pods = ps\<rparr>"

text \<open>The cluster that holds the resource and nothing else.\<close>

definition demoCluster :: "NFSProvisionerSpec \<Rightarrow> string list \<Rightarrow> nat option \<Rightarrow> cluster" where
  "demoCluster spec fins del = cluster_of [NFSProvisionerO (demoCR spec fins del)] []"

text \<open>Trace and result of one \<open>Reconcile\<close> on the reference server, with faults.\<close>

definition demoRun :: "string option list \<Rightarrow> cluster \<Rightarrow> event list \<times> ret" where
  "demoRun faults s =
     (case traced (faulty mem_srv) (Reconcile demoLib demoReq) (faults, s) of (t, r, _) \<Rightarrow> (t, r))"

lemma demoRun_runs: "runs (Reconcile demoLib demoReq) (fst (demoRun fs s)) (snd (demoRun fs s))"
  by (simp add: demoRun_def case_prod_beta runs_traced)

lemma demoRun_genuine: "genuine (fst (demoRun fs s))"
  by (simp add: demoRun_def case_prod_beta faulty_mem.traced_genuine)

text \<open>Without a fault on the first call, the run starts with the resource.\<close>

lemma demo_fetched [simp]:
  "mem_store (demoCluster spec fins del) (mkKey NFSProvisionerK demoReq) =
     Some (NFSProvisionerO (demoCR spec fins del))"
  by (simp add: mem_store_def demoCluster_def cluster_of_def demoReq_def demoCR_def key_of_def mkKey_def addressable_def)

lemma demo_absent [simp]: "fst k \<noteq> NFSProvisionerK \<Longrightarrow> mem_store (demoCluster spec fins del) k = None"
  by (auto simp: mem_store_def demoCluster_def cluster_of_def key_of_def mkKey_def)

lemma demo_healthy: "healthy_server demoLib mem_srv mem_store"
  by (simp add: demoLib_def mem_healthy)

lemma demoRun_starts:
  "fst (demoRun [] (demoCluster spec fins del)) =
     (Get NFSProvisionerK demoReq, Inr (NFSProvisionerO (demoCR spec fins del)))
       # tl (fst (demoRun [] (demoCluster spec fins del)))"
  by (simp add: demoRun_def Reconcile_def Reconcile_body_def fetchNFSProvisioner_def case_prod_beta)

lemma demoRun_fetch:
  "runs (Reconcile demoLib demoReq)
     ((Get NFSProvisionerK demoReq, Inr (NFSProvisionerO (demoCR spec fins del)))
        # tl (fst (demoRun [] (demoCluster spec fins del))))
     (snd (demoRun [] (demoCluster spec fins del)))"
  using demoRun_runs [of "[]" "demoCluster spec fins del"] demoRun_starts [of spec fins del] by metis

end
