(* ===== verification/NfsSafety.thy ===== *)
theory NfsSafety
  imports Scenarios
begin

text \<open>
  What holds of every run of the finished controller's \<open>Reconcile\<close>, whatever the
  API server answers and whatever other clients do in between.
\<close>

section \<open>Validation\<close>

lemma validate_None_iff:
  "validate m = None \<longleftrightarrow>
     (Pvc (Spec m) = '''' \<or> SCForNFSPvc (Spec m) = '''') \<and>
     (Pvc (Spec m) = '''' \<or> HostPathDir (Spec m) = '''') \<and>
     (SCForNFSPvc (Spec m) = '''' \<or> HostPathDir (Spec m) = '''')"
  by (auto simp: validate_def Let_def)

lemma containsString_iff [simp]: "containsString sl s \<longleftrightarrow> s \<in> set sl"
  by (induction sl) auto

lemma removeString_loop_filter: "removeString_loop sl s acc = acc @ filter (\<lambda>i. i \<noteq> s) sl"
  by (induction sl s acc rule: removeString_loop.induct) simp_all

text \<open>
  A spec is accepted exactly when at most one of the three ways of naming
  the backing storage (an existing claim, a storage class, a host path) is used.
\<close>

theorem validate_at_most_one:
  "validate m = None \<longleftrightarrow>
     length (filter (\<lambda>s. s \<noteq> '''') [Pvc (Spec m), SCForNFSPvc (Spec m), HostPathDir (Spec m)]) \<le> 1"
  by (auto simp: validate_None_iff)

section \<open>Where a fetched resource comes from\<close>

lemma genuine_NFSProvisioner:
  assumes "key_of y = mkKey NFSProvisionerK req"
  obtains m where "y = NFSProvisionerO m" "nn (nfsNamespace m) (nfsName m) = req"
    "asNFSProvisioner y = m"
proof -
  from assms have "kobj_kind y = NFSProvisionerK" by (simp add: key_of_def mkKey_def)
  then obtain m where m: "y = NFSProvisionerO m" by (cases y) simp_all
  with assms have "nn (nfsNamespace m) (nfsName m) = req"
    by (simp add: key_of_def mkKey_def cluster_scoped_def)
  with m that show thesis by simp
qed

section \<open>What Reconcile may ask of the server\<close>

text \<open>
  The writes the controller may issue for the resource \<open>m\<close>: create one of its
  objects; update \<open>m\<close> itself in nothing but its finalizer; report an invalid
  spec in the status; and, while \<open>m\<close> is being deleted with the finalizer in
  place, delete the two cluster-wide roles.
\<close>

definition only_finalizer :: "NFSProvisioner \<Rightarrow> NFSProvisioner \<Rightarrow> bool" where
  "only_finalizer m m' \<longleftrightarrow>
     m' = m\<lparr>nfs_meta := (nfs_meta m)\<lparr>om_finalizers := om_finalizers (nfs_meta m')\<rparr>\<rparr> \<and>
     filter (\<lambda>f. f \<noteq> finalizerName) (om_finalizers (nfs_meta m')) =
     filter (\<lambda>f. f \<noteq> finalizerName) (om_finalizers (nfs_meta m))"

definition external_keys :: "key set" where
  "external_keys = {mkKey ClusterRoleK (nn '''' ClusterRole_default),
                    mkKey ClusterRoleBindingK (nn '''' ClusterRoleBinding_default)}"

fun permitted :: "lib \<Rightarrow> NFSProvisioner \<Rightarrow> request \<Rightarrow> bool" where
  "permitted L m (Create x) \<longleftrightarrow> validate m = None \<and> x \<in> set (managed_objects L m)"
| "permitted L m (Update x) \<longleftrightarrow>
     validate m = None \<and> (\<exists>m'. x = NFSProvisionerO m' \<and> only_finalizer m m')"
| "permitted L m (StatusUpdate x) \<longleftrightarrow>
     validate m \<noteq> None \<and>
     x = NFSProvisionerO (m\<lparr>Status := \<lparr>Nodes = Some [], Error = specMessage m\<rparr>\<rparr>)"
| "permitted L m (Delete x) \<longleftrightarrow>
     validate m = None \<and> \<not> IsZero L (om_deletionTimestamp (nfs_meta m)) \<and>
     finalizerName \<in> set (om_finalizers (nfs_meta m)) \<and> key_of x \<in> external_keys"
| "permitted L m (ListPods _ _) \<longleftrightarrow> False"
| "permitted L m _ \<longleftrightarrow> True"

lemma permitted_log: "is_log q \<Longrightarrow> permitted L m q"
  by (cases q) simp_all

context k8s_lib
begin

lemma only_finalizer_add: "only_finalizer m (m\<lparr>nfs_meta := AddFinalizer L (nfs_meta m) finalizerName\<rparr>)"
  by (simp add: only_finalizer_def addFinalizer)

lemma only_finalizer_remove:
  "only_finalizer m (m\<lparr>nfs_meta := RemoveFinalizer L (nfs_meta m) finalizerName\<rparr>)"
  by (simp add: only_finalizer_def removeFinalizer)

lemma ensureAll_permitted:
  assumes "validate m = None" "runs (ensureAll L lg m) t x"
  shows "requests_in (permitted L m) t"
proof -
  have "obeys (\<lambda>t _. requests_in (permitted L m) t) (ensureAll L lg m)"
    by (rule ensureAll_requests) (simp_all add: assms(1) permitted_log)
  with assms(2) show ?thesis unfolding obeys_def by blast
qed

lemma deleteExternal_permitted:
  assumes "runs (deleteExternalResources m) t x" "genuine t" "validate m = None"
    "\<not> IsZero L (om_deletionTimestamp (nfs_meta m))" "finalizerName \<in> set (om_finalizers (nfs_meta m))"
  shows "requests_in (permitted L m) t"
  using assms unfolding deleteExternalResources_def
  by (auto elim!: runs_andthenE deleteIfFound_run simp: external_keys_def)

lemma finalize_permitted:
  assumes "runs (finalizeNFSProvisioner L lg m) t x" "genuine t" "validate m = None"
  shows "requests_in (permitted L m) t"
  using assms
  by (auto elim!: finalize_run simp: only_finalizer_add only_finalizer_remove
      intro: deleteExternal_permitted)

lemma Reconcile_confined:
  assumes "runs (Reconcile L req) t r" "genuine t" "(q, a) \<in> set t" "is_write q"
  obtains m t' where "t = (Get NFSProvisionerK req, Inr (NFSProvisionerO m)) # t'"
    "nn (nfsNamespace m) (nfsName m) = req" "permitted L m q"
  using assms(1)
proof (cases rule: Reconcile_run)
  case not_fetched
  then have False using assms(3,4) by (auto elim!: fetch_run)
  then show thesis ..
next
  case (rejected y t' err)
  with assms(2) obtain m where m: "y = NFSProvisionerO m" "nn (nfsNamespace m) (nfsName m) = req"
    by (auto elim: genuine_NFSProvisioner)
  moreover have "permitted L m q"
    using rejected m assms(3,4) by (auto elim!: reject_run)
  ultimately show thesis using that rejected by blast
next
  case (stopped y t')
  with assms(2) obtain m where m: "y = NFSProvisionerO m" "nn (nfsNamespace m) (nfsName m) = req"
    by (auto elim: genuine_NFSProvisioner)
  then have "requests_in (permitted L m) t'" using stopped ensureAll_permitted by simp
  then have "permitted L m q" using stopped assms(3,4) by (auto dest: requests_inD)
  with m that stopped show thesis by blast
next
  case (finished y t' t'')
  with assms(2) obtain m where m: "y = NFSProvisionerO m" "nn (nfsNamespace m) (nfsName m) = req"
    by (auto elim: genuine_NFSProvisioner)
  then have "requests_in (permitted L m) (t' @ t'')"
    using finished assms(2) ensureAll_permitted finalize_permitted by simp
  then have "permitted L m q" using finished assms(3,4) by (auto dest: requests_inD)
  with m that finished show thesis by blast
qed

end

section \<open>Errors\<close>

context k8s_lib
begin

lemma Reconcile_errors:
  assumes "runs (Reconcile L req) t r"
  shows "reports_errors t (Some r)"
  using assms
proof (cases rule: Reconcile_run)
  case not_fetched
  with fetch_errors show ?thesis by (rule obeys_returned)
next
  case (rejected y t' err)
  then have "reports_errors t' (Some r)" using reject_errors by (blast intro: obeys_returned)
  with rejected show ?thesis
    using errors.sequence [of "[(Get NFSProvisionerK req, Inr y)]" t' "Some r"] by simp
next
  case (stopped y t')
  then have "reports_errors t' (Some r)" using ensureAll_errors by (blast intro: obeys_returned)
  with stopped show ?thesis
    using errors.sequence [of "[(Get NFSProvisionerK req, Inr y)]" t' "Some r"] by simp
next
  case (finished y t' t'')
  then have "reports_errors t' None" "reports_errors t'' (Some r)"
    using ensureAll_errors finalize_errors by (blast intro: obeys_continued obeys_returned)+
  with finished show ?thesis
    using errors.sequence [of "(Get NFSProvisionerK req, Inr y) # t'" t'' "Some r"] by simp
qed

end

text \<open>
  C4. No failed write is swallowed: a run that returns an error returns the error
  of its last API call, has logged it, does not ask for a requeue of its own and
  had no failed write before; a run that returns no error (or panics) had no
  failed write at all.
\<close>

theorem Reconcile_reports_errors:
  assumes "k8s_lib L" and "runs (Reconcile L req) t r"
  shows "reports_errors t (Some r)"
  using k8s_lib.Reconcile_errors [OF assms] .

text \<open>Here the third call, the creation of the SCC, fails.\<close>

lemma Reconcile_reports_errors_witness:
  "let t = fst (demoRun [None, None, None, Some ''quota''] (demoCluster demoSpec [] None))
   in ends_with_error t (StatusError ''InternalError'' ''quota'')"
proof -
  let ?run = "demoRun [None, None, None, Some ''quota''] (demoCluster demoSpec [] None)"
  have "snd ?run = Return \<lparr>Requeue = False\<rparr> (Some (StatusError ''InternalError'' ''quota''))"
    by code_simp
  then show ?thesis
    using Reconcile_reports_errors [OF demoLib demoRun_runs
        [of "[None, None, None, Some ''quota'']" "demoCluster demoSpec [] None"]]
    by simp
qed

section \<open>Confinement\<close>

text \<open>
  C5. Every write of a run concerns the resource the run has fetched under the
  requested name and is one of the permitted writes: only objects the operator
  manages are created, the resource itself changes in nothing but the operator's
  finalizer, only an invalid spec is reported in its status, and only the two
  cluster-wide roles are deleted, only while the resource is being deleted.
\<close>

theorem Reconcile_writes_permitted:
  assumes "k8s_lib L" and "runs (Reconcile L req) t r" and "genuine t"
    and "(q, a) \<in> set t" and "is_write q"
  shows "\<exists>m t'. t = (Get NFSProvisionerK req, Inr (NFSProvisionerO m)) # t' \<and>
           nn (nfsNamespace m) (nfsName m) = req \<and> permitted L m q"
  using k8s_lib.Reconcile_confined [OF assms] by metis

lemma Reconcile_writes_permitted_witness:
  "\<exists>q a m. (q, a) \<in> set (fst (demoRun [] (demoCluster demoSpec [finalizerName] (Some 5)))) \<and>
     (case q of Delete x \<Rightarrow> kobj_kind x = ClusterRoleK | _ \<Rightarrow> False) \<and> permitted demoLib m q"
proof -
  let ?t = "fst (demoRun [] (demoCluster demoSpec [finalizerName] (Some 5)))"
  have "list_ex (\<lambda>(q, a). case q of Delete x \<Rightarrow> kobj_kind x = ClusterRoleK | _ \<Rightarrow> False) ?t"
    by code_simp
  then obtain q a where q: "(q, a) \<in> set ?t"
    and del: "case q of Delete x \<Rightarrow> kobj_kind x = ClusterRoleK | _ \<Rightarrow> False"
    by (auto simp: list_ex_iff)
  from del have "is_write q" by (cases q) simp_all
  then obtain m where "permitted demoLib m q"
    using Reconcile_writes_permitted [OF demoLib demoRun_runs demoRun_genuine q] by blast
  with q del show ?thesis by blast
qed

section \<open>Creations\<close>

context k8s_lib
begin

lemma Reconcile_guarded:
  assumes "runs (Reconcile L req) t r"
    and named: "\<And>y. (Get NFSProvisionerK req, Inr y) \<in> set t \<Longrightarrow> Pvc (Spec (asNFSProvisioner y)) = ''''"
  shows "guarded t"
  using assms(1)
proof (cases rule: Reconcile_run)
  case not_fetched
  with fetch_guard show ?thesis by (rule obeys_returned)
next
  case (rejected y t' err)
  then have "guarded t'" using obeys_returned [OF reject_guard] by blast
  with rejected show ?thesis
    using guards.append [of "[(Get NFSProvisionerK req, Inr y)]" t'] by (simp add: guarded_no_create)
next
  case (stopped y t')
  then have "Pvc (Spec (asNFSProvisioner y)) = ''''" using named by simp
  from obeys_returned [OF ensureAll_guard [OF this] stopped(3)] have "guarded t'" .
  with stopped show ?thesis
    using guards.append [of "[(Get NFSProvisionerK req, Inr y)]" t'] by (simp add: guarded_no_create)
next
  case (finished y t' t'')
  then have "Pvc (Spec (asNFSProvisioner y)) = ''''" using named by simp
  from obeys_continued [OF ensureAll_guard [OF this] finished(3)] have "guarded t'" .
  moreover from finished have "guarded t''" using obeys_returned [OF finalize_guard] by blast
  ultimately show ?thesis using finished
    using guards.append [of "[(Get NFSProvisionerK req, Inr y)]" "t' @ t''"]
    by (simp add: guarded_no_create guards.append)
qed

end

text \<open>
  C14. When the spec names no claim, the run creates an object only right after the
  server has answered a lookup of the same kind, namespace and name with an
  error: nothing but logging happens in between.
\<close>

theorem Reconcile_creates_after_lookup:
  assumes "k8s_lib L" and "runs (Reconcile L req) t r"
    and "\<And>y. (Get NFSProvisionerK req, Inr y) \<in> set t \<Longrightarrow> Pvc (Spec (asNFSProvisioner y)) = ''''"
  shows "guarded t"
  using k8s_lib.Reconcile_guarded [OF assms] .

lemma Reconcile_creates_after_lookup_witness:
  "let t = fst (demoRun [] (demoCluster demoSpec [] None))
   in length (filter (\<lambda>(q, _). case q of Create _ \<Rightarrow> True | _ \<Rightarrow> False) t) = 10 \<and> guarded t"
proof -
  let ?t = "fst (demoRun [] (demoCluster demoSpec [] None))"
  have "list_all (\<lambda>(q, r). case (q, r) of
      (Get NFSProvisionerK n, Inr y) \<Rightarrow> Pvc (Spec (asNFSProvisioner y)) = '''' | _ \<Rightarrow> True) ?t"
    by code_simp
  then have "Pvc (Spec (asNFSProvisioner y)) = ''''"
    if "(Get NFSProvisionerK demoReq, Inr y) \<in> set ?t" for y
    using that by (fastforce simp: list_all_iff)
  from Reconcile_creates_after_lookup [OF demoLib demoRun_runs this] have "guarded ?t" .
  moreover have "length (filter (\<lambda>(q, _). case q of Create _ \<Rightarrow> True | _ \<Rightarrow> False) ?t) = 10"
    by code_simp
  ultimately show ?thesis by (simp add: Let_def)
qed

section \<open>The number of calls\<close>

context k8s_lib
begin

lemma Reconcile_calls:
  assumes "runs (Reconcile L req) t r"
  shows "api_calls t \<le> 26"
  using assms
proof (cases rule: Reconcile_run)
  case not_fetched
  then show ?thesis by (auto elim: fetch_run)
next
  case (rejected y t' err)
  then show ?thesis by (auto elim!: reject_run)
next
  case (stopped y t')
  then show ?thesis using calls_at_mostD [OF ensureAll_calls] by fastforce
next
  case (finished y t' t'')
  then show ?thesis
    using calls_at_mostD [OF ensureAll_calls, of _ _ t' "Inr ()"]
      calls_at_mostD [OF finalize_calls, of _ _ t'' "Inl r"] by fastforce
qed

end

section \<open>Invalid specs\<close>

text \<open>
  C27. A resource whose spec is rejected is not acted upon: the run makes one
  further call, which writes the rejection into the status with an empty node
  list, and asks for no requeue; it fails exactly when that call fails.
\<close>

theorem Reconcile_rejects_invalid:
  assumes "runs (Reconcile L req) ((Get NFSProvisionerK req, Inr (NFSProvisionerO m)) # t) r"
    and "validate m = Some err"
  shows "\<exists>answer. filter (\<lambda>(q, _). \<not> is_log q) t =
      [(StatusUpdate (NFSProvisionerO (m\<lparr>Status := \<lparr>Nodes = Some [], Error =
           ''pvc: '' @ Pvc (Spec m) @ '' | sc: '' @ SCForNFSPvc (Spec m) @
           '' | hostPathDir: '' @ HostPathDir (Spec m)\<rparr>\<rparr>)), answer)] \<and>
    (\<exists>a. (LogError (RLog req) err (specMessage m) [], a) \<in> set t) \<and>
    r = Return \<lparr>Requeue = False\<rparr> (case answer of Inl e \<Rightarrow> Some e | Inr _ \<Rightarrow> None)"
  using assms(1)
proof (cases rule: Reconcile_run)
  case not_fetched
  then show ?thesis by (auto elim: fetch_run)
next
  case (rejected y t' err')
  from \<open>runs (rejectInvalid _ _) t' _\<close> show ?thesis
    by (cases rule: reject_run) (use rejected assms(2) in \<open>auto simp: specMessage_def\<close>)
qed (use assms(2) in auto)

definition badSpec :: NFSProvisionerSpec where
  "badSpec = demoSpec\<lparr>Pvc := ''claim'', HostPathDir := ''/nfs''\<rparr>"

lemma Reconcile_rejects_invalid_witness:
  "\<exists>a. (LogError (RLog demoReq) (Errorf ''scForPvc or hostPathDir can not set with Pvc'')
      ''pvc: claim | sc:  | hostPathDir: /nfs'' [], a)
    \<in> set (tl (fst (demoRun [] (demoCluster badSpec [] None))))"
proof -
  let ?m = "demoCR badSpec [] None"
  have v: "validate ?m = Some (Errorf ''scForPvc or hostPathDir can not set with Pvc'')"
    and msg: "specMessage ?m = ''pvc: claim | sc:  | hostPathDir: /nfs''"
    by code_simp+
  from Reconcile_rejects_invalid [OF demoRun_fetch v] msg show ?thesis by auto
qed

section \<open>The finalizer protects the clean-up\<close>

text \<open>
  One cluster-wide role has been dealt with: its lookup failed, or it was found
  and the object found was deleted successfully.
\<close>

definition swept :: "kind \<Rightarrow> string \<Rightarrow> event list \<Rightarrow> bool" where
  "swept k name t \<longleftrightarrow>
     (\<exists>e. t = [(Get k (nn '''' name), Inl e)]) \<or>
     (\<exists>y msg a z. t = [(Get k (nn '''' name), Inr y), (LogInfo PkgLog msg [], a), (Delete y, Inr z)])"

lemma deleteIfFound_swept: "runs (deleteIfFound k name msg failmsg kvs) t (Inr ()) \<Longrightarrow> swept k name t"
  by (auto elim!: deleteIfFound_run simp: swept_def)

lemma deleteExternal_swept:
  assumes "runs (deleteExternalResources m) t (Inr ())"
  obtains t1 t2 where "t = t1 @ t2" "swept ClusterRoleK ClusterRole_default t1"
    "swept ClusterRoleBindingK ClusterRoleBinding_default t2"
proof -
  from assms show thesis
    unfolding deleteExternalResources_def
  proof (cases rule: runs_andthenE)
    case (continued t1 t2 a)
    then show thesis by (intro that) (auto intro: deleteIfFound_swept)
  qed simp
qed

context k8s_lib
begin

lemma finalize_released:
  assumes "runs (finalizeNFSProvisioner L lg m) t x"
    and "(Update (NFSProvisionerO m'), a) \<in> set t" "finalizerName \<notin> set (om_finalizers (nfs_meta m'))"
  shows "\<exists>d1 d2 e logs. t = d1 @ d2 @ e # (Update (NFSProvisionerO m'), a) # logs \<and>
    is_log (fst e) \<and> list_all is_log (map fst logs) \<and>
    swept ClusterRoleK ClusterRole_default d1 \<and> swept ClusterRoleBindingK ClusterRoleBinding_default d2"
proof -
  have no_update: "(Update z, a) \<notin> set d"
    if "swept ClusterRoleK ClusterRole_default d \<or> swept ClusterRoleBindingK ClusterRoleBinding_default d"
    for z d using that by (auto simp: swept_def)
  have released: "\<exists>d1 d2 e logs. d @ (e0, b) # (Update (NFSProvisionerO m''), a'') # logs0 =
      d1 @ d2 @ e # (Update (NFSProvisionerO m'), a) # logs \<and>
      is_log (fst e) \<and> list_all is_log (map fst logs) \<and>
      swept ClusterRoleK ClusterRole_default d1 \<and> swept ClusterRoleBindingK ClusterRoleBinding_default d2"
    if "runs (deleteExternalResources m) d (Inr ())" "is_log e0" "list_all is_log (map fst logs0)"
      "(Update (NFSProvisionerO m'), a) \<in> set (d @ (e0, b) # (Update (NFSProvisionerO m''), a'') # logs0)"
    for d e0 b m'' a'' logs0
  proof -
    from that(1) obtain t1 t2 where d: "d = t1 @ t2" "swept ClusterRoleK ClusterRole_default t1"
      "swept ClusterRoleBindingK ClusterRoleBinding_default t2" by (rule deleteExternal_swept)
    have "(Update (NFSProvisionerO m'), a) \<notin> set logs0" "(Update (NFSProvisionerO m'), a) \<notin> set d"
      using that(3) d no_update by (force simp: list_all_iff)+
    with that(2,4) have "m'' = m'" "a'' = a" by auto
    with d that(2,3) show ?thesis
      by (intro exI [of _ t1] exI [of _ t2] exI [of _ "(e0, b)"] exI [of _ logs0]) simp
  qed
  from assms(1) show ?thesis
  proof (cases rule: finalize_run)
    case (cleanup_failed t1 e msg r)
    then have "(Update (NFSProvisionerO m'), a) \<in> set t1" using assms(2) by simp
    with cleanup_failed(3) show ?thesis
      unfolding deleteExternalResources_def by (auto elim!: runs_andthenE deleteIfFound_run)
  next
    case (removed t1 r y)
    with assms(2) released [of t1 "LogInfo lg ''Removing Finalizer for the NFSProvisioner'' []" "[]"]
    show ?thesis by simp
  next
    case (remove_failed t1 r e msg r')
    with assms(2) released [of t1 "LogInfo lg ''Removing Finalizer for the NFSProvisioner'' []"
        "[(LogError lg e msg [], r')]"]
    show ?thesis by simp
  qed (use assms(2,3) in auto)
qed

lemma Reconcile_released:
  assumes "runs (Reconcile L req) t r"
    and "(Update (NFSProvisionerO m'), a) \<in> set t" "finalizerName \<notin> set (om_finalizers (nfs_meta m'))"
  shows "\<exists>u d1 d2 e logs. t = u @ d1 @ d2 @ e # (Update (NFSProvisionerO m'), a) # logs \<and>
    is_log (fst e) \<and> list_all is_log (map fst logs) \<and>
    swept ClusterRoleK ClusterRole_default d1 \<and> swept ClusterRoleBindingK ClusterRoleBinding_default d2"
proof -
  have none: "(Update z, b) \<notin> set t'" if "runs (ensureAll L lg n) t' x" for z b lg n t' x
  proof -
    have "obeys (\<lambda>t _. requests_in (\<lambda>q. \<forall>z. q \<noteq> Update z) t) (ensureAll L lg n)"
      by (rule ensureAll_requests) auto
    with that have "requests_in (\<lambda>q. \<forall>z. q \<noteq> Update z) t'" unfolding obeys_def by blast
    then show ?thesis by (auto dest: requests_inD)
  qed
  from assms(1) show ?thesis
  proof (cases rule: Reconcile_run)
    case (finished y t' t'')
    with assms(2) none have "(Update (NFSProvisionerO m'), a) \<in> set t''" by auto
    from finalize_released [OF finished(4) this assms(3)] obtain d1 d2 e logs where
      "t'' = d1 @ d2 @ e # (Update (NFSProvisionerO m'), a) # logs" "is_log (fst e)"
      "list_all is_log (map fst logs)" "swept ClusterRoleK ClusterRole_default d1"
      "swept ClusterRoleBindingK ClusterRoleBinding_default d2" by blast
    with finished(1) show ?thesis
      by (intro exI [of _ "(Get NFSProvisionerK req, Inr y) # t'"] exI [of _ d1] exI [of _ d2]
          exI [of _ e] exI [of _ logs]) simp
  qed (use assms(2) none in \<open>auto elim!: fetch_run reject_run\<close>)
qed

end

text \<open>
  C6. The operator's finalizer is given up only after the clean-up: the update that
  removes it is the last call of the run, and the calls right before it looked up
  the ClusterRole and then the ClusterRoleBinding and deleted each of them that
  was found.
\<close>

theorem Reconcile_releases_after_cleanup:
  assumes "k8s_lib L" and "runs (Reconcile L req) t r"
    and "(Update (NFSProvisionerO m'), a) \<in> set t"
    and "finalizerName \<notin> set (om_finalizers (nfs_meta m'))"
  shows "\<exists>u d1 d2 e logs. t = u @ d1 @ d2 @ e # (Update (NFSProvisionerO m'), a) # logs \<and>
    is_log (fst e) \<and> list_all is_log (map fst logs) \<and>
    swept ClusterRoleK ClusterRole_default d1 \<and> swept ClusterRoleBindingK ClusterRoleBinding_default d2"
  using k8s_lib.Reconcile_released [OF assms] .

lemma Reconcile_releases_after_cleanup_witness:
  "\<exists>u d1 d2 e q logs. fst (demoRun [] (demoCluster demoSpec [finalizerName] (Some 5))) =
       u @ d1 @ d2 @ e # q # logs \<and>
     swept ClusterRoleK ClusterRole_default d1 \<and> swept ClusterRoleBindingK ClusterRoleBinding_default d2"
proof -
  let ?t = "fst (demoRun [] (demoCluster demoSpec [finalizerName] (Some 5)))"
  have "list_ex (\<lambda>(q, a). case q of
      Update (NFSProvisionerO m') \<Rightarrow> finalizerName \<notin> set (om_finalizers (nfs_meta m'))
    | _ \<Rightarrow> False) ?t" by code_simp
  then obtain m' a where "(Update (NFSProvisionerO m'), a) \<in> set ?t"
    "finalizerName \<notin> set (om_finalizers (nfs_meta m'))"
    by (auto simp: list_ex_iff split: request.splits kobj.splits)
  from Reconcile_releases_after_cleanup [OF demoLib demoRun_runs this] show ?thesis by metis
qed

section \<open>Panics\<close>

context k8s_lib
begin

lemma ensureAll_panics:
  assumes "runs (ensureAll L lg m) t (Inl (Panic p))"
  shows "HostPathDir (Spec m) = '''' \<and> p = pvcSizeOf m \<and> MustParse L p = None \<and>
    (\<exists>u e. t = u @ [(Get PersistentVolumeClaimK (nn (nfsNamespace m) (pvcNameOf m)), Inl e)] \<and>
       IsNotFound L e \<and> runs (ensureSCC L lg m) u (Inr ()))"
proof -
  have no: "\<not> runs blk t' (Inl (Panic p))" if "creating_block blk k n c pre obj lg' msg kvs" for blk t' k n c pre obj lg' msg kvs
    using creating_block.block_run [OF that] by fastforce
  note blocks = no [OF scc.creating_block_axioms] no [OF sa.creating_block_axioms]
    no [OF cr.creating_block_axioms] no [OF crb.creating_block_axioms]
    no [OF role.creating_block_axioms] no [OF rb.creating_block_axioms]
    no [OF dep.creating_block_axioms] no [OF svc.creating_block_axioms] no [OF stc.creating_block_axioms]
  from assms obtain t1 t2 where t: "t = t1 @ t2" "runs (ensureSCC L lg m) t1 (Inr ())"
    and pvc: "runs (ensurePVC L lg m) t2 (Inl (Panic p))"
    unfolding ensureAll_def by (auto elim!: runs_andthenE simp: blocks)
  have host: "HostPathDir (Spec m) = ''''"
    using pvc ensurePVC_hostPath by (cases "HostPathDir (Spec m) = ''''") (auto simp: proceed_def)
  show ?thesis
  proof (cases rule: pvcFor_cases [of L m])
    case panics
    with pvc host have "runs (unless_found PersistentVolumeClaimK (nn (nfsNamespace m) (pvcNameOf m))
        (IsNotFound L) (Ret (Inl (Panic (pvcSizeOf m))))) t2 (Inl (Panic p))"
      by (simp only: ensurePVC_panics)
    with t host panics show ?thesis by (auto elim!: runs_unless_found)
  next
    case (claim c q)
    with pvc host no [OF pvc.creating_block_axioms] show ?thesis by (simp only: ensurePVC_claim Let_def)
  qed
qed

lemma ensureSCC_writes:
  assumes "runs (ensureSCC L lg m) t x"
  shows "requests_in (\<lambda>q. is_write q \<longrightarrow> q = Create (SCCO (sccForNFSProvisioner L m))) t"
proof -
  have "is_log q \<Longrightarrow> \<not> is_write q" for q by (cases q) simp_all
  then have "obeys (\<lambda>t _. requests_in (\<lambda>q. is_write q \<longrightarrow> q = Create (SCCO (sccForNFSProvisioner L m))) t)
      (ensureSCC L lg m)"
    by (intro scc.requests) auto
  with assms show ?thesis unfolding obeys_def by blast
qed

end

text \<open>
  C26. The only panic of the method is that of the quantity parser: the resource
  names no host path, its storage size (or the default) is malformed, and its
  claim does not exist.  The lookup of that claim is the last call of the run, and
  the only write before it is the creation of the SCC.
\<close>

theorem Reconcile_panics_on_bad_size:
  assumes "k8s_lib L" and "runs (Reconcile L req) t (Panic p)" and "genuine t"
  shows "\<exists>m u e. t = (Get NFSProvisionerK req, Inr (NFSProvisionerO m)) # u @
             [(Get PersistentVolumeClaimK (nn (nn_namespace req) (pvcNameOf m)), Inl e)] \<and>
           validate m = None \<and> HostPathDir (Spec m) = '''' \<and>
           p = pvcSizeOf m \<and> MustParse L p = None \<and> IsNotFound L e \<and>
           requests_in (\<lambda>q. is_write q \<longrightarrow> q = Create (SCCO (sccForNFSProvisioner L m))) u"
  using assms(2)
proof (cases rule: Reconcile_run)
  case (stopped y t')
  from stopped(1) assms(3) obtain m where m: "y = NFSProvisionerO m" "nn (nfsNamespace m) (nfsName m) = req"
    by (auto elim: genuine_NFSProvisioner)
  with stopped(3) have "runs (ensureAll L (RLog req) m) t' (Inl (Panic p))" by simp
  from k8s_lib.ensureAll_panics [OF assms(1) this] obtain u e where
    u: "t' = u @ [(Get PersistentVolumeClaimK (nn (nfsNamespace m) (pvcNameOf m)), Inl e)]"
      "IsNotFound L e" "runs (ensureSCC L (RLog req) m) u (Inr ())"
    and "HostPathDir (Spec m) = ''''" "p = pvcSizeOf m" "MustParse L p = None" by blast
  moreover have "requests_in (\<lambda>q. is_write q \<longrightarrow> q = Create (SCCO (sccForNFSProvisioner L m))) u"
    using u(3) by (rule k8s_lib.ensureSCC_writes [OF assms(1)])
  ultimately show ?thesis using stopped(1,2) m by auto
qed (auto elim!: fetch_run reject_run finalize_run)

lemma Reconcile_panics_on_bad_size_witness:
  "\<exists>u e. tl (fst (demoRun [] (demoCluster (demoSpec\<lparr>StorageSize := ''bad''\<rparr>) [] None))) =
     u @ [(Get PersistentVolumeClaimK (nn ''ns'' ''nfs-server''), Inl e)]"
proof -
  let ?spec = "demoSpec\<lparr>StorageSize := ''bad''\<rparr>"
  have "snd (demoRun [] (demoCluster ?spec [] None)) = Panic ''bad''" by code_simp
  with demoRun_runs [of "[]" "demoCluster ?spec [] None"]
  have "runs (Reconcile demoLib demoReq) (fst (demoRun [] (demoCluster ?spec [] None))) (Panic ''bad'')"
    by simp
  from Reconcile_panics_on_bad_size [OF demoLib this demoRun_genuine] demoRun_starts [of ?spec "[]" None]
  obtain u e where "tl (fst (demoRun [] (demoCluster ?spec [] None))) = u @
      [(Get PersistentVolumeClaimK (nn (nn_namespace demoReq) (pvcNameOf (demoCR ?spec [] None))), Inl e)]"
    by auto
  moreover have "nn_namespace demoReq = ''ns''" "pvcNameOf (demoCR ?spec [] None) = ''nfs-server''"
    by code_simp+
  ultimately show ?thesis by auto
qed

section \<open>Completeness of a run that asks for a requeue\<close>

text \<open>
  The object \<open>k\<close>, \<open>n\<close> is settled by a run that has found it, or created it after
  the lookup answered "not found", or whose lookup failed for another reason.
\<close>

definition settled :: "lib \<Rightarrow> event list \<Rightarrow> kind \<times> NamespacedName \<Rightarrow> bool" where
  "settled L t kn \<longleftrightarrow>
     (\<exists>r. (Get (fst kn) (snd kn), r) \<in> set t \<and> (case r of
        Inr _ \<Rightarrow> True
      | Inl e \<Rightarrow> \<not> IsNotFound L e \<or>
          (\<exists>x y. (Create x, Inr y) \<in> set t \<and> key_of x = mkKey (fst kn) (snd kn))))"

lemma settled_mono: "settled L t kn \<Longrightarrow> set t \<subseteq> set t' \<Longrightarrow> settled L t' kn"
  unfolding settled_def by (fastforce split: sum.splits)

text \<open>
  What \<open>Reconcile\<close> makes sure of: no claim when the volume is a host path or the
  spec names a claim, no storage class when the spec names one.
\<close>

definition required :: "NFSProvisioner \<Rightarrow> (kind \<times> NamespacedName) list" where
  "required m =
     [(SCCK, nn '''' ''nfs-provisioner'')] @
     (if HostPathDir (Spec m) \<noteq> '''' \<or> Pvc (Spec m) \<noteq> '''' then []
      else [(PersistentVolumeClaimK, nn (nfsNamespace m) Pvc_default)]) @
     [(ServiceAccountK, nn (nfsNamespace m) ServiceAccount_default),
      (ClusterRoleK, nn '''' ClusterRole_default),
      (ClusterRoleBindingK, nn '''' ClusterRoleBinding_default),
      (RoleK, nn (nfsNamespace m) Role_default),
      (RoleBindingK, nn (nfsNamespace m) RoleBinding_default),
      (DeploymentK, nn (nfsNamespace m) Deployment_default),
      (ServiceK, nn (nfsNamespace m) Service_default)] @
     (if SCForNFSProvisioner (Spec m) \<noteq> '''' then []
      else [(StorageClassK, nn '''' SCForNFSProvisioner_default)])"

context managed_block
begin

lemma block_settled:
  assumes "runs blk t (Inr a)" "\<And>e. IsNotFound L e \<Longrightarrow> cond e"
  shows "settled L t (k, n)"
  using assms(1)
proof (cases rule: block_run)
  case (found y)
  then show ?thesis by (simp add: settled_def)
next
  case (skipped e)
  then show ?thesis using assms(2) by (auto simp: settled_def)
next
  case (created e lt y)
  then have "(Get k n, Inl e) \<in> set t" "(Create obj, Inr y) \<in> set t" by simp_all
  then show ?thesis unfolding settled_def using own_key by fastforce
qed simp

end

context k8s_lib
begin

lemma ensurePVC_settled:
  assumes "runs (ensurePVC L lg m) t (Inr a)" "HostPathDir (Spec m) = ''''" "Pvc (Spec m) = ''''"
  shows "settled L t (PersistentVolumeClaimK, nn (nfsNamespace m) Pvc_default)"
proof (cases rule: pvcFor_cases [of L m])
  case panics
  with assms have "runs (unless_found PersistentVolumeClaimK (nn (nfsNamespace m) (pvcNameOf m))
      (IsNotFound L) (Ret (Inl (Panic (pvcSizeOf m))))) t (Inr a)"
    by (simp only: ensurePVC_panics)
  with assms(3) show ?thesis by (auto elim!: runs_unless_found simp: settled_def)
next
  case (claim c q)
  let ?kvs = "[LStr ''PersistentVolumeClaim.Namespace'', LStr (nfsNamespace m),
    LStr ''PersistentVolumeClaim.Name'', LStr Pvc_default]"
  from claim(1) have "managed_block (unless_found PersistentVolumeClaimK (nn (nfsNamespace m) Pvc_default)
      (IsNotFound L) (create_or [LogInfo lg ''Creating a new PersistentVolumeClaim'' ?kvs]
        (PersistentVolumeClaimO c)
        (\<lambda>e. LogError lg e ''Failed to create a new PersistentVolumeClaim'' ?kvs) report))
      PersistentVolumeClaimK (nn (nfsNamespace m) Pvc_default) (IsNotFound L)
      [LogInfo lg ''Creating a new PersistentVolumeClaim'' ?kvs] (PersistentVolumeClaimO c) lg
      ''Failed to create a new PersistentVolumeClaim'' ?kvs"
    by unfold_locales (simp_all add: pvc_key)
  from managed_block.block_settled [OF this, of t a L] assms claim(1) show ?thesis
    by (simp add: ensurePVC_claim Let_def)
qed

lemma ensureAll_settled:
  assumes "runs (ensureAll L lg m) t (Inr a)" "kn \<in> set (required m)"
  shows "settled L t kn"
proof -
  from assms(1) obtain t1 t2 t3 t4 t5 t6 t7 t8 t9 t10 where
    t: "t = t1 @ t2 @ t3 @ t4 @ t5 @ t6 @ t7 @ t8 @ t9 @ t10"
    and r: "runs (ensureSCC L lg m) t1 (Inr ())" "runs (ensurePVC L lg m) t2 (Inr ())"
      "runs (ensureServiceAccount L lg m) t3 (Inr ())" "runs (ensureClusterRole L lg m) t4 (Inr ())"
      "runs (ensureClusterRoleBinding L lg m) t5 (Inr ())" "runs (ensureRole L lg m) t6 (Inr ())"
      "runs (ensureRoleBinding L lg m) t7 (Inr ())" "runs (ensureDeployment L lg m) t8 (Inr ())"
      "runs (ensureService L lg m) t9 (Inr ())" "runs (ensureStorageClass L lg m) t10 (Inr ())"
    unfolding ensureAll_def by (auto elim!: runs_andthenE)
  have lift: "settled L t kn'" if "settled L t' kn'" "t' \<in> {t1, t2, t3, t4, t5, t6, t7, t8, t9, t10}" for t' kn'
    using that(1) by (rule settled_mono) (use that(2) t in auto)
  have "settled L t (StorageClassK, nn '''' SCForNFSProvisioner_default)"
    if "SCForNFSProvisioner (Spec m) = ''''"
    using lift [OF stc.block_settled [OF r(10)]] that by simp
  moreover have "settled L t (PersistentVolumeClaimK, nn (nfsNamespace m) Pvc_default)"
    if "HostPathDir (Spec m) = ''''" "Pvc (Spec m) = ''''"
    using lift [OF ensurePVC_settled [OF r(2) that]] by simp
  ultimately show ?thesis
    using assms(2) lift [OF scc.block_settled [OF r(1)]] lift [OF sa.block_settled [OF r(3)]]
      lift [OF cr.block_settled [OF r(4)]] lift [OF crb.block_settled [OF r(5)]]
      lift [OF role.block_settled [OF r(6)]] lift [OF rb.block_settled [OF r(7)]]
      lift [OF dep.block_settled [OF r(8)]] lift [OF svc.block_settled [OF r(9)]]
    by (simp add: required_def split: if_split_asm; elim disjE; simp)
qed

lemma Reconcile_settled:
  assumes "runs (Reconcile L req) t (Return \<lparr>Requeue = True\<rparr> e)"
  shows "e = None \<and> (\<exists>y t'. t = (Get NFSProvisionerK req, Inr y) # t' \<and>
    validate (asNFSProvisioner y) = None \<and>
    IsZero L (om_deletionTimestamp (nfs_meta (asNFSProvisioner y))) \<and>
    (\<forall>kn \<in> set (required (asNFSProvisioner y)). settled L t' kn))"
  using assms
proof (cases rule: Reconcile_run)
  case not_fetched
  then show ?thesis by (auto elim: fetch_run)
next
  case (rejected y t' err)
  then show ?thesis by (auto elim!: reject_run)
next
  case (stopped y t')
  have "obeys (ends_in (\<lambda>r. \<forall>e. r \<noteq> Return \<lparr>Requeue = True\<rparr> e)) (ensureAll L (RLog req) (asNFSProvisioner y))"
    by (rule ensureAll_ending) simp_all
  with stopped(3) show ?thesis using obeys_returned by (fastforce simp: ends_in_def)
next
  case (finished y t' t'')
  then have "settled L (t' @ t'') kn" if "kn \<in> set (required (asNFSProvisioner y))" for kn
    using ensureAll_settled [OF finished(3) that] by (auto elim: settled_mono)
  with finished(1,2,4) show ?thesis by (auto elim!: finalize_run)
qed

end

text \<open>
  C15. A run that asks for a requeue returns no error, has fetched a resource that
  is valid and not being deleted, and has settled every required object.
\<close>

theorem Reconcile_requeue_settled:
  assumes "k8s_lib L" and "runs (Reconcile L req) t (Return \<lparr>Requeue = True\<rparr> e)" and "genuine t"
  shows "e = None \<and> (\<exists>m t'. t = (Get NFSProvisionerK req, Inr (NFSProvisionerO m)) # t' \<and>
    validate m = None \<and> IsZero L (om_deletionTimestamp (nfs_meta m)) \<and>
    (\<forall>kn \<in> set (required m). settled L t' kn))"
proof -
  from k8s_lib.Reconcile_settled [OF assms(1,2)] obtain y t' where "e = None"
    and t: "t = (Get NFSProvisionerK req, Inr y) # t'" and rest: "validate (asNFSProvisioner y) = None"
      "IsZero L (om_deletionTimestamp (nfs_meta (asNFSProvisioner y)))"
      "\<forall>kn \<in> set (required (asNFSProvisioner y)). settled L t' kn" by blast
  from t assms(3) obtain m where "y = NFSProvisionerO m"
    by (auto elim: genuine_NFSProvisioner)
  with \<open>e = None\<close> t rest show ?thesis by auto
qed


lemma Reconcile_requeue_settled_witness:
  "settled demoLib (tl (fst (demoRun [] (demoCluster demoSpec [] None))))
     (StorageClassK, nn '''' ''nfs'')"
proof -
  have "snd (demoRun [] (demoCluster demoSpec [] None)) = Return \<lparr>Requeue = True\<rparr> None" by code_simp
  with demoRun_runs [of "[]" "demoCluster demoSpec [] None"]
  have "runs (Reconcile demoLib demoReq) (fst (demoRun [] (demoCluster demoSpec [] None)))
      (Return \<lparr>Requeue = True\<rparr> None)" by simp
  from Reconcile_requeue_settled [OF demoLib this demoRun_genuine] demoRun_starts [of demoSpec "[]" None]
  have "\<forall>kn \<in> set (required (demoCR demoSpec [] None)).
      settled demoLib (tl (fst (demoRun [] (demoCluster demoSpec [] None)))) kn" by auto
  moreover have "(StorageClassK, nn '''' ''nfs'') \<in> set (required (demoCR demoSpec [] None))"
    by code_simp
  ultimately show ?thesis by blast
qed

end
