(* ===== verification/NfsServer.thy ===== *)
theory NfsServer
  imports NfsSafety
begin

text \<open>
  The finished controller against a server: what one \<open>Reconcile\<close> does to the
  store, that a second one changes nothing, what the deletion of the resource
  leaves behind, and the states from which the controller makes no progress.
\<close>

section \<open>The keys a run makes sure of\<close>

definition required_keys :: "NFSProvisioner \<Rightarrow> key set" where
  "required_keys m = (\<lambda>(k, n). mkKey k n) ` set (required m)"

definition claimKey :: "NFSProvisioner \<Rightarrow> key" where
  "claimKey m = mkKey PersistentVolumeClaimK (nn (nfsNamespace m) (pvcNameOf m))"

text \<open>
  The resource can be served: its spec is valid, its storage size parses or is not
  needed, and the claim it names exists.
\<close>

definition serviceable :: "lib \<Rightarrow> (key \<Rightarrow> kobj option) \<Rightarrow> NFSProvisioner \<Rightarrow> bool" where
  "serviceable L f m \<longleftrightarrow> validate m = None \<and>
     (HostPathDir (Spec m) = '''' \<longrightarrow> Pvc (Spec m) = '''' \<longrightarrow> MustParse L (pvcSizeOf m) \<noteq> None) \<and>
     (Pvc (Spec m) \<noteq> '''' \<longrightarrow> f (claimKey m) \<noteq> None)"

text \<open>
  The object under a key is what the operator builds for it, up to what the server
  fills in.
\<close>

definition built :: "lib \<Rightarrow> NFSProvisioner \<Rightarrow> key \<Rightarrow> kobj \<Rightarrow> bool" where
  "built L m = built_from (managed_objects L m)"

lemma mkKey_kind [simp]: "fst (mkKey k n) = k"
  by (simp add: mkKey_def)

lemma mkKey_other_kind [simp]: "k \<noteq> k' \<Longrightarrow> mkKey k n \<noteq> mkKey k' n'"
  by (simp add: mkKey_def)

lemma required_kinds: "k \<in> required_keys m \<Longrightarrow> fst k \<noteq> NFSProvisionerK \<and> fst k \<noteq> MemcachedK \<and> fst k \<noteq> PodK"
  by (auto simp: required_keys_def required_def split: if_split_asm)

text \<open>The blocks after the one of the claim, and the keys they make sure of.\<close>

definition ensureRest :: "lib \<Rightarrow> logger \<Rightarrow> NFSProvisioner \<Rightarrow> unit stmt" where
  "ensureRest L lg m =
     andthen (ensureServiceAccount L lg m) (\<lambda>_.
     andthen (ensureClusterRole L lg m) (\<lambda>_.
     andthen (ensureClusterRoleBinding L lg m) (\<lambda>_.
     andthen (ensureRole L lg m) (\<lambda>_.
     andthen (ensureRoleBinding L lg m) (\<lambda>_.
     andthen (ensureDeployment L lg m) (\<lambda>_.
     andthen (ensureService L lg m) (\<lambda>_.
     ensureStorageClass L lg m)))))))"

lemma ensureAll_split:
  "ensureAll L lg m = andthen (ensureSCC L lg m) (\<lambda>_. andthen (ensurePVC L lg m) (\<lambda>_. ensureRest L lg m))"
  by (simp add: ensureAll_def ensureRest_def)

abbreviation anything :: "'k \<Rightarrow> kobj \<Rightarrow> bool" where
  "anything \<equiv> (\<lambda>_ _. True)"

definition restKeys :: "NFSProvisioner \<Rightarrow> key set" where
  "restKeys m =
      {mkKey ServiceAccountK (nn (nfsNamespace m) ServiceAccount_default)} \<union>
      ({mkKey ClusterRoleK (nn '''' ClusterRole_default)} \<union>
      ({mkKey ClusterRoleBindingK (nn '''' ClusterRoleBinding_default)} \<union>
      ({mkKey RoleK (nn (nfsNamespace m) Role_default)} \<union>
      ({mkKey RoleBindingK (nn (nfsNamespace m) RoleBinding_default)} \<union>
      ({mkKey DeploymentK (nn (nfsNamespace m) Deployment_default)} \<union>
      ({mkKey ServiceK (nn (nfsNamespace m) Service_default)} \<union>
      (if SCForNFSProvisioner (Spec m) \<noteq> '''' then {}
       else {mkKey StorageClassK (nn '''' SCForNFSProvisioner_default)})))))))"

lemma required_keys_split:
  "required_keys m =
     {mkKey SCCK (nn '''' ''nfs-provisioner'')} \<union>
     ((if HostPathDir (Spec m) \<noteq> '''' \<or> Pvc (Spec m) \<noteq> '''' then {}
       else {mkKey PersistentVolumeClaimK (nn (nfsNamespace m) Pvc_default)}) \<union> restKeys m)"
  by (simp add: required_keys_def required_def restKeys_def) blast

section \<open>The creation blocks\<close>

context healthy_server
begin

lemma achieves_found:
  assumes "mkKey k n \<in> A"
  shows "achieves srv store A B {} (unless_found k n cond body)"
  unfolding achieves_def
proof (intro allI impI)
  fix s
  assume "\<forall>k. k \<in> A \<longrightarrow> store s k \<noteq> None"
  with assms have "store s (mkKey k n) \<noteq> None" by blast
  then show "\<exists>s'. exec srv (unless_found k n cond body) s = (Inr (), s') \<and> ensured B {} (store s) (store s')"
    by (cases rule: get_cases [of k n s]) (auto simp: unless_found_def proceed_def intro: ensured_refl)
qed

lemma achieves_lookup:
  assumes "\<And>e. \<not> cond e"
  shows "achieves srv store A B {} (unless_found k n cond body)"
  unfolding achieves_def
proof (intro allI impI)
  fix s
  show "\<exists>s'. exec srv (unless_found k n cond body) s = (Inr (), s') \<and> ensured B {} (store s) (store s')"
    by (cases rule: get_cases [of k n s]) (auto simp: assms unless_found_def proceed_def intro: ensured_refl)
qed

lemma managed_members [simp]:
  "SCCO (sccForNFSProvisioner L m) \<in> set (managed_objects L m)"
  "ServiceAccountO (serviceAccountForNFSProvisioner L m) \<in> set (managed_objects L m)"
  "ClusterRoleO (clusterRoleForNFSProvisioner L m) \<in> set (managed_objects L m)"
  "ClusterRoleBindingO (clusterRoleBindingForNFSProvisioner L m) \<in> set (managed_objects L m)"
  "RoleO (roleForNFSProvisioner L m) \<in> set (managed_objects L m)"
  "RoleBindingO (roleBindingForNFSProvisioner L m) \<in> set (managed_objects L m)"
  "DeploymentO (io_value (deploymentForNFSProvisioner L m (storageTypeOf m))) \<in> set (managed_objects L m)"
  "ServiceO (serviceForNFSProvisioner L m) \<in> set (managed_objects L m)"
  "SCForNFSProvisioner (Spec m) = '''' \<Longrightarrow>
     StorageClassO (storageclassForNFSProvisioner L m) \<in> set (managed_objects L m)"
  "HostPathDir (Spec m) = '''' \<Longrightarrow> pvcForNFSProvisioner L m = Inr c \<Longrightarrow>
     PersistentVolumeClaimO c \<in> set (managed_objects L m)"
  by (simp_all add: managed_objects_def)

lemma built_block:
  assumes "managed_block blk k n cond pre obj lg msg kvs" "addressable (mkKey k n)"
    and "\<And>e. IsNotFound L e \<Longrightarrow> cond e"
    and "om_finalizers (kobj_meta obj) = []" "obj \<in> set (managed_objects L m)"
  shows "achieves srv store A (built L m) {mkKey k n} blk"
proof (rule block_achieves [OF assms(1-4)])
  have "key_of obj = mkKey k n"
    using assms(1) by (simp add: managed_block_def creating_block_def managed_block_axioms_def)
  then show "same_spec obj y \<Longrightarrow> built L m (mkKey k n) y" for y
    using assms(5) built_from_member [of obj "managed_objects L m" y] by (simp add: built_def)
qed

lemma pvc_managed:
  assumes "pvcForNFSProvisioner L m = Inr c"
  shows "managed_block (unless_found PersistentVolumeClaimK (nn (nfsNamespace m) Pvc_default)
      (IsNotFound L) (create_or [LogInfo lg ''Creating a new PersistentVolumeClaim'' kvs]
        (PersistentVolumeClaimO c)
        (\<lambda>e. LogError lg e ''Failed to create a new PersistentVolumeClaim'' kvs) report))
      PersistentVolumeClaimK (nn (nfsNamespace m) Pvc_default) (IsNotFound L)
      [LogInfo lg ''Creating a new PersistentVolumeClaim'' kvs] (PersistentVolumeClaimO c) lg
      ''Failed to create a new PersistentVolumeClaim'' kvs"
  by unfold_locales (simp_all add: pvc_key assms)

lemma ensurePVC_achieves:
  assumes ns: "nfsNamespace m \<noteq> ''''"
    and size: "HostPathDir (Spec m) = '''' \<Longrightarrow> Pvc (Spec m) = '''' \<Longrightarrow> MustParse L (pvcSizeOf m) \<noteq> None"
    and named: "Pvc (Spec m) \<noteq> '''' \<Longrightarrow> claimKey m \<in> A"
  shows "achieves srv store A (built L m)
    (if HostPathDir (Spec m) \<noteq> '''' \<or> Pvc (Spec m) \<noteq> '''' then {}
     else {mkKey PersistentVolumeClaimK (nn (nfsNamespace m) Pvc_default)}) (ensurePVC L lg m)"
proof (cases "HostPathDir (Spec m) \<noteq> ''''")
  case True
  then show ?thesis by (simp add: ensurePVC_hostPath)
next
  case host: False
  show ?thesis
  proof (cases "Pvc (Spec m) \<noteq> ''''")
    case True
    with named have "mkKey PersistentVolumeClaimK (nn (nfsNamespace m) (pvcNameOf m)) \<in> A"
      by (simp add: claimKey_def)
    from achieves_found [OF this] host True show ?thesis
      by (cases rule: pvcFor_cases [of L m]) (simp_all add: ensurePVC_panics ensurePVC_claim Let_def)
  next
    case False
    with host size obtain c where c: "pvcForNFSProvisioner L m = Inr c"
      by (cases rule: pvcFor_cases [of L m]) auto
    from built_block [OF pvc_managed [OF c], of m A lg] c host ns False show ?thesis
      by (simp add: ensurePVC_claim Let_def)
  qed
qed

lemma storage_class_achieves:
  "achieves srv store A (built L m) (if SCForNFSProvisioner (Spec m) \<noteq> '''' then {}
      else {mkKey StorageClassK (nn '''' SCForNFSProvisioner_default)}) (ensureStorageClass L lg m)"
proof (cases "SCForNFSProvisioner (Spec m) = ''''")
  case True
  with built_block [OF stc.managed_block_axioms, of m m A lg] show ?thesis by (simp add: cluster_scoped_def)
next
  case False
  with achieves_lookup show ?thesis by (simp add: stc.shape)
qed

lemma ensureRest_achieves:
  assumes ns: "nfsNamespace m \<noteq> ''''"
  shows "achieves srv store A (built L m) (restKeys m) (ensureRest L lg m)"
proof -
  have scoped [simp]: "cluster_scoped ClusterRoleK" "cluster_scoped ClusterRoleBindingK" "cluster_scoped StorageClassK"
    by (simp_all add: cluster_scoped_def)
  show ?thesis
    unfolding ensureRest_def restKeys_def
    by (intro achieves_andthen storage_class_achieves built_block [OF sa.managed_block_axioms]
        built_block [OF cr.managed_block_axioms] built_block [OF crb.managed_block_axioms]
        built_block [OF role.managed_block_axioms] built_block [OF rb.managed_block_axioms]
        built_block [OF dep.managed_block_axioms] built_block [OF svc.managed_block_axioms])
      (simp_all add: ns)
qed

lemma ensureAll_achieves:
  assumes "nfsNamespace m \<noteq> ''''" and "HostPathDir (Spec m) = '''' \<Longrightarrow> Pvc (Spec m) = '''' \<Longrightarrow> MustParse L (pvcSizeOf m) \<noteq> None"
    and "Pvc (Spec m) \<noteq> '''' \<Longrightarrow> claimKey m \<in> A"
  shows "achieves srv store A (built L m) (required_keys m) (ensureAll L lg m)"
  unfolding ensureAll_split required_keys_split
  by (intro achieves_andthen ensurePVC_achieves [OF assms] ensureRest_achieves [OF assms(1)]
      built_block [OF scc.managed_block_axioms]) (simp_all add: cluster_scoped_def)

end

section \<open>Running the parts of Reconcile\<close>

text \<open>The key of a resource of this operator.\<close>

abbreviation crKey :: "NFSProvisioner \<Rightarrow> key" where
  "crKey m \<equiv> key_of (NFSProvisionerO m)"

lemma crKey_other [simp]:
  "k \<noteq> NFSProvisionerK \<Longrightarrow> mkKey k n \<noteq> crKey m" "k \<noteq> NFSProvisionerK \<Longrightarrow> crKey m \<noteq> mkKey k n"
  by (simp_all add: key_of_def)

lemma crKey_not_required [simp]: "crKey m \<notin> required_keys m'"
  using required_kinds [of "crKey m" m'] by (auto simp: key_of_def)

text \<open>\<open>m'\<close> is \<open>m\<close> with the finalizers \<open>fs\<close>.\<close>

definition refinalized :: "NFSProvisioner \<Rightarrow> string list \<Rightarrow> NFSProvisioner \<Rightarrow> bool" where
  "refinalized m fs m' \<longleftrightarrow> crKey m' = crKey m \<and> Spec m' = Spec m \<and> Status m' = Status m \<and>
     om_deletionTimestamp (nfs_meta m') = om_deletionTimestamp (nfs_meta m) \<and>
     om_finalizers (nfs_meta m') = fs"

lemma updated_NFSProvisioner:
  assumes "updated (NFSProvisionerO m) (NFSProvisionerO x) w" "crKey x = crKey m" "Spec x = Spec m"
  obtains m' where "w = NFSProvisionerO m'" "refinalized m (om_finalizers (nfs_meta x)) m'"
proof -
  from assms obtain m' where w: "w = NFSProvisionerO m'" "Spec m' = Spec m"
    by (cases w) (auto simp: updated_def)
  from assms w have "Status (m'\<lparr>Status := Status m\<rparr>) = Status m'" by (simp add: updated_def)
  with assms w that show thesis by (simp add: updated_def refinalized_def)
qed

context healthy_server
begin

lemma Reconcile_passes:
  assumes "store s (mkKey NFSProvisionerK req) = Some (NFSProvisionerO m)" "validate m = None"
    and "\<And>s1. store s1 = store s \<Longrightarrow>
      \<exists>s2. exec srv (ensureAll L (RLog req) m) s1 = (Inr (), s2) \<and> P (store s2)"
    and "\<And>s2. P (store s2) \<Longrightarrow>
      \<exists>s3. exec srv (finalizeNFSProvisioner L (RLog req) m) s2 = (Inl r, s3) \<and> Q (store s3)"
  shows "\<exists>s'. exec srv (Reconcile L req) s = (r, s') \<and> Q (store s')"
proof (cases rule: get_cases [of NFSProvisionerK req s])
  case (found x s1)
  with assms(1) have x: "x = NFSProvisionerO m" by simp
  from assms(3) [OF found(3)] obtain s2 where
    s2: "exec srv (ensureAll L (RLog req) m) s1 = (Inr (), s2)" "P (store s2)" by blast
  from assms(4) [OF s2(2)] obtain s3 where
    "exec srv (finalizeNFSProvisioner L (RLog req) m) s2 = (Inl r, s3)" "Q (store s3)" by blast
  with found(1) x s2 assms(2) show ?thesis
    by (simp add: Reconcile_def Reconcile_body_def fetchNFSProvisioner_def rejectInvalid_def
        proceed_def exec_prog_bind exec_andthen)
next
  case (absent e s1)
  with assms(1) show ?thesis by simp
qed

lemma Reconcile_stops:
  assumes "store s (mkKey NFSProvisionerK req) = Some (NFSProvisionerO m)" "validate m = None"
    and "\<And>s1. store s1 = store s \<Longrightarrow>
      \<exists>s2 r. exec srv (ensureAll L (RLog req) m) s1 = (Inl r, s2) \<and> Q r (store s2)"
  shows "\<exists>s' r. exec srv (Reconcile L req) s = (r, s') \<and> Q r (store s')"
proof (cases rule: get_cases [of NFSProvisionerK req s])
  case (found x s1)
  with assms(1) have x: "x = NFSProvisionerO m" by simp
  from assms(3) [OF found(3)] obtain s2 r where
    "exec srv (ensureAll L (RLog req) m) s1 = (Inl r, s2)" "Q r (store s2)" by blast
  with found(1) x assms(2) show ?thesis
    by (simp add: Reconcile_def Reconcile_body_def fetchNFSProvisioner_def rejectInvalid_def
        proceed_def exec_prog_bind exec_andthen)
next
  case (absent e s1)
  with assms(1) show ?thesis by simp
qed

lemma log_call:
  assumes "is_log q"
  obtains r s' where "srv q s = (r, s')" "store s' = store s"
proof -
  obtain r s' where q: "srv q s = (r, s')" by (cases "srv q s")
  have "\<not> is_write q" using assms by (cases q) auto
  with q that show thesis by (auto dest: reads)
qed

lemma exec_update:
  assumes "store s (key_of x) = Some z"
  obtains y s' where "srv (Update x) s = (Inr y, s')"
    "if \<not> IsZero L (om_deletionTimestamp (kobj_meta z)) \<and> om_finalizers (kobj_meta x) = []
     then store s' = (store s)(key_of x := None)
     else \<exists>w. store s' = (store s)(key_of x \<mapsto> w) \<and> updated z x w"
proof -
  from update_accepts [OF assms] obtain y s' where u: "srv (Update x) s = (Inr y, s')"
    by (metis prod.collapse)
  from update_ok [OF u] assms that [OF u] show thesis by auto
qed

lemma finalize_live:
  assumes "IsZero L (om_deletionTimestamp (nfs_meta m))" "store s (crKey m) = Some (NFSProvisionerO m)"
  shows "\<exists>s' m'. exec srv (finalizeNFSProvisioner L lg m) s = (Inl (Return \<lparr>Requeue = True\<rparr> None), s') \<and>
    store s' = (store s)(crKey m \<mapsto> NFSProvisionerO m') \<and>
    refinalized m (om_finalizers (AddFinalizer L (nfs_meta m) finalizerName)) m' \<and>
    (finalizerName \<in> set (om_finalizers (nfs_meta m)) \<longrightarrow> m' = m)"
proof (cases "finalizerName \<in> set (om_finalizers (nfs_meta m))")
  case True
  with assms show ?thesis
    by (intro exI [of _ s] exI [of _ m])
      (auto simp: finalizeNFSProvisioner_def returns_def refinalized_def addFinalizer fun_upd_idem)
next
  case False
  let ?x = "m\<lparr>nfs_meta := AddFinalizer L (nfs_meta m) finalizerName\<rparr>"
  obtain r s1 where log: "srv (LogInfo lg ''Adding Finalizer for the NFSProvisioner'' []) s = (r, s1)"
      "store s1 = store s"
    by (rule log_call [of "LogInfo lg ''Adding Finalizer for the NFSProvisioner'' []" s]) simp_all
  have key: "crKey ?x = crKey m" by (simp add: key_of_def)
  with assms(2) log(2) have "store s1 (crKey ?x) = Some (NFSProvisionerO m)" by simp
  then obtain y s2 where u: "srv (Update (NFSProvisionerO ?x)) s1 = (Inr y, s2)"
    and upd: "\<exists>w. store s2 = (store s1)(crKey m \<mapsto> w) \<and> updated (NFSProvisionerO m) (NFSProvisionerO ?x) w"
    using assms(1) key by (elim exec_update) auto
  from upd key obtain m' where "store s2 = (store s1)(crKey m \<mapsto> NFSProvisionerO m')"
    "refinalized m (om_finalizers (AddFinalizer L (nfs_meta m) finalizerName)) m'"
    by (elim exE conjE updated_NFSProvisioner) auto
  with u log assms(1) False show ?thesis
    by (intro exI [of _ s2] exI [of _ m']) (simp add: finalizeNFSProvisioner_def returns_def)
qed

end

section \<open>Convergence\<close>

context healthy_server
begin

lemma fetched_namespace:
  assumes "store s (mkKey NFSProvisionerK req) = Some (NFSProvisionerO m)"
  shows "nfsNamespace m \<noteq> ''''"
  using addressed [OF assms] keyed [OF assms] by (simp add: key_of_def mkKey_def addressable_def cluster_scoped_def)

lemma ensureAll_exec:
  assumes "serviceable L (store s) m" and ns: "nfsNamespace m \<noteq> ''''"
  obtains s' where "exec srv (ensureAll L lg m) s = (Inr (), s')"
    "ensured (built L m) (required_keys m) (store s) (store s')"
proof -
  let ?A = "if Pvc (Spec m) \<noteq> '''' then {claimKey m} else {}"
  have "validate m = None" using assms by (simp add: serviceable_def)
  then have "achieves srv store ?A (built L m) (required_keys m) (ensureAll L lg m)"
    by (intro ensureAll_achieves ns) (use assms in \<open>auto simp: serviceable_def\<close>)
  moreover have "store s k \<noteq> None" if "k \<in> ?A" for k
    using that assms by (auto simp: serviceable_def split: if_split_asm)
  ultimately show thesis using that by (rule achievesD)
qed

lemma key_of_fetched:
  "store s (mkKey NFSProvisionerK req) = Some (NFSProvisionerO m) \<Longrightarrow> mkKey NFSProvisionerK req = crKey m"
  by (drule keyed) simp

lemma Reconcile_converges_lemma:
  assumes cr: "store s (mkKey NFSProvisionerK req) = Some (NFSProvisionerO m)"
    and live: "IsZero L (om_deletionTimestamp (nfs_meta m))" and ok: "serviceable L (store s) m"
  shows "\<exists>s'. exec srv (Reconcile L req) s = (Return \<lparr>Requeue = True\<rparr> None, s') \<and>
    (\<exists>f m'. ensured (built L m) (required_keys m) (store s) f \<and> store s' = f(crKey m \<mapsto> NFSProvisionerO m') \<and>
      refinalized m (om_finalizers (AddFinalizer L (nfs_meta m) finalizerName)) m' \<and>
      (finalizerName \<in> set (om_finalizers (nfs_meta m)) \<longrightarrow> m' = m))"
proof (rule Reconcile_passes [OF cr])
  show "validate m = None" using ok by (simp add: serviceable_def)
next
  fix s1
  assume "store s1 = store s"
  with ok show "\<exists>s2. exec srv (ensureAll L (RLog req) m) s1 = (Inr (), s2) \<and>
      ensured (built L m) (required_keys m) (store s) (store s2)"
    using ensureAll_exec [OF _ fetched_namespace [OF cr], of s1 "RLog req"] by metis
next
  fix s2
  assume e: "ensured (built L m) (required_keys m) (store s) (store s2)"
  with cr have "store s2 (crKey m) = Some (NFSProvisionerO m)"
    using ensured_keeps key_of_fetched [OF cr] by metis
  from finalize_live [OF live this] e
  show "\<exists>s3. exec srv (finalizeNFSProvisioner L (RLog req) m) s2 =
      (Inl (Return \<lparr>Requeue = True\<rparr> None), s3) \<and>
    (\<exists>f m'. ensured (built L m) (required_keys m) (store s) f \<and> store s3 = f(crKey m \<mapsto> NFSProvisionerO m') \<and>
      refinalized m (om_finalizers (AddFinalizer L (nfs_meta m) finalizerName)) m' \<and>
      (finalizerName \<in> set (om_finalizers (nfs_meta m)) \<longrightarrow> m' = m))"
    by blast
qed

end

text \<open>The store holds the resource with the finalizer, and everything it requires.\<close>

definition served :: "lib \<Rightarrow> NamespacedName \<Rightarrow> (key \<Rightarrow> kobj option) \<Rightarrow> bool" where
  "served L req f \<longleftrightarrow> (\<exists>m. f (mkKey NFSProvisionerK req) = Some (NFSProvisionerO m) \<and>
     IsZero L (om_deletionTimestamp (nfs_meta m)) \<and> serviceable L f m \<and>
     finalizerName \<in> set (om_finalizers (nfs_meta m)) \<and> (\<forall>k \<in> required_keys m. f k \<noteq> None))"

lemma refinalized_spec:
  assumes "refinalized m fs m'"
  shows "Spec m' = Spec m" "nfsNamespace m' = nfsNamespace m" "nfsName m' = nfsName m"
    "required_keys m' = required_keys m" "claimKey m' = claimKey m" "validate m' = validate m"
proof -
  show eqs: "Spec m' = Spec m" "nfsNamespace m' = nfsNamespace m" "nfsName m' = nfsName m"
    using assms by (simp_all add: refinalized_def key_of_def mkKey_def cluster_scoped_def)
  then show "required_keys m' = required_keys m" "claimKey m' = claimKey m" "validate m' = validate m"
    by (simp_all add: required_keys_def required_def claimKey_def validate_def)
qed

text \<open>One run of \<open>Reconcile\<close>, as a step of the server's state.\<close>

definition reconciled :: "(request \<Rightarrow> 's \<Rightarrow> response \<times> 's) \<Rightarrow> lib \<Rightarrow> NamespacedName \<Rightarrow> 's \<Rightarrow> 's" where
  "reconciled srv L req s = snd (exec srv (Reconcile L req) s)"

context healthy_server
begin

lemma served_stable:
  assumes "served L req (store s)"
  shows "exec srv (Reconcile L req) s = (Return \<lparr>Requeue = True\<rparr> None, reconciled srv L req s) \<and>
    store (reconciled srv L req s) = store s"
proof -
  from assms obtain m where m: "store s (mkKey NFSProvisionerK req) = Some (NFSProvisionerO m)"
    "IsZero L (om_deletionTimestamp (nfs_meta m))" "serviceable L (store s) m"
    "finalizerName \<in> set (om_finalizers (nfs_meta m))" "\<And>k. k \<in> required_keys m \<Longrightarrow> store s k \<noteq> None"
    unfolding served_def by blast
  from Reconcile_converges_lemma [OF m(1-3)] m(4) obtain s' f where
    s': "exec srv (Reconcile L req) s = (Return \<lparr>Requeue = True\<rparr> None, s')"
    and f: "ensured (built L m) (required_keys m) (store s) f" "store s' = f(crKey m \<mapsto> NFSProvisionerO m)" by blast
  from f(1) m(5) have "f = store s" by (rule ensured_idle)
  moreover have "store s (crKey m) = Some (NFSProvisionerO m)"
    using m(1) key_of_fetched [OF m(1)] by simp
  ultimately have "store s' = store s" using f(2) by (simp add: fun_upd_idem)
  with s' show ?thesis by (simp add: reconciled_def)
qed

lemma served_iterated:
  assumes "served L req (store s)"
  shows "store ((reconciled srv L req ^^ n) s) = store s"
proof (induction n)
  case (Suc n)
  with assms have "served L req (store ((reconciled srv L req ^^ n) s))" by simp
  from served_stable [OF this] Suc show ?case by simp
qed simp

lemma converges_served:
  assumes cr: "store s (mkKey NFSProvisionerK req) = Some (NFSProvisionerO m)"
    and live: "IsZero L (om_deletionTimestamp (nfs_meta m))" and ok: "serviceable L (store s) m"
  shows "served L req (store (reconciled srv L req s))"
proof -
  from Reconcile_converges_lemma [OF assms] obtain s' f m' where
    s': "exec srv (Reconcile L req) s = (Return \<lparr>Requeue = True\<rparr> None, s')"
    and f: "ensured (built L m) (required_keys m) (store s) f" "store s' = f(crKey m \<mapsto> NFSProvisionerO m')"
    and m': "refinalized m (om_finalizers (AddFinalizer L (nfs_meta m) finalizerName)) m'" by blast
  note same = refinalized_spec [OF m']
  have "store s' (mkKey NFSProvisionerK req) = Some (NFSProvisionerO m')"
    using f(2) key_of_fetched [OF cr] by simp
  moreover have "IsZero L (om_deletionTimestamp (nfs_meta m'))"
    using m' live by (simp add: refinalized_def)
  moreover have "finalizerName \<in> set (om_finalizers (nfs_meta m'))"
    using m' by (simp add: refinalized_def)
  moreover have "store s' k \<noteq> None" if "k \<in> required_keys m \<or> store s k \<noteq> None" for k
    using ensured_exists [OF f(1) that] f(2) by (simp del: not_None_eq)
  ultimately show ?thesis
    using s' ok same unfolding served_def serviceable_def
    by (auto simp: reconciled_def intro!: exI [of _ m'])
qed

end

text \<open>
  C1. Convergence: on a server that answers, one run of \<open>Reconcile\<close> for a live,
  valid resource brings every required object into existence, each new one as the
  operator builds it, and puts the finalizer on the resource; it changes no object
  that was there, creates nothing else and leaves the resource's spec and status
  alone.
\<close>

theorem Reconcile_converges:
  assumes "healthy_server L srv store"
    and "store s (mkKey NFSProvisionerK req) = Some (NFSProvisionerO m)"
    and "IsZero L (om_deletionTimestamp (nfs_meta m))" and "serviceable L (store s) m"
  shows "\<exists>s' f m'. exec srv (Reconcile L req) s = (Return \<lparr>Requeue = True\<rparr> None, s') \<and>
    ensured (built L m) (required_keys m) (store s) f \<and> store s' = f(crKey m \<mapsto> NFSProvisionerO m') \<and>
    refinalized m (om_finalizers (AddFinalizer L (nfs_meta m) finalizerName)) m'"
  using healthy_server.Reconcile_converges_lemma [OF assms] by blast

lemma Reconcile_converges_witness:
  "\<exists>s'. exec mem_srv (Reconcile demoLib demoReq) (demoCluster demoSpec [] None) =
       (Return \<lparr>Requeue = True\<rparr> None, s') \<and>
     mem_store s' (mkKey DeploymentK (nn ''ns'' ''nfs-provisioner'')) \<noteq> None"
proof -
  let ?m = "demoCR demoSpec [] None"
  have "IsZero demoLib (om_deletionTimestamp (nfs_meta ?m))"
    "serviceable demoLib (mem_store (demoCluster demoSpec [] None)) ?m"
    by code_simp+
  from Reconcile_converges [OF demo_healthy demo_fetched this] obtain s' f m' where
    "exec mem_srv (Reconcile demoLib demoReq) (demoCluster demoSpec [] None) =
       (Return \<lparr>Requeue = True\<rparr> None, s')"
    "ensured (built demoLib ?m) (required_keys ?m) (mem_store (demoCluster demoSpec [] None)) f"
    "mem_store s' = f(crKey ?m \<mapsto> NFSProvisionerO m')" by blast
  moreover have "mkKey DeploymentK (nn ''ns'' ''nfs-provisioner'') \<in> required_keys ?m"
    by code_simp
  ultimately show ?thesis
    by (intro exI [of _ s']) (simp del: not_None_eq add: ensured_exists)
qed

text \<open>
  C8. Idempotence, for a live resource on a healthy server: when its spec is valid, its
  storage size parses if the claim has to be created, and the claim the spec names, if it
  names one of its own, exists (\<open>serviceable\<close>), then after the first run any number of
  further runs leave the store as it is, each asking for a requeue.  (A resource being
  deleted that another finalizer holds is different: its second run brings the
  cluster-wide roles back.)
\<close>

theorem Reconcile_idempotent:
  assumes "healthy_server L srv store"
    and "store s (mkKey NFSProvisionerK req) = Some (NFSProvisionerO m)"
    and "IsZero L (om_deletionTimestamp (nfs_meta m))" and "serviceable L (store s) m"
  shows "store ((reconciled srv L req ^^ Suc n) s) = store (reconciled srv L req s) \<and>
    fst (exec srv (Reconcile L req) ((reconciled srv L req ^^ Suc n) s)) =
      Return \<lparr>Requeue = True\<rparr> None"
proof -
  note served = healthy_server.converges_served [OF assms]
  note step = healthy_server.served_iterated [OF assms(1) served]
  have first: "store ((reconciled srv L req ^^ Suc n) s) = store (reconciled srv L req s)"
    using step [of n] by (simp add: funpow_swap1)
  with served have "served L req (store ((reconciled srv L req ^^ Suc n) s))" by simp
  from healthy_server.served_stable [OF assms(1) this] first show ?thesis by simp
qed

lemma Reconcile_idempotent_witness:
  "mem_store ((reconciled mem_srv demoLib demoReq ^^ 5) (demoCluster demoSpec [] None)) =
   mem_store (reconciled mem_srv demoLib demoReq (demoCluster demoSpec [] None))"
proof -
  let ?m = "demoCR demoSpec [] None"
  have "IsZero demoLib (om_deletionTimestamp (nfs_meta ?m))"
    "serviceable demoLib (mem_store (demoCluster demoSpec [] None)) ?m"
    by code_simp+
  from Reconcile_idempotent [OF demo_healthy demo_fetched this, of 4] show ?thesis by simp
qed

section \<open>Deletion\<close>

abbreviation roleKey :: key where
  "roleKey \<equiv> mkKey ClusterRoleK (nn '''' ClusterRole_default)"

abbreviation bindingKey :: key where
  "bindingKey \<equiv> mkKey ClusterRoleBindingK (nn '''' ClusterRoleBinding_default)"

text \<open>Deleting one of the two roles removes it at once: it carries no finalizer.\<close>

definition removable :: "'k set \<Rightarrow> ('k \<Rightarrow> kobj option) \<Rightarrow> bool" where
  "removable K f \<longleftrightarrow> (\<forall>k x. k \<in> K \<longrightarrow> f k = Some x \<longrightarrow> om_finalizers (kobj_meta x) = [])"

lemma removableD: "removable K f \<Longrightarrow> k \<in> K \<Longrightarrow> f k = Some x \<Longrightarrow> om_finalizers (kobj_meta x) = []"
  unfolding removable_def by blast

lemma removable_mono: "removable K f \<Longrightarrow> K' \<subseteq> K \<Longrightarrow> removable K' f"
  unfolding removable_def by blast

lemma removable_del: "removable K f \<Longrightarrow> removable K (f(k := None))"
  by (auto simp: removable_def)

lemma removable_ensured: "removable K f \<Longrightarrow> ensured B K' f g \<Longrightarrow> removable K g"
  unfolding removable_def ensured_def by (metis option.exhaust)

text \<open>
  What the update that removes the finalizer does: the resource disappears when
  no other finalizer is left.
\<close>

definition released :: "NFSProvisioner \<Rightarrow> (key \<Rightarrow> kobj option) \<Rightarrow> (key \<Rightarrow> kobj option) \<Rightarrow> bool" where
  "released m f g \<longleftrightarrow>
     (let fs = filter (\<lambda>g. g \<noteq> finalizerName) (om_finalizers (nfs_meta m))
      in if fs = [] then g = f(crKey m := None)
         else \<exists>m'. g = f(crKey m \<mapsto> NFSProvisionerO m') \<and> refinalized m fs m')"

context healthy_server
begin

lemma deleteIfFound_exec:
  assumes "removable {mkKey k (nn '''' name)} (store s)"
  obtains s' where "exec srv (deleteIfFound k name msg failmsg kvs) s = (Inr (), s')"
    "store s' = (store s)(mkKey k (nn '''' name) := None)"
proof (cases rule: get_cases [of k "nn '''' name" s])
  case (absent e s1)
  then have "store s1 = (store s)(mkKey k (nn '''' name) := None)"
    by (simp add: fun_upd_idem)
  with absent(1) that [of s1] show thesis by (simp add: deleteIfFound_def)
next
  case (found x s1)
  obtain r s2 where log: "srv (LogInfo PkgLog msg []) s1 = (r, s2)" "store s2 = store s1"
    by (rule log_call [of "LogInfo PkgLog msg []" s1]) simp_all
  have key: "key_of x = mkKey k (nn '''' name)" using found(2) by (rule keyed)
  with found log have x: "store s2 (key_of x) = Some x" by simp
  with delete_accepts obtain y s3 where d: "srv (Delete x) s2 = (Inr y, s3)"
    by (metis prod.collapse)
  have "om_finalizers (kobj_meta x) = []" using assms found(2) by (auto dest: removableD)
  with delete_ok [OF d] x have "store s3 = (store s2)(key_of x := None)" by auto
  with found log d key that [of s3] show thesis
    by (simp add: deleteIfFound_def logInfo_def)
qed

lemma deleteExternal_exec:
  assumes "removable {roleKey, bindingKey} (store s)"
  obtains s' where "exec srv (deleteExternalResources m) s = (Inr (), s')"
    "store s' = (store s)(roleKey := None, bindingKey := None)"
proof -
  from assms have 1: "removable {roleKey} (store s)"
    and 2: "removable {bindingKey} ((store s)(roleKey := None))"
    by (blast intro: removable_mono removable_del)+
  obtain s1 where s1: "exec srv (deleteIfFound ClusterRoleK ClusterRole_default
        ''Deleting ClusterRole for NFSProvisioner'' ''Failed to delete ClusterRole for NFSProvisioner''
        [LStr ''ClusterRole.Name'', LStr ClusterRole_default]) s = (Inr (), s1)"
    "store s1 = (store s)(roleKey := None)"
    by (rule deleteIfFound_exec [OF 1])
  with 2 have "removable {bindingKey} (store s1)" by simp
  then obtain s2 where "exec srv (deleteIfFound ClusterRoleBindingK ClusterRoleBinding_default
        ''Deleting ClusterRoleBinding for NFSProvisioner''
        ''Failed to delete ClusterRoleBinding for NFSProvisioner''
        [LStr ''ClusterRoleBinding.Name'', LStr ClusterRoleBinding_default]) s1 = (Inr (), s2)"
    "store s2 = (store s1)(bindingKey := None)"
    by (rule deleteIfFound_exec)
  with s1 that show thesis by (simp add: deleteExternalResources_def exec_andthen)
qed

lemma finalize_deleted:
  assumes "\<not> IsZero L (om_deletionTimestamp (nfs_meta m))" "finalizerName \<in> set (om_finalizers (nfs_meta m))"
    and "store s (crKey m) = Some (NFSProvisionerO m)" "removable {roleKey, bindingKey} (store s)"
  shows "\<exists>s'. exec srv (finalizeNFSProvisioner L lg m) s = (Inl (Return \<lparr>Requeue = False\<rparr> None), s') \<and>
    released m ((store s)(roleKey := None, bindingKey := None)) (store s')"
proof -
  let ?x = "m\<lparr>nfs_meta := RemoveFinalizer L (nfs_meta m) finalizerName\<rparr>"
  obtain s1 where d: "exec srv (deleteExternalResources m) s = (Inr (), s1)"
    "store s1 = (store s)(roleKey := None, bindingKey := None)"
    by (rule deleteExternal_exec [OF assms(4)])
  obtain r s2 where log: "srv (LogInfo lg ''Removing Finalizer for the NFSProvisioner'' []) s1 = (r, s2)"
      "store s2 = store s1"
    by (rule log_call [of "LogInfo lg ''Removing Finalizer for the NFSProvisioner'' []" s1]) simp_all
  have key: "crKey ?x = crKey m" by (simp add: key_of_def)
  with assms(3) log(2) d(2) have "store s2 (crKey ?x) = Some (NFSProvisionerO m)" by simp
  then obtain y s3 where u: "srv (Update (NFSProvisionerO ?x)) s2 = (Inr y, s3)"
    and "if \<not> IsZero L (om_deletionTimestamp (kobj_meta (NFSProvisionerO m))) \<and>
        om_finalizers (kobj_meta (NFSProvisionerO ?x)) = [] then store s3 = (store s2)(crKey ?x := None)
      else \<exists>w. store s3 = (store s2)(crKey ?x \<mapsto> w) \<and> updated (NFSProvisionerO m) (NFSProvisionerO ?x) w"
    by (rule exec_update)
  then have upd: "if om_finalizers (nfs_meta ?x) = [] then store s3 = (store s2)(crKey m := None)
      else \<exists>w. store s3 = (store s2)(crKey m \<mapsto> w) \<and> updated (NFSProvisionerO m) (NFSProvisionerO ?x) w"
    by (simp only: key kobj_meta.simps assms(1) simp_thms)
  have fs: "om_finalizers (nfs_meta ?x) = filter (\<lambda>g. g \<noteq> finalizerName) (om_finalizers (nfs_meta m))"
    by (simp add: removeFinalizer)
  have "released m (store s2) (store s3)"
  proof (cases "om_finalizers (nfs_meta ?x) = []")
    case True
    with upd show ?thesis unfolding released_def Let_def fs [symmetric] by simp
  next
    case False
    with upd obtain w where w: "store s3 = (store s2)(crKey m \<mapsto> w)"
      "updated (NFSProvisionerO m) (NFSProvisionerO ?x) w" by auto
    from w(2) key obtain m' where "w = NFSProvisionerO m'" "refinalized m (om_finalizers (nfs_meta ?x)) m'"
      by (elim updated_NFSProvisioner) auto
    with w False show ?thesis unfolding released_def Let_def fs [symmetric] by auto
  qed
  with d log u assms(1,2) show ?thesis
    by (intro exI [of _ s3]) (simp add: finalizeNFSProvisioner_def returns_def exec_prog_bind)
qed

end

context healthy_server
begin

text \<open>A run for a resource under deletion: the creation blocks first, then the clean-up.\<close>

lemma Reconcile_deleted:
  assumes cr: "store s (mkKey NFSProvisionerK req) = Some (NFSProvisionerO m)"
    and del: "\<not> IsZero L (om_deletionTimestamp (nfs_meta m))" and ok: "serviceable L (store s) m"
    and fin: "finalizerName \<in> set (om_finalizers (nfs_meta m))"
    and roles: "removable {roleKey, bindingKey} (store s)"
  shows "\<exists>s'. exec srv (Reconcile L req) s = (Return \<lparr>Requeue = False\<rparr> None, s') \<and>
    (\<exists>f. ensured (built L m) (required_keys m) (store s) f \<and>
      released m (f(roleKey := None, bindingKey := None)) (store s'))"
proof (rule Reconcile_passes [OF cr])
  show "validate m = None" using ok by (simp add: serviceable_def)
next
  fix s1
  assume "store s1 = store s"
  with ok show "\<exists>s2. exec srv (ensureAll L (RLog req) m) s1 = (Inr (), s2) \<and>
      ensured (built L m) (required_keys m) (store s) (store s2)"
    using ensureAll_exec [OF _ fetched_namespace [OF cr], of s1 "RLog req"] by metis
next
  fix s2
  assume e: "ensured (built L m) (required_keys m) (store s) (store s2)"
  with cr have "store s2 (crKey m) = Some (NFSProvisionerO m)"
    using ensured_keeps key_of_fetched [OF cr] by metis
  from finalize_deleted [OF del fin this removable_ensured [OF roles e]] e
  show "\<exists>s3. exec srv (finalizeNFSProvisioner L (RLog req) m) s2 =
      (Inl (Return \<lparr>Requeue = False\<rparr> None), s3) \<and>
    (\<exists>f. ensured (built L m) (required_keys m) (store s) f \<and>
      released m (f(roleKey := None, bindingKey := None)) (store s3))"
    by blast
qed

lemma Reconcile_recreates:
  assumes cr: "store s (mkKey NFSProvisionerK req) = Some (NFSProvisionerO m)"
    and del: "\<not> IsZero L (om_deletionTimestamp (nfs_meta m))" and ok: "serviceable L (store s) m"
    and fin: "finalizerName \<notin> set (om_finalizers (nfs_meta m))"
  shows "\<exists>s'. exec srv (Reconcile L req) s = (Return \<lparr>Requeue = False\<rparr> None, s') \<and>
    ensured (built L m) (required_keys m) (store s) (store s')"
proof (rule Reconcile_passes [OF cr])
  show "validate m = None" using ok by (simp add: serviceable_def)
next
  fix s1
  assume "store s1 = store s"
  with ok show "\<exists>s2. exec srv (ensureAll L (RLog req) m) s1 = (Inr (), s2) \<and>
      ensured (built L m) (required_keys m) (store s) (store s2)"
    using ensureAll_exec [OF _ fetched_namespace [OF cr], of s1 "RLog req"] by metis
next
  fix s2
  assume "ensured (built L m) (required_keys m) (store s) (store s2)"
  with del fin show "\<exists>s3. exec srv (finalizeNFSProvisioner L (RLog req) m) s2 =
      (Inl (Return \<lparr>Requeue = False\<rparr> None), s3) \<and> ensured (built L m) (required_keys m) (store s) (store s3)"
    by (simp add: finalizeNFSProvisioner_def returns_def)
qed

lemma roles_required: "roleKey \<in> required_keys m" "bindingKey \<in> required_keys m"
  by (simp_all add: required_keys_def required_def)

lemma roles_leak:
  assumes cr: "store s (mkKey NFSProvisionerK req) = Some (NFSProvisionerO m)"
    and del: "\<not> IsZero L (om_deletionTimestamp (nfs_meta m))" and ok: "serviceable L (store s) m"
    and fin: "finalizerName \<in> set (om_finalizers (nfs_meta m))"
    and roles: "removable {roleKey, bindingKey} (store s)"
    and held: "filter (\<lambda>f. f \<noteq> finalizerName) (om_finalizers (nfs_meta m)) \<noteq> []"
  obtains s1 s2 m' where "exec srv (Reconcile L req) s = (Return \<lparr>Requeue = False\<rparr> None, s1)"
    "exec srv (Reconcile L req) s1 = (Return \<lparr>Requeue = False\<rparr> None, s2)"
    "store s1 roleKey = None" "store s1 bindingKey = None"
    "store s2 roleKey \<noteq> None" "store s2 bindingKey \<noteq> None"
    "store s2 (crKey m) = Some (NFSProvisionerO m')" "finalizerName \<notin> set (om_finalizers (nfs_meta m'))"
proof -
  let ?fs = "filter (\<lambda>f. f \<noteq> finalizerName) (om_finalizers (nfs_meta m))"
  from Reconcile_deleted [OF cr del ok fin roles] obtain s1 f where
    s1: "exec srv (Reconcile L req) s = (Return \<lparr>Requeue = False\<rparr> None, s1)"
    and f: "ensured (built L m) (required_keys m) (store s) f"
    and rel: "released m (f(roleKey := None, bindingKey := None)) (store s1)" by blast
  from rel held obtain m' where
    st: "store s1 = f(roleKey := None, bindingKey := None, crKey m \<mapsto> NFSProvisionerO m')"
    and m': "refinalized m ?fs m'" by (auto simp: released_def)
  note same = refinalized_spec [OF m']
  have del': "\<not> IsZero L (om_deletionTimestamp (nfs_meta m'))"
    and fin': "finalizerName \<notin> set (om_finalizers (nfs_meta m'))"
    using m' del by (simp_all add: refinalized_def)
  have "store s1 (claimKey m) = f (claimKey m)" by (simp add: st claimKey_def)
  then have ok': "serviceable L (store s1) m'"
    using ok same ensured_exists [OF f, of "claimKey m"]
    by (auto simp: serviceable_def simp del: not_None_eq)
  have "store s1 (mkKey NFSProvisionerK req) = Some (NFSProvisionerO m')"
    using st key_of_fetched [OF cr] by simp
  from Reconcile_recreates [OF this del' ok' fin'] obtain s2 where
    s2: "exec srv (Reconcile L req) s1 = (Return \<lparr>Requeue = False\<rparr> None, s2)"
    and e: "ensured (built L m') (required_keys m') (store s1) (store s2)" by blast
  have "store s2 (crKey m) = Some (NFSProvisionerO m')"
    by (rule ensured_keeps [OF e]) (simp add: st)
  moreover have "store s1 roleKey = None" "store s1 bindingKey = None" by (simp_all add: st)
  ultimately show thesis
    using s1 s2 fin' ensured_exists [OF e] roles_required that by blast
qed

end

text \<open>
  C7. Deletion, on a healthy server: for a resource that is being deleted and carries the
  finalizer, whose spec is valid and whose named claim exists (\<open>serviceable\<close>), and with
  no finalizer on the two cluster-wide roles (\<open>removable\<close>), one run removes the
  ClusterRole and the ClusterRoleBinding and then the finalizer, with which the resource
  itself goes unless another finalizer holds it.  Before that the run re-creates whatever
  was missing.  Without these conditions it may not be released, for instance when its
  spec is invalid.
\<close>

theorem Reconcile_deletes:
  assumes "healthy_server L srv store"
    and "store s (mkKey NFSProvisionerK req) = Some (NFSProvisionerO m)"
    and "\<not> IsZero L (om_deletionTimestamp (nfs_meta m))" and "serviceable L (store s) m"
    and "finalizerName \<in> set (om_finalizers (nfs_meta m))"
    and "removable {roleKey, bindingKey} (store s)"
  shows "\<exists>s' f. exec srv (Reconcile L req) s = (Return \<lparr>Requeue = False\<rparr> None, s') \<and>
    store s' roleKey = None \<and> store s' bindingKey = None \<and>
    ensured (built L m) (required_keys m) (store s) f \<and>
    released m (f(roleKey := None, bindingKey := None)) (store s')"
proof -
  from healthy_server.Reconcile_deleted [OF assms] obtain s' f where
    s': "exec srv (Reconcile L req) s = (Return \<lparr>Requeue = False\<rparr> None, s')"
      "ensured (built L m) (required_keys m) (store s) f"
      "released m (f(roleKey := None, bindingKey := None)) (store s')" by blast
  then have "store s' roleKey = None \<and> store s' bindingKey = None"
    by (auto simp: released_def Let_def split: if_split_asm)
  with s' show ?thesis by blast
qed

lemma removable_absent: "f k = None \<Longrightarrow> f k' = None \<Longrightarrow> removable {k, k'} f"
  by (auto simp: removable_def)

lemma Reconcile_deletes_witness:
  "mem_store (reconciled mem_srv demoLib demoReq (demoCluster demoSpec [finalizerName] (Some 5))) roleKey = None"
proof -
  let ?m = "demoCR demoSpec [finalizerName] (Some 5)"
  let ?s = "demoCluster demoSpec [finalizerName] (Some 5)"
  have "\<not> IsZero demoLib (om_deletionTimestamp (nfs_meta ?m))"
    "serviceable demoLib (mem_store ?s) ?m" "finalizerName \<in> set (om_finalizers (nfs_meta ?m))"
    by code_simp+
  moreover have "removable {roleKey, bindingKey} (mem_store ?s)" by (rule removable_absent) simp_all
  ultimately show ?thesis
    using Reconcile_deletes [OF demo_healthy demo_fetched] by (fastforce simp: reconciled_def)
qed

text \<open>
  C21. The clean-up does not last when another finalizer still holds the resource:
  the next run finds the resource without its finalizer, creates the ClusterRole
  and the ClusterRoleBinding again, and leaves them behind.
\<close>

theorem Reconcile_leaks_roles:
  assumes "healthy_server L srv store"
    and "store s (mkKey NFSProvisionerK req) = Some (NFSProvisionerO m)"
    and "\<not> IsZero L (om_deletionTimestamp (nfs_meta m))" and "serviceable L (store s) m"
    and "finalizerName \<in> set (om_finalizers (nfs_meta m))"
    and "removable {roleKey, bindingKey} (store s)"
    and "filter (\<lambda>f. f \<noteq> finalizerName) (om_finalizers (nfs_meta m)) \<noteq> []"
  shows "let s1 = reconciled srv L req s; s2 = reconciled srv L req s1
    in store s1 roleKey = None \<and> store s1 bindingKey = None \<and>
       store s2 roleKey \<noteq> None \<and> store s2 bindingKey \<noteq> None \<and>
       fst (exec srv (Reconcile L req) s1) = Return \<lparr>Requeue = False\<rparr> None \<and>
       (\<exists>m'. store s2 (crKey m) = Some (NFSProvisionerO m') \<and>
          finalizerName \<notin> set (om_finalizers (nfs_meta m')))"
proof -
  from healthy_server.roles_leak [OF assms] obtain s1 s2 m' where
    "exec srv (Reconcile L req) s = (Return \<lparr>Requeue = False\<rparr> None, s1)"
    "exec srv (Reconcile L req) s1 = (Return \<lparr>Requeue = False\<rparr> None, s2)"
    "store s1 roleKey = None" "store s1 bindingKey = None"
    "store s2 roleKey \<noteq> None" "store s2 bindingKey \<noteq> None"
    "store s2 (crKey m) = Some (NFSProvisionerO m')" "finalizerName \<notin> set (om_finalizers (nfs_meta m'))"
    by metis
  then show ?thesis by (simp add: reconciled_def)
qed

lemma Reconcile_leaks_roles_witness:
  "let s = demoCluster demoSpec [finalizerName, ''foregroundDeletion''] (Some 5);
       s1 = reconciled mem_srv demoLib demoReq s; s2 = reconciled mem_srv demoLib demoReq s1
   in mem_store s1 roleKey = None \<and> mem_store s2 roleKey \<noteq> None"
proof -
  let ?m = "demoCR demoSpec [finalizerName, ''foregroundDeletion''] (Some 5)"
  let ?s = "demoCluster demoSpec [finalizerName, ''foregroundDeletion''] (Some 5)"
  have "\<not> IsZero demoLib (om_deletionTimestamp (nfs_meta ?m))"
    "serviceable demoLib (mem_store ?s) ?m" "finalizerName \<in> set (om_finalizers (nfs_meta ?m))"
    "filter (\<lambda>f. f \<noteq> finalizerName) (om_finalizers (nfs_meta ?m)) \<noteq> []"
    by code_simp+
  moreover have "removable {roleKey, bindingKey} (mem_store ?s)" by (rule removable_absent) simp_all
  ultimately show ?thesis
    using Reconcile_leaks_roles [OF demo_healthy demo_fetched] by (simp add: Let_def)
qed

section \<open>A claim that does not exist\<close>

abbreviation defaultClaimKey :: "NFSProvisioner \<Rightarrow> key" where
  "defaultClaimKey m \<equiv> mkKey PersistentVolumeClaimK (nn (nfsNamespace m) Pvc_default)"

abbreviation sccKey :: key where
  "sccKey \<equiv> mkKey SCCK (nn '''' ''nfs-provisioner'')"

definition createClaim :: "logger \<Rightarrow> PersistentVolumeClaim \<Rightarrow> logval list \<Rightarrow> unit stmt" where
  "createClaim lg c kvs = create_or [] (PersistentVolumeClaimO c)
     (\<lambda>e. LogError lg e ''Failed to create a new PersistentVolumeClaim'' kvs) report"

text \<open>
  The spec names a claim that does not exist, while a claim of the default name
  does.
\<close>

definition stuck :: "NamespacedName \<Rightarrow> (key \<Rightarrow> kobj option) \<Rightarrow> bool" where
  "stuck req f \<longleftrightarrow> (\<exists>m. f (mkKey NFSProvisionerK req) = Some (NFSProvisionerO m) \<and>
     validate m = None \<and> Pvc (Spec m) \<noteq> '''' \<and> f (claimKey m) = None \<and> f (defaultClaimKey m) \<noteq> None)"

context healthy_server
begin

lemma create_conflict:
  assumes "store s (key_of x) \<noteq> None"
  obtains e s' where "srv (Create x) s = (Inl e, s')" "\<not> IsNotFound L e" "store s' = store s"
proof -
  from assms obtain z where "store s (key_of x) = Some z" by blast
  from create_conflicts [OF this] obtain e s' where c: "srv (Create x) s = (Inl e, s')" "\<not> IsNotFound L e"
    by (metis prod.collapse)
  moreover have "store s' = store s" by (rule failed_writes [OF _ c(1)]) simp
  ultimately show thesis using that by blast
qed

text \<open>The block of the claim, for a named claim that does not exist.\<close>

lemma ensurePVC_absent:
  assumes "validate m = None" "Pvc (Spec m) \<noteq> ''''" "store s (claimKey m) = None"
    and c: "pvcForNFSProvisioner L m = Inr c"
  obtains s1 kvs where "store s1 = store s"
    "exec srv (ensurePVC L lg m) s = exec srv (createClaim lg c kvs) s1"
proof -
  let ?kvs = "[LStr ''PersistentVolumeClaim.Namespace'', LStr (nfsNamespace m),
    LStr ''PersistentVolumeClaim.Name'', LStr Pvc_default]"
  have host: "HostPathDir (Spec m) = ''''" using assms(1,2) by (simp add: validate_None_iff)
  show thesis
  proof (cases rule: get_cases [of PersistentVolumeClaimK "nn (nfsNamespace m) (pvcNameOf m)" s])
    case (found x s1)
    with assms(3) show thesis by (simp add: claimKey_def)
  next
    case (absent e s1)
    obtain r s2 where "srv (LogInfo lg ''Creating a new PersistentVolumeClaim'' ?kvs) s1 = (r, s2)"
      "store s2 = store s1"
      by (rule log_call [of "LogInfo lg ''Creating a new PersistentVolumeClaim'' ?kvs" s1]) simp_all
    with absent host c show thesis
      by (intro that [of s2 ?kvs])
        (simp_all add: ensurePVC_claim unless_found_def create_or_def Let_def createClaim_def
          split: prod.split sum.split)
  qed
qed

lemma ensureSCC_exec:
  obtains s' where "exec srv (ensureSCC L lg m) s = (Inr (), s')" "ensured anything {sccKey} (store s) (store s')"
proof -
  have "achieves srv store {} anything {sccKey} (ensureSCC L lg m)"
    by (rule block_achieves [OF scc.managed_block_axioms]) (simp_all add: cluster_scoped_def)
  then show thesis by (rule achievesD) (use that in simp_all)
qed

lemma ensured_other: "ensured B K f g \<Longrightarrow> k \<notin> K \<Longrightarrow> g k = f k"
  unfolding ensured_def by blast

lemma ensureAll_stuck:
  assumes "validate m = None" "Pvc (Spec m) \<noteq> ''''" "store s (claimKey m) = None"
    and size: "MustParse L (pvcSizeOf m) \<noteq> None" and default: "store s (defaultClaimKey m) \<noteq> None"
  shows "\<exists>s' e. exec srv (ensureAll L lg m) s = (Inl (Return \<lparr>Requeue = False\<rparr> (Some e)), s') \<and>
    ensured anything {sccKey} (store s) (store s')"
proof -
  from size obtain c where c: "pvcForNFSProvisioner L m = Inr c"
    by (cases rule: pvcFor_cases [of L m]) auto
  obtain s1 where s1: "exec srv (ensureSCC L lg m) s = (Inr (), s1)" "ensured anything {sccKey} (store s) (store s1)"
    by (rule ensureSCC_exec)
  from s1(2) assms(3) have "store s1 (claimKey m) = None"
    by (subst ensured_other [OF s1(2)]) (simp_all add: claimKey_def)
  then obtain s2 kvs where s2: "store s2 = store s1"
    "exec srv (ensurePVC L lg m) s1 = exec srv (createClaim lg c kvs) s2"
    by (rule ensurePVC_absent [OF assms(1,2) _ c])
  have "store s2 (key_of (PersistentVolumeClaimO c)) \<noteq> None"
    using default s2(1) ensured_exists [OF s1(2)] pvc_key [OF c] by simp
  then obtain e s3 where c3: "srv (Create (PersistentVolumeClaimO c)) s2 = (Inl e, s3)" "store s3 = store s2"
    by (rule create_conflict)
  obtain r s4 where "srv (LogError lg e ''Failed to create a new PersistentVolumeClaim'' kvs) s3 = (r, s4)"
    "store s4 = store s3"
    by (rule log_call [of "LogError lg e ''Failed to create a new PersistentVolumeClaim'' kvs" s3]) simp_all
  with s1 s2 c3 show ?thesis
    by (intro exI [of _ s4] exI [of _ e]) (simp add: ensureAll_def exec_andthen createClaim_def create_or_def report_def returns_def)
qed

end

context healthy_server
begin

lemma ensurePVC_creates_default:
  assumes "validate m = None" "Pvc (Spec m) \<noteq> ''''" "store s (claimKey m) = None"
    and "store s (defaultClaimKey m) = None" and c: "pvcForNFSProvisioner L m = Inr c"
    and ns: "nfsNamespace m \<noteq> ''''"
  obtains s' where "exec srv (ensurePVC L lg m) s = (Inr (), s')"
    "ensured anything {defaultClaimKey m} (store s) (store s')"
proof -
  obtain s1 kvs where s1: "store s1 = store s"
    "exec srv (ensurePVC L lg m) s = exec srv (createClaim lg c kvs) s1"
    by (rule ensurePVC_absent [OF assms(1-3) c])
  have "store s1 (key_of (PersistentVolumeClaimO c)) = None" using assms(4) s1 pvc_key [OF c] by simp
  from create_accepts [OF this] ns obtain y s2 where
    cr: "srv (Create (PersistentVolumeClaimO c)) s1 = (Inr y, s2)"
    unfolding pvc_key [OF c] by (auto simp: prod_eq_iff)
  have "ensured anything {defaultClaimKey m} (store s) (store s2)"
    using create_ok [OF cr] s1(1) assms(4) pvc_key [OF c] c by (auto intro!: ensured_new)
  with that s1(2) cr show thesis by (simp add: createClaim_def create_or_def proceed_def)
qed

lemma ensureAll_creates_default:
  assumes "validate m = None" "Pvc (Spec m) \<noteq> ''''" "store s (claimKey m) = None"
    "store s (defaultClaimKey m) = None" "MustParse L (pvcSizeOf m) \<noteq> None"
    and ns: "nfsNamespace m \<noteq> ''''"
  obtains s' where "exec srv (ensureAll L lg m) s = (Inr (), s')"
    "ensured anything (insert (defaultClaimKey m) (required_keys m)) (store s) (store s')"
proof -
  from assms(5) obtain c where c: "pvcForNFSProvisioner L m = Inr c"
    by (cases rule: pvcFor_cases [of L m]) auto
  obtain s1 where s1: "exec srv (ensureSCC L lg m) s = (Inr (), s1)" "ensured anything {sccKey} (store s) (store s1)"
    by (rule ensureSCC_exec)
  have none: "store s1 (claimKey m) = None" "store s1 (defaultClaimKey m) = None"
    using assms(3,4) ensured_other [OF s1(2)] by (simp_all add: claimKey_def)
  obtain s2 where s2: "exec srv (ensurePVC L lg m) s1 = (Inr (), s2)"
    "ensured anything {defaultClaimKey m} (store s1) (store s2)"
    by (rule ensurePVC_creates_default [OF assms(1,2) none c ns])
  obtain s3 where s3: "exec srv (ensureRest L lg m) s2 = (Inr (), s3)"
    and rest: "ensured (built L m) (restKeys m) (store s2) (store s3)"
    using achievesD [OF ensureRest_achieves [OF ns, of "{}"]] by blast
  have s3': "ensured anything (restKeys m) (store s2) (store s3)"
    by (rule ensured_mono [OF rest]) simp
  have "ensured anything ({sccKey} \<union> ({defaultClaimKey m} \<union> restKeys m)) (store s) (store s3)"
    by (intro ensured_trans [OF s1(2)] ensured_trans [OF s2(2) s3'])
  moreover have "{sccKey} \<union> ({defaultClaimKey m} \<union> restKeys m) =
      insert (defaultClaimKey m) (required_keys m)"
    using assms(2) by (auto simp: required_keys_split)
  ultimately show thesis
    using s1 s2 s3 that by (simp add: ensureAll_split exec_andthen)
qed

text \<open>From a stuck state every run ends in an error and changes at most the SCC.\<close>

lemma stuck_step:
  assumes "stuck req (store s)"
    "\<And>m. store s (mkKey NFSProvisionerK req) = Some (NFSProvisionerO m) \<Longrightarrow> MustParse L (pvcSizeOf m) \<noteq> None"
  shows "\<exists>e. fst (exec srv (Reconcile L req) s) = Return \<lparr>Requeue = False\<rparr> (Some e) \<and>
    ensured anything {sccKey} (store s) (store (reconciled srv L req s))"
proof -
  from assms(1) obtain m where m: "store s (mkKey NFSProvisionerK req) = Some (NFSProvisionerO m)"
    "validate m = None" "Pvc (Spec m) \<noteq> ''''" "store s (claimKey m) = None" "store s (defaultClaimKey m) \<noteq> None"
    unfolding stuck_def by blast
  have "\<exists>s' r. exec srv (Reconcile L req) s = (r, s') \<and>
      ((\<exists>e. r = Return \<lparr>Requeue = False\<rparr> (Some e)) \<and> ensured anything {sccKey} (store s) (store s'))"
  proof (rule Reconcile_stops [OF m(1,2)])
    fix s1
    assume "store s1 = store s"
    with ensureAll_stuck [OF m(2,3), of s1 "RLog req"] m(4,5) assms(2) [OF m(1)]
    show "\<exists>s2 r. exec srv (ensureAll L (RLog req) m) s1 = (Inl r, s2) \<and>
        ((\<exists>e. r = Return \<lparr>Requeue = False\<rparr> (Some e)) \<and> ensured anything {sccKey} (store s) (store s2))"
      by auto
  qed
  then show ?thesis by (auto simp: reconciled_def)
qed

lemma stuck_ensured:
  assumes "stuck req f" "ensured anything {sccKey} f g"
  shows "stuck req g"
proof -
  from assms(1) obtain m where m: "f (mkKey NFSProvisionerK req) = Some (NFSProvisionerO m)"
    "validate m = None" "Pvc (Spec m) \<noteq> ''''" "f (claimKey m) = None" "f (defaultClaimKey m) \<noteq> None"
    unfolding stuck_def by blast
  moreover have "g (claimKey m) = f (claimKey m)" "g (defaultClaimKey m) = f (defaultClaimKey m)"
    "g (mkKey NFSProvisionerK req) = f (mkKey NFSProvisionerK req)"
    by (rule ensured_other [OF assms(2)]; simp add: claimKey_def)+
  ultimately show ?thesis unfolding stuck_def by (intro exI [of _ m]) simp
qed

lemma stuck_iterated:
  assumes "stuck req (store s)"
    "\<And>m. store s (mkKey NFSProvisionerK req) = Some (NFSProvisionerO m) \<Longrightarrow> MustParse L (pvcSizeOf m) \<noteq> None"
  shows "stuck req (store ((reconciled srv L req ^^ n) s)) \<and>
    (n = 0 \<or> ensured anything {sccKey} (store s) (store ((reconciled srv L req ^^ n) s)))"
proof (induction n)
  case 0
  with assms(1) show ?case by simp
next
  case (Suc n)
  let ?s = "(reconciled srv L req ^^ n) s"
  from Suc have st: "stuck req (store ?s)" by simp
  have "store ?s (mkKey NFSProvisionerK req) = store s (mkKey NFSProvisionerK req)"
  proof (cases "n = 0")
    case False
    with Suc have e: "ensured anything {sccKey} (store s) (store ?s)" by simp
    show ?thesis by (rule ensured_other [OF e]) simp
  qed simp
  with stuck_step [OF st] assms(2) have step: "ensured anything {sccKey} (store ?s) (store (reconciled srv L req ?s))"
    by auto
  have "ensured anything {sccKey} (store s) (store (reconciled srv L req ?s))"
  proof (cases "n = 0")
    case True
    with step show ?thesis by simp
  next
    case False
    with Suc have "ensured anything {sccKey} (store s) (store ?s)" by simp
    from ensured_trans [OF this step] show ?thesis by simp
  qed
  with stuck_ensured [OF st step] show ?case by simp
qed

lemma becomes_stuck:
  assumes cr: "store s (mkKey NFSProvisionerK req) = Some (NFSProvisionerO m)"
    and live: "IsZero L (om_deletionTimestamp (nfs_meta m))"
    and absent: "validate m = None" "Pvc (Spec m) \<noteq> ''''" "store s (claimKey m) = None"
      "store s (defaultClaimKey m) = None" "MustParse L (pvcSizeOf m) \<noteq> None"
    and other: "Pvc (Spec m) \<noteq> Pvc_default"
  shows "\<exists>s'. exec srv (Reconcile L req) s = (Return \<lparr>Requeue = True\<rparr> None, s') \<and> stuck req (store s')"
proof (rule Reconcile_passes [OF cr absent(1)])
  let ?K = "insert (defaultClaimKey m) (required_keys m)"
  fix s1
  assume "store s1 = store s"
  with absent show "\<exists>s2. exec srv (ensureAll L (RLog req) m) s1 = (Inr (), s2) \<and>
      ensured anything ?K (store s) (store s2)"
    using ensureAll_creates_default [OF absent(1,2) _ _ _ fetched_namespace [OF cr], of s1 "RLog req"] by metis
next
  let ?K = "insert (defaultClaimKey m) (required_keys m)"
  fix s2
  assume e: "ensured anything ?K (store s) (store s2)"
  with cr have m2: "store s2 (crKey m) = Some (NFSProvisionerO m)"
    using ensured_keeps key_of_fetched [OF cr] by metis
  obtain s3 m' where s3: "exec srv (finalizeNFSProvisioner L (RLog req) m) s2 =
      (Inl (Return \<lparr>Requeue = True\<rparr> None), s3)" "store s3 = (store s2)(crKey m \<mapsto> NFSProvisionerO m')"
    and m': "refinalized m (om_finalizers (AddFinalizer L (nfs_meta m) finalizerName)) m'"
    using finalize_live [OF live m2] by blast
  note same = refinalized_spec [OF m']
  have "claimKey m \<notin> ?K"
    using absent(2) other by (auto simp: claimKey_def required_keys_split restKeys_def mkKey_def cluster_scoped_def)
  from ensured_other [OF e this] absent(3) s3(2) have "store s3 (claimKey m) = None"
    by (simp add: claimKey_def)
  moreover have "store s3 (defaultClaimKey m) \<noteq> None"
    using ensured_exists [OF e, of "defaultClaimKey m"] s3(2) by (simp del: not_None_eq)
  ultimately have "stuck req (store s3)"
    using absent s3(2) same key_of_fetched [OF cr] unfolding stuck_def
    by (intro exI [of _ m']) simp
  with s3(1) show "\<exists>s3. exec srv (finalizeNFSProvisioner L (RLog req) m) s2 =
      (Inl (Return \<lparr>Requeue = True\<rparr> None), s3) \<and> stuck req (store s3)" by blast
qed

end

text \<open>
  A spec that names a claim which does not exist: the first run creates the
  claim of the default name instead, carries on and reports success, and leaves
  the resource stuck (next property).
\<close>

theorem Reconcile_creates_wrong_claim:
  assumes "healthy_server L srv store"
    and "store s (mkKey NFSProvisionerK req) = Some (NFSProvisionerO m)"
    and "IsZero L (om_deletionTimestamp (nfs_meta m))" and "validate m = None"
    and "Pvc (Spec m) \<noteq> ''''" and "store s (claimKey m) = None"
    and "store s (defaultClaimKey m) = None" and "MustParse L (pvcSizeOf m) \<noteq> None"
    and "Pvc (Spec m) \<noteq> Pvc_default"
  shows "\<exists>s'. exec srv (Reconcile L req) s = (Return \<lparr>Requeue = True\<rparr> None, s') \<and> stuck req (store s')"
  using healthy_server.becomes_stuck [OF assms] .

lemma Reconcile_creates_wrong_claim_witness:
  "stuck demoReq (mem_store (reconciled mem_srv demoLib demoReq
     (demoCluster (demoSpec\<lparr>Pvc := ''my-claim''\<rparr>) [] None)))"
proof -
  let ?spec = "demoSpec\<lparr>Pvc := ''my-claim''\<rparr>"
  let ?m = "demoCR ?spec [] None" and ?s = "demoCluster ?spec [] None"
  have "IsZero demoLib (om_deletionTimestamp (nfs_meta ?m))" "validate ?m = None" "Pvc (Spec ?m) \<noteq> ''''"
    "MustParse demoLib (pvcSizeOf ?m) \<noteq> None" "Pvc (Spec ?m) \<noteq> Pvc_default"
    by code_simp+
  moreover have "mem_store ?s (claimKey ?m) = None" "mem_store ?s (defaultClaimKey ?m) = None"
    by (simp_all add: claimKey_def)
  ultimately show ?thesis
    using Reconcile_creates_wrong_claim [OF demo_healthy demo_fetched] by (fastforce simp: reconciled_def)
qed

text \<open>
  C20. From a stuck state every further run, however many there are, ends in an
  error and changes at most the SCC: the Deployment is never created if it is
  missing, and the finalizer of a resource that is being deleted is never
  released.
\<close>

theorem Reconcile_stuck_forever:
  assumes "healthy_server L srv store" and "stuck req (store s)"
    and "\<And>m. store s (mkKey NFSProvisionerK req) = Some (NFSProvisionerO m) \<Longrightarrow>
      MustParse L (pvcSizeOf m) \<noteq> None"
  shows "\<exists>e. fst (exec srv (Reconcile L req) ((reconciled srv L req ^^ n) s)) =
      Return \<lparr>Requeue = False\<rparr> (Some e) \<and>
    ensured anything {sccKey} (store s) (store ((reconciled srv L req ^^ Suc n) s))"
proof -
  note iter = healthy_server.stuck_iterated [OF assms]
  let ?s = "(reconciled srv L req ^^ n) s"
  have st: "stuck req (store ?s)" using iter by blast
  have same: "store ?s (mkKey NFSProvisionerK req) = store s (mkKey NFSProvisionerK req)"
  proof (cases "n = 0")
    case False
    with iter [of n] have e: "ensured anything {sccKey} (store s) (store ?s)" by simp
    then have "mkKey NFSProvisionerK req \<notin> {sccKey} \<Longrightarrow> ?thesis" unfolding ensured_def by blast
    then show ?thesis by simp
  qed simp
  have "MustParse L (pvcSizeOf m) \<noteq> None" if "store ?s (mkKey NFSProvisionerK req) = Some (NFSProvisionerO m)" for m
    using assms(3) that unfolding same .
  from healthy_server.stuck_step [OF assms(1) st this] iter [of "Suc n"] show ?thesis by simp
qed

definition stuckCluster :: cluster where
  "stuckCluster = cluster_of
     [NFSProvisionerO (demoCR (demoSpec\<lparr>Pvc := ''my-claim''\<rparr>) [finalizerName] (Some 5)),
      PersistentVolumeClaimO \<lparr>pvc_meta = mkMeta Pvc_default ''ns'', pvc_accessModes = [ReadWriteOnce],
        pvc_requests = fmempty, pvc_storageClassName = None\<rparr>] []"

lemma Reconcile_stuck_forever_witness:
  "\<exists>e. fst (exec mem_srv (Reconcile demoLib demoReq)
      ((reconciled mem_srv demoLib demoReq ^^ 1000) stuckCluster)) = Return \<lparr>Requeue = False\<rparr> (Some e)"
proof -
  let ?m = "demoCR (demoSpec\<lparr>Pvc := ''my-claim''\<rparr>) [finalizerName] (Some 5)"
  have cr: "mem_store stuckCluster (mkKey NFSProvisionerK demoReq) = Some (NFSProvisionerO ?m)"
    by code_simp
  moreover have "validate ?m = None" "Pvc (Spec ?m) \<noteq> ''''" "mem_store stuckCluster (claimKey ?m) = None"
    "mem_store stuckCluster (defaultClaimKey ?m) \<noteq> None"
    by code_simp+
  ultimately have "stuck demoReq (mem_store stuckCluster)"
    unfolding stuck_def by blast
  moreover have "MustParse demoLib (pvcSizeOf m) \<noteq> None"
    if "mem_store stuckCluster (mkKey NFSProvisionerK demoReq) = Some (NFSProvisionerO m)" for m
  proof -
    from that cr have "m = ?m" by simp
    moreover have "MustParse demoLib (pvcSizeOf ?m) \<noteq> None" by code_simp
    ultimately show ?thesis by blast
  qed
  ultimately show ?thesis
    using Reconcile_stuck_forever [OF demo_healthy] by blast
qed

section \<open>Invalid specs on a server\<close>

context healthy_server
begin

lemma Reconcile_invalid_exec:
  assumes cr: "store s (mkKey NFSProvisionerK req) = Some (NFSProvisionerO m)" and bad: "validate m \<noteq> None"
  shows "exec srv (Reconcile L req) s = (Return \<lparr>Requeue = False\<rparr> None, reconciled srv L req s) \<and>
    store (reconciled srv L req s) = (store s)(crKey m \<mapsto>
      NFSProvisionerO (m\<lparr>Status := \<lparr>Nodes = Some [], Error = specMessage m\<rparr>\<rparr>))"
proof (cases rule: get_cases [of NFSProvisionerK req s])
  case (absent e s1)
  with cr show ?thesis by simp
next
  case (found x s1)
  from bad obtain err where err: "validate m = Some err" by blast
  let ?x = "m\<lparr>Status := \<lparr>Nodes = Some [], Error = specMessage m\<rparr>\<rparr>"
  obtain r s2 where log: "srv (LogError (RLog req) err (specMessage m) []) s1 = (r, s2)" "store s2 = store s1"
    by (rule log_call [of "LogError (RLog req) err (specMessage m) []" s1]) simp_all
  have key: "crKey ?x = crKey m" by (simp add: key_of_def)
  have here: "store s2 (crKey ?x) = Some (NFSProvisionerO m)"
    using cr key_of_fetched [OF cr] key log found by simp
  then obtain y s3 where u: "srv (StatusUpdate (NFSProvisionerO ?x)) s2 = (Inr y, s3)"
    using status_accepts by (metis prod.collapse)
  from status_ok [OF u] here key have "store s3 = (store s2)(crKey m \<mapsto> NFSProvisionerO ?x)" by simp
  moreover have "srv (Get NFSProvisionerK req) s = (Inr (NFSProvisionerO m), s1)" "store s2 = store s"
    using found cr log(2) by simp_all
  ultimately show ?thesis
    using err log(1) u
    by (simp add: reconciled_def Reconcile_def Reconcile_body_def fetchNFSProvisioner_def rejectInvalid_def
        exec_prog_bind exec_andthen returns_def Let_def)
qed

lemma invalid_iterated:
  assumes "store s (mkKey NFSProvisionerK req) = Some (NFSProvisionerO m)" "validate m \<noteq> None"
  shows "\<exists>st. store ((reconciled srv L req ^^ n) s) = (store s)(crKey m \<mapsto> NFSProvisionerO (m\<lparr>Status := st\<rparr>))"
proof (induction n)
  case 0
  have "store s (crKey m) = Some (NFSProvisionerO (m\<lparr>Status := Status m\<rparr>))"
    using assms(1) key_of_fetched [OF assms(1)] by simp
  then show ?case by (intro exI [of _ "Status m"]) (simp add: fun_upd_idem)
next
  case (Suc n)
  then obtain st where st: "store ((reconciled srv L req ^^ n) s) =
      (store s)(crKey m \<mapsto> NFSProvisionerO (m\<lparr>Status := st\<rparr>))" by blast
  let ?m = "m\<lparr>Status := st\<rparr>"
  have v: "validate ?m \<noteq> None" and k: "crKey ?m = crKey m"
    using assms(2) by (simp_all add: validate_def key_of_def)
  have "store ((reconciled srv L req ^^ n) s) (mkKey NFSProvisionerK req) = Some (NFSProvisionerO ?m)"
    using st key_of_fetched [OF assms(1)] by simp
  from Reconcile_invalid_exec [OF this v] st k
  have "store ((reconciled srv L req ^^ Suc n) s) = (store s)(crKey m \<mapsto>
      NFSProvisionerO (m\<lparr>Status := \<lparr>Nodes = Some [], Error = specMessage ?m\<rparr>\<rparr>))" by simp
  then show ?case by blast
qed

end

text \<open>
  C25. A resource with an invalid spec is out of reach of the deletion logic: any
  number of runs change nothing but its status, so a finalizer set while the spec
  was still valid is never released and the deletion never completes.
\<close>

theorem Reconcile_invalid_never_released:
  assumes "healthy_server L srv store"
    and "store s (mkKey NFSProvisionerK req) = Some (NFSProvisionerO m)" and "validate m \<noteq> None"
  shows "\<exists>st. store ((reconciled srv L req ^^ n) s) =
      (store s)(crKey m \<mapsto> NFSProvisionerO (m\<lparr>Status := st\<rparr>))"
  using healthy_server.invalid_iterated [OF assms] .


lemma Reconcile_invalid_never_released_witness:
  "\<exists>m. mem_store ((reconciled mem_srv demoLib demoReq ^^ 3) (demoCluster badSpec [finalizerName] (Some 5)))
      (crKey (demoCR badSpec [finalizerName] (Some 5))) = Some (NFSProvisionerO m) \<and>
     om_finalizers (nfs_meta m) = [finalizerName]"
proof -
  have "validate (demoCR badSpec [finalizerName] (Some 5)) \<noteq> None"
    "om_finalizers (nfs_meta (demoCR badSpec [finalizerName] (Some 5))) = [finalizerName]"
    by code_simp+
  with Reconcile_invalid_never_released [OF demo_healthy demo_fetched, of badSpec "[finalizerName]" "Some 5" 3]
  show ?thesis by auto
qed

end
