(* ===== verification/Rbac.thy ===== *)
theory Rbac
  imports KubeApi
begin

text \<open>
  Permissions: what a request asks for, what the \<open>+kubebuilder:rbac\<close> markers of a
  controller give the operator (its ClusterRole is generated from them), and when
  a rule the operator hands out stays within them.
\<close>

section \<open>Markers\<close>

text \<open>One marker is one rule; the group \<open>core\<close> is the empty API group.\<close>

definition allVerbs :: "string list" where
  "allVerbs = [''get'', ''list'', ''watch'', ''create'', ''update'', ''patch'', ''delete'']"

definition marker :: "string \<Rightarrow> string \<Rightarrow> string list \<Rightarrow> PolicyRule" where
  "marker grp resource verbs =
     \<lparr>pr_apiGroups = [if grp = ''core'' then '''' else grp], pr_resources = [resource],
      pr_resourceNames = [], pr_verbs = verbs\<rparr>"

section \<open>Requests\<close>

text \<open>A rule with no resource names speaks of all objects of the resource.\<close>

definition allows :: "PolicyRule list \<Rightarrow> string \<Rightarrow> string \<Rightarrow> string \<Rightarrow> bool" where
  "allows rules grp resource verb \<longleftrightarrow>
     list_ex (\<lambda>r. grp \<in> set (pr_apiGroups r) \<and> resource \<in> set (pr_resources r) \<and>
       verb \<in> set (pr_verbs r) \<and> pr_resourceNames r = []) rules"

text \<open>The API group and the resource name of a kind.\<close>

fun gvr :: "kind \<Rightarrow> string \<times> string" where
  "gvr ServiceAccountK = ('''', ''serviceaccounts'')"
| "gvr SCCK = (''security.openshift.io'', ''securitycontextconstraints'')"
| "gvr PersistentVolumeClaimK = ('''', ''persistentvolumeclaims'')"
| "gvr ClusterRoleK = (''rbac.authorization.k8s.io'', ''clusterroles'')"
| "gvr ClusterRoleBindingK = (''rbac.authorization.k8s.io'', ''clusterrolebindings'')"
| "gvr RoleK = (''rbac.authorization.k8s.io'', ''roles'')"
| "gvr RoleBindingK = (''rbac.authorization.k8s.io'', ''rolebindings'')"
| "gvr DeploymentK = (''apps'', ''deployments'')"
| "gvr ServiceK = ('''', ''services'')"
| "gvr StorageClassK = (''storage.k8s.io'', ''storageclasses'')"
| "gvr NFSProvisionerK = (''cache.jhouse.com'', ''nfsprovisioners'')"
| "gvr MemcachedK = (''cache.example.com'', ''memcacheds'')"
| "gvr PodK = ('''', ''pods'')"

text \<open>
  What a request asks permission for.  A cached read also lists and watches its
  kind.
\<close>

fun asks :: "request \<Rightarrow> (string \<times> string \<times> string) list" where
  "asks (Get k _) = (case gvr k of (g, res) \<Rightarrow> [(g, res, ''get''), (g, res, ''list''), (g, res, ''watch'')])"
| "asks (Create x) = (case gvr (kobj_kind x) of (g, res) \<Rightarrow> [(g, res, ''create'')])"
| "asks (Update x) = (case gvr (kobj_kind x) of (g, res) \<Rightarrow> [(g, res, ''update'')])"
| "asks (StatusUpdate x) = (case gvr (kobj_kind x) of (g, res) \<Rightarrow> [(g, res @ ''/status'', ''update'')])"
| "asks (Delete x) = (case gvr (kobj_kind x) of (g, res) \<Rightarrow> [(g, res, ''delete'')])"
| "asks (ListPods _ _) = [('''', ''pods'', ''list''), ('''', ''pods'', ''watch'')]"
| "asks _ = []"

definition authorized :: "PolicyRule list \<Rightarrow> request \<Rightarrow> bool" where
  "authorized rules q \<longleftrightarrow> list_all (\<lambda>(g, res, v). allows rules g res v) (asks q)"

lemma authorized_log: "is_log q \<Longrightarrow> authorized rules q"
  by (cases q) (simp_all add: authorized_def)

section \<open>Handing permissions on\<close>

text \<open>
  The server lets a client create a role only when the client holds every
  permission the role grants; a grant restricted to some resource names is held
  when the unrestricted one is.
\<close>

definition holds_rule :: "PolicyRule list \<Rightarrow> PolicyRule \<Rightarrow> bool" where
  "holds_rule rules r \<longleftrightarrow>
     list_all (\<lambda>g. list_all (\<lambda>res. list_all (\<lambda>v. allows rules g res v) (pr_verbs r))
       (pr_resources r)) (pr_apiGroups r)"

end
