(* ===== verification/NfsObjects.thy ===== *)
theory NfsObjects
  imports NfsSafety Rbac
begin

text \<open>
  How the objects the finished controller creates fit together: the permissions
  declared in its markers, the identity of the pod, the ports, the volume and the
  security constraints.
\<close>

section \<open>Permissions\<close>

text \<open>The markers above \<open>Reconcile\<close>.\<close>

definition rbacMarkers :: "PolicyRule list" where
  "rbacMarkers =
     [marker ''cache.jhouse.com'' ''nfsprovisioners'' allVerbs,
      marker ''cache.jhouse.com'' ''nfsprovisioners/status'' [''get'', ''update'', ''patch''],
      marker ''cache.jhouse.com'' ''nfsprovisioners/finalizers'' [''update''],
      marker ''rbac.authorization.k8s.io'' ''clusterroles'' allVerbs,
      marker ''rbac.authorization.k8s.io'' ''clusterrolebindings'' allVerbs,
      marker ''rbac.authorization.k8s.io'' ''roles'' allVerbs,
      marker ''rbac.authorization.k8s.io'' ''rolebindings'' allVerbs,
      marker ''security.openshift.io'' ''securitycontextconstraints'' allVerbs,
      marker ''storage.k8s.io'' ''storageclasses'' allVerbs,
      marker ''apps'' ''deployments'' allVerbs,
      marker ''apps'' ''deployments/finalizers'' [''update''],
      marker ''core'' ''services'' allVerbs,
      marker ''core'' ''serviceaccounts'' allVerbs,
      marker ''core'' ''endpoints'' allVerbs,
      marker ''core'' ''events'' allVerbs,
      marker ''policy'' ''podsecuritypolicies'' [''use''],
      marker ''core'' ''persistentvolumes'' allVerbs,
      marker ''core'' ''persistentvolumeclaims'' allVerbs,
      marker ''core'' ''pods'' [''get'', ''list'', ''watch'']]"

text \<open>Closed facts, evaluated once.\<close>

lemma authorized_kinds:
  "list_all (\<lambda>k. list_all (\<lambda>v. allows rbacMarkers (fst (gvr k)) (snd (gvr k)) v)
     [''get'', ''list'', ''watch'', ''create'', ''update'', ''delete'']) (NFSProvisionerK # managed_kinds)"
  by code_simp

lemma authorized_status: "allows rbacMarkers ''cache.jhouse.com'' ''nfsprovisioners/status'' ''update''"
  by code_simp

lemma authorized_kind:
  assumes "k \<in> set (NFSProvisionerK # managed_kinds)"
  shows "authorized rbacMarkers (Get k n)"
    and "kobj_kind x = k \<Longrightarrow> authorized rbacMarkers (Create x)"
    and "kobj_kind x = k \<Longrightarrow> authorized rbacMarkers (Update x)"
    and "kobj_kind x = k \<Longrightarrow> authorized rbacMarkers (Delete x)"
  using authorized_kinds assms unfolding list_all_iff authorized_def
  by (auto simp: case_prod_beta)

lemma managed_object_kind: "x \<in> set (managed_objects L m) \<Longrightarrow> kobj_kind x \<in> set managed_kinds"
  by (auto simp: managed_objects_def managed_kinds_def split: if_split_asm sum.split_asm)

context k8s_lib
begin

lemma permitted_authorized:
  assumes "permitted L m q" "is_write q"
  shows "authorized rbacMarkers q"
proof (cases q)
  case (Create x)
  with assms have "kobj_kind x \<in> set managed_kinds" by (auto dest: managed_object_kind)
  with Create show ?thesis using authorized_kind(2) [of "kobj_kind x" x] by simp
next
  case (Update x)
  with assms have "kobj_kind x = NFSProvisionerK" by auto
  with Update show ?thesis using authorized_kind(3) [of NFSProvisionerK x] by simp
next
  case (StatusUpdate x)
  with assms have "kobj_kind x = NFSProvisionerK" by auto
  with StatusUpdate authorized_status show ?thesis by (simp add: authorized_def)
next
  case (Delete x)
  with assms have "kobj_kind x \<in> {ClusterRoleK, ClusterRoleBindingK}"
    by (auto simp: external_keys_def key_of_def mkKey_def)
  with Delete show ?thesis using authorized_kind(4) [of "kobj_kind x" x] by (auto simp: managed_kinds_def)
qed (use assms in simp_all)

text \<open>The kinds a run looks up.\<close>

lemma Reconcile_gets:
  assumes "runs (Reconcile L req) t r" "(Get k n, a) \<in> set t"
  shows "k \<in> set (NFSProvisionerK # managed_kinds)"
proof -
  have all: "k \<in> set managed_kinds" if "runs (ensureAll L lg m) t' x" "(Get k n, a) \<in> set t'" for lg m t' x
  proof -
    have "obeys (\<lambda>t _. requests_in (\<lambda>q. \<forall>k n. q = Get k n \<longrightarrow> k \<in> set managed_kinds) t) (ensureAll L lg m)"
      by (rule ensureAll_requests) auto
    with that show ?thesis unfolding obeys_def by (blast dest: requests_inD)
  qed
  have fin: "k \<in> set managed_kinds" if "runs (finalizeNFSProvisioner L lg m) t' x" "(Get k n, a) \<in> set t'" for lg m t' x
    using that
    by (auto elim!: finalize_run deleteIfFound_run runs_andthenE simp: deleteExternalResources_def managed_kinds_def)
  from assms show ?thesis
    by (cases rule: Reconcile_run) (auto dest: all fin elim!: fetch_run reject_run)
qed

lemma Reconcile_no_lists: "runs (Reconcile L req) t r \<Longrightarrow> (ListPods ns sel, a) \<notin> set t"
proof -
  assume run: "runs (Reconcile L req) t r"
  have all: "(ListPods ns sel, a) \<notin> set t'" if "runs (ensureAll L lg m) t' x" for lg m t' x
  proof -
    have "obeys (\<lambda>t _. requests_in (\<lambda>q. q \<noteq> ListPods ns sel) t) (ensureAll L lg m)"
      by (rule ensureAll_requests) auto
    with that show ?thesis unfolding obeys_def by (blast dest: requests_inD)
  qed
  have fin: "(ListPods ns sel, a) \<notin> set t'" if "runs (finalizeNFSProvisioner L lg m) t' x" for lg m t' x
    using that by (auto elim!: finalize_run deleteIfFound_run runs_andthenE simp: deleteExternalResources_def)
  from run show ?thesis
    by (cases rule: Reconcile_run) (auto dest: all fin elim!: fetch_run reject_run)
qed

end

text \<open>
  C18. The markers suffice: every API call of every run is permitted by the RBAC
  rules the markers declare.
\<close>

theorem Reconcile_authorized:
  assumes "k8s_lib L" and "runs (Reconcile L req) t r" and "genuine t"
  shows "requests_in (authorized rbacMarkers) t"
proof -
  have "authorized rbacMarkers q" if q: "(q, a) \<in> set t" for q a
  proof (cases "is_write q")
    case True
    with k8s_lib.Reconcile_confined [OF assms q] k8s_lib.permitted_authorized [OF assms(1)]
    show ?thesis by metis
  next
    case False
    then show ?thesis
    proof (cases q)
      case (Get k n)
      with k8s_lib.Reconcile_gets [OF assms(1,2)] q authorized_kind(1) show ?thesis by blast
    next
      case (ListPods ns sel)
      with k8s_lib.Reconcile_no_lists [OF assms(1,2)] q show ?thesis by blast
    qed (simp_all add: authorized_def)
  qed
  then show ?thesis by (auto simp: requests_in_def list_all_iff)
qed

lemma Reconcile_authorized_witness:
  "requests_in (authorized rbacMarkers) (fst (demoRun [] (demoCluster demoSpec [finalizerName] (Some 5))))"
  by (rule Reconcile_authorized [OF demoLib demoRun_runs demoRun_genuine])

section \<open>No escalation\<close>

text \<open>
  C38. The Role and the ClusterRole the controller creates grant nothing that the
  markers do not give the operator itself, so the server accepts their creation.
\<close>

theorem roles_without_escalation:
  "list_all (holds_rule rbacMarkers) (role_rules (clusterRoleForNFSProvisioner L m)) \<and>
   list_all (holds_rule rbacMarkers) (role_rules (roleForNFSProvisioner L m))"
proof -
  have "role_rules (clusterRoleForNFSProvisioner L m) =
        role_rules (clusterRoleForNFSProvisioner demoLib zeroNFSProvisioner)"
    "role_rules (roleForNFSProvisioner L m) = role_rules (roleForNFSProvisioner demoLib zeroNFSProvisioner)"
    by (simp_all add: clusterRoleForNFSProvisioner_def roleForNFSProvisioner_def)
  moreover have "list_all (holds_rule rbacMarkers) (role_rules (clusterRoleForNFSProvisioner demoLib zeroNFSProvisioner))"
    "list_all (holds_rule rbacMarkers) (role_rules (roleForNFSProvisioner demoLib zeroNFSProvisioner))"
    by code_simp+
  ultimately show ?thesis by simp
qed

section \<open>One identity\<close>

definition serviceAccountUser :: "ServiceAccount \<Rightarrow> string" where
  "serviceAccountUser sa =
     ''system:serviceaccount:'' @ om_namespace (sa_meta sa) @ '':'' @ om_name (sa_meta sa)"

definition binds :: "RoleBinding \<Rightarrow> string \<Rightarrow> Role \<Rightarrow> ServiceAccount \<Rightarrow> bool" where
  "binds b k role sa \<longleftrightarrow>
     rb_roleRef b = \<lparr>rr_kind = k, rr_name = om_name (role_meta role),
       rr_apiGroup = ''rbac.authorization.k8s.io''\<rparr> \<and>
     rb_subjects b = [\<lparr>sub_kind = ''ServiceAccount'', sub_name = om_name (sa_meta sa),
       sub_namespace = om_namespace (sa_meta sa)\<rparr>]"

text \<open>
  C34. The pod, the two bindings and the security constraints all speak of the one
  service account the controller creates, and the bindings of the two roles it
  creates; the pod, the Role and its binding live in one namespace.
\<close>

theorem one_service_account:
  assumes "k8s_lib L"
  shows "let sa = serviceAccountForNFSProvisioner L m;
      dep = io_value (deploymentForNFSProvisioner L m st);
      role = roleForNFSProvisioner L m; rb = roleBindingForNFSProvisioner L m
    in ps_serviceAccountName (dep_podSpec dep) = om_name (sa_meta sa) \<and>
       om_namespace (dep_meta dep) = om_namespace (sa_meta sa) \<and>
       scc_users (sccForNFSProvisioner L m) = [serviceAccountUser sa] \<and>
       binds (clusterRoleBindingForNFSProvisioner L m) ''ClusterRole'' (clusterRoleForNFSProvisioner L m) sa \<and>
       binds rb ''Role'' role sa \<and>
       om_namespace (role_meta role) = om_namespace (sa_meta sa) \<and>
       om_namespace (rb_meta rb) = om_namespace (role_meta role)"
proof -
  note meta = k8s_lib.builder_meta [OF assms] k8s_lib.deployment_meta [OF assms]
  have "ps_serviceAccountName (dep_podSpec (io_value (deploymentForNFSProvisioner L m st))) = ServiceAccount_default"
    by (simp add: deploymentForNFSProvisioner_def getVolumeSpec_def io_value_def Let_def)
  moreover have "scc_users (sccForNFSProvisioner L m) =
      [''system:serviceaccount:'' @ nfsNamespace m @ '':'' @ ServiceAccount_default]"
    by (simp add: sccForNFSProvisioner_def)
  moreover have "rb_roleRef (clusterRoleBindingForNFSProvisioner L m) =
      \<lparr>rr_kind = ''ClusterRole'', rr_name = ClusterRole_default, rr_apiGroup = ''rbac.authorization.k8s.io''\<rparr>"
    "rb_subjects (clusterRoleBindingForNFSProvisioner L m) =
      [\<lparr>sub_kind = ''ServiceAccount'', sub_name = ServiceAccount_default, sub_namespace = nfsNamespace m\<rparr>]"
    by (simp_all add: clusterRoleBindingForNFSProvisioner_def)
  moreover have "rb_roleRef (roleBindingForNFSProvisioner L m) =
      \<lparr>rr_kind = ''Role'', rr_name = Role_default, rr_apiGroup = ''rbac.authorization.k8s.io''\<rparr>"
    "rb_subjects (roleBindingForNFSProvisioner L m) =
      [\<lparr>sub_kind = ''ServiceAccount'', sub_name = ServiceAccount_default, sub_namespace = nfsNamespace m\<rparr>]"
    by (simp_all add: roleBindingForNFSProvisioner_def)
  ultimately show ?thesis
    by (simp add: Let_def meta serviceAccountUser_def binds_def)
qed

lemma one_service_account_witness:
  "scc_users (sccForNFSProvisioner demoLib (demoCR demoSpec [] None)) = [''system:serviceaccount:ns:nfs-provisioner'']"
proof -
  have "serviceAccountUser (serviceAccountForNFSProvisioner demoLib (demoCR demoSpec [] None)) =
      ''system:serviceaccount:ns:nfs-provisioner''" by code_simp
  with one_service_account [OF demoLib, of "demoCR demoSpec [] None"] show ?thesis by (simp add: Let_def)
qed

section \<open>The pod behind the service\<close>

definition nfsContainer :: Container where
  "nfsContainer = hd (ps_containers (dep_podSpec (io_value (deploymentForNFSProvisioner
     demoLib zeroNFSProvisioner ''PVC''))))"

lemma nfsContainer_fields:
  "c_ports nfsContainer = nfsContainerPorts" "c_env nfsContainer = nfsEnv"
  "map vm_name (c_volumeMounts nfsContainer) = [''export-volume'']"
  by (simp_all add: nfsContainer_def deploymentForNFSProvisioner_def getVolumeSpec_def io_value_def Let_def)

lemma deployment_fields:
  fixes L m st
  defines "dep \<equiv> io_value (deploymentForNFSProvisioner L m st)"
  shows "dep_matchLabels dep = Some (labelsForNFSProvisioner (nfsName m))"
    "dep_templateLabels dep = Some (labelsForNFSProvisioner (nfsName m))"
    "ps_containers (dep_podSpec dep) = [nfsContainer]"
    "ps_serviceAccountName (dep_podSpec dep) = ServiceAccount_default"
    "ps_volumes (dep_podSpec dep) =
       [\<lparr>v_name = ''export-volume'', v_source = io_value (getVolumeSpec m st)\<rparr>]"
    "ps_nodeSelector (dep_podSpec dep) = Some (if st = ''PVC'' then fmempty
       else case NodeSelector (Spec m) of Some ns \<Rightarrow> ns | None \<Rightarrow> NodeSelector_default)"
  unfolding dep_def nfsContainer_def
  by (simp_all add: deploymentForNFSProvisioner_def getVolumeSpec_def io_value_def Let_def)

text \<open>
  C35. The service selects the pods of the Deployment, whose own selector matches
  its template, and the service exposes exactly the ports of the container, under
  the same names; the names are distinct, as are the pairs of port and protocol,
  and short enough for the server to accept them (15 characters).
\<close>

theorem service_matches_deployment:
  "let dep = io_value (deploymentForNFSProvisioner L m st);
       svc = serviceForNFSProvisioner L m; ctr = hd (ps_containers (dep_podSpec dep))
   in svc_selector svc = dep_templateLabels dep \<and> dep_matchLabels dep = dep_templateLabels dep \<and>
      ps_containers (dep_podSpec dep) = [ctr] \<and>
      map (\<lambda>p. (sp_name p, sp_port p, sp_protocol p)) (svc_ports svc) =
        map (\<lambda>p. (cp_name p, cp_containerPort p, cp_protocol p)) (c_ports ctr) \<and>
      distinct (map sp_name (svc_ports svc)) \<and>
      distinct (map (\<lambda>p. (sp_port p, sp_protocol p)) (svc_ports svc)) \<and>
      list_all (\<lambda>p. length (sp_name p) \<le> 15 \<and> 0 < unat (sp_port p) \<and> unat (sp_port p) < 65536) (svc_ports svc) \<and>
      map vm_name (c_volumeMounts ctr) = map v_name (ps_volumes (dep_podSpec dep)) \<and>
      (\<exists>e \<in> set (c_env ctr). ev_name e = ''SERVICE_NAME'' \<and> ev_value e = Service_default)"
proof -
  have ports: "map (\<lambda>p. (sp_name p, sp_port p, sp_protocol p)) nfsServicePorts =
        map (\<lambda>p. (cp_name p, cp_containerPort p, cp_protocol p)) nfsContainerPorts"
    "distinct (map sp_name nfsServicePorts)"
    "distinct (map (\<lambda>p. (sp_port p, sp_protocol p)) nfsServicePorts)"
    "list_all (\<lambda>p. length (sp_name p) \<le> 15 \<and> 0 < unat (sp_port p) \<and> unat (sp_port p) < 65536) nfsServicePorts"
    "\<exists>e \<in> set nfsEnv. ev_name e = ''SERVICE_NAME'' \<and> ev_value e = Service_default"
    by (simp_all add: nfsServicePorts_def nfsContainerPorts_def nfsEnv_def Service_default_def)
  show ?thesis
    unfolding Let_def deployment_fields list.sel nfsContainer_fields
    by (simp add: ports serviceForNFSProvisioner_def Let_def)
qed

section \<open>Security constraints\<close>

text \<open>
  The admission of a pod under security context constraints, for the fields the
  program uses: capabilities, privilege and the kinds of volumes.
\<close>

definition admits_container :: "SecurityContextConstraints \<Rightarrow> Container \<Rightarrow> bool" where
  "admits_container scc c = (case c_securityContext c of
     None \<Rightarrow> False
   | Some sc \<Rightarrow>
       list_all (\<lambda>cap. cap \<in> set (scc_allowedCapabilities scc)) (sc_add sc) \<and>
       list_all (\<lambda>cap. cap \<in> set (sc_drop sc)) (scc_requiredDropCapabilities scc) \<and>
       (sc_privileged sc = Some True \<longrightarrow> scc_allowPrivilegedContainer scc))"

definition admits_volume :: "SecurityContextConstraints \<Rightarrow> Volume \<Rightarrow> bool" where
  "admits_volume scc v \<longleftrightarrow>
     (vs_hostPath (v_source v) \<noteq> None \<longrightarrow>
        FSTypeHostPath \<in> set (scc_volumes scc) \<and> scc_allowHostDirVolumePlugin scc) \<and>
     (vs_claimName (v_source v) \<noteq> None \<longrightarrow> FSTypePersistentVolumeClaim \<in> set (scc_volumes scc))"

text \<open>
  C36. The constraints the controller creates admit the pod it deploys, for a host
  path as for a claim, and grant no capability the container does not ask for and
  no privileged container or host namespace.
\<close>

theorem scc_admits_pod:
  "let scc = sccForNFSProvisioner L m; pod = dep_podSpec (io_value (deploymentForNFSProvisioner L m st))
   in list_all (admits_container scc) (ps_containers pod) \<and>
      list_all (admits_volume scc) (ps_volumes pod) \<and>
      list_all (\<lambda>cap. list_ex (\<lambda>c. case c_securityContext c of None \<Rightarrow> False
         | Some sc \<Rightarrow> cap \<in> set (sc_add sc)) (ps_containers pod)) (scc_allowedCapabilities scc) \<and>
      \<not> scc_allowPrivilegedContainer scc \<and> \<not> scc_allowHostNetwork scc \<and> \<not> scc_allowHostPID scc \<and>
      \<not> scc_allowHostIPC scc \<and> \<not> scc_allowHostPorts scc"
proof -
  have sc: "c_securityContext nfsContainer = Some
      \<lparr>sc_add = [''DAC_READ_SEARCH'', ''SYS_RESOURCE''], sc_drop = [''KILL'', ''MKNOD'', ''SYS_CHROOT''],
       sc_privileged = None, sc_allowPrivilegeEscalation = None\<rparr>"
    by (simp add: nfsContainer_def deploymentForNFSProvisioner_def getVolumeSpec_def io_value_def Let_def)
  show ?thesis
    unfolding Let_def deployment_fields
    by (simp add: admits_container_def admits_volume_def sc sccForNFSProvisioner_def)
qed

section \<open>The volume\<close>

lemma volume_source:
  "io_value (getVolumeSpec m (storageTypeOf m)) =
     (if HostPathDir (Spec m) \<noteq> ''''
      then \<lparr>vs_hostPath = Some \<lparr>hp_path = HostPathDir (Spec m), hp_type = Some HostPathDirectory\<rparr>,
            vs_claimName = None\<rparr>
      else \<lparr>vs_hostPath = None, vs_claimName = Some (pvcNameOf m)\<rparr>)"
  by (simp add: getVolumeSpec_def storageTypeOf_def io_value_def Let_def)

lemma deployment_volume:
  "HostPathDir (Spec m) = '''' \<Longrightarrow>
    \<exists>v. ps_volumes (dep_podSpec (io_value (deploymentForNFSProvisioner L m (storageTypeOf m)))) = [v] \<and>
      vs_hostPath (v_source v) = None \<and> vs_claimName (v_source v) = Some (pvcNameOf m)"
  unfolding deployment_fields volume_source by simp

context k8s_lib
begin

lemma deployment_namespace:
  "om_namespace (dep_meta (io_value (deploymentForNFSProvisioner L m st))) = nfsNamespace m"
  by (simp add: deploymentForNFSProvisioner_def getVolumeSpec_def io_value_def mkMeta_def Let_def)

text \<open>The one lookup of a claim.\<close>

lemma ensureAll_claim_lookups:
  assumes "runs (ensureAll L lg m) t x" "(Get PersistentVolumeClaimK n, a) \<in> set t"
  shows "n = nn (nfsNamespace m) (pvcNameOf m)"
proof -
  define P where "P q \<longleftrightarrow> (\<forall>n. q = Get PersistentVolumeClaimK n \<longrightarrow> n = nn (nfsNamespace m) (pvcNameOf m))" for q
  have logs: "P q" if "is_log q" for q using that by (cases q) (simp_all add: P_def)
  have gets: "P (Get k n)" if "k \<noteq> PersistentVolumeClaimK" for k n using that by (simp add: P_def)
  have creates: "P (Create y)" for y by (simp add: P_def)
  have "obeys (\<lambda>t _. requests_in P t) (ensurePVC L lg m)"
    by (rule ensurePVC_rule) (auto intro!: panic_block_contracts pvc.requests simp: P_def)
  then have "obeys (\<lambda>t _. requests_in P t) (ensureAll L lg m)"
    unfolding ensureAll_def
    by (intro requests.obeys_andthen)
      (assumption | rule scc.requests sa.requests cr.requests crb.requests role.requests
        rb.requests dep.requests svc.requests stc.requests logs creates gets | simp)+
  with assms have "P (Get PersistentVolumeClaimK n)" unfolding obeys_def by (blast dest: requests_inD)
  then show ?thesis by (simp add: P_def)
qed

lemma ensureAll_looks_first:
  assumes "runs (ensureAll L lg m) t x" "HostPathDir (Spec m) = ''''" "(Create (DeploymentO d), a) \<in> set t"
  shows "\<exists>b. (Get PersistentVolumeClaimK (nn (nfsNamespace m) (pvcNameOf m)), b) \<in> set t"
proof -
  have none: "(Create (DeploymentO d), a) \<notin> set t1" if "runs (ensureSCC L lg m) t1 y" for t1 y
  proof -
    have "obeys (\<lambda>t _. requests_in (\<lambda>q. q \<noteq> Create (DeploymentO d)) t) (ensureSCC L lg m)"
      by (rule scc.requests) auto
    with that show ?thesis unfolding obeys_def by (blast dest: requests_inD)
  qed
  have first: "\<exists>b u. t2 = (Get PersistentVolumeClaimK (nn (nfsNamespace m) (pvcNameOf m)), b) # u"
    if "runs (ensurePVC L lg m) t2 y" for t2 y
    using that assms(2) unfolding ensurePVC_def Let_def by (auto simp: io_simps)
  from assms(1) show ?thesis
    unfolding ensureAll_def
  proof (cases rule: runs_andthenE)
    case (returned e)
    with none assms(3) show ?thesis by blast
  next
    case (continued t1 t2 y)
    from continued(3) show ?thesis
    proof (cases rule: runs_andthenE)
      case (returned e)
      with first [OF returned(2)] continued(1) show ?thesis by auto
    next
      case (continued t3 t4 y)
      with first [OF continued(2)] \<open>t = t1 @ t2\<close> show ?thesis by auto
    qed
  qed
qed

lemma ensureAll_creates:
  assumes "runs (ensureAll L lg m) t x" "(Create y, a) \<in> set t"
  shows "y \<in> set (managed_objects L m)"
proof -
  have "obeys (\<lambda>t _. requests_in (\<lambda>q. \<forall>y. q = Create y \<longrightarrow> y \<in> set (managed_objects L m)) t) (ensureAll L lg m)"
    by (rule ensureAll_requests) auto
  with assms show ?thesis unfolding obeys_def by (blast dest: requests_inD)
qed

text \<open>What a run asks about claims and creates, it asks and creates in the blocks.\<close>

lemma Reconcile_blocks:
  assumes "runs (Reconcile L req) ((Get NFSProvisionerK req, Inr (NFSProvisionerO m)) # t) r"
    and "(q, a) \<in> set t" and "(\<exists>y. q = Create y) \<or> (\<exists>n. q = Get PersistentVolumeClaimK n)"
  obtains u x where "set u \<subseteq> set t" "runs (ensureAll L (RLog req) m) u x" "(q, a) \<in> set u"
  using assms(1)
proof (cases rule: Reconcile_run)
  case not_fetched
  with assms(2,3) have False by (auto elim!: fetch_run)
  then show thesis ..
next
  case (rejected y t' err)
  with assms(2,3) have False by (auto elim!: reject_run)
  then show thesis ..
next
  case (stopped y t')
  with assms(2) show thesis by (intro that [of t' "Inl r"]) auto
next
  case (finished y t' t'')
  have "(q, a) \<notin> set t''"
    using finished(4) assms(3)
    by (auto elim!: finalize_run deleteIfFound_run runs_andthenE simp: deleteExternalResources_def)
  with finished assms(2) show thesis by (intro that [of t' "Inr ()"]) auto
qed

lemma claims_of_run:
  assumes "runs (Reconcile L req) ((Get NFSProvisionerK req, Inr (NFSProvisionerO m)) # t) r"
  shows "(Get PersistentVolumeClaimK n, a) \<in> set t \<Longrightarrow> n = nn (nfsNamespace m) (pvcNameOf m)"
    and "(Create y, a) \<in> set t \<Longrightarrow> y \<in> set (managed_objects L m)"
    and "(Create (DeploymentO d), a) \<in> set t \<Longrightarrow> HostPathDir (Spec m) = '''' \<Longrightarrow>
      \<exists>b. (Get PersistentVolumeClaimK (nn (nfsNamespace m) (pvcNameOf m)), b) \<in> set t"
proof -
  show "n = nn (nfsNamespace m) (pvcNameOf m)" if "(Get PersistentVolumeClaimK n, a) \<in> set t"
    by (rule Reconcile_blocks [OF assms that]) (simp, rule ensureAll_claim_lookups)
  show "y \<in> set (managed_objects L m)" if "(Create y, a) \<in> set t"
    by (rule Reconcile_blocks [OF assms that]) (simp, rule ensureAll_creates)
  show "\<exists>b. (Get PersistentVolumeClaimK (nn (nfsNamespace m) (pvcNameOf m)), b) \<in> set t"
    if "(Create (DeploymentO d), a) \<in> set t" "HostPathDir (Spec m) = ''''"
    by (rule Reconcile_blocks [OF assms that(1)]) (simp, use ensureAll_looks_first that(2) in blast)
qed

end

text \<open>
  C37. The claim of the pod.  When the spec names no directory of the node, there is one
  claim name \<open>p\<close>, that of the spec or the default, such that every lookup of a claim in any
  run, whatever the answers, is for \<open>p\<close> in the namespace of the resource; a Deployment is
  created only in a run that has made this lookup, in the same namespace, and the only
  volume of its pod is the claim \<open>p\<close>.  But the claim a run creates in its absence has the
  name \<open>p\<close> only when the spec names none or the default.
\<close>

theorem volume_claim_agreement:
  assumes "k8s_lib L"
    and "runs (Reconcile L req) ((Get NFSProvisionerK req, Inr (NFSProvisionerO m)) # t) r"
    and "HostPathDir (Spec m) = ''''"
  shows "let p = if Pvc (Spec m) \<noteq> '''' then Pvc (Spec m) else Pvc_default
    in (\<forall>n a. (Get PersistentVolumeClaimK n, a) \<in> set t \<longrightarrow> n = nn (nfsNamespace m) p) \<and>
       (\<forall>d a. (Create (DeploymentO d), a) \<in> set t \<longrightarrow>
          (\<exists>b. (Get PersistentVolumeClaimK (nn (nfsNamespace m) p), b) \<in> set t) \<and>
          om_namespace (dep_meta d) = nfsNamespace m \<and>
          (\<exists>v. ps_volumes (dep_podSpec d) = [v] \<and> vs_hostPath (v_source v) = None \<and>
             vs_claimName (v_source v) = Some p)) \<and>
       (\<forall>c a. (Create (PersistentVolumeClaimO c), a) \<in> set t \<longrightarrow>
          om_namespace (pvc_meta c) = nfsNamespace m \<and>
          (om_name (pvc_meta c) = p \<longleftrightarrow> Pvc (Spec m) \<in> {'''', Pvc_default}))"
proof -
  note run = k8s_lib.claims_of_run [OF assms(1,2)]
  have dep: "d = io_value (deploymentForNFSProvisioner L m (storageTypeOf m))"
    if "(Create (DeploymentO d), a) \<in> set t" for d a
    using run(2) [OF that] by (auto simp: managed_objects_def split: if_split_asm sum.split_asm)
  have pvc: "pvcForNFSProvisioner L m = Inr c" if "(Create (PersistentVolumeClaimO c), a) \<in> set t" for c a
    using run(2) [OF that] by (auto simp: managed_objects_def split: if_split_asm sum.split_asm)
  show ?thesis
    unfolding Let_def
  proof (intro conjI allI impI)
    fix n a
    assume "(Get PersistentVolumeClaimK n, a) \<in> set t"
    then show "n = nn (nfsNamespace m) (pvcNameOf m)" by (rule run(1))
  next
    fix d a
    assume d: "(Create (DeploymentO d), a) \<in> set t"
    then show "\<exists>b. (Get PersistentVolumeClaimK (nn (nfsNamespace m) (pvcNameOf m)), b) \<in> set t"
      by (rule run(3)) (rule assms(3))
    show "om_namespace (dep_meta d) = nfsNamespace m" unfolding dep [OF d] by (rule k8s_lib.deployment_namespace [OF assms(1)])
    show "\<exists>v. ps_volumes (dep_podSpec d) = [v] \<and> vs_hostPath (v_source v) = None \<and>
        vs_claimName (v_source v) = Some (pvcNameOf m)"
      unfolding dep [OF d] by (rule deployment_volume [OF assms(3)])
  next
    fix c a
    assume "(Create (PersistentVolumeClaimO c), a) \<in> set t"
    note claim = k8s_lib.pvc_meta [OF assms(1) pvc [OF this]]
    then show "om_namespace (pvc_meta c) = nfsNamespace m" by simp
    show "om_name (pvc_meta c) = pvcNameOf m \<longleftrightarrow> Pvc (Spec m) \<in> {'''', Pvc_default}"
      using claim by (auto simp: Pvc_default_def)
  qed
qed

lemma volume_claim_agreement_witness:
  "\<exists>d a v. (Create (DeploymentO d), a) \<in> set (fst (demoRun [] (demoCluster demoSpec [] None))) \<and>
     ps_volumes (dep_podSpec d) = [v] \<and> vs_claimName (v_source v) = Some ''nfs-server''"
proof -
  let ?m = "demoCR demoSpec [] None" and ?t = "tl (fst (demoRun [] (demoCluster demoSpec [] None)))"
  have "list_ex (\<lambda>(q, a). case q of Create (DeploymentO d) \<Rightarrow> True | _ \<Rightarrow> False) ?t" by code_simp
  then obtain d a where d: "(Create (DeploymentO d), a) \<in> set ?t"
    by (auto simp: list_ex_iff split: request.splits kobj.splits)
  have spec: "HostPathDir (Spec ?m) = ''''" "Pvc (Spec ?m) = ''''" "Pvc_default = ''nfs-server''" by code_simp+
  from volume_claim_agreement [OF demoLib demoRun_fetch spec(1)] d spec(2,3)
  obtain v where "ps_volumes (dep_podSpec d) = [v]" "vs_claimName (v_source v) = Some ''nfs-server''"
    by (auto simp: Let_def)
  moreover have "(Create (DeploymentO d), a) \<in> set (fst (demoRun [] (demoCluster demoSpec [] None)))"
    using d demoRun_starts [of demoSpec "[]" None] by (metis list.set_intros(2))
  ultimately show ?thesis by blast
qed

text \<open>
  The node selector of the spec takes effect only together with a host path;
  with a claim the pod is never pinned to a node.
\<close>

theorem node_selector_of_pod:
  "ps_nodeSelector (dep_podSpec (io_value (deploymentForNFSProvisioner L m (storageTypeOf m)))) =
     Some (if HostPathDir (Spec m) = '''' then fmempty
           else case NodeSelector (Spec m) of Some ns \<Rightarrow> ns
                | None \<Rightarrow> fmap_of_list [(''app'', ''nfs-provisioner'')])"
  unfolding deployment_fields by (simp add: storageTypeOf_def NodeSelector_default_def split: option.split)

end
