(* ===== verification/NfsShared.thy ===== *)
theory NfsShared
  imports NfsServer NfsObjects
begin

text \<open>
  Several resources on one cluster.  The names of the managed objects are fixed,
  so resources share the cluster-wide objects, and resources of one namespace
  share all of them.
\<close>

lemma mkKey_NFSProvisioner_inj: "mkKey NFSProvisionerK n = mkKey NFSProvisionerK n' \<longleftrightarrow> n = n'"
  by (cases n; cases n') (simp add: mkKey_def cluster_scoped_def)

lemma roles_shared: "roleKey \<in> required_keys m" "bindingKey \<in> required_keys m"
  by (simp_all add: required_keys_def required_def)

context healthy_server
begin

lemma deleted_neighbour:
  assumes two: "served L req2 (store s)"
    and cr: "store s (mkKey NFSProvisionerK req1) = Some (NFSProvisionerO m)"
    and del: "\<not> IsZero L (om_deletionTimestamp (nfs_meta m))" and ok: "serviceable L (store s) m"
    and fin: "finalizerName \<in> set (om_finalizers (nfs_meta m))"
    and roles: "removable {roleKey, bindingKey} (store s)" and other: "req1 \<noteq> req2"
  shows "store (reconciled srv L req1 s) roleKey = None \<and>
    \<not> served L req2 (store (reconciled srv L req1 s)) \<and>
    served L req2 (store (reconciled srv L req2 (reconciled srv L req1 s)))"
proof -
  from Reconcile_deleted [OF cr del ok fin roles] obtain s1 f where
    s1: "exec srv (Reconcile L req1) s = (Return \<lparr>Requeue = False\<rparr> None, s1)"
    and f: "ensured (built L m) (required_keys m) (store s) f"
    and rel: "released m (f(roleKey := None, bindingKey := None)) (store s1)" by blast
  from two obtain m2 where m2: "store s (mkKey NFSProvisionerK req2) = Some (NFSProvisionerO m2)"
    "IsZero L (om_deletionTimestamp (nfs_meta m2))" "serviceable L (store s) m2"
    unfolding served_def by blast
  have out: "store s1 k = f k" if "k \<noteq> crKey m" "k \<noteq> roleKey" "k \<noteq> bindingKey" for k
    using rel that by (auto simp: released_def Let_def split: if_split_asm)
  have role: "store s1 roleKey = None"
    using rel by (auto simp: released_def Let_def split: if_split_asm)
  have "mkKey NFSProvisionerK req2 \<noteq> crKey m"
    using other key_of_fetched [OF cr] mkKey_NFSProvisioner_inj by metis
  then have cr2: "store s1 (mkKey NFSProvisionerK req2) = Some (NFSProvisionerO m2)"
    using out [of "mkKey NFSProvisionerK req2"] ensured_keeps [OF f m2(1)] by simp
  have "store s1 (claimKey m2) = f (claimKey m2)"
    by (rule out) (simp_all add: claimKey_def)
  with m2(3) ensured_exists [OF f, of "claimKey m2"] have "serviceable L (store s1) m2"
    by (simp add: serviceable_def del: not_None_eq)
  from converges_served [OF cr2 m2(2) this] have "served L req2 (store (reconciled srv L req2 s1))" .
  moreover have "\<not> served L req2 (store s1)"
    using role roles_shared(1) unfolding served_def by blast
  ultimately show ?thesis using s1 role by (simp add: reconciled_def)
qed

end

text \<open>
  C24. Deleting one resource takes the ClusterRole and the ClusterRoleBinding away
  from every other resource, however well served it was; the next run for such a
  resource brings them back.
\<close>

theorem deletion_breaks_and_next_run_heals:
  assumes "healthy_server L srv store" and "served L req2 (store s)"
    and "store s (mkKey NFSProvisionerK req1) = Some (NFSProvisionerO m)"
    and "\<not> IsZero L (om_deletionTimestamp (nfs_meta m))" and "serviceable L (store s) m"
    and "finalizerName \<in> set (om_finalizers (nfs_meta m))"
    and "removable {roleKey, bindingKey} (store s)" and "req1 \<noteq> req2"
  shows "store (reconciled srv L req1 s) roleKey = None \<and>
    \<not> served L req2 (store (reconciled srv L req1 s)) \<and>
    served L req2 (store (reconciled srv L req2 (reconciled srv L req1 s)))"
  using healthy_server.deleted_neighbour [OF assms] .

text \<open>The resource \<open>demo\<close> is served when a second one, \<open>old\<close>, is deleted.\<close>

definition oldCR :: NFSProvisioner where
  "oldCR = (demoCR demoSpec [finalizerName] (Some 5))\<lparr>nfs_meta :=
     (mkMeta ''old'' ''ns2'')\<lparr>om_finalizers := [finalizerName], om_deletionTimestamp := Some 5\<rparr>\<rparr>"

definition twoCluster :: cluster where
  "twoCluster = reconciled mem_srv demoLib demoReq
     (cluster_of [NFSProvisionerO (demoCR demoSpec [] None), NFSProvisionerO oldCR] [])"

lemma deletion_breaks_and_next_run_heals_witness:
  "mem_store (reconciled mem_srv demoLib (nn ''ns2'' ''old'') twoCluster) roleKey = None"
proof -
  let ?s0 = "cluster_of [NFSProvisionerO (demoCR demoSpec [] None), NFSProvisionerO oldCR] []"
  have cr: "mem_store ?s0 (mkKey NFSProvisionerK demoReq) = Some (NFSProvisionerO (demoCR demoSpec [] None))"
    and live: "IsZero demoLib (om_deletionTimestamp (nfs_meta (demoCR demoSpec [] None)))"
      "serviceable demoLib (mem_store ?s0) (demoCR demoSpec [] None)"
    by code_simp+
  from healthy_server.converges_served [OF demo_healthy cr live]
  have two: "served demoLib demoReq (mem_store twoCluster)" by (simp add: twoCluster_def)
  have old: "mem_store twoCluster (mkKey NFSProvisionerK (nn ''ns2'' ''old'')) = Some (NFSProvisionerO oldCR)"
    "\<not> IsZero demoLib (om_deletionTimestamp (nfs_meta oldCR))" "serviceable demoLib (mem_store twoCluster) oldCR"
    "finalizerName \<in> set (om_finalizers (nfs_meta oldCR))" "nn ''ns2'' ''old'' \<noteq> demoReq"
    by code_simp+
  have "case mem_store twoCluster roleKey of Some x \<Rightarrow> om_finalizers (kobj_meta x) = [] | None \<Rightarrow> False"
    "case mem_store twoCluster bindingKey of Some x \<Rightarrow> om_finalizers (kobj_meta x) = [] | None \<Rightarrow> False"
    by code_simp+
  then have "removable {roleKey, bindingKey} (mem_store twoCluster)"
    by (auto simp: removable_def split: option.splits)
  from deletion_breaks_and_next_run_heals [OF demo_healthy, OF two old(1-4) this old(5)] show ?thesis by blast
qed

text \<open>
  C33. The security constraints are made for the first resource only: when they
  exist and do not name the service account of another resource's namespace, the
  run for that resource reports success and leaves them as they are.
\<close>

theorem constraints_of_first_namespace_only:
  assumes "healthy_server L srv store"
    and "store s (mkKey NFSProvisionerK req) = Some (NFSProvisionerO m)"
    and "IsZero L (om_deletionTimestamp (nfs_meta m))" and "serviceable L (store s) m"
    and "store s sccKey = Some (SCCO scc)"
    and "serviceAccountUser (serviceAccountForNFSProvisioner L m) \<notin> set (scc_users scc)"
  shows "\<exists>s' scc'. exec srv (Reconcile L req) s = (Return \<lparr>Requeue = True\<rparr> None, s') \<and>
    store s' (mkKey DeploymentK (nn (nfsNamespace m) Deployment_default)) \<noteq> None \<and>
    store s' sccKey = Some (SCCO scc') \<and>
    serviceAccountUser (serviceAccountForNFSProvisioner L m) \<notin> set (scc_users scc')"
proof -
  from healthy_server.Reconcile_converges_lemma [OF assms(1-4)] obtain s' f m' where
    s': "exec srv (Reconcile L req) s = (Return \<lparr>Requeue = True\<rparr> None, s')"
    and f: "ensured (built L m) (required_keys m) (store s) f" "store s' = f(crKey m \<mapsto> NFSProvisionerO m')" by blast
  have "store s' sccKey = Some (SCCO scc)"
    using f(2) ensured_keeps [OF f(1), OF assms(5)] by simp
  moreover have "mkKey DeploymentK (nn (nfsNamespace m) Deployment_default) \<in> required_keys m"
    by (simp add: required_keys_def required_def)
  then have "store s' (mkKey DeploymentK (nn (nfsNamespace m) Deployment_default)) \<noteq> None"
    using f(2) ensured_exists [OF f(1)] by (simp del: not_None_eq)
  ultimately show ?thesis using s' assms(6) by blast
qed

lemma constraints_of_first_namespace_only_witness:
  "\<exists>s' scc'. exec mem_srv (Reconcile demoLib demoReq) (cluster_of [NFSProvisionerO (demoCR demoSpec [] None),
       SCCO (sccForNFSProvisioner demoLib oldCR)] []) = (Return \<lparr>Requeue = True\<rparr> None, s') \<and>
     mem_store s' sccKey = Some (SCCO scc')"
proof -
  let ?s0 = "cluster_of [NFSProvisionerO (demoCR demoSpec [] None), SCCO (sccForNFSProvisioner demoLib oldCR)] []"
  have "mem_store ?s0 (mkKey NFSProvisionerK demoReq) = Some (NFSProvisionerO (demoCR demoSpec [] None))"
    "IsZero demoLib (om_deletionTimestamp (nfs_meta (demoCR demoSpec [] None)))"
    "serviceable demoLib (mem_store ?s0) (demoCR demoSpec [] None)"
    "mem_store ?s0 sccKey = Some (SCCO (sccForNFSProvisioner demoLib oldCR))"
    "serviceAccountUser (serviceAccountForNFSProvisioner demoLib (demoCR demoSpec [] None)) \<notin>
       set (scc_users (sccForNFSProvisioner demoLib oldCR))"
    by code_simp+
  from constraints_of_first_namespace_only [OF demo_healthy, OF this] show ?thesis by blast
qed

end
