(* ===== verification/Memcached.thy ===== *)
theory Memcached
  imports EnsureBlock Rbac
begin

text \<open>
  The controller of the first tutorial (\<open>0.memcached_controller.go\<close>): one
  Deployment per resource, its size, and the names of its pods in the status.
\<close>

section \<open>Helpers and the Deployment\<close>

definition labelsForMemcached :: "string \<Rightarrow> string_map" where
  "labelsForMemcached name = fmap_of_list [(''app'', ''memcached''), (''memcached_cr'', name)]"

text \<open>\<open>append\<close> to a nil slice makes a slice; a nil slice that nothing is appended to stays nil.\<close>

fun getPodNames_loop :: "Pod list \<Rightarrow> string list option \<Rightarrow> string list option" where
  "getPodNames_loop [] podNames = podNames"
| "getPodNames_loop (pod # pods) podNames =
     getPodNames_loop pods
       (Some ((case podNames of None \<Rightarrow> [] | Some ns \<Rightarrow> ns) @ [om_name (pod_meta pod)]))"

definition getPodNames :: "Pod list \<Rightarrow> string list option" where
  "getPodNames pods = getPodNames_loop pods None"

definition deploymentForMemcached :: "lib \<Rightarrow> Memcached \<Rightarrow> Deployment" where
  "deploymentForMemcached L m =
     (let ls = labelsForMemcached (om_name (mc_meta m)); replicas = mc_Size m
      in \<lparr>dep_meta = SetControllerReference L MemcachedK (mc_meta m) DeploymentK
            (mkMeta (om_name (mc_meta m)) (om_namespace (mc_meta m))),
          dep_replicas = Some replicas,
          dep_matchLabels = Some ls,
          dep_templateLabels = Some ls,
          dep_podSpec =
            \<lparr>ps_containers =
               [\<lparr>c_image = ''memcached:1.4.36-alpine'',
                 c_name = ''memcached'',
                 c_command = [''memcached'', ''-m=64'', ''-o'', ''modern'', ''-v''],
                 c_ports = [\<lparr>cp_name = ''memcached'', cp_containerPort = 11211, cp_protocol = ''''\<rparr>],
                 c_securityContext = None,
                 c_args = [],
                 c_env = [],
                 c_imagePullPolicy = '''',
                 c_volumeMounts = []\<rparr>],
             ps_nodeSelector = None,
             ps_serviceAccountName = '''',
             ps_volumes = []\<rparr>\<rparr>)"

section \<open>Reconcile\<close>

text \<open>The typed structs that \<open>Get\<close> and \<open>List\<close> fill, zero when there is nothing of their type.\<close>

fun asMemcached :: "kobj \<Rightarrow> Memcached" where
  "asMemcached (MemcachedO m) = m"
| "asMemcached _ = \<lparr>mc_meta = mkMeta '''' '''', mc_Size = 0, mc_Nodes = None\<rparr>"

fun asDeployment :: "kobj \<Rightarrow> Deployment" where
  "asDeployment (DeploymentO d) = d"
| "asDeployment _ = \<lparr>dep_meta = mkMeta '''' '''', dep_replicas = None, dep_matchLabels = None,
     dep_templateLabels = None, dep_podSpec = \<lparr>ps_containers = [], ps_nodeSelector = None,
       ps_serviceAccountName = '''', ps_volumes = []\<rparr>\<rparr>"

fun asPods :: "kobj \<Rightarrow> Pod list" where
  "asPods (PodListO ps) = ps"
| "asPods _ = []"

definition fetchMemcached :: "lib \<Rightarrow> NamespacedName \<Rightarrow> Memcached stmt" where
  "fetchMemcached L req =
     Req (Get MemcachedK req) (\<lambda>r. case r of
       Inl err \<Rightarrow>
         if IsNotFound L err then
           logInfo (RLog req)
             ''Memcached resource not found. Ignoring since object must be deleted'' []
             (returns False None)
         else logError (RLog req) err ''Failed to get Memcached'' [] (returns False (Some err))
     | Inr x \<Rightarrow> Ret (Inr (asMemcached x)))"

definition findDeployment :: "lib \<Rightarrow> logger \<Rightarrow> Memcached \<Rightarrow> Deployment stmt" where
  "findDeployment L lg m =
     Req (Get DeploymentK
            \<lparr>nn_namespace = om_namespace (mc_meta m), nn_name = om_name (mc_meta m)\<rparr>) (\<lambda>r. case r of
       Inl err \<Rightarrow>
         if IsNotFound L err then
           let dep = deploymentForMemcached L m;
               kvs = [LStr ''Deployment.Namespace'', LStr (om_namespace (dep_meta dep)),
                      LStr ''Deployment.Name'', LStr (om_name (dep_meta dep))]
           in logInfo lg ''Creating a new Deployment'' kvs
                (Req (Create (DeploymentO dep)) (\<lambda>r. case r of
                   Inl err \<Rightarrow> logError lg err ''Failed to create new Deployment'' kvs
                     (returns False (Some err))
                 | Inr _ \<Rightarrow> returns True None))
         else logError lg err ''Failed to get Deployment'' [] (returns False (Some err))
     | Inr x \<Rightarrow> Ret (Inr (asDeployment x)))"

text \<open>Reading \<open>*found.Spec.Replicas\<close> panics when the pointer is nil.\<close>

definition syncSize :: "logger \<Rightarrow> Memcached \<Rightarrow> Deployment \<Rightarrow> unit stmt" where
  "syncSize lg m found =
     (let size = mc_Size m in
      case dep_replicas found of
        None \<Rightarrow> panics ''invalid memory address or nil pointer dereference''
      | Some replicas \<Rightarrow>
          if replicas \<noteq> size then
            let found = found\<lparr>dep_replicas := Some size\<rparr>
            in Req (Update (DeploymentO found)) (\<lambda>r. case r of
                 Inl err \<Rightarrow> logError lg err ''Failed to update Deployment''
                   [LStr ''Deployment.Namespace'', LStr (om_namespace (dep_meta found)),
                    LStr ''Deployment.Name'', LStr (om_name (dep_meta found))]
                   (returns False (Some err))
               | Inr _ \<Rightarrow> returns True None)
          else proceed)"

definition updateNodes :: "logger \<Rightarrow> Memcached \<Rightarrow> unit stmt" where
  "updateNodes lg m =
     Req (ListPods (om_namespace (mc_meta m)) (labelsForMemcached (om_name (mc_meta m)))) (\<lambda>r. case r of
       Inl err \<Rightarrow> logError lg err ''Failed to list pods''
         [LStr ''Memcached.Namespace'', LStr (om_namespace (mc_meta m)),
          LStr ''Memcached.Name'', LStr (om_name (mc_meta m))]
         (returns False (Some err))
     | Inr podList \<Rightarrow>
         let podNames = getPodNames (asPods podList)
         in if podNames \<noteq> mc_Nodes m then
              let m = m\<lparr>mc_Nodes := podNames\<rparr>
              in Req (StatusUpdate (MemcachedO m)) (\<lambda>r. case r of
                   Inl err \<Rightarrow> logError lg err ''Failed to update Memcached status'' []
                     (returns False (Some err))
                 | Inr _ \<Rightarrow> returns False None)
            else returns False None)"

definition ReconcileMemcached_body :: "lib \<Rightarrow> NamespacedName \<Rightarrow> unit stmt" where
  "ReconcileMemcached_body L req =
     andthen (fetchMemcached L req) (\<lambda>m.
     andthen (findDeployment L (RLog req) m) (\<lambda>found.
     andthen (syncSize (RLog req) m found) (\<lambda>_.
     updateNodes (RLog req) m)))"

definition ReconcileMemcached :: "lib \<Rightarrow> NamespacedName \<Rightarrow> ret io" where
  "ReconcileMemcached L req =
     prog_bind (ReconcileMemcached_body L req) (\<lambda>x. case x of
       Inl r \<Rightarrow> Ret r
     | Inr _ \<Rightarrow> Ret (Return \<lparr>Requeue = False\<rparr> None))"

section \<open>Pod names\<close>

lemma getPodNames_loop:
  "getPodNames_loop pods acc =
     (if pods = [] then acc
      else Some ((case acc of None \<Rightarrow> [] | Some ns \<Rightarrow> ns) @ map (\<lambda>p. om_name (pod_meta p)) pods))"
  by (induction pods acc rule: getPodNames_loop.induct) auto

text \<open>
  The node list of the status is the list of the pods' names in the order of
  the server's answer, and it is the nil slice, not an empty one, when there is
  no pod.
\<close>

theorem getPodNames_names:
  "getPodNames pods = (if pods = [] then None else Some (map (\<lambda>p. om_name (pod_meta p)) pods))"
  by (simp add: getPodNames_def getPodNames_loop)

section \<open>Runs\<close>

lemma fetchMemcached_run:
  assumes "runs (fetchMemcached L req) t x"
  obtains (missing) e r where "IsNotFound L e"
      "t = [(Get MemcachedK req, Inl e), (LogInfo (RLog req)
         ''Memcached resource not found. Ignoring since object must be deleted'' [], r)]"
      "x = Inl (Return \<lparr>Requeue = False\<rparr> None)"
  | (failed) e r where "\<not> IsNotFound L e"
      "t = [(Get MemcachedK req, Inl e), (LogError (RLog req) e ''Failed to get Memcached'' [], r)]"
      "x = Inl (Return \<lparr>Requeue = False\<rparr> (Some e))"
  | (fetched) y where "t = [(Get MemcachedK req, Inr y)]" "x = Inr (asMemcached y)"
  using assms unfolding fetchMemcached_def stmt_defs
  by (auto simp: io_simps split: if_split_asm)

abbreviation memcachedName :: "Memcached \<Rightarrow> NamespacedName" where
  "memcachedName m \<equiv> \<lparr>nn_namespace = om_namespace (mc_meta m), nn_name = om_name (mc_meta m)\<rparr>"

lemma findDeployment_run:
  assumes "runs (findDeployment L lg m) t x"
  obtains (found) y where "t = [(Get DeploymentK (memcachedName m), Inr y)]" "x = Inr (asDeployment y)"
  | (failed) e msg kvs r where "\<not> IsNotFound L e"
      "t = [(Get DeploymentK (memcachedName m), Inl e), (LogError lg e msg kvs, r)]"
      "x = Inl (Return \<lparr>Requeue = False\<rparr> (Some e))"
  | (created) e msg kvs r y where "IsNotFound L e"
      "t = [(Get DeploymentK (memcachedName m), Inl e), (LogInfo lg msg kvs, r),
            (Create (DeploymentO (deploymentForMemcached L m)), Inr y)]"
      "x = Inl (Return \<lparr>Requeue = True\<rparr> None)"
  | (create_failed) e msg kvs r e' msg' r' where "IsNotFound L e"
      "t = [(Get DeploymentK (memcachedName m), Inl e), (LogInfo lg msg kvs, r),
            (Create (DeploymentO (deploymentForMemcached L m)), Inl e'), (LogError lg e' msg' kvs, r')]"
      "x = Inl (Return \<lparr>Requeue = False\<rparr> (Some e'))"
  using assms unfolding findDeployment_def stmt_defs Let_def
  by (auto simp: io_simps split: if_split_asm)

lemma syncSize_run:
  assumes "runs (syncSize lg m d) t x"
  obtains (panics) "dep_replicas d = None" "t = []" "\<exists>p. x = Inl (Panic p)"
  | (same) "dep_replicas d = Some (mc_Size m)" "t = []" "x = Inr ()"
  | (resized) n y where "dep_replicas d = Some n" "n \<noteq> mc_Size m"
      "t = [(Update (DeploymentO (d\<lparr>dep_replicas := Some (mc_Size m)\<rparr>)), Inr y)]"
      "x = Inl (Return \<lparr>Requeue = True\<rparr> None)"
  | (failed) n e msg kvs r where "dep_replicas d = Some n" "n \<noteq> mc_Size m"
      "t = [(Update (DeploymentO (d\<lparr>dep_replicas := Some (mc_Size m)\<rparr>)), Inl e), (LogError lg e msg kvs, r)]"
      "x = Inl (Return \<lparr>Requeue = False\<rparr> (Some e))"
  using assms unfolding syncSize_def stmt_defs Let_def
  by (cases "dep_replicas d") (auto simp: io_simps split: if_split_asm)

lemma updateNodes_run:
  assumes "runs (updateNodes lg m) t x"
  obtains (list_failed) sel e msg kvs r where
      "t = [(ListPods (om_namespace (mc_meta m)) (labelsForMemcached (om_name (mc_meta m))), Inl e),
            (LogError lg e msg kvs, r)]"
      "x = Inl (Return \<lparr>Requeue = False\<rparr> (Some e))"
  | (same) y where "getPodNames (asPods y) = mc_Nodes m"
      "t = [(ListPods (om_namespace (mc_meta m)) (labelsForMemcached (om_name (mc_meta m))), Inr y)]"
      "x = Inl (Return \<lparr>Requeue = False\<rparr> None)"
  | (updated) y z where "getPodNames (asPods y) \<noteq> mc_Nodes m"
      "t = [(ListPods (om_namespace (mc_meta m)) (labelsForMemcached (om_name (mc_meta m))), Inr y),
            (StatusUpdate (MemcachedO (m\<lparr>mc_Nodes := getPodNames (asPods y)\<rparr>)), Inr z)]"
      "x = Inl (Return \<lparr>Requeue = False\<rparr> None)"
  | (update_failed) y e msg r where "getPodNames (asPods y) \<noteq> mc_Nodes m"
      "t = [(ListPods (om_namespace (mc_meta m)) (labelsForMemcached (om_name (mc_meta m))), Inr y),
            (StatusUpdate (MemcachedO (m\<lparr>mc_Nodes := getPodNames (asPods y)\<rparr>)), Inl e),
            (LogError lg e msg [], r)]"
      "x = Inl (Return \<lparr>Requeue = False\<rparr> (Some e))"
  using assms unfolding updateNodes_def stmt_defs Let_def
  by (auto simp: io_simps split: if_split_asm)

section \<open>Errors\<close>

text \<open>
  An answer the controller may pass over: a success, or "not found" to a lookup.
  In contrast to the other controller, this one reports the failure of every call,
  reads included.
\<close>

fun tolerated :: "lib \<Rightarrow> event \<Rightarrow> bool" where
  "tolerated L (q, Inr _) \<longleftrightarrow> True"
| "tolerated L (Get _ _, Inl e) \<longleftrightarrow> IsNotFound L e"
| "tolerated L (q, Inl _) \<longleftrightarrow> is_log q"

lemma tolerated_log [simp]: "is_log q \<Longrightarrow> tolerated L (q, r)"
  by (cases r; cases q) simp_all

fun exact_errors :: "lib \<Rightarrow> event list \<Rightarrow> ret option \<Rightarrow> bool" where
  "exact_errors L t (Some (Return res (Some e))) \<longleftrightarrow>
     \<not> Requeue res \<and>
     (\<exists>t0 q lg msg kvs a. t = t0 @ [(q, Inl e), (LogError lg e msg kvs, a)] \<and>
        list_all (tolerated L) t0 \<and> \<not> is_log q)"
| "exact_errors L t _ \<longleftrightarrow> list_all (tolerated L) t"

interpretation exact: statement_contract "exact_errors L" for L
proof
  show "exact_errors L [] None" by simp
next
  fix t1 t2 x
  assume "exact_errors L t1 None" and 2: "exact_errors L t2 x"
  then have 1: "list_all (tolerated L) t1" by simp
  from 2 show "exact_errors L (t1 @ t2) x"
  proof (cases "(L, t2, x)" rule: exact_errors.cases)
    case (1 L' t res e)
    with 2 obtain t0 q lg msg kvs a where
      "\<not> Requeue res" "t2 = t0 @ [(q, Inl e), (LogError lg e msg kvs, a)]"
      "list_all (tolerated L) t0" "\<not> is_log q" by auto
    with 1 \<open>list_all (tolerated L) t1\<close> show ?thesis by (auto intro!: exI [of _ "t1 @ t0"])
  qed (auto simp: 1)
qed

lemma exact_errorI:
  "list_all (tolerated L) t0 \<Longrightarrow> \<not> is_log q \<Longrightarrow>
   exact_errors L (t0 @ [(q, Inl e), (LogError lg e msg kvs, a)]) (Some (Return \<lparr>Requeue = False\<rparr> (Some e)))"
  by auto

lemma exact_errorI1:
  "\<not> is_log q \<Longrightarrow> exact_errors L [(q, Inl e), (LogError lg e msg kvs, a)]
     (Some (Return \<lparr>Requeue = False\<rparr> (Some e)))"
  using exact_errorI [of L "[]" q e lg msg kvs a] by (simp del: exact_errors.simps)

lemma exact_errorI2:
  "tolerated L x \<Longrightarrow> \<not> is_log q \<Longrightarrow> exact_errors L [x, (q, Inl e), (LogError lg e msg kvs, a)]
     (Some (Return \<lparr>Requeue = False\<rparr> (Some e)))"
  using exact_errorI [of L "[x]" q e lg msg kvs a] by (simp del: exact_errors.simps)

lemma exact_errorI3:
  "tolerated L x \<Longrightarrow> tolerated L y \<Longrightarrow> \<not> is_log q \<Longrightarrow>
   exact_errors L [x, y, (q, Inl e), (LogError lg e msg kvs, a)]
     (Some (Return \<lparr>Requeue = False\<rparr> (Some e)))"
  using exact_errorI [of L "[x, y]" q e lg msg kvs a] by (simp del: exact_errors.simps)

lemma memcached_exact:
  "obeys (exact_errors L) (fetchMemcached L req)"
  "obeys (exact_errors L) (findDeployment L lg m)"
  "obeys (exact_errors L) (syncSize lg m d)"
  "obeys (exact_errors L) (updateNodes lg m)"
  unfolding obeys_def
  by (auto elim!: fetchMemcached_run findDeployment_run syncSize_run updateNodes_run
      intro!: exact_errorI1 exact_errorI2 exact_errorI3 simp del: exact_errors.simps(1))

lemma runs_ReconcileMemcached:
  "runs (ReconcileMemcached L req) t r \<longleftrightarrow> runs (ReconcileMemcached_body L req) t (Inl r)"
proof -
  have "\<not> runs (ReconcileMemcached_body L req) t (Inr a)" for t a
    unfolding ReconcileMemcached_body_def by (auto elim!: runs_andthenE updateNodes_run)
  then show ?thesis
    unfolding ReconcileMemcached_def runs_prog_bind by (auto simp: io_simps split: sum.splits)
qed

text \<open>
  C30. Every failure is reported: a run that returns an error returns that of its
  last call, which it has logged, and every earlier call succeeded or was a lookup
  answered "not found"; a run that returns no error had no other failure.
\<close>

theorem ReconcileMemcached_exact_errors:
  assumes "runs (ReconcileMemcached L req) t r"
  shows "exact_errors L t (Some r)"
proof -
  have "obeys (exact_errors L) (ReconcileMemcached_body L req)"
    unfolding ReconcileMemcached_body_def by (intro exact.obeys_andthen memcached_exact)
  with assms show ?thesis unfolding runs_ReconcileMemcached by (rule obeys_returned [rotated])
qed

section \<open>What a run may write\<close>

fun mc_permitted :: "lib \<Rightarrow> Memcached \<Rightarrow> event list \<Rightarrow> request \<Rightarrow> bool" where
  "mc_permitted L m t (Create x) \<longleftrightarrow> x = DeploymentO (deploymentForMemcached L m)"
| "mc_permitted L m t (Update x) \<longleftrightarrow>
     (\<exists>y. (Get DeploymentK (memcachedName m), Inr y) \<in> set t \<and>
        x = DeploymentO ((asDeployment y)\<lparr>dep_replicas := Some (mc_Size m)\<rparr>))"
| "mc_permitted L m t (StatusUpdate x) \<longleftrightarrow>
     (\<exists>sel y. (ListPods (om_namespace (mc_meta m)) sel, Inr y) \<in> set t \<and>
        x = MemcachedO (m\<lparr>mc_Nodes := getPodNames (asPods y)\<rparr>))"
| "mc_permitted L m t _ \<longleftrightarrow> False"

definition writes :: "event list \<Rightarrow> request list" where
  "writes t = filter is_write (map fst t)"

lemma writes_simps [simp]:
  "writes [] = []"
  "writes ((q, r) # t) = (if is_write q then q # writes t else writes t)"
  "writes (t1 @ t2) = writes t1 @ writes t2"
  by (simp_all add: writes_def)

lemma memcached_calls_and_writes:
  assumes "runs (ReconcileMemcached L req) t r"
  shows "api_calls t \<le> 4 \<and>
    (writes t = [] \<or> (\<exists>q y. writes t = [q] \<and> hd t = (Get MemcachedK req, Inr y) \<and>
       mc_permitted L (asMemcached y) t q))"
  using assms unfolding runs_ReconcileMemcached ReconcileMemcached_body_def
  by (auto elim!: runs_andthenE fetchMemcached_run findDeployment_run syncSize_run updateNodes_run)

text \<open>
  C31. A run makes at most four API calls and at most one write, which concerns
  the fetched resource: it creates the Deployment of the resource, or sets nothing
  but the number of replicas of the Deployment it has found to the size of the
  spec, or sets nothing but the node list of the status to the names of the pods
  it has listed.
\<close>

theorem ReconcileMemcached_one_write:
  assumes "runs (ReconcileMemcached L req) t r"
  shows "api_calls t \<le> 4 \<and>
    (writes t = [] \<or> (\<exists>q y. writes t = [q] \<and> hd t = (Get MemcachedK req, Inr y) \<and>
       mc_permitted L (asMemcached y) t q))"
  using assms by (rule memcached_calls_and_writes)

text \<open>
  The run panics exactly when the Deployment it finds has no number of
  replicas.
\<close>

theorem ReconcileMemcached_panics_iff:
  assumes "runs (ReconcileMemcached L req) t r"
  shows "(\<exists>p. r = Panic p) \<longleftrightarrow>
    (\<exists>y z. t = [(Get MemcachedK req, Inr y), (Get DeploymentK (memcachedName (asMemcached y)), Inr z)] \<and>
       dep_replicas (asDeployment z) = None)"
  using assms unfolding runs_ReconcileMemcached ReconcileMemcached_body_def
  by (auto elim!: runs_andthenE fetchMemcached_run findDeployment_run syncSize_run updateNodes_run)


section \<open>Permissions\<close>

text \<open>The markers above \<open>Reconcile\<close>: the pods can be read and listed, not watched.\<close>

definition memcachedMarkers :: "PolicyRule list" where
  "memcachedMarkers =
     [marker ''cache.example.com'' ''memcacheds'' allVerbs,
      marker ''cache.example.com'' ''memcacheds/status'' [''get'', ''update'', ''patch''],
      marker ''apps'' ''deployments'' allVerbs,
      marker ''core'' ''pods'' [''get'', ''list'']]"

lemma authorized_memcached:
  "authorized memcachedMarkers (Get MemcachedK n)" "authorized memcachedMarkers (Get DeploymentK n)"
  "authorized memcachedMarkers (Create (DeploymentO d))" "authorized memcachedMarkers (Update (DeploymentO d))"
  "authorized memcachedMarkers (StatusUpdate (MemcachedO m))" "\<not> authorized memcachedMarkers (ListPods ns sel)"
  "authorized memcachedMarkers (LogInfo lg msg kvs)" "authorized memcachedMarkers (LogError lg e msg kvs)"
  by (simp_all add: authorized_def allows_def memcachedMarkers_def marker_def allVerbs_def)

text \<open>
  The markers of the memcached controller allow every request of a run except
  one: listing the pods through the cache of the client also watches them, and the
  verb is missing.
\<close>

theorem ReconcileMemcached_authorized:
  assumes "runs (ReconcileMemcached L req) t r"
  shows "requests_in (\<lambda>q. authorized memcachedMarkers q \<noteq> (\<exists>ns sel. q = ListPods ns sel)) t"
  using assms unfolding runs_ReconcileMemcached ReconcileMemcached_body_def
  by (auto elim!: runs_andthenE fetchMemcached_run findDeployment_run syncSize_run updateNodes_run
      simp: authorized_memcached)

end
