(* ===== verification/MemcachedServer.thy ===== *)
theory MemcachedServer
  imports Memcached ApiServer
begin

text \<open>
  The memcached controller against a server.  The pods are the cluster's business:
  nothing is assumed of them but that the server lists some, and they may be other
  ones at every call.  The first run gives the Deployment the size of the spec, and
  every later run ends with the names of the pods it was shown in the status.
\<close>

locale pod_server = healthy_server +
  assumes list_answers: "\<exists>ps. fst (srv (ListPods ns sel) s) = Inr (PodListO ps)"

lemma mem_pod_server: "pod_server (std_lib parse) mem_srv mem_store"
proof (rule pod_server.intro [OF mem_healthy], unfold_locales, goal_cases)
  case (1 ns sel s)
  show ?case by simp
qed

interpretation mem_pod: pod_server "std_lib parse" mem_srv mem_store for parse
  by (rule mem_pod_server)

text \<open>The contract speaks of the answers and the store only.\<close>

lemma healthy_same_effect:
  assumes "healthy_server L srv store" and answer: "\<And>q s. fst (srv' q s) = fst (srv q s)"
    and effect: "\<And>q s. store (snd (srv' q s)) = store (snd (srv q s))"
  shows "healthy_server L srv' store"
proof -
  have api: "api_server L srv store" by (rule healthy_server.axioms(1) [OF assms(1)])
  have same: "\<exists>s''. srv q s = (r, s'') \<and> store s'' = store s'" if "srv' q s = (r, s')" for q s r s'
    using that answer [of q s] effect [of q s] by (metis fst_conv prod.collapse snd_conv)
  have "api_server_axioms L srv' store"
    unfolding api_server_axioms_def
  proof (intro conjI allI impI, goal_cases)
    case (1 s key x)
    then show ?case by (rule api_server.keyed [OF api])
  next
    case (2 s key x)
    then show ?case by (rule api_server.addressed [OF api])
  next
    case (3 q s r s')
    then show ?case using same [of q s r s'] api_server.reads [OF api, of q s r] by metis
  next
    case (4 q s e s')
    then show ?case using same [of q s "Inl e" s'] api_server.failed_writes [OF api, of q s e] by metis
  next
    case (5 k n s x s')
    then show ?case using same [of "Get k n" s "Inr x" s'] api_server.get_found [OF api] by metis
  next
    case (6 k n s e s')
    then show ?case using same [of "Get k n" s "Inl e" s'] api_server.get_missing [OF api] by metis
  next
    case (7 x s y s')
    then show ?case using same [of "Create x" s "Inr y" s'] api_server.create_ok [OF api, of x s y] by auto
  next
    case (8 x s y s')
    then show ?case using same [of "Create x" s "Inr y" s'] api_server.create_ok [OF api, of x s y] by auto
  next
    case (9 x s y s')
    then show ?case using same [of "Create x" s "Inr y" s'] api_server.create_ok [OF api, of x s y] by auto
  next
    case (10 x s y s')
    then show ?case using same [of "Create x" s "Inr y" s'] api_server.create_ok [OF api, of x s y] by auto
  next
    case (11 x s y s')
    from same [OF this] obtain s'' where e: "srv (Update x) s = (Inr y, s'')" and st: "store s'' = store s'"
      by blast
    from api_server.update_ok [OF api e] show ?case unfolding st .
  next
    case (12 x s y s')
    from same [OF this] obtain s'' where e: "srv (StatusUpdate x) s = (Inr y, s'')" and st: "store s'' = store s'"
      by blast
    from api_server.status_ok [OF api e] show ?case unfolding st .
  next
    case (13 x s y s')
    from same [OF this] obtain s'' where e: "srv (Delete x) s = (Inr y, s'')" and st: "store s'' = store s'"
      by blast
    from api_server.delete_ok [OF api e] show ?case unfolding st .
  qed
  moreover have "healthy_server_axioms L srv' store"
    using healthy_server.axioms(2) [OF assms(1)] by (simp add: healthy_server_axioms_def answer)
  ultimately show ?thesis
    by (intro healthy_server.intro api_server.intro api_server.axioms(1) [OF api])
qed

text \<open>A server in whose cluster every accepted or refused write is followed by other pods.\<close>

definition rolling :: "Pod list \<Rightarrow> request \<Rightarrow> cluster \<Rightarrow> response \<times> cluster" where
  "rolling ps q s = (case mem_srv q s of (r, s') \<Rightarrow> (r, if is_write q then s'\<lparr>pods := ps\<rparr> else s'))"

lemma mem_store_pods [simp]: "mem_store (s\<lparr>pods := ps\<rparr>) = mem_store s"
  by (rule mem_store_cong) simp

lemma rolling_effect:
  "fst (rolling ps q s) = fst (mem_srv q s)" "mem_store (snd (rolling ps q s)) = mem_store (snd (mem_srv q s))"
  by (simp_all add: rolling_def case_prod_beta)

lemma rolling_pod_server: "pod_server (std_lib parse) (rolling ps) mem_store"
proof (rule pod_server.intro [OF healthy_same_effect [OF mem_healthy rolling_effect]], unfold_locales, goal_cases)
  case (1 ns sel s)
  show ?case by (simp add: rolling_effect)
qed

interpretation rolling_pod: pod_server "std_lib parse" "rolling ps" mem_store for parse ps
  by (rule rolling_pod_server)

definition mcRun :: "(request \<Rightarrow> 's \<Rightarrow> response \<times> 's) \<Rightarrow> lib \<Rightarrow> NamespacedName \<Rightarrow> 's \<Rightarrow> 's" where
  "mcRun srv L req s = snd (exec srv (ReconcileMemcached L req) s)"

abbreviation mcKey :: "Memcached \<Rightarrow> key" where
  "mcKey m \<equiv> key_of (MemcachedO m)"

abbreviation mcDepKey :: "Memcached \<Rightarrow> key" where
  "mcDepKey m \<equiv> mkKey DeploymentK (memcachedName m)"

text \<open>
  The Deployment of \<open>m\<close> is missing, or it has a number of replicas, which the
  server always sets, and is not being deleted.
\<close>

definition deployable :: "lib \<Rightarrow> (key \<Rightarrow> kobj option) \<Rightarrow> Memcached \<Rightarrow> bool" where
  "deployable L f m \<longleftrightarrow> (case f (mcDepKey m) of
     None \<Rightarrow> True
   | Some (DeploymentO d) \<Rightarrow> dep_replicas d \<noteq> None \<and> IsZero L (om_deletionTimestamp (dep_meta d))
   | Some _ \<Rightarrow> False)"

definition sized :: "(key \<Rightarrow> kobj option) \<Rightarrow> Memcached \<Rightarrow> bool" where
  "sized f m \<longleftrightarrow> (\<exists>d. f (mcDepKey m) = Some (DeploymentO d) \<and> dep_replicas d = Some (mc_Size m))"

text \<open>The list request for the pods of \<open>m\<close>.\<close>

abbreviation podQuery :: "Memcached \<Rightarrow> request" where
  "podQuery m \<equiv> ListPods (om_namespace (mc_meta m)) (labelsForMemcached (om_name (mc_meta m)))"

lemma mcDepKey_mcKey [simp]: "mcDepKey m \<noteq> mcKey m'" "mcKey m' \<noteq> mcDepKey m"
  by (simp_all add: key_of_def mkKey_def)

context pod_server
begin

lemma mc_key_of_fetched:
  "store s (mkKey MemcachedK req) = Some (MemcachedO m) \<Longrightarrow> mkKey MemcachedK req = mcKey m"
  by (drule keyed) simp

text \<open>The resource is fetched; the rest of the run sees the same store.\<close>

lemma mc_exec:
  assumes "store s (mkKey MemcachedK req) = Some (MemcachedO m)"
  obtains s1 where "store s1 = store s"
    "exec srv (ReconcileMemcached L req) s =
       (case exec srv (andthen (findDeployment L (RLog req) m) (\<lambda>found.
          andthen (syncSize (RLog req) m found) (\<lambda>_. updateNodes (RLog req) m))) s1 of
          (Inl r, s') \<Rightarrow> (r, s') | (Inr _, s') \<Rightarrow> (Return \<lparr>Requeue = False\<rparr> None, s'))"
proof (cases rule: get_cases [of MemcachedK req s])
  case (found x s1)
  from found(1,2) assms have "srv (Get MemcachedK req) s = (Inr (MemcachedO m), s1)" by simp
  with found(3) that [of s1] show thesis
    by (simp add: ReconcileMemcached_def ReconcileMemcached_body_def fetchMemcached_def exec_prog_bind
        split: prod.split sum.split)
next
  case (absent e s1)
  with assms show thesis by simp
qed

lemma mc_creates:
  assumes cr: "store s (mkKey MemcachedK req) = Some (MemcachedO m)" and none: "store s (mcDepKey m) = None"
  shows "\<exists>s' d. exec srv (ReconcileMemcached L req) s = (Return \<lparr>Requeue = True\<rparr> None, s') \<and>
    store s' = (store s)(mcDepKey m \<mapsto> DeploymentO d) \<and> dep_replicas d = Some (mc_Size m)"
proof -
  obtain s1 where s1: "store s1 = store s"
    "exec srv (ReconcileMemcached L req) s =
       (case exec srv (andthen (findDeployment L (RLog req) m) (\<lambda>found.
          andthen (syncSize (RLog req) m found) (\<lambda>_. updateNodes (RLog req) m))) s1 of
          (Inl r, s') \<Rightarrow> (r, s') | (Inr _, s') \<Rightarrow> (Return \<lparr>Requeue = False\<rparr> None, s'))"
    by (rule mc_exec [OF cr])
  let ?dep = "deploymentForMemcached L m"
  show ?thesis
  proof (cases rule: get_cases [of DeploymentK "memcachedName m" s1])
    case (found x s2)
    with none s1 show ?thesis by simp
  next
    case (absent e s2)
    let ?log = "LogInfo (RLog req) ''Creating a new Deployment''
      [LStr ''Deployment.Namespace'', LStr (om_namespace (dep_meta ?dep)),
       LStr ''Deployment.Name'', LStr (om_name (dep_meta ?dep))]"
    obtain r s3 where s3: "srv ?log s2 = (r, s3)" by (cases "srv ?log s2")
    then have st3: "store s3 = store s2" by (auto dest: reads [rotated])
    have key: "key_of (DeploymentO ?dep) = mcDepKey m"
      by (simp add: key_of_def deploymentForMemcached_def Let_def)
    then have "store s3 (key_of (DeploymentO ?dep)) = None" using st3 absent s1 none by simp
    moreover have "om_namespace (mc_meta m) \<noteq> ''''"
      using addressed [OF cr] keyed [OF cr]
      by (simp add: key_of_def mkKey_def addressable_def cluster_scoped_def)
    then have "addressable (key_of (DeploymentO ?dep))" unfolding key by simp
    ultimately obtain y s4 where c: "srv (Create (DeploymentO ?dep)) s3 = (Inr y, s4)"
      using create_accepts by (metis prod.collapse)
    from create_ok [OF c] key have st: "store s4 = (store s)(mcDepKey m \<mapsto> y)" "same_spec (DeploymentO ?dep) y"
      using st3 absent s1 by simp_all
    then obtain d where d: "y = DeploymentO d" "dep_replicas d = Some (mc_Size m)"
      by (cases y) (auto simp: deploymentForMemcached_def Let_def)
    with st(1) s1 s3 absent c show ?thesis
      by (intro exI [of _ s4] exI [of _ d])
        (simp add: findDeployment_def exec_andthen logInfo_def returns_def Let_def)
  qed
qed

end

context pod_server
begin

lemma mc_found:
  assumes cr: "store s (mkKey MemcachedK req) = Some (MemcachedO m)"
    and dep: "store s (mcDepKey m) = Some (DeploymentO d)"
  obtains s1 where "store s1 = store s"
    "exec srv (ReconcileMemcached L req) s =
       (case exec srv (andthen (syncSize (RLog req) m d) (\<lambda>_. updateNodes (RLog req) m)) s1 of
          (Inl r, s') \<Rightarrow> (r, s') | (Inr _, s') \<Rightarrow> (Return \<lparr>Requeue = False\<rparr> None, s'))"
proof -
  obtain s1 where s1: "store s1 = store s"
    "exec srv (ReconcileMemcached L req) s =
       (case exec srv (andthen (findDeployment L (RLog req) m) (\<lambda>found.
          andthen (syncSize (RLog req) m found) (\<lambda>_. updateNodes (RLog req) m))) s1 of
          (Inl r, s') \<Rightarrow> (r, s') | (Inr _, s') \<Rightarrow> (Return \<lparr>Requeue = False\<rparr> None, s'))"
    by (rule mc_exec [OF cr])
  show thesis
  proof (cases rule: get_cases [of DeploymentK "memcachedName m" s1])
    case (found x s2)
    with dep s1(1) have "srv (Get DeploymentK (memcachedName m)) s1 = (Inr (DeploymentO d), s2)" by simp
    with found(3) s1 that [of s2] show thesis
      by (simp add: findDeployment_def)
  next
    case (absent e s2)
    with dep s1 show thesis by simp
  qed
qed

lemma mc_resizes:
  assumes cr: "store s (mkKey MemcachedK req) = Some (MemcachedO m)"
    and dep: "store s (mcDepKey m) = Some (DeploymentO d)" "dep_replicas d = Some n" "n \<noteq> mc_Size m"
    and kept: "IsZero L (om_deletionTimestamp (dep_meta d)) \<or> om_finalizers (dep_meta d) \<noteq> []"
  shows "\<exists>s' d'. exec srv (ReconcileMemcached L req) s = (Return \<lparr>Requeue = True\<rparr> None, s') \<and>
    store s' = (store s)(mcDepKey m \<mapsto> DeploymentO d') \<and> dep_replicas d' = Some (mc_Size m)"
proof -
  obtain s1 where s1: "store s1 = store s"
    "exec srv (ReconcileMemcached L req) s =
       (case exec srv (andthen (syncSize (RLog req) m d) (\<lambda>_. updateNodes (RLog req) m)) s1 of
          (Inl r, s') \<Rightarrow> (r, s') | (Inr _, s') \<Rightarrow> (Return \<lparr>Requeue = False\<rparr> None, s'))"
    by (rule mc_found [OF cr dep(1)])
  let ?x = "DeploymentO (d\<lparr>dep_replicas := Some (mc_Size m)\<rparr>)"
  have key: "key_of ?x = mcDepKey m" using keyed [OF dep(1)] by (simp add: key_of_def)
  with dep(1) s1(1) have z: "store s1 (key_of ?x) = Some (DeploymentO d)" by simp
  then obtain y s2 where u: "srv (Update ?x) s1 = (Inr y, s2)"
    using update_accepts by (metis prod.collapse)
  from update_ok [OF u] z kept key obtain w where
    w: "store s2 = (store s1)(mcDepKey m \<mapsto> w)" "updated (DeploymentO d) ?x w"
    by (auto split: if_split_asm)
  then obtain d' where "w = DeploymentO d'" "dep_replicas d' = Some (mc_Size m)"
    by (cases w) (auto simp: updated_def)
  with w(1) s1 u dep(2,3) show ?thesis
    by (intro exI [of _ s2] exI [of _ d']) (simp add: syncSize_def exec_andthen returns_def)
qed

text \<open>A run on a store where the Deployment has the right size reports the pods it is shown.\<close>

lemma mc_reports:
  assumes cr: "store s (mkKey MemcachedK req) = Some (MemcachedO m)" and size: "sized (store s) m"
  shows "\<exists>t s' ps. traced srv (ReconcileMemcached L req) s = (t, Return \<lparr>Requeue = False\<rparr> None, s') \<and>
    (podQuery m, Inr (PodListO ps)) \<in> set t \<and>
    store s' = (store s)(mcKey m \<mapsto> MemcachedO (m\<lparr>mc_Nodes := getPodNames ps\<rparr>))"
proof -
  from size obtain d where dep: "store s (mcDepKey m) = Some (DeploymentO d)" "dep_replicas d = Some (mc_Size m)"
    unfolding sized_def by blast
  obtain s1 where g1: "srv (Get MemcachedK req) s = (Inr (MemcachedO m), s1)" "store s1 = store s"
    by (rule get_cases [of MemcachedK req s]) (use cr in auto)
  obtain s2 where g2: "srv (Get DeploymentK (memcachedName m)) s1 = (Inr (DeploymentO d), s2)" "store s2 = store s"
    by (rule get_cases [of DeploymentK "memcachedName m" s1]) (use dep g1(2) in auto)
  obtain ps s3 where l: "srv (podQuery m) s2 = (Inr (PodListO ps), s3)"
    using list_answers by (metis prod.collapse)
  have s3: "store s3 = store s" using reads [OF _ l] g2(2) by simp
  note evaluate = ReconcileMemcached_def ReconcileMemcached_body_def fetchMemcached_def findDeployment_def
    syncSize_def updateNodes_def proceed_def returns_def Let_def
  have here: "store s3 (mcKey m) = Some (MemcachedO m)" using cr mc_key_of_fetched [OF cr] s3 by simp
  show ?thesis
  proof (cases "getPodNames ps = mc_Nodes m")
    case True
    with here s3 have "store s3 = (store s)(mcKey m \<mapsto> MemcachedO (m\<lparr>mc_Nodes := getPodNames ps\<rparr>))"
      by (simp add: fun_upd_idem)
    with True g1 g2 l dep(2) show ?thesis by (simp add: evaluate)
  next
    case False
    let ?x = "MemcachedO (m\<lparr>mc_Nodes := getPodNames ps\<rparr>)"
    have key: "key_of ?x = mcKey m" by (simp add: key_of_def)
    with here obtain y s4 where u: "srv (StatusUpdate ?x) s3 = (Inr y, s4)"
      using status_accepts by (metis prod.collapse)
    from status_ok [OF u] here key s3 have "store s4 = (store s)(mcKey m \<mapsto> ?x)" by simp
    with False g1 g2 l u dep(2) show ?thesis by (simp add: evaluate)
  qed
qed

text \<open>A run on any other store gives the Deployment the right size.\<close>

lemma mc_unsized:
  assumes cr: "store s (mkKey MemcachedK req) = Some (MemcachedO m)"
    and dep: "deployable L (store s) m" and "\<not> sized (store s) m"
  shows "\<exists>d. store (mcRun srv L req s) = (store s)(mcDepKey m \<mapsto> DeploymentO d) \<and>
    dep_replicas d = Some (mc_Size m)"
proof (cases "store s (mcDepKey m)")
  case None
  from mc_creates [OF cr None] show ?thesis by (auto simp: mcRun_def)
next
  case (Some x)
  with dep obtain d n where d: "x = DeploymentO d" "dep_replicas d = Some n"
    "IsZero L (om_deletionTimestamp (dep_meta d))"
    by (auto simp: deployable_def split: kobj.splits)
  with Some assms(3) have "n \<noteq> mc_Size m" by (auto simp: sized_def)
  with mc_resizes [OF cr, of d n] Some d show ?thesis by (auto simp: mcRun_def)
qed

lemma mcRun_traced: "traced srv (ReconcileMemcached L req) s = (t, r, s') \<Longrightarrow> mcRun srv L req s = s'"
  by (metis mcRun_def snd_conv snd_traced)

end

text \<open>
  What holds after the first run: the Deployment \<open>d\<close> has the size of the spec, and only
  it and the node list of the status can differ from before.
\<close>

definition mc_settled :: "(key \<Rightarrow> kobj option) \<Rightarrow> Memcached \<Rightarrow> Deployment \<Rightarrow> (key \<Rightarrow> kobj option) \<Rightarrow> bool" where
  "mc_settled f m d g \<longleftrightarrow> dep_replicas d = Some (mc_Size m) \<and>
     (\<exists>ns. g = f(mcDepKey m \<mapsto> DeploymentO d, mcKey m \<mapsto> MemcachedO (m\<lparr>mc_Nodes := ns\<rparr>)))"

lemma nodes_update_frame [simp]:
  "mcKey (m\<lparr>mc_Nodes := ns\<rparr>) = mcKey m" "sized f (m\<lparr>mc_Nodes := ns\<rparr>) = sized f m"
  by (simp_all add: key_of_def sized_def)

lemma mc_settledD:
  assumes "mc_settled f m d g"
  obtains ns where "g (mcKey m) = Some (MemcachedO (m\<lparr>mc_Nodes := ns\<rparr>))" "sized g (m\<lparr>mc_Nodes := ns\<rparr>)"
    "g = f(mcDepKey m \<mapsto> DeploymentO d, mcKey m \<mapsto> MemcachedO (m\<lparr>mc_Nodes := ns\<rparr>))"
  using assms by (auto simp: mc_settled_def sized_def)

context pod_server
begin

lemma mc_first:
  assumes cr: "store s (mkKey MemcachedK req) = Some (MemcachedO m)" and dep: "deployable L (store s) m"
  shows "\<exists>d. mc_settled (store s) m d (store (mcRun srv L req s))"
proof (cases "sized (store s) m")
  case True
  from mc_reports [OF cr this] obtain ps where
    "store (mcRun srv L req s) = (store s)(mcKey m \<mapsto> MemcachedO (m\<lparr>mc_Nodes := getPodNames ps\<rparr>))"
    by (auto dest: mcRun_traced)
  moreover from True obtain d where "store s (mcDepKey m) = Some (DeploymentO d)" "dep_replicas d = Some (mc_Size m)"
    by (auto simp: sized_def)
  ultimately show ?thesis by (auto simp: mc_settled_def fun_upd_idem intro!: exI [of _ d])
next
  case False
  from mc_unsized [OF cr dep this] obtain d where
    "store (mcRun srv L req s) = (store s)(mcDepKey m \<mapsto> DeploymentO d)" "dep_replicas d = Some (mc_Size m)"
    by blast
  moreover have "store s (mcKey m) = Some (MemcachedO m)" using cr mc_key_of_fetched [OF cr] by simp
  then have "(store s)(mcDepKey m \<mapsto> DeploymentO d, mcKey m \<mapsto> MemcachedO (m\<lparr>mc_Nodes := mc_Nodes m\<rparr>)) =
      (store s)(mcDepKey m \<mapsto> DeploymentO d)" by (simp add: fun_eq_iff)
  ultimately show ?thesis unfolding mc_settled_def by metis
qed

lemma mc_next:
  assumes settled: "mc_settled f m d (store s)" and key: "mkKey MemcachedK req = mcKey m"
  shows "\<exists>t s' ps. traced srv (ReconcileMemcached L req) s = (t, Return \<lparr>Requeue = False\<rparr> None, s') \<and>
    (podQuery m, Inr (PodListO ps)) \<in> set t \<and>
    store s' = f(mcDepKey m \<mapsto> DeploymentO d, mcKey m \<mapsto> MemcachedO (m\<lparr>mc_Nodes := getPodNames ps\<rparr>))"
proof -
  from settled obtain ns where ns: "store s (mcKey m) = Some (MemcachedO (m\<lparr>mc_Nodes := ns\<rparr>))"
    "sized (store s) (m\<lparr>mc_Nodes := ns\<rparr>)"
    "store s = f(mcDepKey m \<mapsto> DeploymentO d, mcKey m \<mapsto> MemcachedO (m\<lparr>mc_Nodes := ns\<rparr>))"
    by (rule mc_settledD)
  from mc_reports [OF _ ns(2), of req] ns(1) key obtain t s' ps where
    "traced srv (ReconcileMemcached L req) s = (t, Return \<lparr>Requeue = False\<rparr> None, s')"
    "(podQuery m, Inr (PodListO ps)) \<in> set t"
    "store s' = (store s)(mcKey m \<mapsto> MemcachedO (m\<lparr>mc_Nodes := getPodNames ps\<rparr>))" by auto
  with ns(3) show ?thesis by auto
qed

lemma mc_iterated:
  assumes "mc_settled f m d (store s)" "mkKey MemcachedK req = mcKey m"
  shows "mc_settled f m d (store ((mcRun srv L req ^^ n) s))"
proof (induction n)
  case (Suc n)
  from mc_next [OF Suc assms(2)] obtain ps where
    "store (mcRun srv L req ((mcRun srv L req ^^ n) s)) =
       f(mcDepKey m \<mapsto> DeploymentO d, mcKey m \<mapsto> MemcachedO (m\<lparr>mc_Nodes := getPodNames ps\<rparr>))"
    by (auto dest: mcRun_traced)
  with Suc show ?case unfolding mc_settled_def by (auto simp del: fun_upd_apply)
qed (simp add: assms(1))

end

text \<open>
  C9. Convergence, for a server that answers and a Deployment that is missing or can be
  resized, whatever pods the cluster runs and however they change: from the second run
  on every run ends without an error or a requeue; the Deployment is the one the first
  run left behind, with as many replicas as the spec asks for; the status holds the
  names of the pods that very run was shown; and nothing else has changed since the
  beginning.
\<close>

theorem ReconcileMemcached_converges:
  assumes "pod_server L srv store"
    and "store s (mkKey MemcachedK req) = Some (MemcachedO m)" and "deployable L (store s) m"
  shows "\<exists>d. dep_replicas d = Some (mc_Size m) \<and>
    (\<forall>n. \<exists>t s' ps. traced srv (ReconcileMemcached L req) ((mcRun srv L req ^^ Suc n) s) =
        (t, Return \<lparr>Requeue = False\<rparr> None, s') \<and>
      (podQuery m, Inr (PodListO ps)) \<in> set t \<and>
      store s' = (store s)(mcDepKey m \<mapsto> DeploymentO d,
        mcKey m \<mapsto> MemcachedO (m\<lparr>mc_Nodes := getPodNames ps\<rparr>)))"
proof -
  have key: "mkKey MemcachedK req = mcKey m" by (rule pod_server.mc_key_of_fetched [OF assms(1,2)])
  from pod_server.mc_first [OF assms] obtain d where d: "mc_settled (store s) m d (store (mcRun srv L req s))"
    by blast
  have "mc_settled (store s) m d (store ((mcRun srv L req ^^ Suc n) s))" for n
    using pod_server.mc_iterated [OF assms(1) d key, of n] by (simp add: funpow_swap1)
  from pod_server.mc_next [OF assms(1) this key] d show ?thesis
    by (intro exI [of _ d]) (auto simp: mc_settled_def)
qed

section \<open>A concrete cluster\<close>

definition mcDemo :: "string list option \<Rightarrow> Memcached" where
  "mcDemo nodes = \<lparr>mc_meta = mkMeta ''cache'' ''ns'', mc_Size = 3, mc_Nodes = nodes\<rparr>"

definition mcReq :: NamespacedName where
  "mcReq = \<lparr>nn_namespace = ''ns'', nn_name = ''cache''\<rparr>"

definition mcCluster :: cluster where
  "mcCluster = \<lparr>objs = map_of [(mcKey (mcDemo None), MemcachedO (mcDemo None))],
     pods = [\<lparr>pod_meta = (mkMeta ''cache-1'' ''ns'')\<lparr>om_labels := Some (labelsForMemcached ''cache'')\<rparr>\<rparr>,
             \<lparr>pod_meta = mkMeta ''other'' ''ns''\<rparr>]\<rparr>"

abbreviation mcLib :: lib where
  "mcLib \<equiv> std_lib (\<lambda>_. None)"

definition mcTrace :: "string option list \<Rightarrow> cluster \<Rightarrow> event list \<times> ret" where
  "mcTrace faults s = (case traced (faulty mem_srv) (ReconcileMemcached mcLib mcReq) (faults, s) of
     (t, r, _) \<Rightarrow> (t, r))"

lemma mcTrace_runs: "runs (ReconcileMemcached mcLib mcReq) (fst (mcTrace fs s)) (snd (mcTrace fs s))"
  by (simp add: mcTrace_def case_prod_beta runs_traced)

definition mcSized :: cluster where
  "mcSized = mcRun mem_srv mcLib mcReq mcCluster"

definition mcUnsized :: cluster where
  "mcUnsized = mcCluster\<lparr>objs := (objs mcCluster)(mcDepKey (mcDemo None) \<mapsto>
     DeploymentO ((deploymentForMemcached mcLib (mcDemo None))\<lparr>dep_replicas := None\<rparr>))\<rparr>"

text \<open>
  A cluster whose pods come up with the Deployment, and are the right ones by the time
  of the second run.
\<close>

definition mcPods :: "Pod list" where
  "mcPods = [\<lparr>pod_meta = (mkMeta ''cache-1'' ''ns'')\<lparr>om_labels := Some (labelsForMemcached ''cache'')\<rparr>\<rparr>]"

lemma ReconcileMemcached_converges_witness:
  "\<exists>t s' ps d. traced (rolling mcPods) (ReconcileMemcached mcLib mcReq)
       ((mcRun (rolling mcPods) mcLib mcReq ^^ Suc 100) (mcCluster\<lparr>pods := []\<rparr>)) =
       (t, Return \<lparr>Requeue = False\<rparr> None, s') \<and>
     mem_store s' (mcKey (mcDemo None)) = Some (MemcachedO (mcDemo (getPodNames ps))) \<and>
     mem_store s' (mcDepKey (mcDemo None)) = Some (DeploymentO d) \<and> dep_replicas d = Some 3"
proof -
  let ?s = "mcCluster\<lparr>pods := []\<rparr>"
  have s: "mem_store ?s (mkKey MemcachedK mcReq) = Some (MemcachedO (mcDemo None))"
    "deployable mcLib (mem_store ?s) (mcDemo None)" by code_simp+
  have "(mcDemo None)\<lparr>mc_Nodes := ns\<rparr> = mcDemo ns" "mc_Size (mcDemo None) = 3" for ns
    by (simp_all add: mcDemo_def)
  with ReconcileMemcached_converges [OF rolling_pod_server s] show ?thesis by fastforce
qed

text \<open>The third call of the second run, the list of the pods, fails.\<close>

lemma ReconcileMemcached_exact_errors_witness:
  "\<exists>t0 q lg msg kvs a. fst (mcTrace [None, None, Some ''down''] mcSized) =
     t0 @ [(q, Inl (StatusError ''InternalError'' ''down'')),
           (LogError lg (StatusError ''InternalError'' ''down'') msg kvs, a)]"
proof -
  have "snd (mcTrace [None, None, Some ''down''] mcSized) =
      Return \<lparr>Requeue = False\<rparr> (Some (StatusError ''InternalError'' ''down''))" by code_simp
  with ReconcileMemcached_exact_errors [OF mcTrace_runs [of "[None, None, Some ''down'']" mcSized]]
  show ?thesis by auto
qed

lemma ReconcileMemcached_one_write_witness:
  "\<exists>q. writes (fst (mcTrace [] mcSized)) = [q] \<and>
     mc_permitted mcLib (asMemcached (MemcachedO (mcDemo None))) (fst (mcTrace [] mcSized)) q"
proof -
  have "length (writes (fst (mcTrace [] mcSized))) = 1"
    "snd (hd (fst (mcTrace [] mcSized))) = Inr (MemcachedO (mcDemo None))"
    by code_simp+
  with ReconcileMemcached_one_write [OF mcTrace_runs [of "[]" mcSized]] show ?thesis by auto
qed

lemma ReconcileMemcached_panics_iff_witness:
  "\<exists>y z. fst (mcTrace [] mcUnsized) = [(Get MemcachedK mcReq, Inr y),
     (Get DeploymentK (memcachedName (asMemcached y)), Inr z)] \<and> dep_replicas (asDeployment z) = None"
proof -
  have "snd (mcTrace [] mcUnsized) = Panic ''invalid memory address or nil pointer dereference''"
    by code_simp
  with ReconcileMemcached_panics_iff [OF mcTrace_runs [of "[]" mcUnsized]] show ?thesis by simp
qed


lemma ReconcileMemcached_authorized_witness:
  "list_ex (\<lambda>(q, _). \<not> authorized memcachedMarkers q) (fst (mcTrace [] mcSized))"
proof -
  have "list_ex (\<lambda>(q, _). case q of ListPods _ _ \<Rightarrow> True | _ \<Rightarrow> False) (fst (mcTrace [] mcSized))"
    by code_simp
  then obtain ns sel a where "(ListPods ns sel, a) \<in> set (fst (mcTrace [] mcSized))"
    by (auto simp: list_ex_iff split: request.splits)
  with requests_inD [OF ReconcileMemcached_authorized [OF mcTrace_runs [of "[]" mcSized]]]
  show ?thesis by (fastforce simp: list_ex_iff)
qed

end
