(* ===== verification/PvcStage.thy ===== *)
theory PvcStage
  imports NfsReconcile EnsureBlock
begin

text \<open>
  The controller one tutorial earlier (\<open>4.pvc_nfs_provisioner_controller.go\<close>), which
  knows no host path and no validation.  It is written the way the finished
  controller is; the names carry the suffix \<open>_pvc\<close>.  It differs in three ways that
  matter: the failure of a creation is logged and passed over, the object a block
  creates is not always the one it has looked up, and the test for the deletion
  mark is the wrong way round.
\<close>

section \<open>Builders\<close>

definition labelsForNFSProvisioner_pvc :: "string \<Rightarrow> string_map" where
  "labelsForNFSProvisioner_pvc name =
     fmap_of_list [(''app'', ''nfs-provisioner''), (''nfsprovisioner_cr'', name)]"

definition nfsContainerPorts_pvc :: "ContainerPort list" where
  "nfsContainerPorts_pvc =
     [\<lparr>cp_name = ''nfs'', cp_containerPort = 2049, cp_protocol = ''''\<rparr>,
      \<lparr>cp_name = ''nfs-udp'', cp_containerPort = 2049, cp_protocol = ''UDP''\<rparr>,
      \<lparr>cp_name = ''nlockmgr'', cp_containerPort = 32803, cp_protocol = ''''\<rparr>,
      \<lparr>cp_name = ''nlockmgr-udp'', cp_containerPort = 32803, cp_protocol = ''UDP''\<rparr>,
      \<lparr>cp_name = ''mountd'', cp_containerPort = 20048, cp_protocol = ''''\<rparr>,
      \<lparr>cp_name = ''mountd-udp'', cp_containerPort = 20048, cp_protocol = ''UDP''\<rparr>,
      \<lparr>cp_name = ''rquotad'', cp_containerPort = 875, cp_protocol = ''''\<rparr>,
      \<lparr>cp_name = ''rquotad-udp'', cp_containerPort = 875, cp_protocol = ''UDP''\<rparr>,
      \<lparr>cp_name = ''rpcbind'', cp_containerPort = 111, cp_protocol = ''''\<rparr>,
      \<lparr>cp_name = ''rpcbind-udp'', cp_containerPort = 111, cp_protocol = ''UDP''\<rparr>,
      \<lparr>cp_name = ''statd'', cp_containerPort = 662, cp_protocol = ''''\<rparr>,
      \<lparr>cp_name = ''statd-udp'', cp_containerPort = 662, cp_protocol = ''UDP''\<rparr>]"

definition nfsEnv_pvc :: "EnvVar list" where
  "nfsEnv_pvc =
     [\<lparr>ev_name = ''POD_IP'', ev_value = '''', ev_fieldPath = Some ''status.podIP''\<rparr>,
      \<lparr>ev_name = ''SERVICE_NAME'', ev_value = ''nfs-provisioner'', ev_fieldPath = None\<rparr>,
      \<lparr>ev_name = ''POD_NAMESPACE'', ev_value = '''', ev_fieldPath = Some ''metadata.namespace''\<rparr>]"

definition deploymentForNFSProvisioner_pvc :: "lib \<Rightarrow> NFSProvisioner \<Rightarrow> Deployment" where
  "deploymentForNFSProvisioner_pvc L m =
     (let ls = labelsForNFSProvisioner_pvc (nfsName m);
          nodeSelector = NodeSelector_default;
          nodeSelector = (case NodeSelector (Spec m) of Some ns \<Rightarrow> ns | None \<Rightarrow> nodeSelector);
          sa = ''nfs-provisioner''
      in \<lparr>dep_meta = ownedBy L m DeploymentK (mkMeta (nfsName m) (nfsNamespace m)),
        dep_replicas = None,
        dep_matchLabels = Some ls,
        dep_templateLabels = Some ls,
        dep_podSpec =
          \<lparr>ps_containers =
             [\<lparr>c_image = ''quay.io/kubernetes_incubator/nfs-provisioner:latest'',
               c_name = ''nfs-provisioner'',
               c_command = [],
               c_ports = nfsContainerPorts_pvc,
               c_securityContext = Some
                 \<lparr>sc_add = [''DAC_READ_SEARCH'', ''SYS_RESOURCE''],
                  sc_drop = [''KILL'', ''MKNOD'', ''SYS_CHROOT''],
                  sc_privileged = None, sc_allowPrivilegeEscalation = None\<rparr>,
               c_args = [CHR 0x27 # ''-provisioner=example.com/nfs'' @ [CHR 0x27]],
               c_env = nfsEnv_pvc,
               c_imagePullPolicy = ''IfNotPresent'',
               c_volumeMounts = [\<lparr>vm_name = ''export-volume'', vm_mountPath = ''/export''\<rparr>]\<rparr>],
           ps_nodeSelector = Some nodeSelector,
           ps_serviceAccountName = sa,
           ps_volumes = [\<lparr>v_name = ''export-volume'',
             v_source = \<lparr>vs_hostPath = None, vs_claimName = Some Pvc_default\<rparr>\<rparr>]\<rparr>\<rparr>)"

definition sccForNFSProvisioner_pvc :: "lib \<Rightarrow> NFSProvisioner \<Rightarrow> SecurityContextConstraints" where
  "sccForNFSProvisioner_pvc L m =
     \<lparr>scc_meta = ownedBy L m SCCK (mkMeta ''nfs-provisioner'' (nfsNamespace m)),
      scc_allowHostDirVolumePlugin = True,
      scc_allowHostIPC = False,
      scc_allowHostNetwork = False,
      scc_allowHostPID = False,
      scc_allowHostPorts = False,
      scc_allowPrivilegedContainer = False,
      scc_allowedCapabilities = [''DAC_READ_SEARCH'', ''SYS_RESOURCE''],
      scc_defaultAddCapabilities = [],
      scc_priority = None,
      scc_readOnlyRootFilesystem = False,
      scc_requiredDropCapabilities = [''KILL'', ''MKNOD'', ''SYS_CHROOT''],
      scc_runAsUser = RunAsAny,
      scc_seLinuxContext = MustRunAs,
      scc_users = [''system:serviceaccount:nfs-provisioner:nfs-provisioner''],
      scc_supplementalGroups = RunAsAny,
      scc_volumes = [FSTypeConfigMap, FSTypeDownwardAPI, FSTypeEmptyDir,
        FSTypePersistentVolumeClaim, FSTypeHostPath, FSTypeSecret],
      scc_fsGroup = MustRunAs\<rparr>"

definition pvcForNFSProvisioner_pvc :: "lib \<Rightarrow> NFSProvisioner \<Rightarrow> ret + PersistentVolumeClaim" where
  "pvcForNFSProvisioner_pvc L m =
     (let scName = (if SCForNFSPvc (Spec m) \<noteq> '''' then SCForNFSPvc (Spec m)
                    else SCForNFSPvc_default)
      in case MustParse L ''10Gi'' of
           None \<Rightarrow> Inl (Panic ''10Gi'')
         | Some q \<Rightarrow> Inr
             \<lparr>pvc_meta = ownedBy L m PersistentVolumeClaimK (mkMeta ''nfs'' (nfsNamespace m)),
              pvc_accessModes = [ReadWriteOnce],
              pvc_requests = fmap_of_list [(''storage'', q)],
              pvc_storageClassName = Some scName\<rparr>)"

definition serviceAccountForNFSProvisioner_pvc :: "lib \<Rightarrow> NFSProvisioner \<Rightarrow> ServiceAccount" where
  "serviceAccountForNFSProvisioner_pvc L m =
     \<lparr>sa_meta = ownedBy L m ServiceAccountK (mkMeta ''nfs-provisioner'' (nfsNamespace m))\<rparr>"

definition clusterRoleForNFSProvisioner_pvc :: "lib \<Rightarrow> NFSProvisioner \<Rightarrow> ClusterRole" where
  "clusterRoleForNFSProvisioner_pvc L m =
     \<lparr>role_meta = ownedBy L m ClusterRoleK (mkMeta ''nfs-provisioner-runner'' ''''),
      role_rules =
        [\<lparr>pr_apiGroups = [''''], pr_resources = [''persistentvolumes''], pr_resourceNames = [],
          pr_verbs = [''get'', ''list'', ''watch'', ''create'', ''delete'']\<rparr>,
         \<lparr>pr_apiGroups = [''''], pr_resources = [''persistentvolumeclaims''],
          pr_resourceNames = [], pr_verbs = [''get'', ''list'', ''watch'', ''update'']\<rparr>,
         \<lparr>pr_apiGroups = [''storage.k8s.io''], pr_resources = [''storageclasses''],
          pr_resourceNames = [], pr_verbs = [''get'', ''list'', ''watch'']\<rparr>,
         \<lparr>pr_apiGroups = [''''], pr_resources = [''events''], pr_resourceNames = [],
          pr_verbs = [''create'', ''update'', ''patch'']\<rparr>,
         \<lparr>pr_apiGroups = [''policy''], pr_resources = [''podsecuritypolicies''],
          pr_resourceNames = [''nfs-provisioner''], pr_verbs = [''use'']\<rparr>]\<rparr>"

definition clusterRoleBindingForNFSProvisioner_pvc :: "lib \<Rightarrow> NFSProvisioner \<Rightarrow> ClusterRoleBinding" where
  "clusterRoleBindingForNFSProvisioner_pvc L m =
     \<lparr>rb_meta = ownedBy L m ClusterRoleBindingK (mkMeta ''run-provisioner-runner'' ''''),
      rb_subjects = [\<lparr>sub_kind = ''ServiceAccount'', sub_name = ''nfs-provisioner'',
                      sub_namespace = nfsNamespace m\<rparr>],
      rb_roleRef = \<lparr>rr_kind = ''ClusterRole'', rr_name = ''nfs-provisioner-runner'',
                    rr_apiGroup = ''rbac.authorization.k8s.io''\<rparr>\<rparr>"

definition roleForNFSProvisioner_pvc :: "lib \<Rightarrow> NFSProvisioner \<Rightarrow> Role" where
  "roleForNFSProvisioner_pvc L m =
     \<lparr>role_meta = ownedBy L m RoleK (mkMeta ''leader-locking-nfs-provisioner'' (nfsNamespace m)),
      role_rules =
        [\<lparr>pr_apiGroups = [''''], pr_resources = [''endpoints''], pr_resourceNames = [],
          pr_verbs = [''get'', ''list'', ''watch'', ''create'', ''update'', ''delete'']\<rparr>,
         \<lparr>pr_apiGroups = [''''], pr_resources = [''services''], pr_resourceNames = [],
          pr_verbs = [''get'']\<rparr>]\<rparr>"

definition roleBindingForNFSProvisioner_pvc :: "lib \<Rightarrow> NFSProvisioner \<Rightarrow> RoleBinding" where
  "roleBindingForNFSProvisioner_pvc L m =
     \<lparr>rb_meta = ownedBy L m RoleBindingK (mkMeta ''leader-locking-nfs-provisioner'' (nfsNamespace m)),
      rb_subjects = [\<lparr>sub_kind = ''ServiceAccount'', sub_name = ''nfs-provisioner'',
                      sub_namespace = nfsNamespace m\<rparr>],
      rb_roleRef = \<lparr>rr_kind = ''Role'', rr_name = ''leader-locking-nfs-provisioner'',
                    rr_apiGroup = ''rbac.authorization.k8s.io''\<rparr>\<rparr>"

definition nfsServicePorts_pvc :: "ServicePort list" where
  "nfsServicePorts_pvc =
     [\<lparr>sp_name = ''nfs'', sp_port = 2049, sp_protocol = ''''\<rparr>,
      \<lparr>sp_name = ''nfs-udp'', sp_port = 2049, sp_protocol = ''UDP''\<rparr>,
      \<lparr>sp_name = ''nlockmgr'', sp_port = 32803, sp_protocol = ''''\<rparr>,
      \<lparr>sp_name = ''nlockmgr-udp'', sp_port = 32803, sp_protocol = ''UDP''\<rparr>,
      \<lparr>sp_name = ''mountd'', sp_port = 20048, sp_protocol = ''''\<rparr>,
      \<lparr>sp_name = ''mountd-udp'', sp_port = 20048, sp_protocol = ''UDP''\<rparr>,
      \<lparr>sp_name = ''rquotad'', sp_port = 875, sp_protocol = ''''\<rparr>,
      \<lparr>sp_name = ''rquotad-udp'', sp_port = 875, sp_protocol = ''UDP''\<rparr>,
      \<lparr>sp_name = ''rpcbind'', sp_port = 111, sp_protocol = ''''\<rparr>,
      \<lparr>sp_name = ''rpcbind-udp'', sp_port = 111, sp_protocol = ''UDP''\<rparr>,
      \<lparr>sp_name = ''statd'', sp_port = 662, sp_protocol = ''''\<rparr>,
      \<lparr>sp_name = ''statd-udp'', sp_port = 662, sp_protocol = ''UDP''\<rparr>]"

definition serviceForNFSProvisioner_pvc :: "lib \<Rightarrow> NFSProvisioner \<Rightarrow> Service" where
  "serviceForNFSProvisioner_pvc L m =
     (let ls = labelsForNFSProvisioner_pvc (nfsName m)
      in \<lparr>svc_meta = ownedBy L m ServiceK
            ((mkMeta ''nfs-provisioner'' (nfsNamespace m))\<lparr>om_labels := Some ls\<rparr>),
          svc_ports = nfsServicePorts_pvc,
          svc_selector = Some ls\<rparr>)"

definition storageclassForNFSProvisioner_pvc :: "lib \<Rightarrow> NFSProvisioner \<Rightarrow> StorageClass" where
  "storageclassForNFSProvisioner_pvc L m =
     (let scName = (if SCForNFSProvisioner (Spec m) \<noteq> '''' then SCForNFSProvisioner (Spec m)
                    else SCForNFSProvisioner_default)
      in \<lparr>stc_meta = ownedBy L m StorageClassK (mkMeta scName ''''),
          stc_provisioner = ''example.com/nfs'',
          stc_parameters = Some (fmap_of_list [(''mountOptions'', ''vers=4.1'')])\<rparr>)"

lemmas builder_pvc_defs =
  sccForNFSProvisioner_pvc_def serviceAccountForNFSProvisioner_pvc_def
  clusterRoleForNFSProvisioner_pvc_def clusterRoleBindingForNFSProvisioner_pvc_def
  roleForNFSProvisioner_pvc_def roleBindingForNFSProvisioner_pvc_def
  serviceForNFSProvisioner_pvc_def storageclassForNFSProvisioner_pvc_def
  deploymentForNFSProvisioner_pvc_def ownedBy_def

section \<open>The blocks of Reconcile\<close>

definition ensureSCC_pvc :: "lib \<Rightarrow> logger \<Rightarrow> NFSProvisioner \<Rightarrow> unit stmt" where
  "ensureSCC_pvc L lg m =
     Req (Get SCCK \<lparr>nn_namespace = '''', nn_name = ''nfs-provisioner''\<rparr>) (\<lambda>r. case r of
       Inl err \<Rightarrow>
         if IsNotFound L err then
           let scc = sccForNFSProvisioner_pvc L m; name = LStr (om_name (scc_meta scc))
           in logInfo lg ''Creating a new SecurityContextConstraints''
                [LStr ''SecurityContextConstraints.Name'', name]
                (Req (Create (SCCO scc)) (\<lambda>r. case r of
                   Inl err \<Rightarrow> logError lg err ''Failed to create a new SecurityContextConstraints''
                     [LStr ''SecurityContextConstraints.Name'', name] proceed
                 | Inr _ \<Rightarrow> proceed))
         else proceed
     | Inr _ \<Rightarrow> proceed)"

definition ensurePVC_pvc :: "lib \<Rightarrow> logger \<Rightarrow> NFSProvisioner \<Rightarrow> unit stmt" where
  "ensurePVC_pvc L lg m =
     (let pvcName = (if Pvc (Spec m) \<noteq> '''' then Pvc (Spec m) else Pvc_default)
      in Req (Get PersistentVolumeClaimK
                \<lparr>nn_namespace = nfsNamespace m, nn_name = pvcName\<rparr>) (\<lambda>r. case r of
           Inl err \<Rightarrow>
             if Pvc (Spec m) \<noteq> '''' then
               if IsNotFound L err then
                 case pvcForNFSProvisioner_pvc L m of
                   Inl panic \<Rightarrow> Ret (Inl panic)
                 | Inr pvc \<Rightarrow>
                     let kvs = [LStr ''PersistentVolumeClaim.Namespace'',
                                LStr (om_namespace (pvc_meta pvc)),
                                LStr ''PersistentVolumeClaim.Name'', LStr (om_name (pvc_meta pvc))]
                     in logInfo lg ''Creating a new PersistentVolumeClaim'' kvs
                          (Req (Create (PersistentVolumeClaimO pvc)) (\<lambda>r. case r of
                             Inl err \<Rightarrow>
                               logError lg err ''Failed to create a new PersistentVolumeClaim'' kvs proceed
                           | Inr _ \<Rightarrow> proceed))
               else proceed
             else proceed
         | Inr _ \<Rightarrow> proceed))"

definition ensureServiceAccount_pvc :: "lib \<Rightarrow> logger \<Rightarrow> NFSProvisioner \<Rightarrow> unit stmt" where
  "ensureServiceAccount_pvc L lg m =
     Req (Get ServiceAccountK
            \<lparr>nn_namespace = nfsNamespace m, nn_name = ServiceAccount_default\<rparr>) (\<lambda>r. case r of
       Inl err \<Rightarrow>
         if IsNotFound L err then
           let sa = serviceAccountForNFSProvisioner_pvc L m;
               kvs = [LStr ''Serviceaccount.Namespace'', LStr (om_namespace (sa_meta sa)),
                      LStr ''Serviceaccount.Name'', LStr (om_name (sa_meta sa))]
           in logInfo lg ''Creating a new Serviceaccount'' kvs
                (Req (Create (ServiceAccountO sa)) (\<lambda>r. case r of
                   Inl err \<Rightarrow> logError lg err ''Failed to create a new Serviceaccount'' kvs
                     proceed
                 | Inr _ \<Rightarrow> proceed))
         else proceed
     | Inr _ \<Rightarrow> proceed)"

definition ensureClusterRole_pvc :: "lib \<Rightarrow> logger \<Rightarrow> NFSProvisioner \<Rightarrow> unit stmt" where
  "ensureClusterRole_pvc L lg m =
     Req (Get ClusterRoleK \<lparr>nn_namespace = '''', nn_name = ClusterRole_default\<rparr>) (\<lambda>r. case r of
       Inl err \<Rightarrow>
         let cr = clusterRoleForNFSProvisioner_pvc L m
         in logInfo lg ''Creating a new ClusterRole''
              [LStr ''ClusterRole.Name'', LStr (om_name (role_meta cr))]
              (Req (Create (ClusterRoleO cr)) (\<lambda>r. case r of
                 Inl err \<Rightarrow> logError lg err ''Failed to create a ClusterRole for NFSProvisioner''
                   [LStr ''ClusterRole.Namespace'', LStr (om_namespace (role_meta cr)),
                    LStr ''ClusterRole.Name'', LStr (om_name (role_meta cr))]
                   proceed
               | Inr _ \<Rightarrow> proceed))
     | Inr _ \<Rightarrow> proceed)"

definition ensureClusterRoleBinding_pvc :: "lib \<Rightarrow> logger \<Rightarrow> NFSProvisioner \<Rightarrow> unit stmt" where
  "ensureClusterRoleBinding_pvc L lg m =
     Req (Get ClusterRoleBindingK
            \<lparr>nn_namespace = '''', nn_name = ClusterRoleBinding_default\<rparr>) (\<lambda>r. case r of
       Inl err \<Rightarrow>
         let crb = clusterRoleBindingForNFSProvisioner_pvc L m;
             kvs = [LStr ''ClusterRoleBinding.Name'', LStr (om_name (rb_meta crb))]
         in logInfo lg ''Creating a new ClusterRoleBinding'' kvs
              (Req (Create (ClusterRoleBindingO crb)) (\<lambda>r. case r of
                 Inl err \<Rightarrow>
                   logError lg err ''Failed to create a ClusterRoleBinding for NFSProvisioner'' kvs
                     proceed
               | Inr _ \<Rightarrow> proceed))
     | Inr _ \<Rightarrow> proceed)"

definition ensureRole_pvc :: "lib \<Rightarrow> logger \<Rightarrow> NFSProvisioner \<Rightarrow> unit stmt" where
  "ensureRole_pvc L lg m =
     Req (Get RoleK \<lparr>nn_namespace = nfsNamespace m, nn_name = Role_default\<rparr>) (\<lambda>r. case r of
       Inl err \<Rightarrow>
         let role = roleForNFSProvisioner_pvc L m;
             kvs = [LStr ''Role.Namespace'', LStr (om_namespace (role_meta role)),
                    LStr ''Role.Name'', LStr (om_name (role_meta role))]
         in logInfo lg ''Creating a new Role'' kvs
              (Req (Create (RoleO role)) (\<lambda>r. case r of
                 Inl err \<Rightarrow> logError lg err ''Failed to create a Role for NFSProvisioner'' kvs
                   proceed
               | Inr _ \<Rightarrow> proceed))
     | Inr _ \<Rightarrow> proceed)"

definition ensureRoleBinding_pvc :: "lib \<Rightarrow> logger \<Rightarrow> NFSProvisioner \<Rightarrow> unit stmt" where
  "ensureRoleBinding_pvc L lg m =
     Req (Get RoleBindingK
            \<lparr>nn_namespace = nfsNamespace m, nn_name = RoleBinding_default\<rparr>) (\<lambda>r. case r of
       Inl err \<Rightarrow>
         let roleBinding = roleBindingForNFSProvisioner_pvc L m;
             roleBindingFound = mkMeta '''' ''''
         in logInfo lg ''Creating a new RoleBinding''
              [LStr ''RoleBinding.Namespace'', LStr (om_namespace roleBindingFound),
               LStr ''roleBinding.Name'', LStr (om_name roleBindingFound)]
              (Req (Create (RoleBindingO roleBinding)) (\<lambda>r. case r of
                 Inl err \<Rightarrow> logError lg err ''Failed to create a RoleBinding for NFSProvisioner''
                   [LStr ''roleBinding.Namespace'', LStr (om_namespace roleBindingFound),
                    LStr ''roleBinding.Name'', LStr (om_name roleBindingFound)]
                   proceed
               | Inr _ \<Rightarrow> proceed))
     | Inr _ \<Rightarrow> proceed)"

definition ensureDeployment_pvc :: "lib \<Rightarrow> logger \<Rightarrow> NFSProvisioner \<Rightarrow> unit stmt" where
  "ensureDeployment_pvc L lg m =
     Req (Get DeploymentK
            \<lparr>nn_namespace = nfsNamespace m, nn_name = Deployment_default\<rparr>) (\<lambda>r. case r of
       Inl err \<Rightarrow>
         if IsNotFound L err then
           let dep = deploymentForNFSProvisioner_pvc L m;
               kvs = [LStr ''Deployment.Namespace'', LStr (om_namespace (dep_meta dep)),
                      LStr ''Deployment.Name'', LStr (om_name (dep_meta dep))]
           in logInfo lg ''Creating a new Deployment'' kvs
                (Req (Create (DeploymentO dep)) (\<lambda>r. case r of
                   Inl err \<Rightarrow> logError lg err ''Failed to create a Deployment for NFSProvisioner''
                     kvs proceed
                 | Inr _ \<Rightarrow> proceed))
         else proceed
     | Inr _ \<Rightarrow> proceed)"

definition ensureService_pvc :: "lib \<Rightarrow> logger \<Rightarrow> NFSProvisioner \<Rightarrow> unit stmt" where
  "ensureService_pvc L lg m =
     Req (Get ServiceK \<lparr>nn_namespace = nfsNamespace m, nn_name = Service_default\<rparr>) (\<lambda>r. case r of
       Inl err \<Rightarrow>
         if IsNotFound L err then
           let svc = serviceForNFSProvisioner_pvc L m;
               kvs = [LStr ''Service.Namespace'', LStr (om_namespace (svc_meta svc)),
                      LStr ''Service.Name'', LStr (om_name (svc_meta svc))]
           in logInfo lg ''Creating a new Service'' kvs
                (Req (Create (ServiceO svc)) (\<lambda>r. case r of
                   Inl err \<Rightarrow> logError lg err ''Failed to create a Service for NFSProvisioner''
                     kvs proceed
                 | Inr _ \<Rightarrow> proceed))
         else proceed
     | Inr _ \<Rightarrow> proceed)"

definition ensureStorageClass_pvc :: "lib \<Rightarrow> logger \<Rightarrow> NFSProvisioner \<Rightarrow> unit stmt" where
  "ensureStorageClass_pvc L lg m =
     (let scName = (if SCForNFSProvisioner (Spec m) \<noteq> '''' then SCForNFSProvisioner (Spec m)
                    else SCForNFSProvisioner_default)
      in Req (Get StorageClassK \<lparr>nn_namespace = '''', nn_name = scName\<rparr>) (\<lambda>r. case r of
           Inl err \<Rightarrow>
             if IsNotFound L err \<and> SCForNFSProvisioner (Spec m) = '''' then
               let sc = storageclassForNFSProvisioner_pvc L m;
                   kvs = [LStr ''Storageclass.Name'', LStr (om_name (stc_meta sc))]
               in logInfo lg ''Creating a new Storageclass'' kvs
                    (Req (Create (StorageClassO sc)) (\<lambda>r. case r of
                       Inl err \<Rightarrow>
                         logError lg err ''Failed to create a Storageclass for NFSProvisioner'' kvs
                           proceed
                     | Inr _ \<Rightarrow> proceed))
             else proceed
         | Inr _ \<Rightarrow> proceed))"

fun containsString_pvc :: "string list \<Rightarrow> string \<Rightarrow> bool" where
  "containsString_pvc [] s = False"
| "containsString_pvc (item # sl) s = (if item = s then True else containsString_pvc sl s)"

fun removeString_pvc_loop :: "string list \<Rightarrow> string \<Rightarrow> string list \<Rightarrow> string list" where
  "removeString_pvc_loop [] s result = result"
| "removeString_pvc_loop (item # sl) s result =
     (if item = s then removeString_pvc_loop sl s result
      else removeString_pvc_loop sl s (result @ [item]))"

definition removeString_pvc :: "string list \<Rightarrow> string \<Rightarrow> string list" where
  "removeString_pvc sl s = removeString_pvc_loop sl s []"

definition finalizerName_pvc :: string where
  "finalizerName_pvc = ''nfsprovisioner.finalizers.jhouse.io''"

definition deleteIfFound_pvc :: "kind \<Rightarrow> string \<Rightarrow> string \<Rightarrow> logval list \<Rightarrow> (go_error + unit) io" where
  "deleteIfFound_pvc k name failmsg kvs =
     Req (Get k \<lparr>nn_namespace = '''', nn_name = name\<rparr>) (\<lambda>r. case r of
       Inr found \<Rightarrow>
         Req (Delete found) (\<lambda>r. case r of
           Inl err \<Rightarrow> logError PkgLog err failmsg kvs (Ret (Inl err))
         | Inr _ \<Rightarrow> Ret (Inr ()))
     | Inl err \<Rightarrow> Ret (Inr ()))"

definition deleteExternalResources_pvc :: "NFSProvisioner \<Rightarrow> (go_error + unit) io" where
  "deleteExternalResources_pvc m =
     andthen
       (deleteIfFound_pvc ClusterRoleK ClusterRole_default
          ''Failed to delete ClusterRole for NFSProvisioner''
          [LStr ''ClusterRole.Name'', LStr ClusterRole_default])
       (\<lambda>_. deleteIfFound_pvc ClusterRoleBindingK ClusterRoleBinding_default
          ''Failed to delete ClusterRoleBinding for NFSProvisioner''
          [LStr ''ClusterRoleBinding.Name'', LStr ClusterRoleBinding_default])"

definition finalize_pvc :: "lib \<Rightarrow> logger \<Rightarrow> NFSProvisioner \<Rightarrow> unit stmt" where
  "finalize_pvc L lg m =
     (let isNFSProvisionerdMarkedToBeDeleted = (om_deletionTimestamp (nfs_meta m) \<noteq> None)
      in if isNFSProvisionerdMarkedToBeDeleted then
        if \<not> containsString_pvc (om_finalizers (nfs_meta m)) finalizerName_pvc then
          logInfo lg ''Adding Finalizer for the NFSProvisioner'' []
            (let m = m\<lparr>nfs_meta := AddFinalizer L (nfs_meta m) finalizerName_pvc\<rparr>
             in Req (Update (NFSProvisionerO m)) (\<lambda>r. case r of
                  Inl err \<Rightarrow>
                    logError lg err ''Failed to update CR NFSProvisioner to add finalizer'' []
                      (returns False (Some err))
                | Inr _ \<Rightarrow> returns True None))
        else returns True None
      else
        if containsString_pvc (om_finalizers (nfs_meta m)) finalizerName_pvc then
          prog_bind (deleteExternalResources_pvc m) (\<lambda>r. case r of
            Inl err \<Rightarrow> logError lg err ''Failed to delete external resoureces'' []
              (returns False (Some err))
          | Inr _ \<Rightarrow>
              (let m = m\<lparr>nfs_meta := RemoveFinalizer L (nfs_meta m) finalizerName_pvc\<rparr>
               in Req (Update (NFSProvisionerO m)) (\<lambda>r. case r of
                    Inl err \<Rightarrow> logError lg err
                      ''Failed to update CR NFSProvisioner with finalizer to remove finalizer'' []
                      (returns False (Some err))
                  | Inr _ \<Rightarrow> returns False None)))
        else returns False None)"

definition ensureAll_pvc :: "lib \<Rightarrow> logger \<Rightarrow> NFSProvisioner \<Rightarrow> unit stmt" where
  "ensureAll_pvc L lg m =
     andthen (ensureSCC_pvc L lg m) (\<lambda>_.
     andthen (ensurePVC_pvc L lg m) (\<lambda>_.
     andthen (ensureServiceAccount_pvc L lg m) (\<lambda>_.
     andthen (ensureClusterRole_pvc L lg m) (\<lambda>_.
     andthen (ensureClusterRoleBinding_pvc L lg m) (\<lambda>_.
     andthen (ensureRole_pvc L lg m) (\<lambda>_.
     andthen (ensureRoleBinding_pvc L lg m) (\<lambda>_.
     andthen (ensureDeployment_pvc L lg m) (\<lambda>_.
     andthen (ensureService_pvc L lg m) (\<lambda>_.
     ensureStorageClass_pvc L lg m)))))))))"

definition fetch_pvc :: "lib \<Rightarrow> NamespacedName \<Rightarrow> NFSProvisioner stmt" where
  "fetch_pvc L req =
     Req (Get NFSProvisionerK req) (\<lambda>r. case r of
       Inl err \<Rightarrow>
         if IsNotFound L err then
           logInfo (RLog req)
             ''NFSProvisioner resource not found. Ignoring since object must be deleted'' []
             (returns False None)
         else logError (RLog req) err ''Failed to get NFSProvisioner'' []
             (returns False (IgnoreNotFound L err))
     | Inr x \<Rightarrow> Ret (Inr (asNFSProvisioner x)))"

definition Reconcile_pvc_body :: "lib \<Rightarrow> NamespacedName \<Rightarrow> unit stmt" where
  "Reconcile_pvc_body L req =
     andthen (fetch_pvc L req) (\<lambda>m.
     andthen (ensureAll_pvc L (RLog req) m) (\<lambda>_.
     finalize_pvc L (RLog req) m))"

definition Reconcile_pvc :: "lib \<Rightarrow> NamespacedName \<Rightarrow> ret io" where
  "Reconcile_pvc L req =
     prog_bind (Reconcile_pvc_body L req) (\<lambda>x. case x of
       Inl r \<Rightarrow> Ret r
     | Inr _ \<Rightarrow> Ret (Return \<lparr>Requeue = True\<rparr> None))"

end
