(* ===== verification/PvcTraces.thy ===== *)
theory PvcTraces
  imports PvcStage NfsObjects
begin

text \<open>
  The runs of the controller of the fourth tutorial, and what they show: no failed
  creation is ever returned, several objects are created under another key than
  the one looked up, and the finalizer logic is inverted.
\<close>

section \<open>The blocks pass over failed creations\<close>

context k8s_lib
begin

lemma builder_pvc_meta [simp]:
  "om_name (scc_meta (sccForNFSProvisioner_pvc L m)) = ''nfs-provisioner''"
  "om_name (sa_meta (serviceAccountForNFSProvisioner_pvc L m)) = ''nfs-provisioner''"
  "om_namespace (sa_meta (serviceAccountForNFSProvisioner_pvc L m)) = nfsNamespace m"
  "om_name (role_meta (clusterRoleForNFSProvisioner_pvc L m)) = ''nfs-provisioner-runner''"
  "om_namespace (role_meta (clusterRoleForNFSProvisioner_pvc L m)) = ''''"
  "om_name (rb_meta (clusterRoleBindingForNFSProvisioner_pvc L m)) = ''run-provisioner-runner''"
  "om_namespace (rb_meta (clusterRoleBindingForNFSProvisioner_pvc L m)) = ''''"
  "om_name (role_meta (roleForNFSProvisioner_pvc L m)) = ''leader-locking-nfs-provisioner''"
  "om_namespace (role_meta (roleForNFSProvisioner_pvc L m)) = nfsNamespace m"
  "om_name (rb_meta (roleBindingForNFSProvisioner_pvc L m)) = ''leader-locking-nfs-provisioner''"
  "om_namespace (rb_meta (roleBindingForNFSProvisioner_pvc L m)) = nfsNamespace m"
  "om_name (dep_meta (deploymentForNFSProvisioner_pvc L m)) = nfsName m"
  "om_namespace (dep_meta (deploymentForNFSProvisioner_pvc L m)) = nfsNamespace m"
  "om_name (svc_meta (serviceForNFSProvisioner_pvc L m)) = ''nfs-provisioner''"
  "om_namespace (svc_meta (serviceForNFSProvisioner_pvc L m)) = nfsNamespace m"
  "om_name (stc_meta (storageclassForNFSProvisioner_pvc L m)) =
     (if SCForNFSProvisioner (Spec m) \<noteq> '''' then SCForNFSProvisioner (Spec m)
      else SCForNFSProvisioner_default)"
  by (simp_all add: builder_pvc_defs Let_def)

end

sublocale k8s_lib \<subseteq> scc4: swallowing_block "ensureSCC_pvc L lg m" SCCK
    "nn '''' ''nfs-provisioner''" "IsNotFound L"
    "[LogInfo lg ''Creating a new SecurityContextConstraints''
        [LStr ''SecurityContextConstraints.Name'', LStr ''nfs-provisioner'']]"
    "SCCO (sccForNFSProvisioner_pvc L m)" lg
    "''Failed to create a new SecurityContextConstraints''"
    "[LStr ''SecurityContextConstraints.Name'', LStr ''nfs-provisioner'']"
  for lg m
  by unfold_locales
    (simp_all add: ensureSCC_pvc_def block_defs Let_def cong: sum.case_cong if_cong)

sublocale k8s_lib \<subseteq> sa4: swallowing_block "ensureServiceAccount_pvc L lg m" ServiceAccountK
    "nn (nfsNamespace m) ServiceAccount_default" "IsNotFound L"
    "[LogInfo lg ''Creating a new Serviceaccount''
        [LStr ''Serviceaccount.Namespace'', LStr (nfsNamespace m), LStr ''Serviceaccount.Name'', LStr ''nfs-provisioner'']]"
    "ServiceAccountO (serviceAccountForNFSProvisioner_pvc L m)" lg
    "''Failed to create a new Serviceaccount''"
    "[LStr ''Serviceaccount.Namespace'', LStr (nfsNamespace m), LStr ''Serviceaccount.Name'', LStr ''nfs-provisioner'']"
  for lg m
  by unfold_locales
    (simp_all add: ensureServiceAccount_pvc_def block_defs Let_def cong: sum.case_cong if_cong)

sublocale k8s_lib \<subseteq> cr4: swallowing_block "ensureClusterRole_pvc L lg m" ClusterRoleK
    "nn '''' ClusterRole_default" "\<lambda>_. True"
    "[LogInfo lg ''Creating a new ClusterRole''
        [LStr ''ClusterRole.Name'', LStr ''nfs-provisioner-runner'']]"
    "ClusterRoleO (clusterRoleForNFSProvisioner_pvc L m)" lg
    "''Failed to create a ClusterRole for NFSProvisioner''"
    "[LStr ''ClusterRole.Namespace'', LStr '''', LStr ''ClusterRole.Name'', LStr ''nfs-provisioner-runner'']"
  for lg m
  by unfold_locales
    (simp_all add: ensureClusterRole_pvc_def block_defs Let_def cong: sum.case_cong if_cong)

sublocale k8s_lib \<subseteq> crb4: swallowing_block "ensureClusterRoleBinding_pvc L lg m" ClusterRoleBindingK
    "nn '''' ClusterRoleBinding_default" "\<lambda>_. True"
    "[LogInfo lg ''Creating a new ClusterRoleBinding''
        [LStr ''ClusterRoleBinding.Name'', LStr ''run-provisioner-runner'']]"
    "ClusterRoleBindingO (clusterRoleBindingForNFSProvisioner_pvc L m)" lg
    "''Failed to create a ClusterRoleBinding for NFSProvisioner''"
    "[LStr ''ClusterRoleBinding.Name'', LStr ''run-provisioner-runner'']"
  for lg m
  by unfold_locales
    (simp_all add: ensureClusterRoleBinding_pvc_def block_defs Let_def cong: sum.case_cong if_cong)

sublocale k8s_lib \<subseteq> role4: swallowing_block "ensureRole_pvc L lg m" RoleK
    "nn (nfsNamespace m) Role_default" "\<lambda>_. True"
    "[LogInfo lg ''Creating a new Role''
        [LStr ''Role.Namespace'', LStr (nfsNamespace m), LStr ''Role.Name'', LStr ''leader-locking-nfs-provisioner'']]"
    "RoleO (roleForNFSProvisioner_pvc L m)" lg
    "''Failed to create a Role for NFSProvisioner''"
    "[LStr ''Role.Namespace'', LStr (nfsNamespace m), LStr ''Role.Name'', LStr ''leader-locking-nfs-provisioner'']"
  for lg m
  by unfold_locales
    (simp_all add: ensureRole_pvc_def block_defs Let_def cong: sum.case_cong if_cong)

sublocale k8s_lib \<subseteq> rb4: swallowing_block "ensureRoleBinding_pvc L lg m" RoleBindingK
    "nn (nfsNamespace m) RoleBinding_default" "\<lambda>_. True"
    "[LogInfo lg ''Creating a new RoleBinding''
        [LStr ''RoleBinding.Namespace'', LStr '''', LStr ''roleBinding.Name'', LStr '''']]"
    "RoleBindingO (roleBindingForNFSProvisioner_pvc L m)" lg
    "''Failed to create a RoleBinding for NFSProvisioner''"
    "[LStr ''roleBinding.Namespace'', LStr '''', LStr ''roleBinding.Name'', LStr '''']"
  for lg m
  by unfold_locales
    (simp_all add: ensureRoleBinding_pvc_def block_defs Let_def cong: sum.case_cong if_cong)

sublocale k8s_lib \<subseteq> dep4: swallowing_block "ensureDeployment_pvc L lg m" DeploymentK
    "nn (nfsNamespace m) Deployment_default" "IsNotFound L"
    "[LogInfo lg ''Creating a new Deployment''
        [LStr ''Deployment.Namespace'', LStr (nfsNamespace m), LStr ''Deployment.Name'', LStr (nfsName m)]]"
    "DeploymentO (deploymentForNFSProvisioner_pvc L m)" lg
    "''Failed to create a Deployment for NFSProvisioner''"
    "[LStr ''Deployment.Namespace'', LStr (nfsNamespace m), LStr ''Deployment.Name'', LStr (nfsName m)]"
  for lg m
  by unfold_locales
    (simp_all add: ensureDeployment_pvc_def block_defs Let_def cong: sum.case_cong if_cong)

sublocale k8s_lib \<subseteq> svc4: swallowing_block "ensureService_pvc L lg m" ServiceK
    "nn (nfsNamespace m) Service_default" "IsNotFound L"
    "[LogInfo lg ''Creating a new Service''
        [LStr ''Service.Namespace'', LStr (nfsNamespace m), LStr ''Service.Name'', LStr ''nfs-provisioner'']]"
    "ServiceO (serviceForNFSProvisioner_pvc L m)" lg
    "''Failed to create a Service for NFSProvisioner''"
    "[LStr ''Service.Namespace'', LStr (nfsNamespace m), LStr ''Service.Name'', LStr ''nfs-provisioner'']"
  for lg m
  by unfold_locales
    (simp_all add: ensureService_pvc_def block_defs Let_def cong: sum.case_cong if_cong)

sublocale k8s_lib \<subseteq> stc4: swallowing_block "ensureStorageClass_pvc L lg m" StorageClassK
    "nn '''' (if SCForNFSProvisioner (Spec m) \<noteq> '''' then SCForNFSProvisioner (Spec m)
         else SCForNFSProvisioner_default)" "\<lambda>e. IsNotFound L e \<and> SCForNFSProvisioner (Spec m) = ''''"
    "[LogInfo lg ''Creating a new Storageclass''
        [LStr ''Storageclass.Name'',
         LStr (if SCForNFSProvisioner (Spec m) \<noteq> '''' then SCForNFSProvisioner (Spec m)
               else SCForNFSProvisioner_default)]]"
    "StorageClassO (storageclassForNFSProvisioner_pvc L m)" lg
    "''Failed to create a Storageclass for NFSProvisioner''"
    "[LStr ''Storageclass.Name'',
      LStr (if SCForNFSProvisioner (Spec m) \<noteq> '''' then SCForNFSProvisioner (Spec m)
            else SCForNFSProvisioner_default)]"
  for lg m
  by unfold_locales
    (simp_all add: ensureStorageClass_pvc_def block_defs Let_def cong: sum.case_cong if_cong)

section \<open>The claim block\<close>

text \<open>
  Every object the blocks create.  The claim is called \<open>nfs\<close>, and it is created
  only when the spec names another one.
\<close>

definition created_pvc :: "lib \<Rightarrow> NFSProvisioner \<Rightarrow> kobj list" where
  "created_pvc L m =
     [SCCO (sccForNFSProvisioner_pvc L m)] @
     (if Pvc (Spec m) = '''' then []
      else case pvcForNFSProvisioner_pvc L m of Inl _ \<Rightarrow> [] | Inr c \<Rightarrow> [PersistentVolumeClaimO c]) @
     [ServiceAccountO (serviceAccountForNFSProvisioner_pvc L m),
      ClusterRoleO (clusterRoleForNFSProvisioner_pvc L m),
      ClusterRoleBindingO (clusterRoleBindingForNFSProvisioner_pvc L m),
      RoleO (roleForNFSProvisioner_pvc L m),
      RoleBindingO (roleBindingForNFSProvisioner_pvc L m),
      DeploymentO (deploymentForNFSProvisioner_pvc L m),
      ServiceO (serviceForNFSProvisioner_pvc L m),
      StorageClassO (storageclassForNFSProvisioner_pvc L m)]"

lemma ensurePVC_pvc_run:
  assumes "runs (ensurePVC_pvc L lg m) t x"
  obtains (passed) "x = Inr ()" "requests_in (\<lambda>q. is_log q \<or>
        q = Get PersistentVolumeClaimK (nn (nfsNamespace m) (pvcNameOf m)) \<or>
        (\<exists>y \<in> set (created_pvc L m). q = Create y)) t"
  | (panicked) "x = Inl (Panic ''10Gi'')" "MustParse L ''10Gi'' = None" "Pvc (Spec m) \<noteq> ''''"
      "\<exists>r. t = [(Get PersistentVolumeClaimK (nn (nfsNamespace m) (pvcNameOf m)), r)]"
proof -
  from assms have "(x = Inr () \<and> requests_in (\<lambda>q. is_log q \<or>
        q = Get PersistentVolumeClaimK (nn (nfsNamespace m) (pvcNameOf m)) \<or>
        (\<exists>y \<in> set (created_pvc L m). q = Create y)) t) \<or>
      (x = Inl (Panic ''10Gi'') \<and> MustParse L ''10Gi'' = None \<and> Pvc (Spec m) \<noteq> '''' \<and>
        (\<exists>r. t = [(Get PersistentVolumeClaimK (nn (nfsNamespace m) (pvcNameOf m)), r)]))"
  proof (cases "MustParse L ''10Gi''")
    case None
    then have "pvcForNFSProvisioner_pvc L m = Inl (Panic ''10Gi'')"
      by (simp add: pvcForNFSProvisioner_pvc_def Let_def)
    with assms None show ?thesis
      unfolding ensurePVC_pvc_def Let_def stmt_defs by (auto simp: io_simps split: if_split_asm)
  next
    case (Some q)
    then obtain c where "pvcForNFSProvisioner_pvc L m = Inr c"
      by (simp add: pvcForNFSProvisioner_pvc_def Let_def)
    with assms show ?thesis
      unfolding ensurePVC_pvc_def Let_def stmt_defs
      by (auto simp: io_simps created_pvc_def split: if_split_asm)
  qed
  then show thesis
  proof (elim disjE conjE)
  qed (rule passed, assumption+, rule panicked, assumption+)
qed

section \<open>All blocks\<close>

context k8s_lib
begin

lemma ensurePVC_pvc_requests:
  assumes "\<And>q. is_log q \<Longrightarrow> P q" "\<And>k n. k \<in> set managed_kinds \<Longrightarrow> P (Get k n)"
    "\<And>x. x \<in> set (created_pvc L m) \<Longrightarrow> P (Create x)"
  shows "obeys (\<lambda>t _. requests_in P t) (ensurePVC_pvc L lg m)"
  unfolding obeys_def
proof (intro allI impI)
  fix t and x :: "ret + unit"
  assume "runs (ensurePVC_pvc L lg m) t x"
  then show "requests_in P t"
  proof (cases rule: ensurePVC_pvc_run)
    case passed
    have "P q" if "(q, a) \<in> set t" for q a
      using requests_inD [OF passed(2) that] assms by (auto simp: managed_kinds_def)
    then show ?thesis by (auto simp: requests_in_def list_all_iff)
  next
    case panicked
    then show ?thesis using assms(2) by (auto simp: managed_kinds_def)
  qed
qed

lemma ensureAll_pvc_requests:
  assumes "\<And>q. is_log q \<Longrightarrow> P q" "\<And>k n. k \<in> set managed_kinds \<Longrightarrow> P (Get k n)"
    "\<And>x. x \<in> set (created_pvc L m) \<Longrightarrow> P (Create x)"
  shows "obeys (\<lambda>t _. requests_in P t) (ensureAll_pvc L lg m)"
  unfolding ensureAll_pvc_def
  by (intro requests.obeys_andthen)
    (assumption | rule scc4.pass_requests sa4.pass_requests cr4.pass_requests
      crb4.pass_requests role4.pass_requests rb4.pass_requests dep4.pass_requests
      svc4.pass_requests stc4.pass_requests ensurePVC_pvc_requests assms
    | simp add: created_pvc_def managed_kinds_def)+

lemma ensureAll_pvc_panics:
  assumes "runs (ensureAll_pvc L lg m) t (Inl r)"
  shows "r = Panic ''10Gi'' \<and> MustParse L ''10Gi'' = None"
  using assms unfolding ensureAll_pvc_def
  by (auto elim!: runs_andthenE ensurePVC_pvc_run dest: scc4.passes sa4.passes cr4.passes crb4.passes
      role4.passes rb4.passes dep4.passes svc4.passes stc4.passes)

end

section \<open>The deletion logic\<close>

lemma containsString_pvc_iff [simp]: "containsString_pvc sl s \<longleftrightarrow> s \<in> set sl"
  by (induction sl) auto

lemma deleteExternal_pvc_run:
  assumes "runs (deleteExternalResources_pvc m) t x"
  shows "(\<forall>q a. (q, a) \<in> set t \<longrightarrow> is_log q \<or> (\<exists>k n. q = Get k n) \<or> (\<exists>y. q = Delete y)) \<and>
    (\<forall>e. x = Inl e \<longrightarrow> (\<exists>t0 y lg msg kvs a. t = t0 @ [(Delete y, Inl e), (LogError lg e msg kvs, a)]))"
  using assms unfolding deleteExternalResources_pvc_def deleteIfFound_pvc_def logError_def
  by (auto elim!: runs_andthenE simp: io_simps)

text \<open>The seven ways through the deletion logic.\<close>

lemma finalize_pvc_run:
  assumes "runs (finalize_pvc L lg m) t x"
  obtains (marked_done) "om_deletionTimestamp (nfs_meta m) \<noteq> None"
      "finalizerName_pvc \<in> set (om_finalizers (nfs_meta m))"
      "t = []" "x = Inl (Return \<lparr>Requeue = True\<rparr> None)"
  | (marked_added) r y where "om_deletionTimestamp (nfs_meta m) \<noteq> None"
      "finalizerName_pvc \<notin> set (om_finalizers (nfs_meta m))"
      "t = [(LogInfo lg ''Adding Finalizer for the NFSProvisioner'' [], r),
        (Update (NFSProvisionerO (m\<lparr>nfs_meta := AddFinalizer L (nfs_meta m) finalizerName_pvc\<rparr>)), Inr y)]"
      "x = Inl (Return \<lparr>Requeue = True\<rparr> None)"
  | (marked_failed) r e msg r' where "om_deletionTimestamp (nfs_meta m) \<noteq> None"
      "finalizerName_pvc \<notin> set (om_finalizers (nfs_meta m))"
      "t = [(LogInfo lg ''Adding Finalizer for the NFSProvisioner'' [], r),
        (Update (NFSProvisionerO (m\<lparr>nfs_meta := AddFinalizer L (nfs_meta m) finalizerName_pvc\<rparr>)), Inl e),
        (LogError lg e msg [], r')]"
      "x = Inl (Return \<lparr>Requeue = False\<rparr> (Some e))"
  | (live_done) "om_deletionTimestamp (nfs_meta m) = None"
      "finalizerName_pvc \<notin> set (om_finalizers (nfs_meta m))"
      "t = []" "x = Inl (Return \<lparr>Requeue = False\<rparr> None)"
  | (cleanup_failed) t1 e msg r where "om_deletionTimestamp (nfs_meta m) = None"
      "finalizerName_pvc \<in> set (om_finalizers (nfs_meta m))"
      "runs (deleteExternalResources_pvc m) t1 (Inl e)" "t = t1 @ [(LogError lg e msg [], r)]"
      "x = Inl (Return \<lparr>Requeue = False\<rparr> (Some e))"
  | (removed) t1 y where "om_deletionTimestamp (nfs_meta m) = None"
      "finalizerName_pvc \<in> set (om_finalizers (nfs_meta m))"
      "runs (deleteExternalResources_pvc m) t1 (Inr ())"
      "t = t1 @ [(Update (NFSProvisionerO (m\<lparr>nfs_meta := RemoveFinalizer L (nfs_meta m) finalizerName_pvc\<rparr>)), Inr y)]"
      "x = Inl (Return \<lparr>Requeue = False\<rparr> None)"
  | (remove_failed) t1 e msg r where "om_deletionTimestamp (nfs_meta m) = None"
      "finalizerName_pvc \<in> set (om_finalizers (nfs_meta m))"
      "runs (deleteExternalResources_pvc m) t1 (Inr ())"
      "t = t1 @ [(Update (NFSProvisionerO (m\<lparr>nfs_meta := RemoveFinalizer L (nfs_meta m) finalizerName_pvc\<rparr>)), Inl e),
        (LogError lg e msg [], r)]"
      "x = Inl (Return \<lparr>Requeue = False\<rparr> (Some e))"
  using assms unfolding finalize_pvc_def Let_def stmt_defs
  by (auto simp: io_simps runs_prog_bind split: if_split_asm)

lemma finalize_pvc_returns: "\<not> runs (finalize_pvc L lg m) t (Inr a)"
  by (auto elim: finalize_pvc_run)

lemma Reconcile_pvc_run:
  assumes "runs (Reconcile_pvc L req) t r"
  obtains (not_fetched) "runs (fetch_pvc L req) t (Inl r)"
  | (panicked) y t' where "t = (Get NFSProvisionerK req, Inr y) # t'"
      "runs (ensureAll_pvc L (RLog req) (asNFSProvisioner y)) t' (Inl r)"
  | (finished) y t' t'' where "t = (Get NFSProvisionerK req, Inr y) # t' @ t''"
      "runs (ensureAll_pvc L (RLog req) (asNFSProvisioner y)) t' (Inr ())"
      "runs (finalize_pvc L (RLog req) (asNFSProvisioner y)) t'' (Inl r)"
proof -
  have fetched: "\<exists>y. t1 = [(Get NFSProvisionerK req, Inr y)] \<and> m = asNFSProvisioner y"
    if "runs (fetch_pvc L req) t1 (Inr m)" for t1 m
    using that unfolding fetch_pvc_def stmt_defs by (auto simp: io_simps split: if_split_asm)
  have "\<not> runs (Reconcile_pvc_body L req) t (Inr a)" for t a
    unfolding Reconcile_pvc_body_def by (auto elim!: runs_andthenE simp: finalize_pvc_returns)
  with assms have "runs (Reconcile_pvc_body L req) t (Inl r)"
    unfolding Reconcile_pvc_def runs_prog_bind by (auto simp: io_simps split: sum.splits)
  then show thesis
    unfolding Reconcile_pvc_body_def
  proof (cases rule: runs_andthenE)
    case (returned e)
    then show thesis using not_fetched by simp
  next
    case (continued t1 t2 m)
    from fetched [OF continued(2)] obtain y where y: "t1 = [(Get NFSProvisionerK req, Inr y)]" "m = asNFSProvisioner y"
      by blast
    from continued(3) show thesis
    proof (cases rule: runs_andthenE)
      case (returned e)
      then show thesis using continued(1) y panicked by simp
    next
      case (continued t3 t4 a)
      then show thesis using \<open>t = t1 @ t2\<close> y finished by simp
    qed
  qed
qed

section \<open>What the runs show\<close>

context k8s_lib
begin

lemma ensureAll_pvc_no_update:
  assumes "runs (ensureAll_pvc L lg m) t x"
  shows "(Update z, a) \<notin> set t" "(Delete z, a) \<notin> set t"
proof -
  have "obeys (\<lambda>t _. requests_in (\<lambda>q. (\<forall>z. q \<noteq> Update z) \<and> (\<forall>z. q \<noteq> Delete z)) t) (ensureAll_pvc L lg m)"
    by (rule ensureAll_pvc_requests) auto
  with assms have "requests_in (\<lambda>q. (\<forall>z. q \<noteq> Update z) \<and> (\<forall>z. q \<noteq> Delete z)) t"
    unfolding obeys_def by blast
  then show "(Update z, a) \<notin> set t" "(Delete z, a) \<notin> set t" by (auto dest: requests_inD)
qed

lemma fetch_pvc_run:
  assumes "runs (fetch_pvc L req) t x"
  shows "(\<exists>y. t = [(Get NFSProvisionerK req, Inr y)] \<and> x = Inr (asNFSProvisioner y)) \<or>
    (\<exists>err l a. is_log l \<and> t = [(Get NFSProvisionerK req, Inl err), (l, a)] \<and>
       x = Inl (Return \<lparr>Requeue = False\<rparr> (if IsNotFound L err then None else Some err)))"
  using assms unfolding fetch_pvc_def stmt_defs by (auto simp: io_simps ignoreNotFound split: if_split_asm)

lemma Reconcile_pvc_finalizers:
  assumes "runs (Reconcile_pvc L req) ((Get NFSProvisionerK req, Inr y) # t) r" "(q, a) \<in> set t"
  shows "case q of
      Update z \<Rightarrow> (if om_deletionTimestamp (nfs_meta (asNFSProvisioner y)) = None
        then z = NFSProvisionerO ((asNFSProvisioner y)\<lparr>nfs_meta :=
               RemoveFinalizer L (nfs_meta (asNFSProvisioner y)) finalizerName_pvc\<rparr>)
        else z = NFSProvisionerO ((asNFSProvisioner y)\<lparr>nfs_meta :=
               AddFinalizer L (nfs_meta (asNFSProvisioner y)) finalizerName_pvc\<rparr>))
    | Delete z \<Rightarrow> om_deletionTimestamp (nfs_meta (asNFSProvisioner y)) = None
    | _ \<Rightarrow> True"
proof -
  have del: "(Update z, b) \<notin> set t1" if "runs (deleteExternalResources_pvc m) t1 x" for m t1 x z b
    using deleteExternal_pvc_run [OF that] by auto
  have fin: ?thesis if "runs (finalize_pvc L lg (asNFSProvisioner y)) t'' x" "(q, a) \<in> set t''" for lg t'' x
    using that(1)
    by (cases rule: finalize_pvc_run) (use that(2) in \<open>auto split: request.splits dest: del\<close>)
  have all: ?thesis if "runs (ensureAll_pvc L lg m) t' x" "(q, a) \<in> set t'" for lg m t' x
    using that ensureAll_pvc_no_update by (cases q) auto
  from assms(1) show ?thesis
  proof (cases rule: Reconcile_pvc_run)
    case not_fetched
    then show ?thesis by (auto dest: fetch_pvc_run)
  next
    case (panicked y' t')
    then show ?thesis using all assms(2) by blast
  next
    case (finished y' t' t'')
    then have "y' = y" and "(q, a) \<in> set t' \<or> (q, a) \<in> set t''" using assms(2) by auto
    with finished(2,3) all fin show ?thesis by blast
  qed
qed

end

text \<open>
  C39. The fourth stage has its deletion test the wrong way round.  For a resource
  that is not being deleted no run ever adds the finalizer: the only update takes
  it away, and only for such a resource are the two roles ever deleted.  For a
  resource that is being deleted the only update adds the finalizer, and nothing
  is cleaned up.
\<close>

theorem Reconcile_pvc_inverted_deletion:
  assumes "k8s_lib L"
    and "runs (Reconcile_pvc L req) ((Get NFSProvisionerK req, Inr (NFSProvisionerO m)) # t) r"
  shows "(om_deletionTimestamp (nfs_meta m) = None \<longrightarrow>
       (\<forall>x a. (Update (NFSProvisionerO x), a) \<in> set t \<longrightarrow> finalizerName_pvc \<notin> set (om_finalizers (nfs_meta x)))) \<and>
    (om_deletionTimestamp (nfs_meta m) \<noteq> None \<longrightarrow>
       (\<forall>x a. (Update (NFSProvisionerO x), a) \<in> set t \<longrightarrow> finalizerName_pvc \<in> set (om_finalizers (nfs_meta x))) \<and>
       (\<forall>x a. (Delete x, a) \<notin> set t))"
  using k8s_lib.Reconcile_pvc_finalizers [OF assms]
    k8s_lib.addFinalizer_mem [OF assms(1)] k8s_lib.removeFinalizer_mem [OF assms(1)]
  by fastforce

definition demoRun_pvc :: "string option list \<Rightarrow> cluster \<Rightarrow> event list \<times> ret" where
  "demoRun_pvc faults s =
     (case traced (faulty mem_srv) (Reconcile_pvc demoLib demoReq) (faults, s) of (t, r, _) \<Rightarrow> (t, r))"

lemma demoRun_pvc_runs:
  "runs (Reconcile_pvc demoLib demoReq) (fst (demoRun_pvc fs s)) (snd (demoRun_pvc fs s))"
  by (simp add: demoRun_pvc_def case_prod_beta runs_traced)

lemma demoRun_pvc_fetch:
  "runs (Reconcile_pvc demoLib demoReq)
     ((Get NFSProvisionerK demoReq, Inr (NFSProvisionerO (demoCR spec fins del)))
        # tl (fst (demoRun_pvc [] (demoCluster spec fins del))))
     (snd (demoRun_pvc [] (demoCluster spec fins del)))"
proof -
  have "fst (demoRun_pvc [] (demoCluster spec fins del)) =
      (Get NFSProvisionerK demoReq, Inr (NFSProvisionerO (demoCR spec fins del)))
        # tl (fst (demoRun_pvc [] (demoCluster spec fins del)))"
    by (simp add: demoRun_pvc_def Reconcile_pvc_def Reconcile_pvc_body_def fetch_pvc_def case_prod_beta)
  then show ?thesis using demoRun_pvc_runs [of "[]" "demoCluster spec fins del"] by metis
qed

text \<open>A live resource that carries the finalizer loses it, and the role with it.\<close>

lemma Reconcile_pvc_inverted_deletion_witness:
  "\<exists>x a. (Update (NFSProvisionerO x), a) \<in> set (tl (fst (demoRun_pvc [] (demoCluster demoSpec [finalizerName] None)))) \<and>
     finalizerName_pvc \<notin> set (om_finalizers (nfs_meta x))"
proof -
  let ?t = "tl (fst (demoRun_pvc [] (demoCluster demoSpec [finalizerName] None)))"
  have "list_ex (\<lambda>(q, a). case q of Update (NFSProvisionerO x) \<Rightarrow> True | _ \<Rightarrow> False) ?t"
    "om_deletionTimestamp (nfs_meta (demoCR demoSpec [finalizerName] None)) = None"
    by code_simp+
  with Reconcile_pvc_inverted_deletion [OF demoLib demoRun_pvc_fetch [of demoSpec "[finalizerName]" None]]
  show ?thesis by (fastforce simp: list_ex_iff split: request.splits kobj.splits)
qed

context k8s_lib
begin

lemma Reconcile_pvc_returned:
  assumes "runs (Reconcile_pvc L req) t (Return res (Some e))"
  shows "\<exists>t0 q logs. t = t0 @ (q, Inl e) # logs \<and> list_all is_log (map fst logs) \<and>
    (q = Get NFSProvisionerK req \<or> (\<exists>x. q = Update x) \<or> (\<exists>x. q = Delete x))"
  using assms
proof (cases rule: Reconcile_pvc_run)
  case not_fetched
  then obtain err l a where "is_log l" "t = [(Get NFSProvisionerK req, Inl err), (l, a)]" "e = err"
    by (auto dest!: fetch_pvc_run split: if_split_asm)
  then show ?thesis
    by (intro exI [of _ "[]"] exI [of _ "Get NFSProvisionerK req"] exI [of _ "[(l, a)]"]) simp
next
  case (panicked y t')
  then show ?thesis by (auto dest: ensureAll_pvc_panics)
next
  case (finished y t' t'')
  have "\<exists>u q logs. t'' = u @ (q, Inl e) # logs \<and> list_all is_log (map fst logs) \<and>
      ((\<exists>x. q = Update x) \<or> (\<exists>x. q = Delete x))"
    using finished(3)
  proof (cases rule: finalize_pvc_run)
    case (marked_failed r e' msg r')
    then show ?thesis
      by (intro exI [of _ "[(LogInfo (RLog req) ''Adding Finalizer for the NFSProvisioner'' [], r)]"]) auto
  next
    case (cleanup_failed t1 e' msg r)
    from deleteExternal_pvc_run [OF cleanup_failed(3)] obtain t0 y' lg msg' kvs a where
      "t1 = t0 @ [(Delete y', Inl e'), (LogError lg e' msg' kvs, a)]" by blast
    with cleanup_failed show ?thesis by (intro exI [of _ t0]) auto
  next
    case (remove_failed t1 e' msg r)
    then show ?thesis by (intro exI [of _ t1]) auto
  qed simp_all
  then obtain u q logs where "t'' = u @ (q, Inl e) # logs" "list_all is_log (map fst logs)"
    "(\<exists>x. q = Update x) \<or> (\<exists>x. q = Delete x)" by blast
  with finished(1) show ?thesis
    by (intro exI [of _ "(Get NFSProvisionerK req, Inr y) # t' @ u"] exI [of _ q] exI [of _ logs]) auto
qed

end

text \<open>
  The fourth stage never returns the failure of a creation: an error it
  returns is that of the lookup of the resource, of a deletion or of the update of
  the finalizer.
\<close>

theorem Reconcile_pvc_swallows_create_errors:
  assumes "k8s_lib L" and "runs (Reconcile_pvc L req) t (Return res (Some e))"
  shows "\<exists>t0 q logs. t = t0 @ (q, Inl e) # logs \<and> list_all is_log (map fst logs) \<and>
    (q = Get NFSProvisionerK req \<or> (\<exists>x. q = Update x) \<or> (\<exists>x. q = Delete x))"
  using k8s_lib.Reconcile_pvc_returned [OF assms] .

lemma Reconcile_pvc_swallows_create_errors_witness:
  "\<exists>t0 q logs. fst (demoRun_pvc [Some ''down''] (demoCluster demoSpec [] None)) =
     t0 @ (q, Inl (StatusError ''InternalError'' ''down'')) # logs"
proof -
  have "snd (demoRun_pvc [Some ''down''] (demoCluster demoSpec [] None)) =
      Return \<lparr>Requeue = False\<rparr> (Some (StatusError ''InternalError'' ''down''))" by code_simp
  with demoRun_pvc_runs [of "[Some ''down'']" "demoCluster demoSpec [] None"]
  have "runs (Reconcile_pvc demoLib demoReq) (fst (demoRun_pvc [Some ''down''] (demoCluster demoSpec [] None)))
      (Return \<lparr>Requeue = False\<rparr> (Some (StatusError ''InternalError'' ''down'')))" by simp
  from Reconcile_pvc_swallows_create_errors [OF demoLib this] show ?thesis by blast
qed

section \<open>Names that do not match\<close>

context k8s_lib
begin

lemma created_pvc_keys:
  "x \<in> set (created_pvc L m) \<Longrightarrow> kobj_kind x = ClusterRoleBindingK \<Longrightarrow>
     key_of x = mkKey ClusterRoleBindingK (nn '''' ''run-provisioner-runner'')"
  "x \<in> set (created_pvc L m) \<Longrightarrow> kobj_kind x = PersistentVolumeClaimK \<Longrightarrow>
     key_of x = mkKey PersistentVolumeClaimK (nn (nfsNamespace m) ''nfs'')"
  "x \<in> set (created_pvc L m) \<Longrightarrow> kobj_kind x = DeploymentK \<Longrightarrow>
     key_of x = mkKey DeploymentK (nn (nfsNamespace m) (nfsName m)) \<and>
     (\<exists>d. x = DeploymentO d \<and> map (vs_claimName \<circ> v_source) (ps_volumes (dep_podSpec d)) = [Some Pvc_default])"
proof -
  have pvc: "key_of (PersistentVolumeClaimO c) = mkKey PersistentVolumeClaimK (nn (nfsNamespace m) ''nfs'')"
    if "pvcForNFSProvisioner_pvc L m = Inr c" for c
    using that by (auto simp: pvcForNFSProvisioner_pvc_def key_of_def ownedBy_def Let_def split: option.splits)
  show "x \<in> set (created_pvc L m) \<Longrightarrow> kobj_kind x = ClusterRoleBindingK \<Longrightarrow>
     key_of x = mkKey ClusterRoleBindingK (nn '''' ''run-provisioner-runner'')"
    by (auto simp: created_pvc_def key_of_def split: if_split_asm sum.split_asm)
  show "x \<in> set (created_pvc L m) \<Longrightarrow> kobj_kind x = PersistentVolumeClaimK \<Longrightarrow>
     key_of x = mkKey PersistentVolumeClaimK (nn (nfsNamespace m) ''nfs'')"
    by (auto simp: created_pvc_def pvc split: if_split_asm sum.split_asm)
  have dep: "key_of (DeploymentO (deploymentForNFSProvisioner_pvc L m)) =
        mkKey DeploymentK (nn (nfsNamespace m) (nfsName m))"
    "map (vs_claimName \<circ> v_source) (ps_volumes (dep_podSpec (deploymentForNFSProvisioner_pvc L m))) = [Some Pvc_default]"
    by (simp add: key_of_def) (simp add: deploymentForNFSProvisioner_pvc_def Let_def)
  show "x \<in> set (created_pvc L m) \<Longrightarrow> kobj_kind x = DeploymentK \<Longrightarrow>
     key_of x = mkKey DeploymentK (nn (nfsNamespace m) (nfsName m)) \<and>
     (\<exists>d. x = DeploymentO d \<and> map (vs_claimName \<circ> v_source) (ps_volumes (dep_podSpec d)) = [Some Pvc_default])"
    using dep by (auto simp: created_pvc_def split: if_split_asm sum.split_asm)
qed

lemma finalize_pvc_no_create:
  "runs (finalize_pvc L lg m) t x \<Longrightarrow> (Create z, a) \<notin> set t"
proof
  assume run: "runs (finalize_pvc L lg m) t x" and mem: "(Create z, a) \<in> set t"
  have del: "(Create z, a) \<notin> set t1" if "runs (deleteExternalResources_pvc m) t1 y" for t1 y
    using deleteExternal_pvc_run [OF that] by auto
  from run mem show False by (auto elim!: finalize_pvc_run dest: del)
qed

lemma Reconcile_pvc_creates:
  assumes "runs (Reconcile_pvc L req) ((Get NFSProvisionerK req, Inr y) # t) r" "(Create x, a) \<in> set t"
  shows "x \<in> set (created_pvc L (asNFSProvisioner y))"
proof -
  have all: ?thesis if "runs (ensureAll_pvc L lg (asNFSProvisioner y)) t' z" "(Create x, a) \<in> set t'" for lg t' z
  proof -
    have "obeys (\<lambda>t _. requests_in (\<lambda>q. \<forall>x. q = Create x \<longrightarrow> x \<in> set (created_pvc L (asNFSProvisioner y))) t)
        (ensureAll_pvc L lg (asNFSProvisioner y))"
      by (rule ensureAll_pvc_requests) auto
    with that show ?thesis unfolding obeys_def by (blast dest: requests_inD)
  qed
  from assms(1) show ?thesis
  proof (cases rule: Reconcile_pvc_run)
    case not_fetched
    then show ?thesis by (auto dest: fetch_pvc_run)
  next
    case (panicked y' t')
    then show ?thesis using all assms(2) by blast
  next
    case (finished y' t' t'')
    then have "y' = y" and "(Create x, a) \<in> set t' \<or> (Create x, a) \<in> set t''" using assms(2) by auto
    with finished(2,3) all finalize_pvc_no_create show ?thesis by blast
  qed
qed

end

text \<open>
  C39. Three objects of the fourth stage are created under a key that no run looks
  up: the ClusterRoleBinding always, the claim always, and the Deployment unless
  the resource happens to be called \<open>nfs-provisioner\<close>.  So every run tries to
  create the first again, and the claim the pod mounts is never created.
\<close>

theorem Reconcile_pvc_mismatched_names:
  assumes "k8s_lib L"
    and "runs (Reconcile_pvc L req) ((Get NFSProvisionerK req, Inr (NFSProvisionerO m)) # t) r"
    and "(Create x, a) \<in> set t"
  shows "(kobj_kind x = ClusterRoleBindingK \<longrightarrow> key_of x \<noteq> mkKey ClusterRoleBindingK (nn '''' ClusterRoleBinding_default)) \<and>
    (kobj_kind x = PersistentVolumeClaimK \<longrightarrow>
       key_of x \<noteq> mkKey PersistentVolumeClaimK (nn (nfsNamespace m) Pvc_default)) \<and>
    (kobj_kind x = DeploymentK \<longrightarrow>
       (key_of x = mkKey DeploymentK (nn (nfsNamespace m) Deployment_default) \<longleftrightarrow> nfsName m = ''nfs-provisioner'') \<and>
       (\<exists>d. x = DeploymentO d \<and> map (vs_claimName \<circ> v_source) (ps_volumes (dep_podSpec d)) = [Some Pvc_default]))"
proof -
  from k8s_lib.Reconcile_pvc_creates [OF assms] have "x \<in> set (created_pvc L m)" by simp
  from k8s_lib.created_pvc_keys [OF assms(1) this] show ?thesis
    by (auto simp: mkKey_def cluster_scoped_def ClusterRoleBinding_default_def Pvc_default_def Deployment_default_def)
qed

lemma Reconcile_pvc_mismatched_names_witness:
  "\<exists>x a. (Create x, a) \<in> set (tl (fst (demoRun_pvc [] (demoCluster demoSpec [] None)))) \<and>
     kobj_kind x = ClusterRoleBindingK \<and>
     key_of x \<noteq> mkKey ClusterRoleBindingK (nn '''' ClusterRoleBinding_default)"
proof -
  let ?t = "tl (fst (demoRun_pvc [] (demoCluster demoSpec [] None)))"
  have "list_ex (\<lambda>(q, a). case q of Create x \<Rightarrow> kobj_kind x = ClusterRoleBindingK | _ \<Rightarrow> False) ?t"
    by code_simp
  then obtain x a where "(Create x, a) \<in> set ?t" "kobj_kind x = ClusterRoleBindingK"
    by (auto simp: list_ex_iff split: request.splits)
  with Reconcile_pvc_mismatched_names [OF demoLib demoRun_pvc_fetch this(1)] show ?thesis by blast
qed


section \<open>What the fourth stage grants\<close>

text \<open>
  The \<open>+kubebuilder:rbac\<close> markers above \<open>Reconcile\<close> of the fourth stage: endpoints
  and events can only be read.
\<close>

definition rbacMarkers_pvc :: "PolicyRule list" where
  "rbacMarkers_pvc =
     [marker ''cache.jhouse.com'' ''nfsprovisioners'' allVerbs,
      marker ''cache.jhouse.com'' ''nfsprovisioners/status'' [''get'', ''update'', ''patch''],
      marker ''cache.jhouse.com'' ''nfsprovisioners/finalizers'' [''update''],
      marker ''rbac.authorization.k8s.io'' ''clusterroles'' allVerbs,
      marker ''rbac.authorization.k8s.io'' ''clusterrolebindings'' allVerbs,
      marker ''rbac.authorization.k8s.io'' ''roles'' allVerbs,
      marker ''rbac.authorization.k8s.io'' ''rolebindings'' allVerbs,
      marker ''security.openshift.io'' ''securitycontextconstraints'' allVerbs,
      marker ''storage.k8s.io'' ''storageclasses'' allVerbs,
      marker ''apps'' ''deployments'' allVerbs,
      marker ''apps'' ''deployments/finalizers'' [''update''],
      marker ''core'' ''services'' allVerbs,
      marker ''core'' ''serviceaccounts'' allVerbs,
      marker ''core'' ''endpoints'' [''get'', ''list'', ''watch''],
      marker ''core'' ''events'' [''get'', ''list'', ''watch''],
      marker ''policy'' ''podsecuritypolicies'' [''use''],
      marker ''core'' ''persistentvolumes'' allVerbs,
      marker ''core'' ''persistentvolumeclaims'' allVerbs,
      marker ''core'' ''pods'' [''get'', ''list'', ''watch'']]"

text \<open>
  Of the rules the fourth stage hands out, exactly two go beyond what its
  markers give the operator: to write events in the ClusterRole and to write
  endpoints in the Role.  A server that forbids escalation refuses both objects.
\<close>

theorem roles_pvc_escalate:
  "map pr_resources (filter (\<lambda>r. \<not> holds_rule rbacMarkers_pvc r)
     (role_rules (clusterRoleForNFSProvisioner_pvc L m))) = [[''events'']] \<and>
   map pr_resources (filter (\<lambda>r. \<not> holds_rule rbacMarkers_pvc r)
     (role_rules (roleForNFSProvisioner_pvc L m))) = [[''endpoints'']]"
proof -
  have "role_rules (clusterRoleForNFSProvisioner_pvc L m) =
        role_rules (clusterRoleForNFSProvisioner_pvc demoLib zeroNFSProvisioner)"
    "role_rules (roleForNFSProvisioner_pvc L m) =
        role_rules (roleForNFSProvisioner_pvc demoLib zeroNFSProvisioner)"
    by (simp_all add: clusterRoleForNFSProvisioner_pvc_def roleForNFSProvisioner_pvc_def)
  moreover have "map pr_resources (filter (\<lambda>r. \<not> holds_rule rbacMarkers_pvc r)
      (role_rules (clusterRoleForNFSProvisioner_pvc demoLib zeroNFSProvisioner))) = [[''events'']]"
    "map pr_resources (filter (\<lambda>r. \<not> holds_rule rbacMarkers_pvc r)
      (role_rules (roleForNFSProvisioner_pvc demoLib zeroNFSProvisioner))) = [[''endpoints'']]"
    by code_simp+
  ultimately show ?thesis by simp
qed

text \<open>
  The security constraints of the fourth stage name the service account its
  pod runs as only when the resource lives in the namespace
  \<open>nfs-provisioner\<close>.
\<close>

theorem constraints_pvc_fixed_namespace:
  assumes "k8s_lib L"
  shows "scc_users (sccForNFSProvisioner_pvc L m) = [serviceAccountUser (serviceAccountForNFSProvisioner_pvc L m)]
     \<longleftrightarrow> nfsNamespace m = ''nfs-provisioner''"
proof -
  have key: "''nfs-provisioner:nfs-provisioner'' = n @ CHR '':'' # ''nfs-provisioner'' \<longleftrightarrow>
      n = ''nfs-provisioner''" for n :: string
  proof -
    have "''nfs-provisioner:nfs-provisioner'' = ''nfs-provisioner'' @ '':nfs-provisioner''" by simp
    then show ?thesis by (metis append_same_eq)
  qed
  show ?thesis using k8s_lib.ownedBy_simps [OF assms]
    by (simp add: key sccForNFSProvisioner_pvc_def serviceAccountForNFSProvisioner_pvc_def
        serviceAccountUser_def)
qed

lemma constraints_pvc_fixed_namespace_witness:
  "scc_users (sccForNFSProvisioner_pvc demoLib zeroNFSProvisioner) \<noteq>
     [serviceAccountUser (serviceAccountForNFSProvisioner_pvc demoLib zeroNFSProvisioner)]"
  using constraints_pvc_fixed_namespace [OF demoLib, of zeroNFSProvisioner] by (simp add: zeroNFSProvisioner_def)

end
