(* ===== verification/SaStage.thy ===== *)
theory SaStage
  imports NfsReconcile Rbac
begin

text \<open>
  The controller of the first NFS tutorial
  (\<open>1.serviceaccount_nfsprovisioner_controller.go\<close>): it creates the service account
  and nothing else.  The names carry the suffix \<open>_sa\<close>.
\<close>

section \<open>Builders\<close>

definition labelsForNFSProvisioner_sa :: "string \<Rightarrow> string_map" where
  "labelsForNFSProvisioner_sa name =
     fmap_of_list [(''app'', ''nfs-provisioner''), (''nfsprovisioner_cr'', name)]"

definition serviceAccountForNFSProvisioner_sa :: "lib \<Rightarrow> NFSProvisioner \<Rightarrow> ServiceAccount" where
  "serviceAccountForNFSProvisioner_sa L m =
     \<lparr>sa_meta = ownedBy L m ServiceAccountK (mkMeta ''nfs-provisioner'' (nfsNamespace m))\<rparr>"

section \<open>Reconcile\<close>

definition ensureServiceAccount_sa :: "lib \<Rightarrow> logger \<Rightarrow> NFSProvisioner \<Rightarrow> unit stmt" where
  "ensureServiceAccount_sa L lg m =
     Req (Get ServiceAccountK
            \<lparr>nn_namespace = nfsNamespace m, nn_name = ''nfs-provisioner''\<rparr>) (\<lambda>r. case r of
       Inl err \<Rightarrow>
         if IsNotFound L err then
           let sa = serviceAccountForNFSProvisioner_sa L m;
               kvs = [LStr ''Serviceaccount.Namespace'', LStr (om_namespace (sa_meta sa)),
                      LStr ''Serviceaccount.Name'', LStr (om_name (sa_meta sa))]
           in logInfo lg ''Creating a new Serviceaccount'' kvs
                (Req (Create (ServiceAccountO sa)) (\<lambda>r. case r of
                   Inl err \<Rightarrow> logInfo lg ''Failed to create a new Serviceaccount''
                     (kvs @ [LStr ''Error'', LErr err]) proceed
                 | Inr _ \<Rightarrow> proceed))
         else proceed
     | Inr _ \<Rightarrow> proceed)"

definition fetch_sa :: "lib \<Rightarrow> NamespacedName \<Rightarrow> NFSProvisioner stmt" where
  "fetch_sa L req =
     Req (Get NFSProvisionerK req) (\<lambda>r. case r of
       Inl err \<Rightarrow>
         if IsNotFound L err then
           logInfo (RLog req)
             ''NFSProvisioner resource not found. Ignoring since object must be deleted'' []
             (returns False None)
         else logError (RLog req) err ''Failed to get NFSProvisioner'' []
             (returns False (Some err))
     | Inr x \<Rightarrow> Ret (Inr (asNFSProvisioner x)))"

definition Reconcile_sa :: "lib \<Rightarrow> NamespacedName \<Rightarrow> ret io" where
  "Reconcile_sa L req =
     prog_bind (andthen (fetch_sa L req) (\<lambda>m. ensureServiceAccount_sa L (RLog req) m)) (\<lambda>x. case x of
       Inl r \<Rightarrow> Ret r
     | Inr _ \<Rightarrow> Ret (Return \<lparr>Requeue = True\<rparr> None))"

section \<open>Markers\<close>

definition rbacMarkers_sa :: "PolicyRule list" where
  "rbacMarkers_sa =
     [marker ''cache.jhouse.com'' ''nfsprovisioners'' allVerbs,
      marker ''cache.jhouse.com'' ''nfsprovisioners/status'' [''get'', ''update'', ''patch''],
      marker ''cache.jhouse.com'' ''nfsprovisioners/finalize'' [''get'', ''update'', ''patch''],
      marker ''apps'' ''deployments'' allVerbs,
      marker ''core'' ''namespaces'' allVerbs,
      marker ''core'' ''services'' allVerbs,
      marker ''core'' ''endpoints'' allVerbs,
      marker ''core'' ''persistentvolumeclaims'' allVerbs,
      marker ''core'' ''pods'' [''get'', ''list'', ''watch'']]"

end
