(* ===== verification/DeployStage.thy ===== *)
theory DeployStage
  imports NfsReconcile Rbac
begin

text \<open>
  The second tutorial's first version (\<open>2.deployment_nfsprovisioner_controller.go\<close>): the
  service account and the Deployment.  The names carry the suffix \<open>_deploy\<close>.
\<close>

section \<open>Builders\<close>

definition labelsForNFSProvisioner_deploy :: "string \<Rightarrow> string_map" where
  "labelsForNFSProvisioner_deploy name =
     fmap_of_list [(''app'', ''nfs-provisioner''), (''nfsprovisioner_cr'', name)]"

definition nfsContainerPorts_deploy :: "ContainerPort list" where
  "nfsContainerPorts_deploy =
     [\<lparr>cp_name = ''nfs'', cp_containerPort = 2049, cp_protocol = ''''\<rparr>,
      \<lparr>cp_name = ''nfs-udp'', cp_containerPort = 2049, cp_protocol = ''UDP''\<rparr>,
      \<lparr>cp_name = ''nlockmgr'', cp_containerPort = 32803, cp_protocol = ''''\<rparr>,
      \<lparr>cp_name = ''nlockmgr-udp'', cp_containerPort = 32803, cp_protocol = ''UDP''\<rparr>,
      \<lparr>cp_name = ''mountd'', cp_containerPort = 20048, cp_protocol = ''''\<rparr>,
      \<lparr>cp_name = ''mountd-udp'', cp_containerPort = 20048, cp_protocol = ''UDP''\<rparr>,
      \<lparr>cp_name = ''rquotad'', cp_containerPort = 875, cp_protocol = ''''\<rparr>,
      \<lparr>cp_name = ''rquotad-udp'', cp_containerPort = 875, cp_protocol = ''UDP''\<rparr>,
      \<lparr>cp_name = ''rpcbind'', cp_containerPort = 111, cp_protocol = ''''\<rparr>,
      \<lparr>cp_name = ''rpcbind-udp'', cp_containerPort = 111, cp_protocol = ''UDP''\<rparr>,
      \<lparr>cp_name = ''statd'', cp_containerPort = 662, cp_protocol = ''''\<rparr>,
      \<lparr>cp_name = ''statd-udp'', cp_containerPort = 662, cp_protocol = ''UDP''\<rparr>]"

definition nfsEnv_deploy :: "EnvVar list" where
  "nfsEnv_deploy =
     [\<lparr>ev_name = ''POD_IP'', ev_value = '''', ev_fieldPath = Some ''status.podIP''\<rparr>,
      \<lparr>ev_name = ''SERVICE_NAME'', ev_value = ''nfs-provisioner'', ev_fieldPath = None\<rparr>,
      \<lparr>ev_name = ''POD_NAMESPACE'', ev_value = '''', ev_fieldPath = Some ''metadata.namespace''\<rparr>]"

definition deploymentForNFSProvisioner_deploy :: "lib \<Rightarrow> NFSProvisioner \<Rightarrow> Deployment" where
  "deploymentForNFSProvisioner_deploy L m =
     (let ls = labelsForNFSProvisioner_deploy (nfsName m);
          nodeSelector = (case NodeSelector (Spec m) of Some ns \<Rightarrow> ns
            | None \<Rightarrow> fmap_of_list [(''app'', ''nfs-provisioner'')]);
          sa = ''nfs-provisioner''
      in \<lparr>dep_meta = ownedBy L m DeploymentK (mkMeta (nfsName m) (nfsNamespace m)),
        dep_replicas = None,
        dep_matchLabels = Some ls,
        dep_templateLabels = Some ls,
        dep_podSpec =
          \<lparr>ps_containers =
             [\<lparr>c_image = ''quay.io/kubernetes_incubator/nfs-provisioner:latest'',
               c_name = ''nfs-provisioner'',
               c_command = [''memcached'', ''-m=64'', ''-o'', ''modern'', ''-v''],
               c_ports = nfsContainerPorts_deploy,
               c_securityContext = Some
                 \<lparr>sc_add = [''DAC_READ_SEARCH'', ''SYS_RESOURCE''], sc_drop = [],
                  sc_privileged = None, sc_allowPrivilegeEscalation = None\<rparr>,
               c_args = [''-provisioner=example.com/nfs''],
               c_env = nfsEnv_deploy,
               c_imagePullPolicy = ''IfNotPresent'',
               c_volumeMounts = [\<lparr>vm_name = ''export-volume'', vm_mountPath = ''/export''\<rparr>]\<rparr>],
           ps_nodeSelector = Some nodeSelector,
           ps_serviceAccountName = sa,
           ps_volumes = [\<lparr>v_name = ''export-volume'',
             v_source = \<lparr>vs_hostPath = Some \<lparr>hp_path = ''/home/core/exports'', hp_type = None\<rparr>,
               vs_claimName = None\<rparr>\<rparr>]\<rparr>\<rparr>)"

definition serviceAccountForNFSProvisioner_deploy :: "lib \<Rightarrow> NFSProvisioner \<Rightarrow> ServiceAccount" where
  "serviceAccountForNFSProvisioner_deploy L m =
     \<lparr>sa_meta = ownedBy L m ServiceAccountK (mkMeta ''nfs-provisioner'' (nfsNamespace m))\<rparr>"

section \<open>Reconcile\<close>

definition ensureServiceAccount_deploy :: "lib \<Rightarrow> logger \<Rightarrow> NFSProvisioner \<Rightarrow> unit stmt" where
  "ensureServiceAccount_deploy L lg m =
     Req (Get ServiceAccountK
            \<lparr>nn_namespace = nfsNamespace m, nn_name = ''nfs-provisioner''\<rparr>) (\<lambda>r. case r of
       Inl err \<Rightarrow>
         if IsNotFound L err then
           let sa = serviceAccountForNFSProvisioner_deploy L m;
               kvs = [LStr ''Serviceaccount.Namespace'', LStr (om_namespace (sa_meta sa)),
                      LStr ''Serviceaccount.Name'', LStr (om_name (sa_meta sa))]
           in logInfo lg ''Creating a new Serviceaccount'' kvs
                (Req (Create (ServiceAccountO sa)) (\<lambda>r. case r of
                   Inl err \<Rightarrow> logInfo lg ''Failed to create a new Serviceaccount''
                     (kvs @ [LStr ''Error'', LErr err]) proceed
                 | Inr _ \<Rightarrow> proceed))
         else proceed
     | Inr _ \<Rightarrow> proceed)"

text \<open>The error of the creation is assigned to \<open>err\<close> and not looked at again.\<close>

definition ensureDeployment_deploy :: "lib \<Rightarrow> logger \<Rightarrow> NFSProvisioner \<Rightarrow> unit stmt" where
  "ensureDeployment_deploy L lg m =
     Req (Get DeploymentK \<lparr>nn_namespace = nfsNamespace m, nn_name = nfsName m\<rparr>) (\<lambda>r. case r of
       Inl err \<Rightarrow>
         if IsNotFound L err then
           let dep = deploymentForNFSProvisioner_deploy L m;
               kvs = [LStr ''Deployment.Namespace'', LStr (om_namespace (dep_meta dep)),
                      LStr ''Deployment.Name'', LStr (om_name (dep_meta dep))]
           in logInfo lg ''Creating a new Deployment'' kvs
                (Req (Create (DeploymentO dep)) (\<lambda>_. proceed))
         else proceed
     | Inr _ \<Rightarrow> proceed)"

definition fetch_deploy :: "lib \<Rightarrow> NamespacedName \<Rightarrow> NFSProvisioner stmt" where
  "fetch_deploy L req =
     Req (Get NFSProvisionerK req) (\<lambda>r. case r of
       Inl err \<Rightarrow>
         if IsNotFound L err then
           logInfo (RLog req)
             ''NFSProvisioner resource not found. Ignoring since object must be deleted'' []
             (returns False None)
         else logError (RLog req) err ''Failed to get NFSProvisioner'' []
             (returns False (Some err))
     | Inr x \<Rightarrow> Ret (Inr (asNFSProvisioner x)))"

definition ensureAll_deploy :: "lib \<Rightarrow> logger \<Rightarrow> NFSProvisioner \<Rightarrow> unit stmt" where
  "ensureAll_deploy L lg m =
     andthen (ensureServiceAccount_deploy L lg m) (\<lambda>_.
     ensureDeployment_deploy L lg m)"

definition Reconcile_deploy :: "lib \<Rightarrow> NamespacedName \<Rightarrow> ret io" where
  "Reconcile_deploy L req =
     prog_bind (andthen (fetch_deploy L req) (\<lambda>m. ensureAll_deploy L (RLog req) m)) (\<lambda>x. case x of
       Inl r \<Rightarrow> Ret r
     | Inr _ \<Rightarrow> Ret (Return \<lparr>Requeue = True\<rparr> None))"

section \<open>Markers\<close>

definition rbacMarkers_deploy :: "PolicyRule list" where
  "rbacMarkers_deploy =
     [marker ''cache.jhouse.com'' ''nfsprovisioners'' allVerbs,
      marker ''cache.jhouse.com'' ''nfsprovisioners/status'' [''get'', ''update'', ''patch''],
      marker ''cache.jhouse.com'' ''nfsprovisioners/finalize'' [''get'', ''update'', ''patch''],
      marker ''apps'' ''deployments'' allVerbs,
      marker ''core'' ''namespaces'' allVerbs,
      marker ''core'' ''services'' allVerbs,
      marker ''core'' ''endpoints'' allVerbs,
      marker ''core'' ''persistentvolumeclaims'' allVerbs,
      marker ''core'' ''pods'' [''get'', ''list'', ''watch'']]"

end
