(* ===== verification/RbacStage.thy ===== *)
theory RbacStage
  imports NfsReconcile Rbac
begin

text \<open>
  The second tutorial's second version (\<open>2.rbac_nfsprovisioner_controller.go\<close>): the
  service account, the four RBAC objects and the Deployment.  The Role and its
  binding are built without a namespace.  The names carry the suffix \<open>_rbac\<close>.
\<close>

section \<open>Builders\<close>

definition labelsForNFSProvisioner_rbac :: "string \<Rightarrow> string_map" where
  "labelsForNFSProvisioner_rbac name =
     fmap_of_list [(''app'', ''nfs-provisioner''), (''nfsprovisioner_cr'', name)]"

definition nfsContainerPorts_rbac :: "ContainerPort list" where
  "nfsContainerPorts_rbac =
     [\<lparr>cp_name = ''nfs'', cp_containerPort = 2049, cp_protocol = ''''\<rparr>,
      \<lparr>cp_name = ''nfs-udp'', cp_containerPort = 2049, cp_protocol = ''UDP''\<rparr>,
      \<lparr>cp_name = ''nlockmgr'', cp_containerPort = 32803, cp_protocol = ''''\<rparr>,
      \<lparr>cp_name = ''nlockmgr-udp'', cp_containerPort = 32803, cp_protocol = ''UDP''\<rparr>,
      \<lparr>cp_name = ''mountd'', cp_containerPort = 20048, cp_protocol = ''''\<rparr>,
      \<lparr>cp_name = ''mountd-udp'', cp_containerPort = 20048, cp_protocol = ''UDP''\<rparr>,
      \<lparr>cp_name = ''rquotad'', cp_containerPort = 875, cp_protocol = ''''\<rparr>,
      \<lparr>cp_name = ''rquotad-udp'', cp_containerPort = 875, cp_protocol = ''UDP''\<rparr>,
      \<lparr>cp_name = ''rpcbind'', cp_containerPort = 111, cp_protocol = ''''\<rparr>,
      \<lparr>cp_name = ''rpcbind-udp'', cp_containerPort = 111, cp_protocol = ''UDP''\<rparr>,
      \<lparr>cp_name = ''statd'', cp_containerPort = 662, cp_protocol = ''''\<rparr>,
      \<lparr>cp_name = ''statd-udp'', cp_containerPort = 662, cp_protocol = ''UDP''\<rparr>]"

definition nfsEnv_rbac :: "EnvVar list" where
  "nfsEnv_rbac =
     [\<lparr>ev_name = ''POD_IP'', ev_value = '''', ev_fieldPath = Some ''status.podIP''\<rparr>,
      \<lparr>ev_name = ''SERVICE_NAME'', ev_value = ''nfs-provisioner'', ev_fieldPath = None\<rparr>,
      \<lparr>ev_name = ''POD_NAMESPACE'', ev_value = '''', ev_fieldPath = Some ''metadata.namespace''\<rparr>]"

definition deploymentForNFSProvisioner_rbac :: "lib \<Rightarrow> NFSProvisioner \<Rightarrow> Deployment" where
  "deploymentForNFSProvisioner_rbac L m =
     (let ls = labelsForNFSProvisioner_rbac (nfsName m);
          nodeSelector = (case NodeSelector (Spec m) of Some ns \<Rightarrow> ns
            | None \<Rightarrow> fmap_of_list [(''app'', ''nfs-provisioner'')]);
          sa = ''nfs-provisioner''
      in \<lparr>dep_meta = ownedBy L m DeploymentK (mkMeta (nfsName m) (nfsNamespace m)),
        dep_replicas = None,
        dep_matchLabels = Some ls,
        dep_templateLabels = Some ls,
        dep_podSpec =
          \<lparr>ps_containers =
             [\<lparr>c_image = ''quay.io/kubernetes_incubator/nfs-provisioner:latest'',
               c_name = ''nfs-provisioner'',
               c_command = [''memcached'', ''-m=64'', ''-o'', ''modern'', ''-v''],
               c_ports = nfsContainerPorts_rbac,
               c_securityContext = Some
                 \<lparr>sc_add = [''DAC_READ_SEARCH'', ''SYS_RESOURCE''], sc_drop = [],
                  sc_privileged = None, sc_allowPrivilegeEscalation = None\<rparr>,
               c_args = [''-provisioner=example.com/nfs''],
               c_env = nfsEnv_rbac,
               c_imagePullPolicy = ''IfNotPresent'',
               c_volumeMounts = [\<lparr>vm_name = ''export-volume'', vm_mountPath = ''/export''\<rparr>]\<rparr>],
           ps_nodeSelector = Some nodeSelector,
           ps_serviceAccountName = sa,
           ps_volumes = [\<lparr>v_name = ''export-volume'',
             v_source = \<lparr>vs_hostPath = Some \<lparr>hp_path = ''/home/core/exports'', hp_type = None\<rparr>,
               vs_claimName = None\<rparr>\<rparr>]\<rparr>\<rparr>)"

definition serviceAccountForNFSProvisioner_rbac :: "lib \<Rightarrow> NFSProvisioner \<Rightarrow> ServiceAccount" where
  "serviceAccountForNFSProvisioner_rbac L m =
     \<lparr>sa_meta = ownedBy L m ServiceAccountK (mkMeta ''nfs-provisioner'' (nfsNamespace m))\<rparr>"

definition clusterRoleForNFSProvisioner_rbac :: "lib \<Rightarrow> NFSProvisioner \<Rightarrow> ClusterRole" where
  "clusterRoleForNFSProvisioner_rbac L m =
     \<lparr>role_meta = ownedBy L m ClusterRoleK (mkMeta ''nfs-provisioner-runner'' ''''),
      role_rules =
        [\<lparr>pr_apiGroups = [''''], pr_resources = [''persistentvolumes''], pr_resourceNames = [],
          pr_verbs = [''get'', ''list'', ''watch'', ''create'', ''delete'']\<rparr>,
         \<lparr>pr_apiGroups = [''''], pr_resources = [''persistentvolumeclaims''],
          pr_resourceNames = [], pr_verbs = [''get'', ''list'', ''watch'', ''update'']\<rparr>,
         \<lparr>pr_apiGroups = [''storage.k8s.io''], pr_resources = [''storageclasses''],
          pr_resourceNames = [], pr_verbs = [''get'', ''list'', ''watch'']\<rparr>,
         \<lparr>pr_apiGroups = [''''], pr_resources = [''events''], pr_resourceNames = [],
          pr_verbs = [''create'', ''update'', ''patch'']\<rparr>,
         \<lparr>pr_apiGroups = [''extensions''], pr_resources = [''podsecuritypolicies''],
          pr_resourceNames = [''nfs-provisioner''], pr_verbs = [''use'']\<rparr>]\<rparr>"

definition clusterRoleBindingForNFSProvisioner_rbac :: "lib \<Rightarrow> NFSProvisioner \<Rightarrow> ClusterRoleBinding" where
  "clusterRoleBindingForNFSProvisioner_rbac L m =
     \<lparr>rb_meta = ownedBy L m ClusterRoleBindingK (mkMeta ''run-provisioner-runner'' ''''),
      rb_subjects = [\<lparr>sub_kind = ''ServiceAccount'', sub_name = nfsName m,
                      sub_namespace = nfsNamespace m\<rparr>],
      rb_roleRef = \<lparr>rr_kind = ''ClusterRole'', rr_name = ''nfs-provisioner-runner'',
                    rr_apiGroup = ''rbac.authorization.k8s.io''\<rparr>\<rparr>"

definition roleForNFSProvisioner_rbac :: "lib \<Rightarrow> NFSProvisioner \<Rightarrow> Role" where
  "roleForNFSProvisioner_rbac L m =
     \<lparr>role_meta = ownedBy L m RoleK (mkMeta ''leader-locking-nfs-provisioner'' ''''),
      role_rules =
        [\<lparr>pr_apiGroups = [''''], pr_resources = [''endpoints''], pr_resourceNames = [],
          pr_verbs = [''get'', ''list'', ''watch'', ''create'', ''update'', ''delete'']\<rparr>]\<rparr>"

definition roleBindingForNFSProvisioner_rbac :: "lib \<Rightarrow> NFSProvisioner \<Rightarrow> RoleBinding" where
  "roleBindingForNFSProvisioner_rbac L m =
     \<lparr>rb_meta = ownedBy L m RoleBindingK (mkMeta ''leader-locking-nfs-provisioner'' ''''),
      rb_subjects = [\<lparr>sub_kind = ''ServiceAccount'', sub_name = nfsName m,
                      sub_namespace = nfsNamespace m\<rparr>],
      rb_roleRef = \<lparr>rr_kind = ''Role'', rr_name = ''leader-locking-nfs-provisioner'',
                    rr_apiGroup = ''rbac.authorization.k8s.io''\<rparr>\<rparr>"

section \<open>Reconcile\<close>

definition ensureServiceAccount_rbac :: "lib \<Rightarrow> logger \<Rightarrow> NFSProvisioner \<Rightarrow> unit stmt" where
  "ensureServiceAccount_rbac L lg m =
     Req (Get ServiceAccountK
            \<lparr>nn_namespace = nfsNamespace m, nn_name = ''nfs-provisioner''\<rparr>) (\<lambda>r. case r of
       Inl err \<Rightarrow>
         if IsNotFound L err then
           let sa = serviceAccountForNFSProvisioner_rbac L m;
               kvs = [LStr ''Serviceaccount.Namespace'', LStr (om_namespace (sa_meta sa)),
                      LStr ''Serviceaccount.Name'', LStr (om_name (sa_meta sa))]
           in logInfo lg ''Creating a new Serviceaccount'' kvs
                (Req (Create (ServiceAccountO sa)) (\<lambda>r. case r of
                   Inl err \<Rightarrow> logError lg err ''Failed to create a new Serviceaccount''
                     (kvs @ [LStr ''Error'']) proceed
                 | Inr _ \<Rightarrow> proceed))
         else proceed
     | Inr _ \<Rightarrow> proceed)"

definition ensureClusterRole_rbac :: "lib \<Rightarrow> logger \<Rightarrow> NFSProvisioner \<Rightarrow> unit stmt" where
  "ensureClusterRole_rbac L lg m =
     Req (Get ClusterRoleK \<lparr>nn_namespace = '''', nn_name = ''nfs-provisioner-runner''\<rparr>) (\<lambda>r. case r of
       Inl err \<Rightarrow>
         let cr = clusterRoleForNFSProvisioner_rbac L m
         in logInfo lg ''Creating a new ClusterRole''
              [LStr ''ClusterRole.Name'', LStr (om_name (role_meta cr))]
              (Req (Create (ClusterRoleO cr)) (\<lambda>r. case r of
                 Inl err \<Rightarrow> logError lg err ''Failed to create a ClusterRole for NFSProvisioner''
                   [LStr ''ClusterRole.Namespace'', LStr (om_namespace (role_meta cr)),
                    LStr ''ClusterRole.Name'', LStr (om_name (role_meta cr))]
                   proceed
               | Inr _ \<Rightarrow> proceed))
     | Inr _ \<Rightarrow> proceed)"

definition ensureClusterRoleBinding_rbac :: "lib \<Rightarrow> logger \<Rightarrow> NFSProvisioner \<Rightarrow> unit stmt" where
  "ensureClusterRoleBinding_rbac L lg m =
     Req (Get ClusterRoleBindingK
            \<lparr>nn_namespace = '''', nn_name = ''run-provisioner-runner''\<rparr>) (\<lambda>r. case r of
       Inl err \<Rightarrow>
         let crb = clusterRoleBindingForNFSProvisioner_rbac L m;
             kvs = [LStr ''ClusterRoleBinding.Name'', LStr (om_name (rb_meta crb))]
         in logInfo lg ''Creating a new ClusterRoleBinding'' kvs
              (Req (Create (ClusterRoleBindingO crb)) (\<lambda>r. case r of
                 Inl err \<Rightarrow>
                   logError lg err ''Failed to create a ClusterRoleBinding for NFSProvisioner'' kvs
                     proceed
               | Inr _ \<Rightarrow> proceed))
     | Inr _ \<Rightarrow> proceed)"

definition ensureRole_rbac :: "lib \<Rightarrow> logger \<Rightarrow> NFSProvisioner \<Rightarrow> unit stmt" where
  "ensureRole_rbac L lg m =
     Req (Get RoleK \<lparr>nn_namespace = nfsNamespace m, nn_name = ''leader-locking-nfs-provisioner''\<rparr>) (\<lambda>r. case r of
       Inl err \<Rightarrow>
         let role = roleForNFSProvisioner_rbac L m;
             kvs = [LStr ''Role.Namespace'', LStr (om_namespace (role_meta role)),
                    LStr ''Role.Name'', LStr (om_name (role_meta role))]
         in logInfo lg ''Creating a new Role'' kvs
              (Req (Create (RoleO role)) (\<lambda>r. case r of
                 Inl err \<Rightarrow> logError lg err ''Failed to create a Role for NFSProvisioner'' kvs
                   proceed
               | Inr _ \<Rightarrow> proceed))
     | Inr _ \<Rightarrow> proceed)"

definition ensureRoleBinding_rbac :: "lib \<Rightarrow> logger \<Rightarrow> NFSProvisioner \<Rightarrow> unit stmt" where
  "ensureRoleBinding_rbac L lg m =
     Req (Get RoleBindingK
            \<lparr>nn_namespace = nfsNamespace m, nn_name = ''leader-locking-nfs-provisioner''\<rparr>) (\<lambda>r. case r of
       Inl err \<Rightarrow>
         let roleBinding = roleBindingForNFSProvisioner_rbac L m;
             roleBindingFound = mkMeta '''' ''''
         in logInfo lg ''Creating a new Role''
              [LStr ''RoleBinding.Namespace'', LStr (om_namespace roleBindingFound),
               LStr ''roleBinding.Name'', LStr (om_name roleBindingFound)]
              (Req (Create (RoleBindingO roleBinding)) (\<lambda>r. case r of
                 Inl err \<Rightarrow> logError lg err ''Failed to create a roleBinding for NFSProvisioner''
                   [LStr ''roleBinding.Namespace'', LStr (om_namespace roleBindingFound),
                    LStr ''roleBinding.Name'', LStr (om_name roleBindingFound)]
                   proceed
               | Inr _ \<Rightarrow> proceed))
     | Inr _ \<Rightarrow> proceed)"

definition ensureDeployment_rbac :: "lib \<Rightarrow> logger \<Rightarrow> NFSProvisioner \<Rightarrow> unit stmt" where
  "ensureDeployment_rbac L lg m =
     Req (Get DeploymentK \<lparr>nn_namespace = nfsNamespace m, nn_name = nfsName m\<rparr>) (\<lambda>r. case r of
       Inl err \<Rightarrow>
         if IsNotFound L err then
           let dep = deploymentForNFSProvisioner_rbac L m;
               kvs = [LStr ''Deployment.Namespace'', LStr (om_namespace (dep_meta dep)),
                      LStr ''Deployment.Name'', LStr (om_name (dep_meta dep))]
           in logInfo lg ''Creating a new Deployment'' kvs
                (Req (Create (DeploymentO dep)) (\<lambda>_. proceed))
         else proceed
     | Inr _ \<Rightarrow> proceed)"

definition fetch_rbac :: "lib \<Rightarrow> NamespacedName \<Rightarrow> NFSProvisioner stmt" where
  "fetch_rbac L req =
     Req (Get NFSProvisionerK req) (\<lambda>r. case r of
       Inl err \<Rightarrow>
         if IsNotFound L err then
           logInfo (RLog req)
             ''NFSProvisioner resource not found. Ignoring since object must be deleted'' []
             (returns False None)
         else logError (RLog req) err ''Failed to get NFSProvisioner'' []
             (returns False (Some err))
     | Inr x \<Rightarrow> Ret (Inr (asNFSProvisioner x)))"

definition ensureAll_rbac :: "lib \<Rightarrow> logger \<Rightarrow> NFSProvisioner \<Rightarrow> unit stmt" where
  "ensureAll_rbac L lg m =
     andthen (ensureServiceAccount_rbac L lg m) (\<lambda>_.
     andthen (ensureClusterRole_rbac L lg m) (\<lambda>_.
     andthen (ensureClusterRoleBinding_rbac L lg m) (\<lambda>_.
     andthen (ensureRole_rbac L lg m) (\<lambda>_.
     andthen (ensureRoleBinding_rbac L lg m) (\<lambda>_.
     ensureDeployment_rbac L lg m)))))"

definition Reconcile_rbac :: "lib \<Rightarrow> NamespacedName \<Rightarrow> ret io" where
  "Reconcile_rbac L req =
     prog_bind (andthen (fetch_rbac L req) (\<lambda>m. ensureAll_rbac L (RLog req) m)) (\<lambda>x. case x of
       Inl r \<Rightarrow> Ret r
     | Inr _ \<Rightarrow> Ret (Return \<lparr>Requeue = True\<rparr> None))"

section \<open>Markers\<close>

definition rbacMarkers_rbac :: "PolicyRule list" where
  "rbacMarkers_rbac =
     [marker ''cache.jhouse.com'' ''nfsprovisioners'' allVerbs,
      marker ''cache.jhouse.com'' ''nfsprovisioners/status'' [''get'', ''update'', ''patch''],
      marker ''cache.jhouse.com'' ''nfsprovisioners/finalize'' [''get'', ''update'', ''patch''],
      marker ''apps'' ''deployments'' allVerbs,
      marker ''core'' ''namespaces'' allVerbs,
      marker ''core'' ''services'' allVerbs,
      marker ''core'' ''endpoints'' allVerbs,
      marker ''core'' ''persistentvolumeclaims'' allVerbs,
      marker ''core'' ''pods'' [''get'', ''list'', ''watch'']]"

end
