(* ===== verification/HostPathStage.thy ===== *)
theory HostPathStage
  imports NfsReconcile Rbac
begin

text \<open>
  The controller of the third tutorial (\<open>3.hostpath_nfsprovisioner_controller.go\<close>): no
  security constraints and no deletion logic, a privileged pod on a fixed host
  path, and a claim nothing mounts.  The names carry the suffix \<open>_hostpath\<close>.
\<close>

section \<open>Builders\<close>

definition labelsForNFSProvisioner_hostpath :: "string \<Rightarrow> string_map" where
  "labelsForNFSProvisioner_hostpath name =
     fmap_of_list [(''app'', ''nfs-provisioner''), (''nfsprovisioner_cr'', name)]"

definition nfsContainerPorts_hostpath :: "ContainerPort list" where
  "nfsContainerPorts_hostpath =
     [\<lparr>cp_name = ''nfs'', cp_containerPort = 2049, cp_protocol = ''''\<rparr>,
      \<lparr>cp_name = ''nfs-udp'', cp_containerPort = 2049, cp_protocol = ''UDP''\<rparr>,
      \<lparr>cp_name = ''nlockmgr'', cp_containerPort = 32803, cp_protocol = ''''\<rparr>,
      \<lparr>cp_name = ''nlockmgr-udp'', cp_containerPort = 32803, cp_protocol = ''UDP''\<rparr>,
      \<lparr>cp_name = ''mountd'', cp_containerPort = 20048, cp_protocol = ''''\<rparr>,
      \<lparr>cp_name = ''mountd-udp'', cp_containerPort = 20048, cp_protocol = ''UDP''\<rparr>,
      \<lparr>cp_name = ''rquotad'', cp_containerPort = 875, cp_protocol = ''''\<rparr>,
      \<lparr>cp_name = ''rquotad-udp'', cp_containerPort = 875, cp_protocol = ''UDP''\<rparr>,
      \<lparr>cp_name = ''rpcbind'', cp_containerPort = 111, cp_protocol = ''''\<rparr>,
      \<lparr>cp_name = ''rpcbind-udp'', cp_containerPort = 111, cp_protocol = ''UDP''\<rparr>,
      \<lparr>cp_name = ''statd'', cp_containerPort = 662, cp_protocol = ''''\<rparr>,
      \<lparr>cp_name = ''statd-udp'', cp_containerPort = 662, cp_protocol = ''UDP''\<rparr>]"

definition nfsEnv_hostpath :: "EnvVar list" where
  "nfsEnv_hostpath =
     [\<lparr>ev_name = ''POD_IP'', ev_value = '''', ev_fieldPath = Some ''status.podIP''\<rparr>,
      \<lparr>ev_name = ''SERVICE_NAME'', ev_value = ''nfs-provisioner'', ev_fieldPath = None\<rparr>,
      \<lparr>ev_name = ''POD_NAMESPACE'', ev_value = '''', ev_fieldPath = Some ''metadata.namespace''\<rparr>]"

definition deploymentForNFSProvisioner_hostpath :: "lib \<Rightarrow> NFSProvisioner \<Rightarrow> Deployment" where
  "deploymentForNFSProvisioner_hostpath L m =
     (let ls = labelsForNFSProvisioner_hostpath (nfsName m);
          nodeSelector = (case NodeSelector (Spec m) of Some ns \<Rightarrow> ns
            | None \<Rightarrow> fmap_of_list [(''app'', ''nfs-provisioner'')]);
          privi = True
      in \<lparr>dep_meta = ownedBy L m DeploymentK (mkMeta (nfsName m) (nfsNamespace m)),
        dep_replicas = None,
        dep_matchLabels = Some ls,
        dep_templateLabels = Some ls,
        dep_podSpec =
          \<lparr>ps_containers =
             [\<lparr>c_image = ''quay.io/kubernetes_incubator/nfs-provisioner:latest'',
               c_name = ''nfs-provisioner'',
               c_command = [],
               c_ports = nfsContainerPorts_hostpath,
               c_securityContext = Some
                 \<lparr>sc_add = [''DAC_READ_SEARCH'', ''SYS_RESOURCE''],
                  sc_drop = [''KILL'', ''MKNOD'', ''SYS_CHROOT''],
                  sc_privileged = Some privi, sc_allowPrivilegeEscalation = Some privi\<rparr>,
               c_args = [CHR 0x27 # ''-provisioner=example.com/nfs'' @ [CHR 0x27]],
               c_env = nfsEnv_hostpath,
               c_imagePullPolicy = ''IfNotPresent'',
               c_volumeMounts = [\<lparr>vm_name = ''export-volume'', vm_mountPath = ''/export''\<rparr>]\<rparr>],
           ps_nodeSelector = Some nodeSelector,
           ps_serviceAccountName = '''',
           ps_volumes = [\<lparr>v_name = ''export-volume'',
             v_source = \<lparr>vs_hostPath = Some \<lparr>hp_path = ''/home/core/exports-nfs'', hp_type = None\<rparr>,
               vs_claimName = None\<rparr>\<rparr>]\<rparr>\<rparr>)"

definition pvcForNFSProvisioner_hostpath :: "lib \<Rightarrow> NFSProvisioner \<Rightarrow> ret + PersistentVolumeClaim" where
  "pvcForNFSProvisioner_hostpath L m =
     (case MustParse L ''1Gi'' of
        None \<Rightarrow> Inl (Panic ''1Gi'')
      | Some q \<Rightarrow> Inr
          \<lparr>pvc_meta = ownedBy L m PersistentVolumeClaimK (mkMeta ''nfs-provisioner'' (nfsNamespace m)),
           pvc_accessModes = [ReadWriteMany],
           pvc_requests = fmap_of_list [(''storage'', q)],
           pvc_storageClassName = None\<rparr>)"

definition serviceAccountForNFSProvisioner_hostpath :: "lib \<Rightarrow> NFSProvisioner \<Rightarrow> ServiceAccount" where
  "serviceAccountForNFSProvisioner_hostpath L m =
     \<lparr>sa_meta = ownedBy L m ServiceAccountK (mkMeta ''nfs-provisioner'' (nfsNamespace m))\<rparr>"

definition clusterRoleForNFSProvisioner_hostpath :: "lib \<Rightarrow> NFSProvisioner \<Rightarrow> ClusterRole" where
  "clusterRoleForNFSProvisioner_hostpath L m =
     \<lparr>role_meta = (mkMeta ''nfs-provisioner-runner'' ''''),
      role_rules =
        [\<lparr>pr_apiGroups = [''''], pr_resources = [''persistentvolumes''], pr_resourceNames = [],
          pr_verbs = [''get'', ''list'', ''watch'', ''create'', ''delete'']\<rparr>,
         \<lparr>pr_apiGroups = [''''], pr_resources = [''persistentvolumeclaims''],
          pr_resourceNames = [], pr_verbs = [''get'', ''list'', ''watch'', ''update'']\<rparr>,
         \<lparr>pr_apiGroups = [''storage.k8s.io''], pr_resources = [''storageclasses''],
          pr_resourceNames = [], pr_verbs = [''get'', ''list'', ''watch'']\<rparr>,
         \<lparr>pr_apiGroups = [''''], pr_resources = [''events''], pr_resourceNames = [],
          pr_verbs = [''create'', ''update'', ''patch'']\<rparr>,
         \<lparr>pr_apiGroups = [''policy''], pr_resources = [''podsecuritypolicies''],
          pr_resourceNames = [''nfs-provisioner''], pr_verbs = [''use'']\<rparr>]\<rparr>"

definition clusterRoleBindingForNFSProvisioner_hostpath :: "lib \<Rightarrow> NFSProvisioner \<Rightarrow> ClusterRoleBinding" where
  "clusterRoleBindingForNFSProvisioner_hostpath L m =
     \<lparr>rb_meta = (mkMeta ''run-provisioner-runner'' ''''),
      rb_subjects = [\<lparr>sub_kind = ''ServiceAccount'', sub_name = ''nfs-provisioner'',
                      sub_namespace = nfsNamespace m\<rparr>],
      rb_roleRef = \<lparr>rr_kind = ''ClusterRole'', rr_name = ''nfs-provisioner-runner'',
                    rr_apiGroup = ''rbac.authorization.k8s.io''\<rparr>\<rparr>"

definition roleForNFSProvisioner_hostpath :: "lib \<Rightarrow> NFSProvisioner \<Rightarrow> Role" where
  "roleForNFSProvisioner_hostpath L m =
     \<lparr>role_meta = ownedBy L m RoleK (mkMeta ''leader-locking-nfs-provisioner'' (nfsNamespace m)),
      role_rules =
        [\<lparr>pr_apiGroups = [''''], pr_resources = [''endpoints''], pr_resourceNames = [],
          pr_verbs = [''get'', ''list'', ''watch'', ''create'', ''update'', ''delete'']\<rparr>,
         \<lparr>pr_apiGroups = [''''], pr_resources = [''services''], pr_resourceNames = [],
          pr_verbs = [''get'']\<rparr>]\<rparr>"

definition roleBindingForNFSProvisioner_hostpath :: "lib \<Rightarrow> NFSProvisioner \<Rightarrow> RoleBinding" where
  "roleBindingForNFSProvisioner_hostpath L m =
     \<lparr>rb_meta = ownedBy L m RoleBindingK (mkMeta ''leader-locking-nfs-provisioner'' (nfsNamespace m)),
      rb_subjects = [\<lparr>sub_kind = ''ServiceAccount'', sub_name = ''nfs-provisioner'',
                      sub_namespace = nfsNamespace m\<rparr>],
      rb_roleRef = \<lparr>rr_kind = ''Role'', rr_name = ''leader-locking-nfs-provisioner'',
                    rr_apiGroup = ''rbac.authorization.k8s.io''\<rparr>\<rparr>"

definition nfsServicePorts_hostpath :: "ServicePort list" where
  "nfsServicePorts_hostpath =
     [\<lparr>sp_name = ''nfs'', sp_port = 2049, sp_protocol = ''''\<rparr>,
      \<lparr>sp_name = ''nfs-udp'', sp_port = 2049, sp_protocol = ''UDP''\<rparr>,
      \<lparr>sp_name = ''nlockmgr'', sp_port = 32803, sp_protocol = ''''\<rparr>,
      \<lparr>sp_name = ''nlockmgr-udp'', sp_port = 32803, sp_protocol = ''UDP''\<rparr>,
      \<lparr>sp_name = ''mountd'', sp_port = 20048, sp_protocol = ''''\<rparr>,
      \<lparr>sp_name = ''mountd-udp'', sp_port = 20048, sp_protocol = ''UDP''\<rparr>,
      \<lparr>sp_name = ''rquotad'', sp_port = 875, sp_protocol = ''''\<rparr>,
      \<lparr>sp_name = ''rquotad-udp'', sp_port = 875, sp_protocol = ''UDP''\<rparr>,
      \<lparr>sp_name = ''rpcbind'', sp_port = 111, sp_protocol = ''''\<rparr>,
      \<lparr>sp_name = ''rpcbind-udp'', sp_port = 111, sp_protocol = ''UDP''\<rparr>,
      \<lparr>sp_name = ''statd'', sp_port = 662, sp_protocol = ''''\<rparr>,
      \<lparr>sp_name = ''statd-udp'', sp_port = 662, sp_protocol = ''UDP''\<rparr>]"

definition serviceForNFSProvisioner_hostpath :: "lib \<Rightarrow> NFSProvisioner \<Rightarrow> Service" where
  "serviceForNFSProvisioner_hostpath L m =
     (let ls = labelsForNFSProvisioner_hostpath (nfsName m)
      in \<lparr>svc_meta = ownedBy L m ServiceK
            ((mkMeta ''nfs-provisioner'' (nfsNamespace m))\<lparr>om_labels := Some ls\<rparr>),
          svc_ports = nfsServicePorts_hostpath,
          svc_selector = Some ls\<rparr>)"

definition storageclassForNFSProvisioner_hostpath :: "lib \<Rightarrow> NFSProvisioner \<Rightarrow> StorageClass" where
  "storageclassForNFSProvisioner_hostpath L m =
     \<lparr>stc_meta = ownedBy L m StorageClassK (mkMeta ''example-nfs'' ''''),
      stc_provisioner = ''example.com/nfs'',
      stc_parameters = Some (fmap_of_list [(''mountOptions'', ''vers=4.1'')])\<rparr>"

section \<open>Reconcile\<close>

text \<open>The claim is looked up under the name of the resource.\<close>

definition ensurePVC_hostpath :: "lib \<Rightarrow> logger \<Rightarrow> NamespacedName \<Rightarrow> NFSProvisioner \<Rightarrow> unit stmt" where
  "ensurePVC_hostpath L lg req m =
     Req (Get PersistentVolumeClaimK req) (\<lambda>r. case r of
       Inl err \<Rightarrow>
         if IsNotFound L err then
           case pvcForNFSProvisioner_hostpath L m of
             Inl panic \<Rightarrow> Ret (Inl panic)
           | Inr pvc \<Rightarrow>
               let kvs = [LStr ''PersistentVolumeClaim.Namespace'',
                          LStr (om_namespace (pvc_meta pvc)),
                          LStr ''PersistentVolumeClaim.Name'', LStr (om_name (pvc_meta pvc))]
               in logInfo lg ''Creating a new PersistentVolumeClaim'' kvs
                    (Req (Create (PersistentVolumeClaimO pvc)) (\<lambda>r. case r of
                       Inl err \<Rightarrow>
                         logError lg err ''Failed to create a new PersistentVolumeClaim'' kvs proceed
                     | Inr _ \<Rightarrow> proceed))
         else proceed
     | Inr _ \<Rightarrow> proceed)"

definition ensureServiceAccount_hostpath :: "lib \<Rightarrow> logger \<Rightarrow> NFSProvisioner \<Rightarrow> unit stmt" where
  "ensureServiceAccount_hostpath L lg m =
     Req (Get ServiceAccountK
            \<lparr>nn_namespace = nfsNamespace m, nn_name = ''nfs-provisioner''\<rparr>) (\<lambda>r. case r of
       Inl err \<Rightarrow>
         if IsNotFound L err then
           let sa = serviceAccountForNFSProvisioner_hostpath L m;
               kvs = [LStr ''Serviceaccount.Namespace'', LStr (om_namespace (sa_meta sa)),
                      LStr ''Serviceaccount.Name'', LStr (om_name (sa_meta sa))]
           in logInfo lg ''Creating a new Serviceaccount'' kvs
                (Req (Create (ServiceAccountO sa)) (\<lambda>r. case r of
                   Inl err \<Rightarrow> logError lg err ''Failed to create a new Serviceaccount'' kvs proceed
                 | Inr _ \<Rightarrow> proceed))
         else proceed
     | Inr _ \<Rightarrow> proceed)"

definition ensureClusterRole_hostpath :: "lib \<Rightarrow> logger \<Rightarrow> NFSProvisioner \<Rightarrow> unit stmt" where
  "ensureClusterRole_hostpath L lg m =
     Req (Get ClusterRoleK \<lparr>nn_namespace = '''', nn_name = ''nfs-provisioner-runner''\<rparr>) (\<lambda>r. case r of
       Inl err \<Rightarrow>
         let cr = clusterRoleForNFSProvisioner_hostpath L m
         in logInfo lg ''Creating a new ClusterRole''
              [LStr ''ClusterRole.Name'', LStr (om_name (role_meta cr))]
              (Req (Create (ClusterRoleO cr)) (\<lambda>r. case r of
                 Inl err \<Rightarrow> logError lg err ''Failed to create a ClusterRole for NFSProvisioner''
                   [LStr ''ClusterRole.Namespace'', LStr (om_namespace (role_meta cr)),
                    LStr ''ClusterRole.Name'', LStr (om_name (role_meta cr))]
                   proceed
               | Inr _ \<Rightarrow> proceed))
     | Inr _ \<Rightarrow> proceed)"

definition ensureClusterRoleBinding_hostpath :: "lib \<Rightarrow> logger \<Rightarrow> NFSProvisioner \<Rightarrow> unit stmt" where
  "ensureClusterRoleBinding_hostpath L lg m =
     Req (Get ClusterRoleBindingK
            \<lparr>nn_namespace = '''', nn_name = ''run-provisioner-runner''\<rparr>) (\<lambda>r. case r of
       Inl err \<Rightarrow>
         let crb = clusterRoleBindingForNFSProvisioner_hostpath L m;
             kvs = [LStr ''ClusterRoleBinding.Name'', LStr (om_name (rb_meta crb))]
         in logInfo lg ''Creating a new ClusterRoleBinding'' kvs
              (Req (Create (ClusterRoleBindingO crb)) (\<lambda>r. case r of
                 Inl err \<Rightarrow>
                   logError lg err ''Failed to create a ClusterRoleBinding for NFSProvisioner'' kvs
                     proceed
               | Inr _ \<Rightarrow> proceed))
     | Inr _ \<Rightarrow> proceed)"

definition ensureRole_hostpath :: "lib \<Rightarrow> logger \<Rightarrow> NFSProvisioner \<Rightarrow> unit stmt" where
  "ensureRole_hostpath L lg m =
     Req (Get RoleK \<lparr>nn_namespace = nfsNamespace m, nn_name = ''leader-locking-nfs-provisioner''\<rparr>) (\<lambda>r. case r of
       Inl err \<Rightarrow>
         let role = roleForNFSProvisioner_hostpath L m;
             kvs = [LStr ''Role.Namespace'', LStr (om_namespace (role_meta role)),
                    LStr ''Role.Name'', LStr (om_name (role_meta role))]
         in logInfo lg ''Creating a new Role'' kvs
              (Req (Create (RoleO role)) (\<lambda>r. case r of
                 Inl err \<Rightarrow> logError lg err ''Failed to create a Role for NFSProvisioner'' kvs
                   proceed
               | Inr _ \<Rightarrow> proceed))
     | Inr _ \<Rightarrow> proceed)"

definition ensureRoleBinding_hostpath :: "lib \<Rightarrow> logger \<Rightarrow> NFSProvisioner \<Rightarrow> unit stmt" where
  "ensureRoleBinding_hostpath L lg m =
     Req (Get RoleBindingK
            \<lparr>nn_namespace = nfsNamespace m, nn_name = ''leader-locking-nfs-provisioner''\<rparr>) (\<lambda>r. case r of
       Inl err \<Rightarrow>
         let roleBinding = roleBindingForNFSProvisioner_hostpath L m;
             roleBindingFound = mkMeta '''' ''''
         in logInfo lg ''Creating a new RoleBinding''
              [LStr ''RoleBinding.Namespace'', LStr (om_namespace roleBindingFound),
               LStr ''roleBinding.Name'', LStr (om_name roleBindingFound)]
              (Req (Create (RoleBindingO roleBinding)) (\<lambda>r. case r of
                 Inl err \<Rightarrow> logError lg err ''Failed to create a RoleBinding for NFSProvisioner''
                   [LStr ''roleBinding.Namespace'', LStr (om_namespace roleBindingFound),
                    LStr ''roleBinding.Name'', LStr (om_name roleBindingFound)]
                   proceed
               | Inr _ \<Rightarrow> proceed))
     | Inr _ \<Rightarrow> proceed)"

definition ensureDeployment_hostpath :: "lib \<Rightarrow> logger \<Rightarrow> NFSProvisioner \<Rightarrow> unit stmt" where
  "ensureDeployment_hostpath L lg m =
     Req (Get DeploymentK \<lparr>nn_namespace = nfsNamespace m, nn_name = nfsName m\<rparr>) (\<lambda>r. case r of
       Inl err \<Rightarrow>
         if IsNotFound L err then
           let dep = deploymentForNFSProvisioner_hostpath L m;
               kvs = [LStr ''Deployment.Namespace'', LStr (om_namespace (dep_meta dep)),
                      LStr ''Deployment.Name'', LStr (om_name (dep_meta dep))]
           in logInfo lg ''Creating a new Deployment'' kvs
                (Req (Create (DeploymentO dep)) (\<lambda>_. proceed))
         else proceed
     | Inr _ \<Rightarrow> proceed)"

definition ensureService_hostpath :: "lib \<Rightarrow> logger \<Rightarrow> NFSProvisioner \<Rightarrow> unit stmt" where
  "ensureService_hostpath L lg m =
     Req (Get ServiceK \<lparr>nn_namespace = nfsNamespace m, nn_name = ''nfs-provisioner''\<rparr>) (\<lambda>r. case r of
       Inl err \<Rightarrow>
         if IsNotFound L err then
           let svc = serviceForNFSProvisioner_hostpath L m;
               kvs = [LStr ''Service.Namespace'', LStr (om_namespace (svc_meta svc)),
                      LStr ''Service.Name'', LStr (om_name (svc_meta svc))]
           in logInfo lg ''Creating a new Service'' kvs
                (Req (Create (ServiceO svc)) (\<lambda>r. case r of
                   Inl err \<Rightarrow> logError lg err ''Failed to create a Service for NFSProvisioner''
                     kvs proceed
                 | Inr _ \<Rightarrow> proceed))
         else proceed
     | Inr _ \<Rightarrow> proceed)"

definition ensureStorageClass_hostpath :: "lib \<Rightarrow> logger \<Rightarrow> NFSProvisioner \<Rightarrow> unit stmt" where
  "ensureStorageClass_hostpath L lg m =
     Req (Get StorageClassK \<lparr>nn_namespace = '''', nn_name = ''example-nfs''\<rparr>) (\<lambda>r. case r of
       Inl err \<Rightarrow>
         if IsNotFound L err then
           let sc = storageclassForNFSProvisioner_hostpath L m;
               kvs = [LStr ''Storageclass.Name'', LStr (om_name (stc_meta sc))]
           in logInfo lg ''Creating a new Storageclass'' kvs
                (Req (Create (StorageClassO sc)) (\<lambda>r. case r of
                   Inl err \<Rightarrow>
                     logError lg err ''Failed to create a Storageclass for NFSProvisioner'' kvs proceed
                 | Inr _ \<Rightarrow> proceed))
         else proceed
     | Inr _ \<Rightarrow> proceed)"

definition fetch_hostpath :: "lib \<Rightarrow> NamespacedName \<Rightarrow> NFSProvisioner stmt" where
  "fetch_hostpath L req =
     Req (Get NFSProvisionerK req) (\<lambda>r. case r of
       Inl err \<Rightarrow>
         if IsNotFound L err then
           logInfo (RLog req)
             ''NFSProvisioner resource not found. Ignoring since object must be deleted'' []
             (returns False None)
         else logError (RLog req) err ''Failed to get NFSProvisioner'' []
             (returns False (Some err))
     | Inr x \<Rightarrow> Ret (Inr (asNFSProvisioner x)))"

definition ensureAll_hostpath :: "lib \<Rightarrow> logger \<Rightarrow> NamespacedName \<Rightarrow> NFSProvisioner \<Rightarrow> unit stmt" where
  "ensureAll_hostpath L lg req m =
     andthen (ensurePVC_hostpath L lg req m) (\<lambda>_.
     andthen (ensureServiceAccount_hostpath L lg m) (\<lambda>_.
     andthen (ensureClusterRole_hostpath L lg m) (\<lambda>_.
     andthen (ensureClusterRoleBinding_hostpath L lg m) (\<lambda>_.
     andthen (ensureRole_hostpath L lg m) (\<lambda>_.
     andthen (ensureRoleBinding_hostpath L lg m) (\<lambda>_.
     andthen (ensureDeployment_hostpath L lg m) (\<lambda>_.
     andthen (ensureService_hostpath L lg m) (\<lambda>_.
     ensureStorageClass_hostpath L lg m))))))))"

definition Reconcile_hostpath :: "lib \<Rightarrow> NamespacedName \<Rightarrow> ret io" where
  "Reconcile_hostpath L req =
     prog_bind (andthen (fetch_hostpath L req) (\<lambda>m. ensureAll_hostpath L (RLog req) req m)) (\<lambda>x. case x of
       Inl r \<Rightarrow> Ret r
     | Inr _ \<Rightarrow> Ret (Return \<lparr>Requeue = True\<rparr> None))"

section \<open>Markers\<close>

definition rbacMarkers_hostpath :: "PolicyRule list" where
  "rbacMarkers_hostpath =
     [marker ''cache.jhouse.com'' ''nfsprovisioners'' allVerbs,
      marker ''cache.jhouse.com'' ''nfsprovisioners/status'' [''get'', ''update'', ''patch''],
      marker ''cache.jhouse.com'' ''nfsprovisioners/finalizers'' [''update''],
      marker ''rbac.authorization.k8s.io'' ''clusterroles'' allVerbs,
      marker ''rbac.authorization.k8s.io'' ''clusterrolebindings'' allVerbs,
      marker ''rbac.authorization.k8s.io'' ''roles'' allVerbs,
      marker ''rbac.authorization.k8s.io'' ''rolebindings'' allVerbs,
      marker ''storage.k8s.io'' ''storageclasses'' allVerbs,
      marker ''apps'' ''deployments'' allVerbs,
      marker ''apps'' ''deployments/finalizers'' [''update''],
      marker ''core'' ''services'' allVerbs,
      marker ''core'' ''serviceaccounts'' allVerbs,
      marker ''core'' ''endpoints'' allVerbs,
      marker ''core'' ''events'' allVerbs,
      marker ''policy'' ''podsecuritypolicies'' [''use''],
      marker ''core'' ''persistentvolumes'' allVerbs,
      marker ''core'' ''persistentvolumeclaims'' allVerbs,
      marker ''core'' ''pods'' [''get'', ''list'', ''watch'']]"

end
