(* ===== verification/EnsureTable.thy ===== *)
theory EnsureTable
  imports ApiServer
begin

text \<open>
  The reference form of the part of \<open>Reconcile\<close> that the tutorials repeat: a
  table of entries, each of which says what to look up, on which errors to act,
  what to log, what to create and what to do when that fails; and a loop over it.
  \<open>EarlyStages\<close> proves the methods of the first three tutorials equal to such a loop.  Its
  effect on a healthy server refines an update of the set of existing keys.
\<close>

section \<open>Entries and the loop\<close>

record entry =
  e_kind :: kind
  e_name :: NamespacedName
  e_cond :: "go_error \<Rightarrow> bool"
  e_pre :: "request list"
  e_obj :: kobj
  e_failed :: "go_error \<Rightarrow> request list"

definition run_entry :: "(go_error \<Rightarrow> unit stmt) \<Rightarrow> entry \<Rightarrow> unit stmt" where
  "run_entry after e = unless_found (e_kind e) (e_name e) (e_cond e)
     (emit (e_pre e) (Req (Create (e_obj e)) (\<lambda>r. case r of
        Inl err \<Rightarrow> emit (e_failed e err) (after err)
      | Inr _ \<Rightarrow> proceed)))"

primrec run_table :: "(go_error \<Rightarrow> unit stmt) \<Rightarrow> entry list \<Rightarrow> unit stmt" where
  "run_table after [] = proceed"
| "run_table after (e # es) = andthen (run_entry after e) (\<lambda>_. run_table after es)"

text \<open>What these controllers do after a failed creation: they go on.\<close>

definition goes_on :: "go_error \<Rightarrow> unit stmt" where
  "goes_on err = proceed"

text \<open>The log calls of an entry are log calls.\<close>

definition quiet :: "entry \<Rightarrow> bool" where
  "quiet e \<longleftrightarrow> list_all is_log (e_pre e) \<and> (\<forall>err. list_all is_log (e_failed e err))"

section \<open>What a loop that goes on does in every run\<close>

interpretation falls: statement_contract "\<lambda>_ x. x = None"
  by unfold_locales simp_all

lemma entry_passing:
  assumes "quiet e"
  shows "passing_block (run_entry goes_on e) (e_kind e) (e_name e) (e_cond e) (e_pre e) (e_obj e) (e_failed e)"
  using assms by unfold_locales (simp_all add: run_entry_def goes_on_def quiet_def cong: sum.case_cong)

lemma run_table_falls:
  assumes "list_all quiet es"
  shows "obeys (\<lambda>_ x. x = None) (run_table goes_on es)"
  using assms
proof (induction es)
  case Nil
  then show ?case by (simp add: obeys_def proceed_def)
next
  case (Cons e es)
  have "obeys (\<lambda>_ x. x = None) (run_entry goes_on e)"
    unfolding obeys_def using passing_block.passes [OF entry_passing] Cons.prems by fastforce
  then show ?case using Cons by (simp add: falls.obeys_andthen)
qed

lemma run_table_requests:
  assumes "list_all quiet es" and "\<And>q. is_log q \<Longrightarrow> P q"
    and "list_all (\<lambda>e. P (Get (e_kind e) (e_name e)) \<and> P (Create (e_obj e))) es"
  shows "obeys (\<lambda>t _. requests_in P t) (run_table goes_on es)"
  using assms(1,3)
  by (induction es)
    (auto intro!: requests.obeys_andthen passing_block.pass_requests [OF entry_passing] assms(2))

lemma run_table_calls:
  assumes "list_all quiet es"
  shows "calls_at_most (2 * length es) (run_table goes_on es)"
  using assms
proof (induction es)
  case (Cons e es)
  have "calls_at_most 2 (run_entry goes_on e)"
    using passing_block.pass_calls [OF entry_passing] Cons.prems by simp
  then show ?case using calls_at_most_andthen [of 2 _ "2 * length es"] Cons by fastforce
qed simp

section \<open>The effect on the set of existing keys\<close>

text \<open>
  The abstract step: the object of an entry comes to exist when the key looked up
  does not and the server can file the object.
\<close>

definition spec_entry :: "entry \<Rightarrow> key set \<Rightarrow> key set" where
  "spec_entry e K =
     (if mkKey (e_kind e) (e_name e) \<in> K \<or> \<not> addressable (key_of (e_obj e)) then K
      else insert (key_of (e_obj e)) K)"

primrec spec_table :: "entry list \<Rightarrow> key set \<Rightarrow> key set" where
  "spec_table [] K = K"
| "spec_table (e # es) K = spec_table es (spec_entry e K)"

lemma spec_table_grows: "K \<subseteq> spec_table es K"
proof (induction es arbitrary: K)
  case (Cons e es)
  have "K \<subseteq> spec_entry e K" by (auto simp: spec_entry_def)
  then show ?case using Cons [of "spec_entry e K"] by simp
qed simp

text \<open>An entry that creates what it looks up brings it into existence.\<close>

definition sound_entry :: "entry \<Rightarrow> bool" where
  "sound_entry e \<longleftrightarrow> key_of (e_obj e) = mkKey (e_kind e) (e_name e) \<and> addressable (key_of (e_obj e))"

lemma spec_entry_sound: "sound_entry e \<Longrightarrow> spec_entry e K = insert (key_of (e_obj e)) K"
  by (auto simp: spec_entry_def sound_entry_def)

text \<open>
  Running the table again changes the set no further, sound or not: an entry whose
  key is missing at the end was missing when its turn came.
\<close>

lemma spec_table_closed: "e \<in> set es \<Longrightarrow> spec_entry e (spec_table es K) = spec_table es K"
proof (induction es arbitrary: K)
  case (Cons e' es)
  show ?case
  proof (cases "e \<in> set es")
    case True
    then show ?thesis using Cons.IH by simp
  next
    case False
    with Cons.prems have "e = e'" by simp
    moreover have "spec_entry e' K \<subseteq> spec_table (e' # es) K" "K \<subseteq> spec_table (e' # es) K"
      using spec_table_grows [of "spec_entry e' K" es] spec_table_grows [of K "e' # es"] by simp_all
    ultimately show ?thesis
      by (auto simp: spec_entry_def insert_absorb split: if_splits)
  qed
qed simp

lemma spec_table_fixed: "(\<And>e. e \<in> set es \<Longrightarrow> spec_entry e K = K) \<Longrightarrow> spec_table es K = K"
  by (induction es) simp_all

lemma spec_table_idem: "spec_table es (spec_table es K) = spec_table es K"
  by (rule spec_table_fixed) (rule spec_table_closed)

text \<open>A key comes to exist through an entry that creates it.\<close>

lemma spec_table_absent:
  "k \<notin> K \<Longrightarrow> list_all (\<lambda>e. key_of (e_obj e) = k \<longrightarrow> \<not> addressable k) es \<Longrightarrow> k \<notin> spec_table es K"
proof (induction es arbitrary: K)
  case (Cons e es)
  then have "k \<notin> spec_entry e K" by (simp add: spec_entry_def) metis
  with Cons show ?case by simp
qed simp

lemma spec_table_sound_entry:
  assumes "e \<in> set es" "sound_entry e"
  shows "key_of (e_obj e) \<in> spec_table es K"
  using spec_table_closed [OF assms(1), of K] spec_entry_sound [OF assms(2)] by auto


section \<open>Refinement on a healthy server\<close>

text \<open>
  What a table assumes of its entries: they act on "not found", their logs are
  logs, their objects carry no finalizer; and after a failed creation the loop
  goes on, unless the entries are sound and no creation fails.
\<close>

definition acts_on_absence :: "lib \<Rightarrow> entry \<Rightarrow> bool" where
  "acts_on_absence L e \<longleftrightarrow> quiet e \<and> (\<forall>err. IsNotFound L err \<longrightarrow> e_cond e err) \<and>
     om_finalizers (kobj_meta (e_obj e)) = []"

lemma built_from_entry:
  "e \<in> set es \<Longrightarrow> same_spec (e_obj e) y \<Longrightarrow> built_from (map e_obj es) (key_of (e_obj e)) y"
  by (simp add: built_from_member)

lemma ensured_dom: "ensured B K f g \<Longrightarrow> dom f \<subseteq> K \<Longrightarrow> dom g = K"
  unfolding ensured_def by (rule set_eqI) (metis domIff subsetD)

lemma ensured_dom_refl: "ensured B (dom f) f f"
  by (auto simp: ensured_def)

lemma ensured_insert:
  assumes "f k = None" "om_finalizers (kobj_meta x) = []" "B k x"
  shows "ensured B (insert k (dom f)) f (f(k \<mapsto> x))"
  using assms by (auto simp: ensured_def)

context healthy_server
begin

lemma run_entry_refines:
  assumes "acts_on_absence L e" and goes: "(\<forall>err. after err = proceed) \<or> sound_entry e"
    and made: "\<And>y. same_spec (e_obj e) y \<Longrightarrow> B (key_of (e_obj e)) y"
  shows "\<exists>s'. exec srv (run_entry after e) s = (Inr (), s') \<and>
    ensured B (spec_entry e (dom (store s))) (store s) (store s')"
proof -
  let ?h = "\<lambda>r :: response. case r of Inl err \<Rightarrow> emit (e_failed e err) (after err) | Inr _ \<Rightarrow> proceed"
  have logs: "list_all is_log (e_pre e)" "\<And>err. list_all is_log (e_failed e err)"
    and fin: "om_finalizers (kobj_meta (e_obj e)) = []"
    and cond: "\<And>err. IsNotFound L err \<Longrightarrow> e_cond e err"
    using assms(1) by (auto simp: acts_on_absence_def quiet_def)
  show ?thesis
  proof (cases rule: get_cases [of "e_kind e" "e_name e" s])
    case (found x s1)
    have "mkKey (e_kind e) (e_name e) \<in> dom (store s)" using found(2) by (rule domI)
    then have "spec_entry e (dom (store s)) = dom (store s)" by (simp add: spec_entry_def)
    with found(1,3) show ?thesis
      by (simp add: run_entry_def unless_found_def proceed_def ensured_dom_refl)
  next
    case (absent err s1)
    obtain s2 where s2: "exec srv (emit (e_pre e) (Req (Create (e_obj e)) ?h)) s1 =
        exec srv (Req (Create (e_obj e)) ?h) s2" and "store s2 = store s1"
      using exec_emit [OF logs(1)] by blast
    with absent(4) have s2_store: "store s2 = store s" by simp
    obtain r s3 where c: "srv (Create (e_obj e)) s2 = (r, s3)" by (cases "srv (Create (e_obj e)) s2")
    have run: "exec srv (run_entry after e) s = exec srv (?h r) s3"
      using absent(1) s2 c cond [OF absent(2)] by (simp add: run_entry_def unless_found_def)
    show ?thesis
    proof (cases r)
      case (Inr y)
      with create_ok [of "e_obj e" s2 y s3] c s2_store fin
      have "store s (key_of (e_obj e)) = None" "store s3 = (store s)(key_of (e_obj e) \<mapsto> y)"
        "om_finalizers (kobj_meta y) = []" "same_spec (e_obj e) y"
        by auto
      moreover have "addressable (key_of (e_obj e))"
        using addressed [of s3 "key_of (e_obj e)"] \<open>store s3 = _\<close> by simp
      moreover have "mkKey (e_kind e) (e_name e) \<notin> dom (store s)" using absent(3) by (simp add: domIff)
      ultimately have "ensured B (spec_entry e (dom (store s))) (store s) (store s3)"
        using made ensured_insert [of "store s"] by (simp add: spec_entry_def)
      with run Inr show ?thesis by (simp add: proceed_def)
    next
      case (Inl err')
      have no: "key_of (e_obj e) \<in> dom (store s) \<or> \<not> addressable (key_of (e_obj e))"
        using create_accepts [of s2 "e_obj e"] c s2_store Inl by (cases "store s (key_of (e_obj e))") auto
      have "\<not> sound_entry e"
        using no absent(3) by (auto simp: sound_entry_def)
      then have "after err' = proceed" using goes by blast
      then obtain s4 where "exec srv (?h r) s3 = (Inr (), s4)" "store s4 = store s3"
        using exec_emit [OF logs(2), of err' proceed s3] Inl by (auto simp: proceed_def)
      moreover have "store s3 = store s"
        using failed_writes [of "Create (e_obj e)" s2 err' s3] c s2_store Inl by simp
      moreover have "spec_entry e (dom (store s)) = dom (store s)"
        using no by (auto simp: spec_entry_def insert_absorb)
      ultimately show ?thesis using run by (simp add: ensured_dom_refl)
    qed
  qed
qed

text \<open>
  The loop refines the abstract update: the keys that exist afterwards are those
  of \<open>spec_table\<close>, what existed is untouched and what is new is as built.
\<close>

lemma run_table_refines:
  assumes "list_all (acts_on_absence L) es"
    and "(\<forall>err. after err = proceed) \<or> list_all sound_entry es"
    and "\<And>e y. e \<in> set es \<Longrightarrow> same_spec (e_obj e) y \<Longrightarrow> B (key_of (e_obj e)) y"
  shows "\<exists>s'. exec srv (run_table after es) s = (Inr (), s') \<and>
    ensured B (spec_table es (dom (store s))) (store s) (store s')"
  using assms
proof (induction es arbitrary: s)
  case Nil
  then show ?case by (simp add: proceed_def ensured_dom_refl)
next
  case (Cons e es)
  obtain s1 where 1: "exec srv (run_entry after e) s = (Inr (), s1)"
    "ensured B (spec_entry e (dom (store s))) (store s) (store s1)"
    using run_entry_refines [of e after B s] Cons.prems by auto
  have "dom (store s) \<subseteq> spec_entry e (dom (store s))" by (auto simp: spec_entry_def)
  then have dom1: "dom (store s1) = spec_entry e (dom (store s))" using 1(2) by (rule ensured_dom [rotated])
  have IH: "\<And>s. \<exists>s'. exec srv (run_table after es) s = (Inr (), s') \<and>
      ensured B (spec_table es (dom (store s))) (store s) (store s')"
    by (rule Cons.IH) (use Cons.prems in auto)
  obtain s2 where "exec srv (run_table after es) s1 = (Inr (), s2)"
    "ensured B (spec_table es (dom (store s1))) (store s1) (store s2)"
    using IH [of s1] by blast
  moreover have "spec_entry e (dom (store s)) \<union> spec_table es (dom (store s1)) = spec_table es (dom (store s1))"
    using spec_table_grows dom1 by blast
  ultimately show ?case
    using 1 ensured_trans [OF 1(2)] dom1 by (fastforce simp: exec_andthen)
qed

lemma run_table_builds:
  assumes "list_all (acts_on_absence L) es" "(\<forall>err. after err = proceed) \<or> list_all sound_entry es"
  shows "\<exists>s'. exec srv (run_table after es) s = (Inr (), s') \<and>
    ensured (built_from (map e_obj es)) (spec_table es (dom (store s))) (store s) (store s')"
  by (rule run_table_refines [OF assms]) (rule built_from_entry)

end

end
