(* ===== verification/EarlyStages.thy ===== *)
theory EarlyStages
  imports SaStage DeployStage RbacStage HostPathStage EnsureTable NfsServer NfsObjects
begin

text \<open>
  The controllers of the first three tutorials.  They share the fetch of the
  resource and a loop that creates what it does not find and goes on after a
  failure, so each of them is given here as a table; what a run does in any
  environment and on a healthy server follows from the table.
\<close>

section \<open>The tables\<close>

definition entry_for :: "kind \<Rightarrow> NamespacedName \<Rightarrow> (go_error \<Rightarrow> bool) \<Rightarrow> logger \<Rightarrow> string \<Rightarrow>
    logval list \<Rightarrow> kobj \<Rightarrow> (go_error \<Rightarrow> request list) \<Rightarrow> entry" where
  "entry_for k n cond lg msg kvs obj failed =
     \<lparr>e_kind = k, e_name = n, e_cond = cond, e_pre = [LogInfo lg msg kvs], e_obj = obj, e_failed = failed\<rparr>"

definition nameKvs :: "string \<Rightarrow> ObjectMeta \<Rightarrow> logval list" where
  "nameKvs p m = [LStr (p @ ''.Namespace''), LStr (om_namespace m), LStr (p @ ''.Name''), LStr (om_name m)]"

definition table_sa :: "lib \<Rightarrow> logger \<Rightarrow> NFSProvisioner \<Rightarrow> entry list" where
  "table_sa L lg m =
     (let sa = serviceAccountForNFSProvisioner_sa L m; kvs = nameKvs ''Serviceaccount'' (sa_meta sa)
      in [entry_for ServiceAccountK (nn (nfsNamespace m) ''nfs-provisioner'') (IsNotFound L)
            lg ''Creating a new Serviceaccount'' kvs (ServiceAccountO sa)
            (\<lambda>err. [LogInfo lg ''Failed to create a new Serviceaccount'' (kvs @ [LStr ''Error'', LErr err])])])"

definition table_deploy :: "lib \<Rightarrow> logger \<Rightarrow> NFSProvisioner \<Rightarrow> entry list" where
  "table_deploy L lg m =
     (let sa = serviceAccountForNFSProvisioner_deploy L m; kvs = nameKvs ''Serviceaccount'' (sa_meta sa);
          dep = deploymentForNFSProvisioner_deploy L m
      in [entry_for ServiceAccountK (nn (nfsNamespace m) ''nfs-provisioner'') (IsNotFound L)
            lg ''Creating a new Serviceaccount'' kvs (ServiceAccountO sa)
            (\<lambda>err. [LogInfo lg ''Failed to create a new Serviceaccount'' (kvs @ [LStr ''Error'', LErr err])]),
          entry_for DeploymentK (nn (nfsNamespace m) (nfsName m)) (IsNotFound L)
            lg ''Creating a new Deployment'' (nameKvs ''Deployment'' (dep_meta dep)) (DeploymentO dep)
            (\<lambda>_. [])])"

definition table_rbac :: "lib \<Rightarrow> logger \<Rightarrow> NFSProvisioner \<Rightarrow> entry list" where
  "table_rbac L lg m =
     (let sa = serviceAccountForNFSProvisioner_rbac L m; kvs = nameKvs ''Serviceaccount'' (sa_meta sa);
          cr = clusterRoleForNFSProvisioner_rbac L m; crb = clusterRoleBindingForNFSProvisioner_rbac L m;
          crbKvs = [LStr ''ClusterRoleBinding.Name'', LStr (om_name (rb_meta crb))];
          role = roleForNFSProvisioner_rbac L m; roleKvs = nameKvs ''Role'' (role_meta role);
          dep = deploymentForNFSProvisioner_rbac L m
      in [entry_for ServiceAccountK (nn (nfsNamespace m) ''nfs-provisioner'') (IsNotFound L)
            lg ''Creating a new Serviceaccount'' kvs (ServiceAccountO sa)
            (\<lambda>err. [LogError lg err ''Failed to create a new Serviceaccount'' (kvs @ [LStr ''Error''])]),
          entry_for ClusterRoleK (nn '''' ''nfs-provisioner-runner'') (\<lambda>_. True)
            lg ''Creating a new ClusterRole'' [LStr ''ClusterRole.Name'', LStr (om_name (role_meta cr))]
            (ClusterRoleO cr)
            (\<lambda>err. [LogError lg err ''Failed to create a ClusterRole for NFSProvisioner''
                       (nameKvs ''ClusterRole'' (role_meta cr))]),
          entry_for ClusterRoleBindingK (nn '''' ''run-provisioner-runner'') (\<lambda>_. True)
            lg ''Creating a new ClusterRoleBinding'' crbKvs (ClusterRoleBindingO crb)
            (\<lambda>err. [LogError lg err ''Failed to create a ClusterRoleBinding for NFSProvisioner'' crbKvs]),
          entry_for RoleK (nn (nfsNamespace m) ''leader-locking-nfs-provisioner'') (\<lambda>_. True)
            lg ''Creating a new Role'' roleKvs (RoleO role)
            (\<lambda>err. [LogError lg err ''Failed to create a Role for NFSProvisioner'' roleKvs]),
          entry_for RoleBindingK (nn (nfsNamespace m) ''leader-locking-nfs-provisioner'') (\<lambda>_. True)
            lg ''Creating a new Role''
            [LStr ''RoleBinding.Namespace'', LStr '''', LStr ''roleBinding.Name'', LStr '''']
            (RoleBindingO (roleBindingForNFSProvisioner_rbac L m))
            (\<lambda>err. [LogError lg err ''Failed to create a roleBinding for NFSProvisioner''
               (nameKvs ''roleBinding'' (mkMeta '''' ''''))]),
          entry_for DeploymentK (nn (nfsNamespace m) (nfsName m)) (IsNotFound L)
            lg ''Creating a new Deployment'' (nameKvs ''Deployment'' (dep_meta dep)) (DeploymentO dep)
            (\<lambda>_. [])])"

definition table_hostpath ::
  "lib \<Rightarrow> logger \<Rightarrow> NamespacedName \<Rightarrow> NFSProvisioner \<Rightarrow> PersistentVolumeClaim \<Rightarrow> entry list" where
  "table_hostpath L lg req m pvc =
     (let failing = (\<lambda>msg kvs err. [LogError lg err msg kvs]);
          pvcKvs = nameKvs ''PersistentVolumeClaim'' (pvc_meta pvc);
          sa = serviceAccountForNFSProvisioner_hostpath L m; saKvs = nameKvs ''Serviceaccount'' (sa_meta sa);
          cr = clusterRoleForNFSProvisioner_hostpath L m; crb = clusterRoleBindingForNFSProvisioner_hostpath L m;
          crbKvs = [LStr ''ClusterRoleBinding.Name'', LStr (om_name (rb_meta crb))];
          role = roleForNFSProvisioner_hostpath L m; roleKvs = nameKvs ''Role'' (role_meta role);
          dep = deploymentForNFSProvisioner_hostpath L m;
          svc = serviceForNFSProvisioner_hostpath L m; svcKvs = nameKvs ''Service'' (svc_meta svc);
          sc = storageclassForNFSProvisioner_hostpath L m;
          scKvs = [LStr ''Storageclass.Name'', LStr (om_name (stc_meta sc))]
      in [entry_for PersistentVolumeClaimK req (IsNotFound L)
            lg ''Creating a new PersistentVolumeClaim'' pvcKvs (PersistentVolumeClaimO pvc)
            (failing ''Failed to create a new PersistentVolumeClaim'' pvcKvs),
          entry_for ServiceAccountK (nn (nfsNamespace m) ''nfs-provisioner'') (IsNotFound L)
            lg ''Creating a new Serviceaccount'' saKvs (ServiceAccountO sa)
            (failing ''Failed to create a new Serviceaccount'' saKvs),
          entry_for ClusterRoleK (nn '''' ''nfs-provisioner-runner'') (\<lambda>_. True)
            lg ''Creating a new ClusterRole'' [LStr ''ClusterRole.Name'', LStr (om_name (role_meta cr))]
            (ClusterRoleO cr)
            (failing ''Failed to create a ClusterRole for NFSProvisioner'' (nameKvs ''ClusterRole'' (role_meta cr))),
          entry_for ClusterRoleBindingK (nn '''' ''run-provisioner-runner'') (\<lambda>_. True)
            lg ''Creating a new ClusterRoleBinding'' crbKvs (ClusterRoleBindingO crb)
            (failing ''Failed to create a ClusterRoleBinding for NFSProvisioner'' crbKvs),
          entry_for RoleK (nn (nfsNamespace m) ''leader-locking-nfs-provisioner'') (\<lambda>_. True)
            lg ''Creating a new Role'' roleKvs (RoleO role)
            (failing ''Failed to create a Role for NFSProvisioner'' roleKvs),
          entry_for RoleBindingK (nn (nfsNamespace m) ''leader-locking-nfs-provisioner'') (\<lambda>_. True)
            lg ''Creating a new RoleBinding''
            [LStr ''RoleBinding.Namespace'', LStr '''', LStr ''roleBinding.Name'', LStr '''']
            (RoleBindingO (roleBindingForNFSProvisioner_hostpath L m))
            (failing ''Failed to create a RoleBinding for NFSProvisioner''
               (nameKvs ''roleBinding'' (mkMeta '''' ''''))),
          entry_for DeploymentK (nn (nfsNamespace m) (nfsName m)) (IsNotFound L)
            lg ''Creating a new Deployment'' (nameKvs ''Deployment'' (dep_meta dep)) (DeploymentO dep)
            (\<lambda>_. []),
          entry_for ServiceK (nn (nfsNamespace m) ''nfs-provisioner'') (IsNotFound L)
            lg ''Creating a new Service'' svcKvs (ServiceO svc)
            (failing ''Failed to create a Service for NFSProvisioner'' svcKvs),
          entry_for StorageClassK (nn '''' ''example-nfs'') (IsNotFound L)
            lg ''Creating a new Storageclass'' scKvs (StorageClassO sc)
            (failing ''Failed to create a Storageclass for NFSProvisioner'' scKvs)])"

lemmas entry_defs = entry_for_def run_entry_def unless_found_def goes_on_def nameKvs_def Let_def

lemma constant_branches: "(case r of Inl _ \<Rightarrow> p | Inr _ \<Rightarrow> p) = p"
  by (cases r) simp_all

section \<open>The controllers as loops over their tables\<close>

lemma ensureAll_deploy_table: "ensureAll_deploy L lg m = run_table goes_on (table_deploy L lg m)"
  by (simp add: ensureAll_deploy_def table_deploy_def ensureServiceAccount_deploy_def
      ensureDeployment_deploy_def entry_defs andthen_proceed constant_branches cong: sum.case_cong if_cong)

lemma ensureServiceAccount_sa_table: "ensureServiceAccount_sa L lg m = run_table goes_on (table_sa L lg m)"
  by (simp add: table_sa_def ensureServiceAccount_sa_def entry_defs andthen_proceed
      cong: sum.case_cong if_cong)

lemma ensureAll_rbac_table: "ensureAll_rbac L lg m = run_table goes_on (table_rbac L lg m)"
  by (simp add: ensureAll_rbac_def table_rbac_def ensureServiceAccount_rbac_def ensureClusterRole_rbac_def
      ensureClusterRoleBinding_rbac_def ensureRole_rbac_def ensureRoleBinding_rbac_def
      ensureDeployment_rbac_def entry_defs mkMeta_def andthen_proceed constant_branches
      cong: sum.case_cong if_cong)

lemma ensureAll_hostpath_table:
  assumes "pvcForNFSProvisioner_hostpath L m = Inr pvc"
  shows "ensureAll_hostpath L lg req m = run_table goes_on (table_hostpath L lg req m pvc)"
  using assms
  by (simp add: ensureAll_hostpath_def table_hostpath_def ensurePVC_hostpath_def
      ensureServiceAccount_hostpath_def ensureClusterRole_hostpath_def
      ensureClusterRoleBinding_hostpath_def ensureRole_hostpath_def ensureRoleBinding_hostpath_def
      ensureDeployment_hostpath_def ensureService_hostpath_def ensureStorageClass_hostpath_def
      entry_defs mkMeta_def andthen_proceed constant_branches cong: sum.case_cong if_cong)

section \<open>Facts about the entries\<close>

lemma tables_quiet:
  "list_all quiet (table_sa L lg m)" "list_all quiet (table_deploy L lg m)"
  "list_all quiet (table_rbac L lg m)" "list_all quiet (table_hostpath L lg req m pvc)"
  by (simp_all add: table_sa_def table_deploy_def table_rbac_def table_hostpath_def
      entry_for_def quiet_def Let_def)

lemmas early_builder_defs =
  serviceAccountForNFSProvisioner_sa_def serviceAccountForNFSProvisioner_deploy_def
  serviceAccountForNFSProvisioner_rbac_def serviceAccountForNFSProvisioner_hostpath_def
  deploymentForNFSProvisioner_deploy_def deploymentForNFSProvisioner_rbac_def
  deploymentForNFSProvisioner_hostpath_def clusterRoleForNFSProvisioner_rbac_def
  clusterRoleForNFSProvisioner_hostpath_def clusterRoleBindingForNFSProvisioner_rbac_def
  clusterRoleBindingForNFSProvisioner_hostpath_def roleForNFSProvisioner_rbac_def
  roleForNFSProvisioner_hostpath_def roleBindingForNFSProvisioner_rbac_def
  roleBindingForNFSProvisioner_hostpath_def serviceForNFSProvisioner_hostpath_def
  storageclassForNFSProvisioner_hostpath_def

lemma pvc_hostpathD:
  "pvcForNFSProvisioner_hostpath L m = Inr pvc \<Longrightarrow>
     pvc_meta pvc = ownedBy L m PersistentVolumeClaimK (mkMeta ''nfs-provisioner'' (nfsNamespace m))"
  by (auto simp: pvcForNFSProvisioner_hostpath_def split: option.splits)

context k8s_lib
begin

lemma tables_act:
  "list_all (acts_on_absence L) (table_sa L lg m)"
  "list_all (acts_on_absence L) (table_deploy L lg m)"
  "list_all (acts_on_absence L) (table_rbac L lg m)"
  "pvcForNFSProvisioner_hostpath L m = Inr pvc \<Longrightarrow>
     list_all (acts_on_absence L) (table_hostpath L lg req m pvc)"
  by (auto simp: table_sa_def table_deploy_def table_rbac_def table_hostpath_def entry_for_def
      acts_on_absence_def quiet_def Let_def early_builder_defs mkMeta_def dest!: pvc_hostpathD)

end

end
