(* ===== verification/EarlyRuns.thy ===== *)
theory EarlyRuns
  imports EarlyStages Scenarios
begin

text \<open>
  What the controllers of the first three tutorials do: how a run ends in any
  environment, which keys it brings into existence on a healthy server, what their
  markers permit, and how the objects they create fit together.
\<close>

section \<open>The common frame\<close>

definition early_reconcile :: "lib \<Rightarrow> NamespacedName \<Rightarrow> (NFSProvisioner \<Rightarrow> unit stmt) \<Rightarrow> ret io" where
  "early_reconcile L req body =
     prog_bind (andthen (fetch_sa L req) body) (\<lambda>x. case x of
       Inl r \<Rightarrow> Ret r
     | Inr _ \<Rightarrow> Ret (Return \<lparr>Requeue = True\<rparr> None))"

lemma early_frames:
  "Reconcile_sa L req = early_reconcile L req (ensureServiceAccount_sa L (RLog req))"
  "Reconcile_deploy L req = early_reconcile L req (ensureAll_deploy L (RLog req))"
  "Reconcile_rbac L req = early_reconcile L req (ensureAll_rbac L (RLog req))"
  "Reconcile_hostpath L req = early_reconcile L req (ensureAll_hostpath L (RLog req) req)"
  by (simp_all add: early_reconcile_def Reconcile_sa_def Reconcile_deploy_def Reconcile_rbac_def
      Reconcile_hostpath_def fetch_sa_def fetch_deploy_def fetch_rbac_def fetch_hostpath_def)

lemma fetch_sa_run:
  assumes "runs (fetch_sa L req) t x"
  obtains (fetched) y where "t = [(Get NFSProvisionerK req, Inr y)]" "x = Inr (asNFSProvisioner y)"
  | (missing) e l a where "t = [(Get NFSProvisionerK req, Inl e), (l, a)]" "is_log l"
      "x = Inl (Return \<lparr>Requeue = False\<rparr> (if IsNotFound L e then None else Some e))"
  using assms unfolding fetch_sa_def stmt_defs
  by (auto simp: io_simps split: if_split_asm)

lemma early_reconcile_run:
  assumes "runs (early_reconcile L req body) t r"
  obtains (missing) e l a where "t = [(Get NFSProvisionerK req, Inl e), (l, a)]" "is_log l"
      "r = Return \<lparr>Requeue = False\<rparr> (if IsNotFound L e then None else Some e)"
  | (ended) y t' x where "t = (Get NFSProvisionerK req, Inr y) # t'"
      "runs (body (asNFSProvisioner y)) t' x"
      "r = (case x of Inl r \<Rightarrow> r | Inr _ \<Rightarrow> Return \<lparr>Requeue = True\<rparr> None)"
proof -
  from assms obtain t1 t2 x where t: "t = t1 @ t2" and body: "runs (andthen (fetch_sa L req) body) t1 x"
    and "runs (case x of Inl r \<Rightarrow> Ret r | Inr _ \<Rightarrow> Ret (Return \<lparr>Requeue = True\<rparr> None)) t2 r"
    unfolding early_reconcile_def runs_prog_bind by blast
  then have r: "t2 = []" "r = (case x of Inl r \<Rightarrow> r | Inr _ \<Rightarrow> Return \<lparr>Requeue = True\<rparr> None)"
    by (cases x; simp)+
  from body show thesis
  proof (cases rule: runs_andthenE)
    case (returned e)
    from returned(2) show ?thesis
      by (cases rule: fetch_sa_run) (use t r returned missing in auto)
  next
    case (continued u1 u2 m)
    from continued(2) show ?thesis
      by (cases rule: fetch_sa_run) (use t r continued ended in auto)
  qed
qed

text \<open>The runs of a controller given by a table.\<close>

lemma early_table_run:
  assumes "runs (early_reconcile L req body) t r"
    and table: "\<And>m. body m = run_table goes_on (es m)" "\<And>m. list_all quiet (es m)"
  obtains (missing) e l a where "t = [(Get NFSProvisionerK req, Inl e), (l, a)]" "is_log l"
      "r = Return \<lparr>Requeue = False\<rparr> (if IsNotFound L e then None else Some e)"
  | (finished) y t' where "t = (Get NFSProvisionerK req, Inr y) # t'"
      "runs (run_table goes_on (es (asNFSProvisioner y))) t' (Inr ())"
      "r = Return \<lparr>Requeue = True\<rparr> None"
  using assms(1)
proof (cases rule: early_reconcile_run)
  case (ended y t' x)
  then have run: "runs (run_table goes_on (es (asNFSProvisioner y))) t' x" by (simp add: table)
  with run_table_falls [OF table(2)] have "x = Inr ()"
    by (cases x) (auto dest: obeys_returned)
  with run ended finished show thesis by simp
qed (rule missing)

text \<open>The claim of the host-path controller, when the quantity parser accepts its size.\<close>

definition claim_hostpath :: "lib \<Rightarrow> NFSProvisioner \<Rightarrow> PersistentVolumeClaim" where
  "claim_hostpath L m = (case pvcForNFSProvisioner_hostpath L m of Inr pvc \<Rightarrow> pvc
     | Inl _ \<Rightarrow> \<lparr>pvc_meta = mkMeta '''' '''', pvc_accessModes = [], pvc_requests = fmempty,
                pvc_storageClassName = None\<rparr>)"

lemma claim_hostpath:
  assumes "MustParse L ''1Gi'' \<noteq> None"
  shows "pvcForNFSProvisioner_hostpath L m = Inr (claim_hostpath L m)"
  using assms by (auto simp: claim_hostpath_def pvcForNFSProvisioner_hostpath_def)

text \<open>Each controller with its table.\<close>

definition early_controllers ::
  "lib \<Rightarrow> NamespacedName \<Rightarrow> (ret io \<times> (NFSProvisioner \<Rightarrow> entry list)) list" where
  "early_controllers L req =
     [(Reconcile_sa L req, table_sa L (RLog req)),
      (Reconcile_deploy L req, table_deploy L (RLog req)),
      (Reconcile_rbac L req, table_rbac L (RLog req)),
      (Reconcile_hostpath L req, \<lambda>m. table_hostpath L (RLog req) req m (claim_hostpath L m))]"

lemma early_controller:
  assumes "(P, es) \<in> set (early_controllers L req)" and parse: "MustParse L ''1Gi'' \<noteq> None"
  shows "P = early_reconcile L req (\<lambda>m. run_table goes_on (es m))" "list_all quiet (es m)"
proof -
  show "list_all quiet (es m)"
    using assms by (auto simp: early_controllers_def tables_quiet)
  show "P = early_reconcile L req (\<lambda>m. run_table goes_on (es m))"
    using assms(1) by (auto simp: early_controllers_def early_frames ensureServiceAccount_sa_table [abs_def]
        ensureAll_deploy_table [abs_def] ensureAll_rbac_table [abs_def]
        ensureAll_hostpath_table [OF claim_hostpath [OF parse], abs_def])
qed

lemma early_ends:
  assumes "(P, es) \<in> set (early_controllers L req)" and "MustParse L ''1Gi'' \<noteq> None"
    and "runs P t r"
  shows "(case snd (hd t) of
      Inr y \<Rightarrow> r = Return \<lparr>Requeue = True\<rparr> None \<and>
        api_calls t \<le> 1 + 2 * length (es (asNFSProvisioner y))
    | Inl e \<Rightarrow> r = Return \<lparr>Requeue = False\<rparr> (if IsNotFound L e then None else Some e) \<and>
        api_calls t = 1) \<and> fst (hd t) = Get NFSProvisionerK req"
proof -
  note c = early_controller [OF assms(1,2)]
  have "runs (early_reconcile L req (\<lambda>m. run_table goes_on (es m))) t r" using assms(3) c(1) by simp
  then show ?thesis
  proof (rule early_table_run [OF _ refl c(2)], goal_cases)
    case (1 e l a)
    then show ?case by simp
  next
    case (2 y t')
    with calls_at_mostD [OF run_table_calls [OF c(2)] 2(2)] show ?case by simp
  qed
qed

text \<open>
  C28. A run of one of the first three tutorials asks for a requeue, without an error,
  as soon as it has fetched its resource, whatever became of the objects it was to
  create; otherwise it ends with the error of that fetch, or without one when the
  resource is gone.
\<close>

theorem early_stages_always_requeue:
  assumes "(P, es) \<in> set (early_controllers L req)" and "MustParse L ''1Gi'' \<noteq> None"
    and "runs P t r"
  shows "(case snd (hd t) of
      Inr y \<Rightarrow> r = Return \<lparr>Requeue = True\<rparr> None \<and>
        api_calls t \<le> 1 + 2 * length (es (asNFSProvisioner y))
    | Inl e \<Rightarrow> r = Return \<lparr>Requeue = False\<rparr> (if IsNotFound L e then None else Some e) \<and>
        api_calls t = 1) \<and> fst (hd t) = Get NFSProvisionerK req"
  using assms by (rule early_ends)

definition demoTrace :: "ret io \<Rightarrow> event list \<times> ret" where
  "demoTrace P = (case traced mem_srv P (demoCluster demoSpec [] None) of (t, r, _) \<Rightarrow> (t, r))"

lemma demoTrace_runs: "runs P (fst (demoTrace P)) (snd (demoTrace P))"
  by (simp add: demoTrace_def case_prod_beta runs_traced)

lemma demo_parses [simp]: "MustParse demoLib ''1Gi'' \<noteq> None"
  by (simp add: demoLib_def std_lib_def)

lemma early_stages_always_requeue_witness:
  "snd (demoTrace (Reconcile_rbac demoLib demoReq)) = Return \<lparr>Requeue = True\<rparr> None \<and>
   api_calls (fst (demoTrace (Reconcile_rbac demoLib demoReq))) \<le> 13"
proof -
  have "(Reconcile_rbac demoLib demoReq, table_rbac demoLib (RLog demoReq)) \<in> set (early_controllers demoLib demoReq)"
    by (simp add: early_controllers_def)
  note early_stages_always_requeue [OF this demo_parses demoTrace_runs]
  moreover have "snd (hd (fst (demoTrace (Reconcile_rbac demoLib demoReq)))) =
      Inr (NFSProvisionerO (demoCR demoSpec [] None))"
    by (simp add: demoTrace_def early_frames early_reconcile_def fetch_sa_def case_prod_beta)
  ultimately show ?thesis by (simp add: table_rbac_def Let_def)
qed

section \<open>On a healthy server\<close>

text \<open>One run as a step of the server's state.\<close>

definition stepped :: "(request \<Rightarrow> 's \<Rightarrow> response \<times> 's) \<Rightarrow> ret io \<Rightarrow> 's \<Rightarrow> 's" where
  "stepped srv P s = snd (exec srv P s)"

context healthy_server
begin

lemma early_acts:
  "(P, es) \<in> set (early_controllers L req) \<Longrightarrow> MustParse L ''1Gi'' \<noteq> None \<Longrightarrow>
     list_all (acts_on_absence L) (es m)"
  by (auto simp: early_controllers_def tables_act claim_hostpath)

lemma early_exec:
  assumes P: "P = early_reconcile L req (\<lambda>m. run_table goes_on (es m))"
    and acts: "list_all (acts_on_absence L) (es m)"
    and cr: "store s (mkKey NFSProvisionerK req) = Some (NFSProvisionerO m)"
  shows "exec srv P s = (Return \<lparr>Requeue = True\<rparr> None, stepped srv P s) \<and>
    ensured (built_from (map e_obj (es m))) (spec_table (es m) (dom (store s)))
      (store s) (store (stepped srv P s))"
proof -
  obtain s1 where get: "srv (Get NFSProvisionerK req) s = (Inr (NFSProvisionerO m), s1)" "store s1 = store s"
    using get_serves [OF cr] reads [of "Get NFSProvisionerK req" s]
    by (cases "srv (Get NFSProvisionerK req) s") auto
  obtain s2 where s2: "exec srv (run_table goes_on (es m)) s1 = (Inr (), s2)"
    "ensured (built_from (map e_obj (es m))) (spec_table (es m) (dom (store s))) (store s) (store s2)"
    using run_table_builds [OF acts, of goes_on s1] get(2)
    by (auto simp: goes_on_def)
  have "exec srv P s = (Return \<lparr>Requeue = True\<rparr> None, s2)"
    using get(1) s2(1) by (simp add: P early_reconcile_def fetch_sa_def
        exec_prog_bind exec_andthen)
  with s2(2) show ?thesis by (simp add: stepped_def)
qed

end


text \<open>
  C13. On a healthy server a run of one of the first three tutorials refines the
  abstract update of its table: the keys that exist afterwards are those of
  \<open>spec_table\<close>, what existed is untouched, and what is new is an object of the table
  with its spec.
\<close>

theorem early_stages_refine:
  assumes "healthy_server L srv store"
    and "(P, es) \<in> set (early_controllers L req)" and "MustParse L ''1Gi'' \<noteq> None"
    and "store s (mkKey NFSProvisionerK req) = Some (NFSProvisionerO m)"
  shows "exec srv P s = (Return \<lparr>Requeue = True\<rparr> None, stepped srv P s) \<and>
    dom (store (stepped srv P s)) = spec_table (es m) (dom (store s)) \<and>
    ensured (built_from (map e_obj (es m))) (spec_table (es m) (dom (store s)))
      (store s) (store (stepped srv P s))"
proof -
  note run = healthy_server.early_exec [OF assms(1) early_controller(1) [OF assms(2,3)]
      healthy_server.early_acts [OF assms(1-3)] assms(4)]
  show ?thesis
    by (intro conjI ensured_dom [OF conjunct2 [OF run]] spec_table_grows conjunct1 [OF run] conjunct2 [OF run])
qed

lemma early_stages_refine_witness:
  "mkKey ServiceK (nn ''ns'' ''nfs-provisioner'')
     \<in> dom (mem_store (stepped mem_srv (Reconcile_hostpath demoLib demoReq) (demoCluster demoSpec [] None)))"
proof -
  let ?m = "demoCR demoSpec [] None"
  let ?es = "\<lambda>m. table_hostpath demoLib (RLog demoReq) demoReq m (claim_hostpath demoLib m)"
  have mem: "(Reconcile_hostpath demoLib demoReq, ?es) \<in> set (early_controllers demoLib demoReq)"
    by (simp add: early_controllers_def)
  have "list_ex (\<lambda>e. sound_entry e \<and> key_of (e_obj e) = mkKey ServiceK (nn ''ns'' ''nfs-provisioner'')) (?es ?m)"
    by code_simp
  then have "mkKey ServiceK (nn ''ns'' ''nfs-provisioner'') \<in> spec_table (?es ?m) K" for K
    using spec_table_sound_entry unfolding list_ex_iff by metis
  with early_stages_refine [OF demo_healthy mem demo_parses demo_fetched] show ?thesis by blast
qed

context healthy_server
begin

lemma early_settles:
  assumes "P = early_reconcile L req (\<lambda>m. run_table goes_on (es m))" and "list_all (acts_on_absence L) (es m)"
    and "store s (mkKey NFSProvisionerK req) = Some (NFSProvisionerO m)"
  shows "store ((stepped srv P ^^ Suc n) s) = store (stepped srv P s) \<and>
    fst (exec srv P ((stepped srv P ^^ n) s)) = Return \<lparr>Requeue = True\<rparr> None"
proof (induction n)
  case 0
  then show ?case using early_exec [OF assms] by simp
next
  case (Suc n)
  let ?s = "(stepped srv P ^^ Suc n) s" and ?B = "built_from (map e_obj (es m))"
  have eq: "store ?s = store (stepped srv P s)" using Suc by simp
  have one: "ensured ?B (spec_table (es m) (dom (store s))) (store s) (store (stepped srv P s))"
    using early_exec [OF assms] by blast
  then have d: "dom (store ?s) = spec_table (es m) (dom (store s))"
    using ensured_dom spec_table_grows eq by metis
  have "store ?s (mkKey NFSProvisionerK req) = Some (NFSProvisionerO m)"
    unfolding eq by (rule ensured_keeps [OF one assms(3)])
  note step = early_exec [OF assms(1,2) this]
  then have "ensured ?B (dom (store ?s)) (store ?s) (store (stepped srv P ?s))"
    by (simp only: d spec_table_idem)
  then have "store (stepped srv P ?s) = store ?s"
    by (rule ensured_idle) (simp add: domIff)
  with eq step show ?case by simp
qed

end


text \<open>
  The runs of the first three tutorials settle: every run after the first leaves
  the objects of a healthy server as they are, and still asks for a requeue.
\<close>

theorem early_stages_settle:
  assumes "healthy_server L srv store"
    and "(P, es) \<in> set (early_controllers L req)" and "MustParse L ''1Gi'' \<noteq> None"
    and "store s (mkKey NFSProvisionerK req) = Some (NFSProvisionerO m)"
  shows "store ((stepped srv P ^^ Suc n) s) = store (stepped srv P s) \<and>
    fst (exec srv P ((stepped srv P ^^ n) s)) = Return \<lparr>Requeue = True\<rparr> None"
  using healthy_server.early_settles [OF assms(1) early_controller(1) [OF assms(2,3)]
      healthy_server.early_acts [OF assms(1-3)] assms(4)] .

lemma early_stages_settle_witness:
  "mem_store ((stepped mem_srv (Reconcile_deploy demoLib demoReq) ^^ 4) (demoCluster demoSpec [] None)) =
   mem_store (stepped mem_srv (Reconcile_deploy demoLib demoReq) (demoCluster demoSpec [] None))"
proof -
  have "(Reconcile_deploy demoLib demoReq, table_deploy demoLib (RLog demoReq)) \<in> set (early_controllers demoLib demoReq)"
    by (simp add: early_controllers_def)
  from early_stages_settle [OF demo_healthy this demo_parses demo_fetched, of 3] show ?thesis by simp
qed

section \<open>Objects that are never found\<close>

abbreviation lockingKey :: "kind \<Rightarrow> NFSProvisioner \<Rightarrow> key" where
  "lockingKey k m \<equiv> mkKey k (nn (nfsNamespace m) ''leader-locking-nfs-provisioner'')"

lemma rbac_frame: "Reconcile_rbac L req = early_reconcile L req (\<lambda>m. run_table goes_on (table_rbac L (RLog req) m))"
  by (simp add: early_frames ensureAll_rbac_table [abs_def])

context healthy_server
begin

lemma table_rbac_locking:
  assumes "nfsNamespace m \<noteq> ''''" "k \<in> {RoleK, RoleBindingK}"
  shows "list_all (\<lambda>e. key_of (e_obj e) = lockingKey k m \<longrightarrow> \<not> addressable (lockingKey k m)) (table_rbac L lg m)"
  using assms
  by (auto simp: table_rbac_def entry_for_def early_builder_defs key_of_def mkKey_def cluster_scoped_def
      mkMeta_def Let_def)

lemma table_rbac_sound:
  assumes "nfsNamespace m \<noteq> ''''"
    and "k \<in> {mkKey ServiceAccountK (nn (nfsNamespace m) ''nfs-provisioner''),
             mkKey ClusterRoleK (nn '''' ''nfs-provisioner-runner''),
             mkKey ClusterRoleBindingK (nn '''' ''run-provisioner-runner''),
             mkKey DeploymentK (nn (nfsNamespace m) (nfsName m))}"
  shows "\<exists>e \<in> set (table_rbac L lg m). sound_entry e \<and> key_of (e_obj e) = k"
  using assms
  by (auto simp: table_rbac_def entry_for_def early_builder_defs key_of_def mkKey_def cluster_scoped_def
      mkMeta_def Let_def sound_entry_def addressable_def)

end


definition rbacKeys :: "NFSProvisioner \<Rightarrow> key set" where
  "rbacKeys m =
     {mkKey ServiceAccountK (nn (nfsNamespace m) ''nfs-provisioner''),
      mkKey ClusterRoleK (nn '''' ''nfs-provisioner-runner''),
      mkKey ClusterRoleBindingK (nn '''' ''run-provisioner-runner''),
      mkKey DeploymentK (nn (nfsNamespace m) (nfsName m))}"

context healthy_server
begin

lemma rbac_runs:
  assumes cr: "store s (mkKey NFSProvisionerK req) = Some (NFSProvisionerO m)"
    and k: "k \<in> {RoleK, RoleBindingK}" "store s (lockingKey k m) = None"
  shows "store ((stepped srv (Reconcile_rbac L req) ^^ n) s) (lockingKey k m) = None"
    and "fst (exec srv (Reconcile_rbac L req) ((stepped srv (Reconcile_rbac L req) ^^ n) s)) =
      Return \<lparr>Requeue = True\<rparr> None"
    and "rbacKeys m \<subseteq> dom (store ((stepped srv (Reconcile_rbac L req) ^^ Suc n) s))"
proof -
  let ?P = "Reconcile_rbac L req" and ?es = "table_rbac L (RLog req) m"
  note ns = fetched_namespace [OF cr]
  have settle: "store ((stepped srv ?P ^^ Suc n) s) = store (stepped srv ?P s)" for n
    using early_settles [OF rbac_frame tables_act(3) cr] by blast
  have "ensured (built_from (map e_obj ?es)) (spec_table ?es (dom (store s))) (store s) (store (stepped srv ?P s))"
    using early_exec [OF rbac_frame tables_act(3) cr] by blast
  then have dom1: "dom (store (stepped srv ?P s)) = spec_table ?es (dom (store s))"
    using spec_table_grows by (rule ensured_dom)
  have "lockingKey k m \<notin> dom (store s)" using k(2) by (simp add: domIff)
  then have "lockingKey k m \<notin> spec_table ?es (dom (store s))"
    by (rule spec_table_absent) (rule table_rbac_locking [OF ns k(1)])
  then have "store (stepped srv ?P s) (lockingKey k m) = None"
    unfolding dom1 [symmetric] by (simp add: domIff)
  with settle k(2) show "store ((stepped srv ?P ^^ n) s) (lockingKey k m) = None"
    by (cases n) (simp_all only: funpow_0)
  show "fst (exec srv ?P ((stepped srv ?P ^^ n) s)) = Return \<lparr>Requeue = True\<rparr> None"
    using early_settles [OF rbac_frame tables_act(3) cr] by blast
  show "rbacKeys m \<subseteq> dom (store ((stepped srv ?P ^^ Suc n) s))"
  proof
    fix k' assume "k' \<in> rbacKeys m"
    with table_rbac_sound [OF ns, of k' "RLog req"] obtain e where "e \<in> set ?es" "sound_entry e" "key_of (e_obj e) = k'"
      unfolding rbacKeys_def by blast
    then show "k' \<in> dom (store ((stepped srv ?P ^^ Suc n) s))"
      unfolding settle dom1 using spec_table_sound_entry by metis
  qed
qed

end

text \<open>
  C29. The Role and the RoleBinding of the second tutorial are built without a
  namespace, so no server can file them: however often the controller runs, they
  never exist, and every run reports success and asks for another one, while the
  other objects are in place after the first run.
\<close>

theorem rbac_never_creates_role:
  assumes "healthy_server L srv store"
    and "store s (mkKey NFSProvisionerK req) = Some (NFSProvisionerO m)"
    and "k \<in> {RoleK, RoleBindingK}" and "store s (lockingKey k m) = None"
  shows "store ((stepped srv (Reconcile_rbac L req) ^^ n) s) (lockingKey k m) = None \<and>
    fst (exec srv (Reconcile_rbac L req) ((stepped srv (Reconcile_rbac L req) ^^ n) s)) =
      Return \<lparr>Requeue = True\<rparr> None \<and>
    rbacKeys m \<subseteq> dom (store ((stepped srv (Reconcile_rbac L req) ^^ Suc n) s))"
  by (intro conjI healthy_server.rbac_runs [OF assms(1), OF assms(2-4)])

lemma rbac_never_creates_role_witness:
  "mem_store ((stepped mem_srv (Reconcile_rbac demoLib demoReq) ^^ 3) (demoCluster demoSpec [] None))
     (mkKey RoleK (nn ''ns'' ''leader-locking-nfs-provisioner'')) = None"
  using rbac_never_creates_role [OF demo_healthy demo_fetched, of RoleK demoSpec "[]" None 3]
  by (simp add: demoCR_def)


abbreviation table_of_hostpath :: "lib \<Rightarrow> NamespacedName \<Rightarrow> NFSProvisioner \<Rightarrow> entry list" where
  "table_of_hostpath L req m \<equiv> table_hostpath L (RLog req) req m (claim_hostpath L m)"

lemma hostpath_frame:
  assumes "MustParse L ''1Gi'' \<noteq> None"
  shows "Reconcile_hostpath L req = early_reconcile L req (\<lambda>m. run_table goes_on (table_of_hostpath L req m))"
  by (simp add: early_frames ensureAll_hostpath_table [OF claim_hostpath [OF assms], abs_def])

context healthy_server
begin

lemma table_hostpath_claim:
  assumes "MustParse L ''1Gi'' \<noteq> None" "nn_name req \<noteq> ''nfs-provisioner''"
  shows "list_all (\<lambda>e. key_of (e_obj e) = mkKey PersistentVolumeClaimK req \<longrightarrow>
      \<not> addressable (mkKey PersistentVolumeClaimK req)) (table_of_hostpath L req m)"
  using assms(2) pvc_hostpathD [OF claim_hostpath [OF assms(1)], of m]
  by (auto simp: table_hostpath_def entry_for_def early_builder_defs key_of_def mkKey_def cluster_scoped_def
      mkMeta_def Let_def)

lemma claim_key:
  assumes "MustParse L ''1Gi'' \<noteq> None"
  shows "key_of (PersistentVolumeClaimO (claim_hostpath L m)) =
    mkKey PersistentVolumeClaimK (nn (nfsNamespace m) ''nfs-provisioner'')"
  using pvc_hostpathD [OF claim_hostpath [OF assms], of m] by (simp add: key_of_def mkMeta_def)

text \<open>A run that finds the resource, no claim under its name and the claim of the fixed name.\<close>

lemma hostpath_conflict:
  assumes parse: "MustParse L ''1Gi'' \<noteq> None"
    and cr: "store s (mkKey NFSProvisionerK req) = Some (NFSProvisionerO m)"
    and no: "store s (mkKey PersistentVolumeClaimK req) = None"
    and claim: "store s (mkKey PersistentVolumeClaimK (nn (nfsNamespace m) ''nfs-provisioner'')) \<noteq> None"
  shows "\<exists>e. (Create (PersistentVolumeClaimO (claim_hostpath L m)), Inl e)
    \<in> set (fst (traced srv (Reconcile_hostpath L req) s))"
proof -
  obtain s1 where get: "srv (Get NFSProvisionerK req) s = (Inr (NFSProvisionerO m), s1)" "store s1 = store s"
    using get_serves [OF cr] reads [of "Get NFSProvisionerK req" s]
    by (cases "srv (Get NFSProvisionerK req) s") auto
  obtain e s2 where look: "srv (Get PersistentVolumeClaimK req) s1 = (Inl e, s2)" "IsNotFound L e" "store s2 = store s1"
    using no get(2) by (cases rule: get_cases [of PersistentVolumeClaimK req s1]) auto
  obtain f where hp: "run_table goes_on (table_of_hostpath L req m) =
      andthen (run_entry goes_on (hd (table_of_hostpath L req m))) f"
    by (simp add: table_hostpath_def Let_def)
  let ?q = "hd (e_pre (hd (table_of_hostpath L req m)))"
  obtain a s3 where log: "srv ?q s2 = (a, s3)" by (cases "srv ?q s2")
  have q: "\<not> is_write ?q" by (simp add: table_hostpath_def entry_for_def Let_def)
  from reads [OF q log] have "store s3 = store s" using look get by simp
  with claim obtain z where "store s3 (key_of (PersistentVolumeClaimO (claim_hostpath L m))) = Some z"
    by (auto simp: claim_key [OF parse])
  from create_conflicts [OF this] obtain e' s4 where
    create: "srv (Create (PersistentVolumeClaimO (claim_hostpath L m))) s3 = (Inl e', s4)"
    by (metis prod.collapse)
  have "(Create (PersistentVolumeClaimO (claim_hostpath L m)), Inl e')
    \<in> set (fst (traced srv (Reconcile_hostpath L req) s))"
    using get(1) look log create
    by (simp add: hostpath_frame [OF parse] early_reconcile_def fetch_sa_def hp run_entry_def
        unless_found_def table_hostpath_def entry_for_def Let_def case_prod_beta)
  then show ?thesis by blast
qed

end


context healthy_server
begin

lemma hostpath_runs:
  assumes parse: "MustParse L ''1Gi'' \<noteq> None"
    and cr: "store s (mkKey NFSProvisionerK req) = Some (NFSProvisionerO m)"
    and no: "nn_name req \<noteq> ''nfs-provisioner''" "store s (mkKey PersistentVolumeClaimK req) = None"
  shows "store ((stepped srv (Reconcile_hostpath L req) ^^ Suc n) s) (mkKey PersistentVolumeClaimK req) = None"
    and "store ((stepped srv (Reconcile_hostpath L req) ^^ Suc n) s)
      (mkKey PersistentVolumeClaimK (nn (nfsNamespace m) ''nfs-provisioner'')) \<noteq> None"
    and "store ((stepped srv (Reconcile_hostpath L req) ^^ Suc n) s) (mkKey NFSProvisionerK req) = Some (NFSProvisionerO m)"
proof -
  let ?P = "Reconcile_hostpath L req" and ?es = "table_of_hostpath L req m"
  have acts: "list_all (acts_on_absence L) ?es" by (intro tables_act claim_hostpath parse)
  have settle: "store ((stepped srv ?P ^^ Suc n) s) = store (stepped srv ?P s)"
    using early_settles [OF hostpath_frame [OF parse] acts cr] by blast
  have ens: "ensured (built_from (map e_obj ?es)) (spec_table ?es (dom (store s))) (store s) (store (stepped srv ?P s))"
    using early_exec [OF hostpath_frame [OF parse] acts cr] by blast
  then have dom1: "dom (store (stepped srv ?P s)) = spec_table ?es (dom (store s))"
    using spec_table_grows by (rule ensured_dom)
  show "store ((stepped srv ?P ^^ Suc n) s) (mkKey NFSProvisionerK req) = Some (NFSProvisionerO m)"
    unfolding settle by (rule ensured_keeps [OF ens cr])
  have absent: "mkKey PersistentVolumeClaimK req \<notin> dom (store s)" using no(2) by (simp add: domIff)
  then have "mkKey PersistentVolumeClaimK req \<notin> spec_table ?es (dom (store s))"
    by (rule spec_table_absent) (rule table_hostpath_claim [OF parse no(1)])
  then show "store ((stepped srv ?P ^^ Suc n) s) (mkKey PersistentVolumeClaimK req) = None"
    unfolding settle dom1 [symmetric] by (simp add: domIff)
  obtain es where es: "?es = entry_for PersistentVolumeClaimK req (IsNotFound L) (RLog req)
      ''Creating a new PersistentVolumeClaim'' (nameKvs ''PersistentVolumeClaim'' (pvc_meta (claim_hostpath L m)))
      (PersistentVolumeClaimO (claim_hostpath L m))
      (\<lambda>err. [LogError (RLog req) err ''Failed to create a new PersistentVolumeClaim''
         (nameKvs ''PersistentVolumeClaim'' (pvc_meta (claim_hostpath L m)))]) # es"
    by (simp add: table_hostpath_def Let_def)
  have "mkKey PersistentVolumeClaimK (nn (nfsNamespace m) ''nfs-provisioner'') \<in> spec_table ?es (dom (store s))"
    using absent fetched_namespace [OF cr]
      subsetD [OF spec_table_grows, of "key_of (PersistentVolumeClaimO (claim_hostpath L m))" "spec_entry (hd ?es) (dom (store s))" es]
    by (simp add: es spec_entry_def entry_for_def claim_key [OF parse] del: not_None_eq)
  then show "store ((stepped srv ?P ^^ Suc n) s)
      (mkKey PersistentVolumeClaimK (nn (nfsNamespace m) ''nfs-provisioner'')) \<noteq> None"
    unfolding settle dom1 [symmetric] by (simp add: domIff)
qed

end

text \<open>
  C28. The third tutorial looks its claim up under the name of the resource and
  creates it under the name \<open>nfs-provisioner\<close>: unless the names agree, no run ever
  finds it, every run after the first creates it again and is refused, and every
  run reports success.
\<close>

theorem hostpath_claim_never_found:
  assumes "healthy_server L srv store" and "MustParse L ''1Gi'' \<noteq> None"
    and "store s (mkKey NFSProvisionerK req) = Some (NFSProvisionerO m)"
    and "nn_name req \<noteq> ''nfs-provisioner''" and "store s (mkKey PersistentVolumeClaimK req) = None"
  shows "store ((stepped srv (Reconcile_hostpath L req) ^^ Suc n) s) (mkKey PersistentVolumeClaimK req) = None \<and>
    (\<exists>e. (Create (PersistentVolumeClaimO (claim_hostpath L m)), Inl e) \<in> set (fst (traced srv
      (Reconcile_hostpath L req) ((stepped srv (Reconcile_hostpath L req) ^^ Suc n) s))))"
proof
  note runs = healthy_server.hostpath_runs [OF assms(1), OF assms(2-5), of n]
  show "store ((stepped srv (Reconcile_hostpath L req) ^^ Suc n) s) (mkKey PersistentVolumeClaimK req) = None"
    by (rule runs)
  show "\<exists>e. (Create (PersistentVolumeClaimO (claim_hostpath L m)), Inl e) \<in> set (fst (traced srv
      (Reconcile_hostpath L req) ((stepped srv (Reconcile_hostpath L req) ^^ Suc n) s)))"
    by (rule healthy_server.hostpath_conflict [OF assms(1), OF assms(2) runs(3) runs(1) runs(2)])
qed

lemma hostpath_claim_never_found_witness:
  "mem_store ((stepped mem_srv (Reconcile_hostpath demoLib demoReq) ^^ 3) (demoCluster demoSpec [] None))
     (mkKey PersistentVolumeClaimK demoReq) = None"
  using hostpath_claim_never_found [OF demo_healthy demo_parses demo_fetched, of demoSpec "[]" None 2]
  by (simp add: demoReq_def numeral_3_eq_3)

end
