(* ===== verification/EarlyObjects.thy ===== *)
theory EarlyObjects
  imports EarlyRuns
begin

text \<open>
  The permissions the first three tutorials declare and hand out, and how the
  identities of the objects they create fit together.
\<close>

section \<open>Permissions\<close>

text \<open>A log call, or a lookup or a creation of an object of one of the kinds.\<close>

fun within_kinds :: "kind list \<Rightarrow> request \<Rightarrow> bool" where
  "within_kinds ks (Get k _) \<longleftrightarrow> k \<in> set ks"
| "within_kinds ks (Create x) \<longleftrightarrow> kobj_kind x \<in> set ks"
| "within_kinds ks q \<longleftrightarrow> is_log q"

lemma within_log: "is_log q \<Longrightarrow> within_kinds ks q"
  by (cases q) simp_all

text \<open>The kinds the markers of a controller cover, among those it works with.\<close>

definition early_kinds :: "kind list" where
  "early_kinds = [NFSProvisionerK, DeploymentK, ServiceAccountK, ClusterRoleK, ClusterRoleBindingK,
     RoleK, RoleBindingK]"

definition covers :: "PolicyRule list \<Rightarrow> kind list \<Rightarrow> kind list \<Rightarrow> bool" where
  "covers rules all ks \<longleftrightarrow> list_all (\<lambda>k. (case gvr k of (g, res) \<Rightarrow>
     (k \<in> set ks \<longrightarrow> list_all (allows rules g res) [''get'', ''list'', ''watch'', ''create'']) \<and>
     (k \<notin> set ks \<longrightarrow> \<not> allows rules g res ''get'' \<and> \<not> allows rules g res ''create''))) all"

lemma covers_authorized:
  assumes "covers rules all ks" "within_kinds all q"
  shows "authorized rules q \<longleftrightarrow> within_kinds ks q"
proof (cases q)
  case (Get k n)
  with assms show ?thesis
    by (cases "gvr k"; cases "k \<in> set ks") (fastforce simp: covers_def list_all_iff authorized_def)+
next
  case (Create x)
  with assms show ?thesis
    by (cases "gvr (kobj_kind x)"; cases "kobj_kind x \<in> set ks")
      (fastforce simp: covers_def list_all_iff authorized_def)+
qed (use assms in \<open>simp_all add: authorized_def\<close>)

lemma markers_cover:
  "covers rbacMarkers_sa early_kinds [NFSProvisionerK, DeploymentK]"
  "covers rbacMarkers_deploy early_kinds [NFSProvisionerK, DeploymentK]"
  "covers rbacMarkers_rbac early_kinds [NFSProvisionerK, DeploymentK]"
  "covers rbacMarkers_hostpath (early_kinds @ [PersistentVolumeClaimK, ServiceK, StorageClassK])
     (early_kinds @ [PersistentVolumeClaimK, ServiceK, StorageClassK])"
  by code_simp+

lemma early_requests:
  assumes "runs (early_reconcile L req (\<lambda>m. run_table goes_on (es m))) t r"
    and quiet: "\<And>m. list_all quiet (es m)"
    and kinds: "\<And>m. list_all (\<lambda>e. e_kind e \<in> set ks \<and> kobj_kind (e_obj e) \<in> set ks) (es m)"
    and own: "NFSProvisionerK \<in> set ks"
  shows "requests_in (within_kinds ks) t"
  using assms(1)
proof (rule early_table_run [OF _ refl quiet], goal_cases)
  case (1 e l a)
  then show ?case using own by (simp add: within_log)
next
  case (2 y t')
  have "obeys (\<lambda>t _. requests_in (within_kinds ks) t) (run_table goes_on (es (asNFSProvisioner y)))"
    by (rule run_table_requests [OF quiet]) (use kinds [of "asNFSProvisioner y"] in \<open>auto simp: within_log list_all_iff\<close>)
  from obeys_continued [OF this 2(2)] show ?case using 2(1) own by simp
qed

lemma table_kinds:
  "list_all (\<lambda>e. e_kind e \<in> set early_kinds \<and> kobj_kind (e_obj e) \<in> set early_kinds) (table_sa L lg m)"
  "list_all (\<lambda>e. e_kind e \<in> set early_kinds \<and> kobj_kind (e_obj e) \<in> set early_kinds) (table_deploy L lg m)"
  "list_all (\<lambda>e. e_kind e \<in> set early_kinds \<and> kobj_kind (e_obj e) \<in> set early_kinds) (table_rbac L lg m)"
  "list_all (\<lambda>e. e_kind e \<in> set (early_kinds @ [PersistentVolumeClaimK, ServiceK, StorageClassK]) \<and>
     kobj_kind (e_obj e) \<in> set (early_kinds @ [PersistentVolumeClaimK, ServiceK, StorageClassK]))
     (table_hostpath L lg req m pvc)"
  by (simp_all add: table_sa_def table_deploy_def table_rbac_def table_hostpath_def entry_for_def
      early_kinds_def Let_def)

text \<open>
  The markers of the first two tutorials permit only the requests that concern
  the custom resource and Deployments: every lookup and creation of a service
  account, a role or a binding in any run is refused by the server.
\<close>

theorem early_markers_insufficient:
  assumes "(P, ms) \<in> set [(Reconcile_sa L req, rbacMarkers_sa),
      (Reconcile_deploy L req, rbacMarkers_deploy), (Reconcile_rbac L req, rbacMarkers_rbac)]"
    and "runs P t r"
  shows "requests_in (\<lambda>q. authorized ms q \<longleftrightarrow> within_kinds [NFSProvisionerK, DeploymentK] q) t"
proof -
  obtain es where P: "P = early_reconcile L req (\<lambda>m. run_table goes_on (es m))"
    and es: "es \<in> {table_sa L (RLog req), table_deploy L (RLog req), table_rbac L (RLog req)}"
    using assms(1) by (auto simp: early_frames ensureServiceAccount_sa_table [abs_def]
        ensureAll_deploy_table [abs_def] ensureAll_rbac_table [abs_def])
  have "requests_in (within_kinds early_kinds) t"
    by (rule early_requests [OF assms(2) [unfolded P]])
      (use es tables_quiet table_kinds in \<open>auto simp: early_kinds_def\<close>)
  moreover have "covers ms early_kinds [NFSProvisionerK, DeploymentK]"
    using assms(1) markers_cover by auto
  ultimately show ?thesis
    by (auto simp: requests_in_def list_all_iff covers_authorized)
qed

lemma early_markers_insufficient_witness:
  "requests_in (\<lambda>q. authorized rbacMarkers_sa q \<longleftrightarrow> within_kinds [NFSProvisionerK, DeploymentK] q)
     (fst (demoTrace (Reconcile_sa demoLib demoReq))) \<and>
   \<not> requests_in (authorized rbacMarkers_sa) (fst (demoTrace (Reconcile_sa demoLib demoReq)))"
proof
  show "requests_in (\<lambda>q. authorized rbacMarkers_sa q \<longleftrightarrow> within_kinds [NFSProvisionerK, DeploymentK] q)
     (fst (demoTrace (Reconcile_sa demoLib demoReq)))"
    using early_markers_insufficient [OF _ demoTrace_runs, of _ rbacMarkers_sa demoLib demoReq] by simp
  show "\<not> requests_in (authorized rbacMarkers_sa) (fst (demoTrace (Reconcile_sa demoLib demoReq)))"
    by code_simp
qed

text \<open>
  The markers of the third tutorial permit every request of every run, and the
  Role and the ClusterRole it creates hand out nothing beyond them.
\<close>

theorem hostpath_authorized:
  assumes "runs (Reconcile_hostpath L req) t r" and "MustParse L ''1Gi'' \<noteq> None"
  shows "requests_in (authorized rbacMarkers_hostpath) t \<and>
    list_all (holds_rule rbacMarkers_hostpath)
      (role_rules (clusterRoleForNFSProvisioner_hostpath L m) @ role_rules (roleForNFSProvisioner_hostpath L m))"
proof
  have "requests_in (within_kinds (early_kinds @ [PersistentVolumeClaimK, ServiceK, StorageClassK])) t"
    by (rule early_requests [OF assms(1) [unfolded hostpath_frame [OF assms(2)]]])
      (use tables_quiet table_kinds in \<open>auto simp: early_kinds_def\<close>)
  then show "requests_in (authorized rbacMarkers_hostpath) t"
    using covers_authorized [OF markers_cover(4)] by (auto simp: requests_in_def list_all_iff)
  have "list_all (holds_rule rbacMarkers_hostpath)
      (role_rules (clusterRoleForNFSProvisioner_hostpath demoLib zeroNFSProvisioner) @
       role_rules (roleForNFSProvisioner_hostpath demoLib zeroNFSProvisioner))"
    by code_simp
  then show "list_all (holds_rule rbacMarkers_hostpath)
      (role_rules (clusterRoleForNFSProvisioner_hostpath L m) @ role_rules (roleForNFSProvisioner_hostpath L m))"
    by (simp add: clusterRoleForNFSProvisioner_hostpath_def roleForNFSProvisioner_hostpath_def)
qed

lemma hostpath_authorized_witness:
  "requests_in (authorized rbacMarkers_hostpath) (fst (demoTrace (Reconcile_hostpath demoLib demoReq)))"
  using hostpath_authorized [OF demoTrace_runs demo_parses] by blast

section \<open>Identities\<close>

definition subjects_name :: "Subject list \<Rightarrow> ServiceAccount \<Rightarrow> bool" where
  "subjects_name subs sa \<longleftrightarrow> subs = [\<lparr>sub_kind = ''ServiceAccount'', sub_name = om_name (sa_meta sa),
     sub_namespace = om_namespace (sa_meta sa)\<rparr>]"

text \<open>
  In the second tutorial the pod runs under the service account the controller
  creates, but the bindings name the resource instead, so the account holds the
  roles only for a resource called \<open>nfs-provisioner\<close>.  In the third the bindings
  name the account, but the pod runs under the default one, privileged, on a host
  directory, and mounts no claim.
\<close>

theorem early_identities:
  assumes "k8s_lib L"
  shows "ps_serviceAccountName (dep_podSpec (deploymentForNFSProvisioner_rbac L m)) =
      om_name (sa_meta (serviceAccountForNFSProvisioner_rbac L m)) \<and>
    (subjects_name (rb_subjects (clusterRoleBindingForNFSProvisioner_rbac L m))
      (serviceAccountForNFSProvisioner_rbac L m) \<longleftrightarrow> nfsName m = ''nfs-provisioner'') \<and>
    (subjects_name (rb_subjects (roleBindingForNFSProvisioner_rbac L m))
      (serviceAccountForNFSProvisioner_rbac L m) \<longleftrightarrow> nfsName m = ''nfs-provisioner'') \<and>
    subjects_name (rb_subjects (clusterRoleBindingForNFSProvisioner_hostpath L m))
      (serviceAccountForNFSProvisioner_hostpath L m) \<and>
    subjects_name (rb_subjects (roleBindingForNFSProvisioner_hostpath L m))
      (serviceAccountForNFSProvisioner_hostpath L m) \<and>
    ps_serviceAccountName (dep_podSpec (deploymentForNFSProvisioner_hostpath L m)) = '''' \<and>
    list_all (\<lambda>c. map_option sc_privileged (c_securityContext c) = Some (Some True))
      (ps_containers (dep_podSpec (deploymentForNFSProvisioner_hostpath L m))) \<and>
    list_all (\<lambda>v. vs_claimName (v_source v) = None \<and> vs_hostPath (v_source v) \<noteq> None)
      (ps_volumes (dep_podSpec (deploymentForNFSProvisioner_hostpath L m)))"
  using k8s_lib.ownedBy_simps [OF assms]
  by (simp add: early_builder_defs subjects_name_def mkMeta_def Let_def)

lemma early_identities_witness:
  "\<not> subjects_name (rb_subjects (clusterRoleBindingForNFSProvisioner_rbac demoLib (demoCR demoSpec [] None)))
     (serviceAccountForNFSProvisioner_rbac demoLib (demoCR demoSpec [] None))"
  using early_identities [OF demoLib, of "demoCR demoSpec [] None"] by (simp add: demoCR_def)

end
