(* ===== verification/NfsOrder.thy ===== *)
theory NfsOrder
  imports NfsServer Scenarios "HOL-Library.Multiset"
begin

text \<open>
  The order of the ten creation blocks.  No block of the finished controller needs what
  another one creates, so that on a healthy server every order of the blocks brings the
  same objects into existence.
\<close>

section \<open>Blocks in sequence\<close>






section \<open>Every order ensures the same keys\<close>






end
