(* ===== verification/NfsRecovery.thy ===== *)
theory NfsRecovery
  imports NfsServer Scenarios
begin

text \<open>
  Interrupted runs.  The operator can be stopped between any two calls, calls can
  fail, and other clients work on the same objects.  A controller has to recover
  from all of that in its next complete run.  The theory defines the state after
  the first calls of a run, the states a cluster can get into by interruptions and
  interference, and proves that a complete run repairs each of them.
\<close>

section \<open>The first calls of a run\<close>

primrec exec_upto :: "('q \<Rightarrow> 's \<Rightarrow> 'r \<times> 's) \<Rightarrow> ('q, 'r, 'a) prog \<Rightarrow> nat \<Rightarrow> 's \<Rightarrow> 's" where
  "exec_upto srv (Ret a) n s = s"
| "exec_upto srv (Req q k) n s =
     (case n of 0 \<Rightarrow> s | Suc n' \<Rightarrow> (case srv q s of (r, s') \<Rightarrow> exec_upto srv (k r) n' s'))"

lemma exec_upto_0 [simp]: "exec_upto srv p 0 s = s"
  by (cases p) simp_all

lemma exec_upto_replay:
  "exec_upto srv p n s = fold (\<lambda>q s. snd (srv q s)) (take n (map fst (fst (traced srv p s)))) s"
  by (induction p arbitrary: n s) (auto simp: case_prod_beta split: nat.split)

lemma exec_upto_all:
  "length (fst (traced srv p s)) \<le> n \<Longrightarrow> exec_upto srv p n s = snd (exec srv p s)"
  by (induction p arbitrary: n s) (auto simp: case_prod_beta split: nat.split)

text \<open>A run that has got through its first part stands at the beginning of the second.\<close>

lemma exec_upto_prog_bind:
  assumes "exec srv p s = (a, s')"
  shows "exec_upto srv (prog_bind p f) (length (fst (traced srv p s)) + n) s = exec_upto srv (f a) n s'"
  using assms by (induction p arbitrary: s) (auto simp: case_prod_beta)

text \<open>An invariant kept by every request of the run holds wherever the run stops.\<close>

lemma exec_upto_invariant:
  assumes "\<And>q a s. (q, a) \<in> set (fst (traced srv p s0)) \<Longrightarrow> I s \<Longrightarrow> I (snd (srv q s))" and "I s0"
  shows "I (exec_upto srv p n s0)"
  unfolding exec_upto_replay
proof (rule fold_invariant [where Q = "\<lambda>q. q \<in> fst ` set (fst (traced srv p s0))"])
  show "I s0" by fact
next
  fix q assume "q \<in> set (take n (map fst (fst (traced srv p s0))))"
  then show "q \<in> fst ` set (fst (traced srv p s0))" by (auto dest: in_set_takeD)
next
  fix q s assume "q \<in> fst ` set (fst (traced srv p s0))" "I s"
  with assms(1) show "I (snd (srv q s))" by auto
qed

section \<open>Servers that refuse requests\<close>

text \<open>A server in front of another one that refuses some of the requests with the error \<open>e\<close>.\<close>

definition refusing :: "go_error \<Rightarrow> (request \<Rightarrow> bool) \<Rightarrow>
    (request \<Rightarrow> 's \<Rightarrow> response \<times> 's) \<Rightarrow> request \<Rightarrow> 's \<Rightarrow> response \<times> 's" where
  "refusing e P srv q s = (if P q then (Inl e, s) else srv q s)"

lemma refusing_contract:
  assumes "api_server L srv store" "\<not> IsNotFound L e"
  shows "api_server L (refusing e P srv) store"
proof -
  note laws = api_server_axioms_def [THEN meta_eq_to_obj_eq, THEN iffD1, OF api_server.axioms(2) [OF assms(1)]]
  have "api_server_axioms L (refusing e P srv) store"
    using laws assms(2) unfolding api_server_axioms_def refusing_def
    by (simp split: if_split_asm)
  with api_server.axioms(1) [OF assms(1)] show ?thesis by (rule api_server.intro)
qed

section \<open>Disturbances\<close>

text \<open>
  A request of some client that leaves the resource with its spec, and the claim the
  spec names, in the store: it may create, change and delete anything else, and
  change the finalizers and the status of the resource.
\<close>

fun harmless :: "NamespacedName \<Rightarrow> NFSProvisionerSpec \<Rightarrow> request \<Rightarrow> bool" where
  "harmless req sp (Update x) \<longleftrightarrow>
     (if key_of x = mkKey NFSProvisionerK req
      then (case x of NFSProvisionerO m \<Rightarrow> Spec m = sp | _ \<Rightarrow> False)
      else key_of x \<noteq> mkKey PersistentVolumeClaimK (nn (nn_namespace req) (Pvc sp)))"
| "harmless req sp (Delete x) \<longleftrightarrow> key_of x \<noteq> mkKey NFSProvisionerK req \<and>
     key_of x \<noteq> mkKey PersistentVolumeClaimK (nn (nn_namespace req) (Pvc sp))"
| "harmless req sp _ \<longleftrightarrow> True"

inductive disturbed :: "lib \<Rightarrow> ('s \<Rightarrow> key \<Rightarrow> kobj option) \<Rightarrow> NamespacedName \<Rightarrow> NFSProvisionerSpec \<Rightarrow>
    's \<Rightarrow> 's \<Rightarrow> bool" for L store req sp where
  calm: "disturbed L store req sp s s"
| interrupted: "disturbed L store req sp s s1 \<Longrightarrow> api_server L srv store \<Longrightarrow>
    disturbed L store req sp s (exec_upto srv (Reconcile L req) n s1)"
| interfered: "disturbed L store req sp s s1 \<Longrightarrow> api_server L srv store \<Longrightarrow> harmless req sp q \<Longrightarrow>
    disturbed L store req sp s (snd (srv q s1))"

text \<open>The invariant: the live resource with its spec, which the operator can serve.\<close>

definition tended :: "lib \<Rightarrow> NamespacedName \<Rightarrow> NFSProvisionerSpec \<Rightarrow> (key \<Rightarrow> kobj option) \<Rightarrow> bool" where
  "tended L req sp f \<longleftrightarrow> (case f (mkKey NFSProvisionerK req) of
     Some (NFSProvisionerO m) \<Rightarrow> Spec m = sp \<and> IsZero L (om_deletionTimestamp (nfs_meta m)) \<and> serviceable L f m
   | _ \<Rightarrow> False)"

lemma tendedE:
  assumes "tended L req sp f"
  obtains m where "f (mkKey NFSProvisionerK req) = Some (NFSProvisionerO m)" "Spec m = sp"
    "IsZero L (om_deletionTimestamp (nfs_meta m))" "serviceable L f m"
  using assms by (auto simp: tended_def split: option.splits kobj.splits)


context api_server
begin

lemma fetched_identity:
  assumes "store s (mkKey NFSProvisionerK req) = Some (NFSProvisionerO m)"
  shows "nfsNamespace m = nn_namespace req" "nfsName m = nn_name req"
  using keyed [OF assms] by (simp_all add: key_of_def mkKey_def cluster_scoped_def)

text \<open>A write that succeeds and keeps the resource and the claim keeps the invariant.\<close>

lemma tended_mono:
  assumes f: "tended L req sp (store s)"
    and cr: "g (mkKey NFSProvisionerK req) = store s (mkKey NFSProvisionerK req)"
    and claim: "g (mkKey PersistentVolumeClaimK (nn (nn_namespace req) (Pvc sp))) = None \<Longrightarrow>
      store s (mkKey PersistentVolumeClaimK (nn (nn_namespace req) (Pvc sp))) = None"
  shows "tended L req sp g"
proof -
  from f obtain m where m: "store s (mkKey NFSProvisionerK req) = Some (NFSProvisionerO m)" "Spec m = sp"
    "IsZero L (om_deletionTimestamp (nfs_meta m))" "serviceable L (store s) m"
    by (rule tendedE)
  have "g (claimKey m) \<noteq> None" if "Pvc (Spec m) \<noteq> ''''"
    using that m(2,4) claim fetched_identity [OF m(1)]
    by (simp add: serviceable_def claimKey_def del: not_None_eq) blast
  with m(4) have "serviceable L g m" by (simp add: serviceable_def del: not_None_eq)
  with m cr show ?thesis by (simp add: tended_def)
qed

lemma tended_upd:
  assumes "tended L req sp (store s)" "k \<noteq> mkKey NFSProvisionerK req"
    and "v \<noteq> None \<or> k \<noteq> mkKey PersistentVolumeClaimK (nn (nn_namespace req) (Pvc sp))"
  shows "tended L req sp ((store s)(k := v))"
  by (rule tended_mono [OF assms(1)]) (use assms(2,3) in \<open>auto split: if_split_asm\<close>)

lemma tended_update:
  assumes "tended L req sp (store s)" "srv (Update x) s = (Inr y, s')" "key_of x = mkKey NFSProvisionerK req"
    and x: "x = NFSProvisionerO m'" "Spec m' = sp"
  shows "tended L req sp (store s')"
proof -
  from assms(1) obtain m where m: "store s (mkKey NFSProvisionerK req) = Some (NFSProvisionerO m)" "Spec m = sp"
    "IsZero L (om_deletionTimestamp (nfs_meta m))" "serviceable L (store s) m"
    by (rule tendedE)
  from update_ok [OF assms(2)] m assms(3) obtain w where
    w: "store s' = (store s)(key_of x \<mapsto> w)" "updated (NFSProvisionerO m) x w"
    by auto
  have "crKey m' = crKey m"
    using assms(3) x(1) keyed [OF m(1)] by simp
  with w(2) x m(2) obtain m2 where m2: "w = NFSProvisionerO m2" "refinalized m (om_finalizers (nfs_meta m')) m2"
    using updated_NFSProvisioner [of m m' w] by auto
  then have "Spec m2 = sp" "om_deletionTimestamp (nfs_meta m2) = om_deletionTimestamp (nfs_meta m)"
    "nfsNamespace m2 = nfsNamespace m"
    using m(2) refinalized_spec [OF m2(2)] by (simp_all add: refinalized_def)
  moreover from this have "serviceable L (store s') m2"
    using m(2,4) w(1) assms(3) by (auto simp: serviceable_def claimKey_def validate_def Let_def)
  ultimately show ?thesis using w(1) m2(1) m(3) assms(3) by (simp add: tended_def)
qed

lemma tended_step:
  assumes I: "tended L req sp (store s)" and q: "harmless req sp q"
  shows "tended L req sp (store (snd (srv q s)))"
proof -
  obtain r s' where rs: "srv q s = (r, s')" by (cases "srv q s")
  let ?K = "mkKey NFSProvisionerK req" and ?C = "mkKey PersistentVolumeClaimK (nn (nn_namespace req) (Pvc sp))"
  from I obtain m where m: "store s ?K = Some (NFSProvisionerO m)" by (rule tendedE)
  show ?thesis
  proof (cases "is_write q \<and> (\<exists>y. r = Inr y)")
    case False
    then have "store s' = store s"
      using rs reads [of q s r s'] failed_writes [of q s _ s'] by (cases r) auto
    with I rs show ?thesis by simp
  next
    case True
    then obtain y where ok: "srv q s = (Inr y, s')" using rs by blast
    show ?thesis
    proof (cases q)
      case (Create x)
      from create_ok [of x s y s'] ok Create
      have "store s (key_of x) = None" "store s' = (store s)(key_of x \<mapsto> y)" by auto
      with m rs show ?thesis by (auto intro: tended_upd [OF I])
    next
      case (Update x)
      show ?thesis
      proof (cases "key_of x = ?K")
        case True
        with q Update obtain m' where "x = NFSProvisionerO m'" "Spec m' = sp"
          by (auto split: kobj.splits)
        with tended_update [OF I _ True] ok Update rs show ?thesis by auto
      next
        case False
        with q Update have "key_of x \<noteq> ?C" by simp
        with False update_ok [of x s y s'] ok Update rs show ?thesis
          by (auto intro: tended_upd [OF I] split: if_splits)
      qed
    next
      case (StatusUpdate x)
      from status_ok [of x s y s'] ok StatusUpdate obtain z where
        z: "store s (key_of x) = Some z" "store s' = (store s)(key_of x \<mapsto> with_status z x)" by auto
      show ?thesis
      proof (cases "key_of x = ?K")
        case True
        then have "z = NFSProvisionerO m" using z(1) m by simp
        then obtain st where st: "with_status z x = NFSProvisionerO (m\<lparr>Status := st\<rparr>)"
          by (cases x) (auto intro: that [of "Status m"])
        from I m have "serviceable L (store s) m" "Spec m = sp" "IsZero L (om_deletionTimestamp (nfs_meta m))"
          by (auto elim!: tendedE)
        with z(2) True st rs ok show ?thesis
          by (auto simp: tended_def serviceable_def claimKey_def validate_def Let_def)
      next
        case False
        with z rs show ?thesis by (auto intro: tended_upd [OF I])
      qed
    next
      case (Delete x)
      with q delete_ok [of x s y s'] ok rs show ?thesis
        by (auto intro: tended_upd [OF I] split: if_splits)
    qed (use True in auto)
  qed
qed

end


section \<open>Recovery\<close>

lemma only_finalizer_frame:
  assumes "only_finalizer m m'"
  shows "Spec m' = Spec m" "crKey m' = crKey m"
proof -
  from assms obtain fs where "m' = m\<lparr>nfs_meta := (nfs_meta m)\<lparr>om_finalizers := fs\<rparr>\<rparr>"
    unfolding only_finalizer_def by blast
  then show "Spec m' = Spec m" "crKey m' = crKey m" by (simp_all add: key_of_def)
qed

context api_server
begin

text \<open>What a run for the resource asks for is harmless to it.\<close>

lemma permitted_harmless:
  assumes "tended L req sp (store s)" and m: "store s (mkKey NFSProvisionerK req) = Some (NFSProvisionerO m)"
    and q: "permitted L m q"
  shows "harmless req sp q"
proof -
  from assms(1) m have "Spec m = sp" "validate m = None" "IsZero L (om_deletionTimestamp (nfs_meta m))"
    by (auto elim!: tendedE simp: serviceable_def)
  with q keyed [OF m] show ?thesis
    by (cases q) (auto simp: only_finalizer_frame)
qed

lemma run_harmless:
  assumes I: "tended L req sp (store s)" and e: "(q, a) \<in> set (fst (traced srv (Reconcile L req) s))"
  shows "harmless req sp q"
proof (cases "is_write q")
  case False
  then show ?thesis by (cases q) simp_all
next
  case True
  let ?t = "fst (traced srv (Reconcile L req) s)"
  from Reconcile_confined [OF runs_traced traced_genuine e True]
  obtain m t' where t: "?t = (Get NFSProvisionerK req, Inr (NFSProvisionerO m)) # t'" and p: "permitted L m q"
    by metis
  have "fst (srv (Get NFSProvisionerK req) s) = Inr (NFSProvisionerO m)"
    using t by (simp add: Reconcile_def Reconcile_body_def fetchNFSProvisioner_def case_prod_beta)
  then have "store s (mkKey NFSProvisionerK req) = Some (NFSProvisionerO m)"
    by (metis get_found prod.collapse)
  with I p show ?thesis by (blast intro: permitted_harmless)
qed

lemma tended_interrupted:
  assumes "tended L req sp (store s)"
  shows "tended L req sp (store (exec_upto srv (Reconcile L req) n s))"
  by (rule exec_upto_invariant [where I = "\<lambda>s. tended L req sp (store s)"])
    (use assms in \<open>auto intro: tended_step run_harmless\<close>)

end

lemma tended_disturbed:
  assumes "disturbed L store req sp s s1" "tended L req sp (store s)"
  shows "tended L req sp (store s1)"
  using assms
  by induction (auto intro: api_server.tended_interrupted api_server.tended_step)

context healthy_server
begin

lemma recovers:
  assumes "tended L req sp (store s)"
  shows "\<exists>s'. exec srv (Reconcile L req) s = (Return \<lparr>Requeue = True\<rparr> None, s') \<and> served L req (store s')"
proof -
  from assms obtain m where m: "store s (mkKey NFSProvisionerK req) = Some (NFSProvisionerO m)"
    "IsZero L (om_deletionTimestamp (nfs_meta m))" "serviceable L (store s) m" by (rule tendedE)
  from Reconcile_converges_lemma [OF this] converges_served [OF m] show ?thesis
    by (auto simp: reconciled_def)
qed

end

text \<open>
  Recovery: from any state a cluster gets into from one in which the resource is
  live, valid and can be served, by runs of the operator that stop after any number
  of calls, on servers that fail in any way, and by clients that create, change and
  delete whatever they like except the resource's spec, the resource itself and the
  claim it names, one complete run on a server that answers puts every required
  object and the finalizer in place again.
\<close>

theorem Reconcile_recovers:
  assumes "healthy_server L srv store"
    and "store s (mkKey NFSProvisionerK req) = Some (NFSProvisionerO m)"
    and "IsZero L (om_deletionTimestamp (nfs_meta m))" and "serviceable L (store s) m"
    and "disturbed L store req (Spec m) s s1"
  shows "\<exists>s'. exec srv (Reconcile L req) s1 = (Return \<lparr>Requeue = True\<rparr> None, s') \<and> served L req (store s')"
proof -
  have "tended L req (Spec m) (store s)" using assms(2-4) by (simp add: tended_def)
  with assms(5) have "tended L req (Spec m) (store s1)" by (rule tended_disturbed)
  with assms(1) show ?thesis by (rule healthy_server.recovers)
qed


text \<open>
  A run that is refused the RoleBinding, then a client that deletes the ClusterRole
  the run has created.
\<close>

definition refusedRun :: "cluster \<Rightarrow> cluster" where
  "refusedRun s = exec_upto (refusing (StatusError ''Forbidden'' ''no'')
     (\<lambda>q. case q of Create (RoleBindingO _) \<Rightarrow> True | _ \<Rightarrow> False) mem_srv)
     (Reconcile demoLib demoReq) 100 s"

lemma refused_contract: "api_server demoLib (refusing (StatusError ''Forbidden'' ''no'') P mem_srv) mem_store"
  by (rule refusing_contract [OF healthy_server.axioms(1) [OF demo_healthy]]) (simp add: demoLib_def std_lib_def)

lemma demo_disturbed:
  "disturbed demoLib mem_store demoReq demoSpec (demoCluster demoSpec [] None)
     (snd (mem_srv (Delete (ClusterRoleO (clusterRoleForNFSProvisioner demoLib (demoCR demoSpec [] None))))
       (refusedRun (demoCluster demoSpec [] None))))"
proof (rule interfered)
  show "disturbed demoLib mem_store demoReq demoSpec (demoCluster demoSpec [] None)
      (refusedRun (demoCluster demoSpec [] None))"
    unfolding refusedRun_def by (rule interrupted [OF calm refused_contract])
  show "api_server demoLib mem_srv mem_store" by (rule healthy_server.axioms(1) [OF demo_healthy])
  show "harmless demoReq demoSpec (Delete (ClusterRoleO (clusterRoleForNFSProvisioner demoLib (demoCR demoSpec [] None))))"
    by (simp add: key_of_def)
qed

lemma Reconcile_recovers_witness:
  "\<exists>s'. exec mem_srv (Reconcile demoLib demoReq)
       (snd (mem_srv (Delete (ClusterRoleO (clusterRoleForNFSProvisioner demoLib (demoCR demoSpec [] None))))
         (refusedRun (demoCluster demoSpec [] None)))) = (Return \<lparr>Requeue = True\<rparr> None, s') \<and>
     served demoLib demoReq (mem_store s')"
proof -
  let ?m = "demoCR demoSpec [] None"
  have "IsZero demoLib (om_deletionTimestamp (nfs_meta ?m))"
    "serviceable demoLib (mem_store (demoCluster demoSpec [] None)) ?m" "Spec ?m = demoSpec"
    by code_simp+
  with Reconcile_recovers [OF demo_healthy demo_fetched _ _ _] demo_disturbed show ?thesis by metis
qed

section \<open>What is lost without the finalizer\<close>

context healthy_server
begin

lemma missing_run:
  assumes "store s (mkKey NFSProvisionerK req) = None"
  shows "store (reconciled srv L req s) = store s"
proof (cases rule: get_cases [of NFSProvisionerK req s])
  case (found x s1)
  with assms show ?thesis by simp
next
  case (absent e s1)
  let ?q = "LogInfo (RLog req) ''NFSProvisioner resource not found. Ignoring since object must be deleted'' []"
  obtain r s2 where "srv ?q s1 = (r, s2)" "store s2 = store s1"
    by (rule log_call [of ?q s1]) simp_all
  with absent show ?thesis
    by (simp add: reconciled_def Reconcile_def Reconcile_body_def fetchNFSProvisioner_def
        exec_prog_bind exec_andthen logInfo_def returns_def)
qed

lemma missing_runs:
  "store s (mkKey NFSProvisionerK req) = None \<Longrightarrow> store ((reconciled srv L req ^^ n) s) = store s"
  by (induction n) (simp_all add: missing_run)

text \<open>
  The point of a run between the last creation and the finalizer: the controller can be
  stopped there.
\<close>

lemma created_so_far:
  assumes cr: "store s (mkKey NFSProvisionerK req) = Some (NFSProvisionerO m)"
    and live: "IsZero L (om_deletionTimestamp (nfs_meta m))" and ok: "serviceable L (store s) m"
  shows "\<exists>k. ensured (built L m) (required_keys m) (store s) (store (exec_upto srv (Reconcile L req) k s))"
proof (cases rule: get_cases [of NFSProvisionerK req s])
  case (found x s1)
  with cr have x: "x = NFSProvisionerO m" by simp
  obtain s2 where s2: "exec srv (ensureAll L (RLog req) m) s1 = (Inr (), s2)"
    "ensured (built L m) (required_keys m) (store s1) (store s2)"
    by (rule ensureAll_exec [of s1 m]) (use ok found(3) fetched_namespace [OF cr] in simp_all)
  let ?l = "length (fst (traced srv (ensureAll L (RLog req) m) s1))"
  let ?rest = "\<lambda>_. finalizeNFSProvisioner L (RLog req) m"
  let ?finish = "\<lambda>x. case x of Inl r \<Rightarrow> Ret r | Inr _ \<Rightarrow> Ret (Return \<lparr>Requeue = True\<rparr> None)"
  have "exec_upto srv (Reconcile L req) (Suc ?l) s =
      exec_upto srv (prog_bind (andthen (ensureAll L (RLog req) m) ?rest) ?finish) ?l s1"
    using found(1) ok x by (simp add: Reconcile_def Reconcile_body_def fetchNFSProvisioner_def
        rejectInvalid_def proceed_def serviceable_def)
  also have "\<dots> = exec_upto srv (prog_bind (ensureAll L (RLog req) m)
      (\<lambda>y. prog_bind (case y of Inl e \<Rightarrow> Ret (Inl e) | Inr a \<Rightarrow> ?rest a) ?finish)) ?l s1"
    by (simp add: andthen_def prog_bind_assoc)
  also have "\<dots> = s2" using exec_upto_prog_bind [OF s2(1), of _ 0] by simp
  finally show ?thesis using s2(2) found(3) by (intro exI [of _ "Suc ?l"]) simp
next
  case (absent e s1)
  with cr show ?thesis by simp
qed

lemma unprotected_deletion:
  assumes cr: "store s (mkKey NFSProvisionerK req) = Some (NFSProvisionerO m)" and "om_finalizers (nfs_meta m) = []"
  shows "store ((reconciled srv L req ^^ n) (snd (srv (Delete (NFSProvisionerO m)) s))) = (store s)(crKey m := None)"
proof -
  have here: "store s (key_of (NFSProvisionerO m)) = Some (NFSProvisionerO m)"
    using cr key_of_fetched [OF cr] by simp
  then obtain y s' where d: "srv (Delete (NFSProvisionerO m)) s = (Inr y, s')"
    using delete_accepts by (metis prod.collapse)
  from delete_ok [OF d] here assms(2) have "store s' = (store s)(crKey m := None)" by auto
  with d key_of_fetched [OF cr] missing_runs [of s' req n] show ?thesis by simp
qed

end

text \<open>
  C22. The finalizer is added after the cluster-wide roles are created, and until then
  nothing protects them.  On a healthy server, take a run for a new resource: live, with
  a valid spec and its named claim (\<open>serviceable\<close>) and without finalizers, while the
  ClusterRole does not exist yet.  There is a point before the end of this run such that, if the
  controller is stopped there and the resource deleted, the run has created the
  ClusterRole and the ClusterRoleBinding, the resource is gone, and they and all other
  objects stay as they are through any number of further runs.
\<close>

theorem Reconcile_unprotected_deletion:
  assumes "healthy_server L srv store"
    and "store s (mkKey NFSProvisionerK req) = Some (NFSProvisionerO m)"
    and "IsZero L (om_deletionTimestamp (nfs_meta m))" and "serviceable L (store s) m"
    and "om_finalizers (nfs_meta m) = []" and "store s roleKey = None"
  shows "\<exists>k. let s1 = exec_upto srv (Reconcile L req) k s; s2 = snd (srv (Delete (NFSProvisionerO m)) s1)
    in k < length (fst (traced srv (Reconcile L req) s)) \<and>
       store s1 roleKey \<noteq> None \<and> store s1 bindingKey \<noteq> None \<and>
       (\<forall>n. store ((reconciled srv L req ^^ n) s2) = (store s1)(crKey m := None))"
proof -
  from healthy_server.created_so_far [OF assms(1-4)] obtain k where
    k: "ensured (built L m) (required_keys m) (store s) (store (exec_upto srv (Reconcile L req) k s))" by blast
  let ?s1 = "exec_upto srv (Reconcile L req) k s"
  have cr: "store ?s1 (mkKey NFSProvisionerK req) = Some (NFSProvisionerO m)"
    by (rule ensured_keeps [OF k assms(2)])
  have "k < length (fst (traced srv (Reconcile L req) s))"
  proof (rule ccontr)
    assume "\<not> ?thesis"
    then have "?s1 = reconciled srv L req s" by (simp add: exec_upto_all reconciled_def)
    with cr healthy_server.converges_served [OF assms(1-4)] assms(5) show False by (auto simp: served_def)
  qed
  moreover have "store ?s1 roleKey \<noteq> None" "store ?s1 bindingKey \<noteq> None"
    using ensured_exists [OF k] healthy_server.roles_required [OF assms(1)] by blast+
  ultimately show ?thesis
    using healthy_server.unprotected_deletion [OF assms(1) cr assms(5)] unfolding Let_def by blast
qed

lemma Reconcile_unprotected_deletion_witness:
  "\<exists>k. let s = exec_upto mem_srv (Reconcile demoLib demoReq) k (demoCluster demoSpec [] None)
     in mem_store ((reconciled mem_srv demoLib demoReq ^^ 3)
          (snd (mem_srv (Delete (NFSProvisionerO (demoCR demoSpec [] None))) s))) roleKey \<noteq> None"
proof -
  let ?m = "demoCR demoSpec [] None"
  have "IsZero demoLib (om_deletionTimestamp (nfs_meta ?m))"
    "serviceable demoLib (mem_store (demoCluster demoSpec [] None)) ?m" "om_finalizers (nfs_meta ?m) = []"
    "mem_store (demoCluster demoSpec [] None) roleKey = None"
    by code_simp+
  from Reconcile_unprotected_deletion [OF demo_healthy demo_fetched this] obtain k where
    k: "mem_store (exec_upto mem_srv (Reconcile demoLib demoReq) k (demoCluster demoSpec [] None)) roleKey \<noteq> None"
    "mem_store ((reconciled mem_srv demoLib demoReq ^^ 3) (snd (mem_srv (Delete (NFSProvisionerO ?m))
       (exec_upto mem_srv (Reconcile demoLib demoReq) k (demoCluster demoSpec [] None))))) =
     (mem_store (exec_upto mem_srv (Reconcile demoLib demoReq) k (demoCluster demoSpec [] None)))(crKey ?m := None)"
    unfolding Let_def by blast
  then show ?thesis unfolding Let_def by (intro exI [of _ k]) simp
qed

section \<open>What is lost when a lookup fails\<close>

text \<open>A server whose lookups of the cluster-wide roles fail, as in a short outage.\<close>

definition outage :: "go_error \<Rightarrow> (request \<Rightarrow> 's \<Rightarrow> response \<times> 's) \<Rightarrow> request \<Rightarrow> 's \<Rightarrow> response \<times> 's" where
  "outage e srv = refusing e (\<lambda>q. case q of Get k _ \<Rightarrow> k \<in> {ClusterRoleK, ClusterRoleBindingK} | _ \<Rightarrow> False) srv"

lemma outage_simps [simp]:
  "outage e srv (Get ClusterRoleK n) s = (Inl e, s)"
  "outage e srv (Get ClusterRoleBindingK n) s = (Inl e, s)"
  "outage e srv (LogInfo lg msg kvs) s = srv (LogInfo lg msg kvs) s"
  "outage e srv (Update x) s = srv (Update x) s"
  by (simp_all add: outage_def refusing_def)

lemma outage_cleanup: "exec (outage e srv) (deleteExternalResources m) s = (Inr (), s)"
  by (simp add: deleteExternalResources_def deleteIfFound_def)

context healthy_server
begin

lemma outage_releases:
  assumes cr: "store s (mkKey NFSProvisionerK req) = Some (NFSProvisionerO m)"
    and del: "\<not> IsZero L (om_deletionTimestamp (nfs_meta m))" "om_finalizers (nfs_meta m) = [finalizerName]"
  shows "\<exists>s'. exec (outage e srv) (finalizeNFSProvisioner L lg m) s = (Inl (Return \<lparr>Requeue = False\<rparr> None), s') \<and>
    store s' = (store s)(crKey m := None)"
proof -
  let ?log = "LogInfo lg ''Removing Finalizer for the NFSProvisioner'' []"
  obtain r s1 where log: "srv ?log s = (r, s1)" "store s1 = store s" by (rule log_call [of ?log s]) simp_all
  let ?x = "NFSProvisionerO (m\<lparr>nfs_meta := RemoveFinalizer L (nfs_meta m) finalizerName\<rparr>)"
  have key: "key_of ?x = crKey m" by (simp add: key_of_def)
  then have here: "store s1 (key_of ?x) = Some (NFSProvisionerO m)"
    using cr key_of_fetched [OF cr] log(2) by simp
  then obtain y s2 where u: "srv (Update ?x) s1 = (Inr y, s2)"
    using update_accepts by (metis prod.collapse)
  from update_ok [OF u] here del key log(2) have "store s2 = (store s)(crKey m := None)"
    by (simp add: removeFinalizer)
  with log u del show ?thesis
    by (intro exI [of _ s2])
      (simp add: finalizeNFSProvisioner_def exec_prog_bind outage_cleanup logInfo_def returns_def Let_def)
qed

end

text \<open>
  C23. The clean-up takes every failed lookup for absence: when the lookups of the
  cluster-wide roles fail, with whatever error, the run releases the resource and ends
  without an error, although nothing was deleted; the resource is gone, and no later
  run, of which there may be any number, deletes anything.
\<close>

theorem Reconcile_releases_on_failed_lookup:
  assumes "healthy_server L srv store"
    and "store s (mkKey NFSProvisionerK req) = Some (NFSProvisionerO m)"
    and "\<not> IsZero L (om_deletionTimestamp (nfs_meta m))" and "om_finalizers (nfs_meta m) = [finalizerName]"
  shows "\<exists>s'. exec (outage e srv) (finalizeNFSProvisioner L (RLog req) m) s =
      (Inl (Return \<lparr>Requeue = False\<rparr> None), s') \<and>
    store ((reconciled srv L req ^^ n) s') = (store s)(crKey m := None)"
proof -
  from healthy_server.outage_releases [OF assms(1), OF assms(2-4)] obtain s' where
    s': "exec (outage e srv) (finalizeNFSProvisioner L (RLog req) m) s = (Inl (Return \<lparr>Requeue = False\<rparr> None), s')"
      "store s' = (store s)(crKey m := None)" by blast
  have "mkKey NFSProvisionerK req = crKey m"
    by (rule healthy_server.key_of_fetched [OF assms(1), OF assms(2)])
  with healthy_server.missing_runs [OF assms(1), of s' req n] s' show ?thesis by auto
qed

definition deletedCluster :: cluster where
  "deletedCluster = cluster_of [NFSProvisionerO (demoCR demoSpec [finalizerName] (Some 1)),
     ClusterRoleO (clusterRoleForNFSProvisioner demoLib (demoCR demoSpec [] None))] []"

lemma Reconcile_releases_on_failed_lookup_witness:
  "\<exists>s'. exec (outage (Errorf ''timeout'') mem_srv)
       (finalizeNFSProvisioner demoLib (RLog demoReq) (demoCR demoSpec [finalizerName] (Some 1))) deletedCluster =
       (Inl (Return \<lparr>Requeue = False\<rparr> None), s') \<and>
     mem_store ((reconciled mem_srv demoLib demoReq ^^ 3) s') roleKey \<noteq> None"
proof -
  let ?m = "demoCR demoSpec [finalizerName] (Some 1)"
  have "mem_store deletedCluster (mkKey NFSProvisionerK demoReq) = Some (NFSProvisionerO ?m)"
    "\<not> IsZero demoLib (om_deletionTimestamp (nfs_meta ?m))" "om_finalizers (nfs_meta ?m) = [finalizerName]"
    "mem_store deletedCluster roleKey \<noteq> None" "roleKey \<noteq> crKey ?m"
    by code_simp+
  with Reconcile_releases_on_failed_lookup [OF demo_healthy this(1-3), of "Errorf ''timeout''" 3]
  show ?thesis by (auto simp del: not_None_eq)
qed

end
