(* ===== verification/NfsLifecycle.thy ===== *)
theory NfsLifecycle
  imports NfsRecovery
begin

text \<open>
  The abstract specification of the finished controller: the life cycle of one
  resource as a small state machine over the set of existing keys, and the proof
  that runs of \<open>Reconcile\<close> on a healthy server implement it step by step.
\<close>

section \<open>The abstract machine\<close>

text \<open>
  A live resource carries the operator's finalizer or not; one under deletion
  carries it or not, and other finalizers or not.
\<close>

datatype phase = Gone | Invalid | Live bool | Deleting bool bool

record lifecycle =
  lc_phase :: phase
  lc_wants :: "key set"
  lc_keys :: "key set"

definition spec_reconcile :: "lifecycle \<Rightarrow> lifecycle" where
  "spec_reconcile c = (case lc_phase c of
     Gone \<Rightarrow> c
   | Invalid \<Rightarrow> c
   | Live _ \<Rightarrow> c\<lparr>lc_phase := Live True, lc_keys := lc_keys c \<union> lc_wants c\<rparr>
   | Deleting True True \<Rightarrow>
       c\<lparr>lc_phase := Deleting False True, lc_keys := lc_keys c \<union> lc_wants c - {roleKey, bindingKey}\<rparr>
   | Deleting True False \<Rightarrow>
       \<lparr>lc_phase = Gone, lc_wants = {}, lc_keys = lc_keys c \<union> lc_wants c - {roleKey, bindingKey}\<rparr>
   | Deleting False _ \<Rightarrow> c\<lparr>lc_keys := lc_keys c \<union> lc_wants c\<rparr>)"

definition spec_result :: "lifecycle \<Rightarrow> ret" where
  "spec_result c = Return \<lparr>Requeue = (case lc_phase c of Live _ \<Rightarrow> True | _ \<Rightarrow> False)\<rparr> None"

section \<open>The abstraction\<close>

definition phase_of :: "lib \<Rightarrow> NFSProvisioner \<Rightarrow> phase" where
  "phase_of L m =
     (if validate m \<noteq> None then Invalid
      else if IsZero L (om_deletionTimestamp (nfs_meta m))
      then Live (finalizerName \<in> set (om_finalizers (nfs_meta m)))
      else Deleting (finalizerName \<in> set (om_finalizers (nfs_meta m)))
             (filter (\<lambda>g. g \<noteq> finalizerName) (om_finalizers (nfs_meta m)) \<noteq> []))"

definition lifecycle_of :: "lib \<Rightarrow> NamespacedName \<Rightarrow> (key \<Rightarrow> kobj option) \<Rightarrow> lifecycle" where
  "lifecycle_of L req f = (case f (mkKey NFSProvisionerK req) of
     Some (NFSProvisionerO m) \<Rightarrow>
       \<lparr>lc_phase = phase_of L m, lc_wants = required_keys m, lc_keys = dom f - {mkKey NFSProvisionerK req}\<rparr>
   | _ \<Rightarrow> \<lparr>lc_phase = Gone, lc_wants = {}, lc_keys = dom f - {mkKey NFSProvisionerK req}\<rparr>)"

text \<open>
  What the refinement rests on, and every run keeps: a valid resource can be
  served, and the two cluster-wide roles carry no finalizers.
\<close>

definition ready :: "lib \<Rightarrow> NamespacedName \<Rightarrow> (key \<Rightarrow> kobj option) \<Rightarrow> bool" where
  "ready L req f \<longleftrightarrow> removable {roleKey, bindingKey} f \<and>
     (case f (mkKey NFSProvisionerK req) of
        Some (NFSProvisionerO m) \<Rightarrow> validate m = None \<longrightarrow> serviceable L f m
      | _ \<Rightarrow> True)"

lemma ensured_union: "ensured B K f g \<Longrightarrow> dom g = dom f \<union> K"
proof (rule set_eqI)
  fix k
  assume "ensured B K f g"
  then show "k \<in> dom g \<longleftrightarrow> k \<in> dom f \<union> K"
    unfolding ensured_def by (cases "k \<in> K") (metis UnCI domIff, metis UnE UnI1 domIff)
qed

lemma lifecycle_cr:
  "f (mkKey NFSProvisionerK req) = Some (NFSProvisionerO m) \<Longrightarrow> lifecycle_of L req f =
     \<lparr>lc_phase = phase_of L m, lc_wants = required_keys m, lc_keys = dom f - {mkKey NFSProvisionerK req}\<rparr>"
  "f (mkKey NFSProvisionerK req) = None \<Longrightarrow> lifecycle_of L req f =
     \<lparr>lc_phase = Gone, lc_wants = {}, lc_keys = dom f - {mkKey NFSProvisionerK req}\<rparr>"
  by (simp_all add: lifecycle_of_def)

lemma serviceable_grows:
  assumes "serviceable L f m" "claimKey m \<in> dom f \<Longrightarrow> claimKey m \<in> dom g"
    and "Spec m' = Spec m" "nfsNamespace m' = nfsNamespace m"
  shows "serviceable L g m'"
  using assms by (auto simp: serviceable_def claimKey_def validate_def Let_def dom_def)

lemma phase_refinalized:
  assumes "refinalized m fs m'"
  shows "phase_of L m' =
     (if validate m \<noteq> None then Invalid
      else if IsZero L (om_deletionTimestamp (nfs_meta m)) then Live (finalizerName \<in> set fs)
      else Deleting (finalizerName \<in> set fs) (filter (\<lambda>g. g \<noteq> finalizerName) fs \<noteq> []))"
  using refinalized_spec [OF assms] assms by (simp add: phase_of_def refinalized_def)


section \<open>One run\<close>

text \<open>One run from the state \<open>s\<close> does what the abstract machine does, and keeps \<open>ready\<close>.\<close>

definition implements :: "(request \<Rightarrow> 's \<Rightarrow> response \<times> 's) \<Rightarrow> ('s \<Rightarrow> key \<Rightarrow> kobj option) \<Rightarrow> lib \<Rightarrow>
    NamespacedName \<Rightarrow> 's \<Rightarrow> bool" where
  "implements srv store L req s \<longleftrightarrow>
     fst (exec srv (Reconcile L req) s) = spec_result (lifecycle_of L req (store s)) \<and>
     lifecycle_of L req (store (reconciled srv L req s)) = spec_reconcile (lifecycle_of L req (store s)) \<and>
     ready L req (store (reconciled srv L req s))"

context healthy_server
begin

lemma cr_or_missing:
  obtains (cr) m where "store s (mkKey NFSProvisionerK req) = Some (NFSProvisionerO m)"
  | (missing) "store s (mkKey NFSProvisionerK req) = None"
proof (cases "store s (mkKey NFSProvisionerK req)")
  case None
  then show thesis by (rule missing)
next
  case (Some x)
  from keyed [OF Some] have "kobj_kind x = NFSProvisionerK" by (simp add: key_of_def mkKey_def)
  with Some cr show thesis by (cases x) simp_all
qed

lemma store_lifecycle:
  "store s (mkKey NFSProvisionerK req) = Some (NFSProvisionerO m) \<Longrightarrow> lifecycle_of L req (store s) =
     \<lparr>lc_phase = phase_of L m, lc_wants = required_keys m, lc_keys = dom (store s) - {mkKey NFSProvisionerK req}\<rparr>"
  "store s (mkKey NFSProvisionerK req) = None \<Longrightarrow> lifecycle_of L req (store s) =
     \<lparr>lc_phase = Gone, lc_wants = {}, lc_keys = dom (store s) - {mkKey NFSProvisionerK req}\<rparr>"
  by (simp_all add: lifecycle_cr)

lemma missing_exec:
  assumes "store s (mkKey NFSProvisionerK req) = None"
  shows "fst (exec srv (Reconcile L req) s) = Return \<lparr>Requeue = False\<rparr> None"
proof (cases rule: get_cases [of NFSProvisionerK req s])
  case (found x s1)
  with assms show ?thesis by simp
next
  case (absent e s1)
  then show ?thesis
    by (simp add: Reconcile_def Reconcile_body_def fetchNFSProvisioner_def exec_prog_bind exec_andthen
        logInfo_def returns_def split: prod.split)
qed

text \<open>From what is known of the resource before and after the run.\<close>

lemma implements_cr:
  assumes "store s (mkKey NFSProvisionerK req) = Some (NFSProvisionerO m)"
    and "exec srv (Reconcile L req) s = (spec_result c, s')"
    and "store s' (mkKey NFSProvisionerK req) = Some (NFSProvisionerO m')"
    and "c = \<lparr>lc_phase = phase_of L m, lc_wants = required_keys m, lc_keys = dom (store s) - {mkKey NFSProvisionerK req}\<rparr>"
    and "spec_reconcile c = \<lparr>lc_phase = phase_of L m', lc_wants = required_keys m',
      lc_keys = dom (store s') - {mkKey NFSProvisionerK req}\<rparr>"
    and "removable {roleKey, bindingKey} (store s')" "validate m' = None \<Longrightarrow> serviceable L (store s') m'"
  shows "implements srv store L req s"
  using assms(2,4-7) store_lifecycle(1) [OF assms(1)] store_lifecycle(1) [OF assms(3)] assms(3)
  by (simp add: implements_def reconciled_def ready_def)

lemma implements_missing:
  assumes "store s (mkKey NFSProvisionerK req) = None" "ready L req (store s)"
  shows "implements srv store L req s"
  using assms missing_run [OF assms(1)] missing_exec [OF assms(1)]
  by (simp add: implements_def store_lifecycle spec_result_def spec_reconcile_def)

lemma implements_invalid:
  assumes cr: "store s (mkKey NFSProvisionerK req) = Some (NFSProvisionerO m)" and bad: "validate m \<noteq> None"
    and "ready L req (store s)"
  shows "implements srv store L req s"
proof -
  let ?m = "m\<lparr>Status := \<lparr>Nodes = Some [], Error = specMessage m\<rparr>\<rparr>"
  note run = conjunct1 [OF Reconcile_invalid_exec [OF cr bad]]
    and st = conjunct2 [OF Reconcile_invalid_exec [OF cr bad]]
  have v: "validate ?m = validate m" "required_keys ?m = required_keys m"
    by (simp_all add: validate_def required_keys_def required_def)
  show ?thesis
  proof (rule implements_cr [OF cr])
    show "exec srv (Reconcile L req) s = (spec_result \<lparr>lc_phase = phase_of L m, lc_wants = required_keys m,
        lc_keys = dom (store s) - {mkKey NFSProvisionerK req}\<rparr>, reconciled srv L req s)"
      using run bad by (simp add: spec_result_def phase_of_def)
    show "store (reconciled srv L req s) (mkKey NFSProvisionerK req) = Some (NFSProvisionerO ?m)"
      using st key_of_fetched [OF cr] by simp
    show "spec_reconcile \<lparr>lc_phase = phase_of L m, lc_wants = required_keys m,
        lc_keys = dom (store s) - {mkKey NFSProvisionerK req}\<rparr> =
      \<lparr>lc_phase = phase_of L ?m, lc_wants = required_keys ?m,
        lc_keys = dom (store (reconciled srv L req s)) - {mkKey NFSProvisionerK req}\<rparr>"
      using st bad v key_of_fetched [OF cr] by (auto simp: spec_reconcile_def phase_of_def)
    show "removable {roleKey, bindingKey} (store (reconciled srv L req s))"
      using assms(3) st by (auto simp: ready_def removable_def)
    show "validate ?m = None \<Longrightarrow> serviceable L (store (reconciled srv L req s)) ?m"
      using v bad by simp
  qed (rule refl)
qed

end


context healthy_server
begin

lemma ready_serviceable:
  assumes "store s (mkKey NFSProvisionerK req) = Some (NFSProvisionerO m)" "ready L req (store s)" "validate m = None"
  shows "serviceable L (store s) m" "removable {roleKey, bindingKey} (store s)"
  using assms by (simp_all add: ready_def)

lemma claim_not_role: "claimKey m \<noteq> roleKey" "claimKey m \<noteq> bindingKey" "claimKey m \<noteq> mkKey NFSProvisionerK req"
  by (simp_all add: claimKey_def)

lemma cr_not_role: "mkKey NFSProvisionerK req \<noteq> roleKey" "mkKey NFSProvisionerK req \<noteq> bindingKey"
  by simp_all

text \<open>The resource after the run, when the store is otherwise \<open>g\<close>.\<close>

lemma implements_grown:
  assumes cr: "store s (mkKey NFSProvisionerK req) = Some (NFSProvisionerO m)" and ok: "validate m = None"
    and r: "ready L req (store s)"
    and run: "exec srv (Reconcile L req) s = (spec_result c, s')"
    and c: "c = \<lparr>lc_phase = phase_of L m, lc_wants = required_keys m, lc_keys = dom (store s) - {mkKey NFSProvisionerK req}\<rparr>"
    and m': "refinalized m fs m'" and g: "store s' = g(mkKey NFSProvisionerK req \<mapsto> NFSProvisionerO m')"
    and dom: "dom g = dom (store s) \<union> required_keys m - R" "R \<subseteq> {roleKey, bindingKey}"
    and rem: "removable {roleKey, bindingKey} g"
    and step: "spec_reconcile c = \<lparr>lc_phase = phase_of L m', lc_wants = required_keys m,
      lc_keys = lc_keys c \<union> required_keys m - R\<rparr>"
  shows "implements srv store L req s"
proof (rule implements_cr [OF cr run _ c])
  show "store s' (mkKey NFSProvisionerK req) = Some (NFSProvisionerO m')" using g by simp
  have "mkKey NFSProvisionerK req \<notin> required_keys m" using required_kinds by fastforce
  then show "spec_reconcile c = \<lparr>lc_phase = phase_of L m', lc_wants = required_keys m',
      lc_keys = dom (store s') - {mkKey NFSProvisionerK req}\<rparr>"
    using step c g dom refinalized_spec [OF m'] by auto
  show "removable {roleKey, bindingKey} (store s')"
    using rem g by (auto simp: removable_def)
  have "serviceable L (store s) m" using ready_serviceable [OF cr r ok] by blast
  moreover have "claimKey m \<in> dom (store s')" if "claimKey m \<in> dom (store s)"
    using that dom g claim_not_role by (auto simp del: domIff)
  ultimately show "serviceable L (store s') m'"
    using refinalized_spec [OF m'] by (auto intro: serviceable_grows)
qed

lemma implements_live:
  assumes cr: "store s (mkKey NFSProvisionerK req) = Some (NFSProvisionerO m)" and ok: "validate m = None"
    and r: "ready L req (store s)" and live: "IsZero L (om_deletionTimestamp (nfs_meta m))"
  shows "implements srv store L req s"
proof -
  note serviceable = ready_serviceable [OF cr r ok]
  from Reconcile_converges_lemma [OF cr live serviceable(1)] obtain s' f m' where
    run: "exec srv (Reconcile L req) s = (Return \<lparr>Requeue = True\<rparr> None, s')"
    and f: "ensured (built L m) (required_keys m) (store s) f" "store s' = f(crKey m \<mapsto> NFSProvisionerO m')"
    and m': "refinalized m (om_finalizers (AddFinalizer L (nfs_meta m) finalizerName)) m'" by blast
  show ?thesis
  proof (rule implements_grown [OF cr ok r _ refl m'])
    show "store s' = f(mkKey NFSProvisionerK req \<mapsto> NFSProvisionerO m')"
      using f(2) key_of_fetched [OF cr] by simp
    show "dom f = dom (store s) \<union> required_keys m - {}" using ensured_union [OF f(1)] by simp
    show "removable {roleKey, bindingKey} f" by (rule removable_ensured [OF serviceable(2) f(1)])
  qed (use run ok live phase_refinalized [OF m'] in \<open>simp_all add: spec_result_def spec_reconcile_def phase_of_def\<close>)
qed

end


context healthy_server
begin

lemma implements_kept:
  assumes cr: "store s (mkKey NFSProvisionerK req) = Some (NFSProvisionerO m)" and ok: "validate m = None"
    and r: "ready L req (store s)" and del: "\<not> IsZero L (om_deletionTimestamp (nfs_meta m))"
    and fin: "finalizerName \<notin> set (om_finalizers (nfs_meta m))"
  shows "implements srv store L req s"
proof -
  note serviceable = ready_serviceable [OF cr r ok]
  from Reconcile_recreates [OF cr del serviceable(1) fin] obtain s' where
    run: "exec srv (Reconcile L req) s = (Return \<lparr>Requeue = False\<rparr> None, s')"
    and f: "ensured (built L m) (required_keys m) (store s) (store s')" by blast
  have m': "refinalized m (om_finalizers (nfs_meta m)) m" by (simp add: refinalized_def)
  show ?thesis
  proof (rule implements_grown [OF cr ok r _ refl m'])
    show "store s' = (store s')(mkKey NFSProvisionerK req \<mapsto> NFSProvisionerO m)"
      using ensured_keeps [OF f cr] by (simp add: fun_upd_idem)
    show "dom (store s') = dom (store s) \<union> required_keys m - {}" using ensured_union [OF f] by simp
    show "removable {roleKey, bindingKey} (store s')" by (rule removable_ensured [OF serviceable(2) f])
  qed (use run ok del fin in \<open>simp_all add: spec_result_def spec_reconcile_def phase_of_def\<close>)
qed

lemma implements_released:
  assumes cr: "store s (mkKey NFSProvisionerK req) = Some (NFSProvisionerO m)" and ok: "validate m = None"
    and r: "ready L req (store s)" and del: "\<not> IsZero L (om_deletionTimestamp (nfs_meta m))"
    and fin: "finalizerName \<in> set (om_finalizers (nfs_meta m))"
  shows "implements srv store L req s"
proof -
  let ?fs = "filter (\<lambda>g. g \<noteq> finalizerName) (om_finalizers (nfs_meta m))" and ?R = "{roleKey, bindingKey}"
    and ?c = "\<lparr>lc_phase = phase_of L m, lc_wants = required_keys m, lc_keys = dom (store s) - {mkKey NFSProvisionerK req}\<rparr>"
  note serviceable = ready_serviceable [OF cr r ok]
  from Reconcile_deleted [OF cr del serviceable(1) fin serviceable(2)] obtain s' f where
    run: "exec srv (Reconcile L req) s = (Return \<lparr>Requeue = False\<rparr> None, s')"
    and f: "ensured (built L m) (required_keys m) (store s) f"
    and rel: "released m (f(roleKey := None, bindingKey := None)) (store s')" by blast
  let ?g = "f(roleKey := None, bindingKey := None)"
  have dom: "dom ?g = dom (store s) \<union> required_keys m - ?R" using ensured_union [OF f] by auto
  have rem: "removable ?R ?g" by (intro removable_del removable_ensured [OF serviceable(2) f])
  have phase: "phase_of L m = Deleting True (?fs \<noteq> [])" using ok del fin by (simp add: phase_of_def)
  show ?thesis
  proof (cases "?fs = []")
    case True
    with rel have s': "store s' = ?g(mkKey NFSProvisionerK req := None)"
      using key_of_fetched [OF cr] by (simp add: released_def)
    then have gone: "store s' (mkKey NFSProvisionerK req) = None" by simp
    have "mkKey NFSProvisionerK req \<notin> required_keys m" using required_kinds by fastforce
    then have "dom (store s') - {mkKey NFSProvisionerK req} =
        (dom (store s) - {mkKey NFSProvisionerK req}) \<union> required_keys m - ?R"
      using s' dom by auto
    moreover have "ready L req (store s')"
      using gone rem s' by (auto simp: ready_def removable_def)
    ultimately show ?thesis
      using run phase True store_lifecycle(2) [OF gone] store_lifecycle(1) [OF cr]
      by (simp add: implements_def reconciled_def spec_result_def spec_reconcile_def)
  next
    case False
    with rel obtain m' where s': "store s' = ?g(mkKey NFSProvisionerK req \<mapsto> NFSProvisionerO m')"
      and m': "refinalized m ?fs m'"
      using key_of_fetched [OF cr] by (auto simp: released_def Let_def)
    have "phase_of L m' = Deleting False True"
      using phase_refinalized [OF m'] ok del False by simp
    then show ?thesis
      using run phase False by (intro implements_grown [OF cr ok r _ refl m' s' dom _ rem])
        (simp_all add: spec_result_def spec_reconcile_def)
  qed
qed

lemma run_implements:
  assumes "ready L req (store s)"
  shows "implements srv store L req s"
proof (cases rule: cr_or_missing [of s req])
  case (cr m)
  with assms show ?thesis
    using implements_invalid implements_live implements_kept implements_released by blast
qed (use assms implements_missing in blast)

lemma runs_implement:
  assumes "ready L req (store s)"
  shows "ready L req (store ((reconciled srv L req ^^ n) s)) \<and>
    lifecycle_of L req (store ((reconciled srv L req ^^ n) s)) = (spec_reconcile ^^ n) (lifecycle_of L req (store s))"
  using assms
proof (induction n)
  case (Suc n)
  then have "implements srv store L req ((reconciled srv L req ^^ n) s)" by (blast intro: run_implements)
  with Suc show ?case by (simp add: implements_def)
qed simp

end

section \<open>Any number of runs\<close>

text \<open>
  C2. Refinement: on a healthy server, from a store in which a valid resource can be
  served and the cluster-wide roles carry no finalizers, any number of runs of
  \<open>Reconcile\<close> follow the abstract life cycle: the phase of the resource and the set
  of existing keys are those the abstract machine computes, and so is what the next
  run returns.
\<close>

theorem Reconcile_refines_lifecycle:
  assumes "healthy_server L srv store" and "ready L req (store s)"
  shows "lifecycle_of L req (store ((reconciled srv L req ^^ n) s)) =
      (spec_reconcile ^^ n) (lifecycle_of L req (store s)) \<and>
    fst (exec srv (Reconcile L req) ((reconciled srv L req ^^ n) s)) =
      spec_result ((spec_reconcile ^^ n) (lifecycle_of L req (store s)))"
proof
  note runs = healthy_server.runs_implement [OF assms(1), OF assms(2), of n]
  then show "lifecycle_of L req (store ((reconciled srv L req ^^ n) s)) =
      (spec_reconcile ^^ n) (lifecycle_of L req (store s))" by blast
  have "implements srv store L req ((reconciled srv L req ^^ n) s)"
    by (rule healthy_server.run_implements [OF assms(1)]) (use runs in blast)
  with runs show "fst (exec srv (Reconcile L req) ((reconciled srv L req ^^ n) s)) =
      spec_result ((spec_reconcile ^^ n) (lifecycle_of L req (store s)))"
    by (simp add: implements_def)
qed

lemma Reconcile_refines_lifecycle_witness:
  "lc_phase (lifecycle_of demoLib demoReq (mem_store
     ((reconciled mem_srv demoLib demoReq ^^ 2) (demoCluster demoSpec [finalizerName] (Some 5))))) = Gone"
proof -
  let ?m = "demoCR demoSpec [finalizerName] (Some 5)"
  let ?f = "mem_store (demoCluster demoSpec [finalizerName] (Some 5))"
  have "validate ?m = None \<longrightarrow> serviceable demoLib ?f ?m" by code_simp
  moreover have "removable {roleKey, bindingKey} ?f" by (rule removable_absent) simp_all
  ultimately have r: "ready demoLib demoReq ?f" by (simp add: ready_def)
  have "phase_of demoLib ?m = Deleting True False" by code_simp
  then have "lc_phase (lifecycle_of demoLib demoReq ?f) = Deleting True False" by (simp add: lifecycle_of_def)
  with Reconcile_refines_lifecycle [OF demo_healthy r, of 2] show ?thesis
    by (simp add: spec_reconcile_def numeral_2_eq_2)
qed

end
