(* ===== verification/NfsJson.thy ===== *)
theory NfsJson
  imports NfsObjects "HOL-Library.List_Lexorder" "HOL-Library.Char_ord"
begin

text \<open>
  The wire format of the custom resource: the \<open>json\<close> tags of
  \<open>7.nfsprovisioner_type.go\<close> and what \<open>encoding/json\<close> makes of them.  A field tagged
  \<open>omitempty\<close> is left out when it is empty, a missing or null field keeps the zero
  value, and unknown fields are ignored.

  Three simplifications.  Strings stand for valid UTF-8, on which writing and reading
  are the identity (\<open>encoding/json\<close> replaces invalid bytes).  Keys are matched exactly,
  as the serializer of the Kubernetes clients does; \<open>encoding/json\<close> on its own would
  ignore case.  Of a repeated field the last one counts; \<open>encoding/json\<close> merges repeated
  maps, which no encoder writes.
\<close>

section \<open>Values\<close>

datatype json =
    JNull
  | JString string
  | JArray "json list"
  | JObject "(string \<times> json) list"

definition omit_string :: "string \<Rightarrow> string \<Rightarrow> (string \<times> json) list" where
  "omit_string k v = (if v = '''' then [] else [(k, JString v)])"

definition omit_map :: "string \<Rightarrow> string_map option \<Rightarrow> (string \<times> json) list" where
  "omit_map k v = (case v of
     None \<Rightarrow> []
   | Some m \<Rightarrow> if m = fmempty then []
       else [(k, JObject (map (\<lambda>(a, b). (a, JString b)) (sorted_list_of_fmap m)))])"

definition field :: "(string \<times> json) list \<Rightarrow> string \<Rightarrow> json option" where
  "field xs k = map_of (rev xs) k"

text \<open>A decoder is given the field, if it is there, and fails on a value of another type.\<close>

fun get_string :: "json option \<Rightarrow> string option" where
  "get_string None = Some ''''"
| "get_string (Some JNull) = Some ''''"
| "get_string (Some (JString s)) = Some s"
| "get_string _ = None"

fun get_strings :: "json list \<Rightarrow> string list option" where
  "get_strings [] = Some []"
| "get_strings (j # js) =
     (case get_string (Some j) of None \<Rightarrow> None | Some s \<Rightarrow> map_option ((#) s) (get_strings js))"

fun get_slice :: "json option \<Rightarrow> string list option option" where
  "get_slice None = Some None"
| "get_slice (Some JNull) = Some None"
| "get_slice (Some (JArray js)) = map_option Some (get_strings js)"
| "get_slice _ = None"

fun get_pairs :: "(string \<times> json) list \<Rightarrow> (string \<times> string) list option" where
  "get_pairs [] = Some []"
| "get_pairs ((k, j) # xs) =
     (case get_string (Some j) of None \<Rightarrow> None | Some s \<Rightarrow> map_option ((#) (k, s)) (get_pairs xs))"

fun get_map :: "json option \<Rightarrow> string_map option option" where
  "get_map None = Some None"
| "get_map (Some JNull) = Some None"
| "get_map (Some (JObject xs)) = map_option (\<lambda>ps. Some (fmap_of_list (rev ps))) (get_pairs xs)"
| "get_map _ = None"

section \<open>The resource\<close>

definition encode_spec :: "NFSProvisionerSpec \<Rightarrow> json" where
  "encode_spec sp = JObject
     (omit_string ''hostPathDir'' (HostPathDir sp) @
      omit_string ''pvc'' (Pvc sp) @
      omit_string ''storageSize'' (StorageSize sp) @
      omit_string ''scForNFSPvc'' (SCForNFSPvc sp) @
      omit_map ''nodeSelector'' (NodeSelector sp) @
      omit_string ''scForNFS'' (SCForNFSProvisioner sp))"

definition decode_spec :: "json \<Rightarrow> NFSProvisionerSpec option" where
  "decode_spec j = (case j of
     JNull \<Rightarrow> Some (Spec zeroNFSProvisioner)
   | JObject xs \<Rightarrow>
       Option.bind (get_string (field xs ''hostPathDir'')) (\<lambda>hostPathDir.
       Option.bind (get_string (field xs ''pvc'')) (\<lambda>pvc.
       Option.bind (get_string (field xs ''storageSize'')) (\<lambda>storageSize.
       Option.bind (get_string (field xs ''scForNFSPvc'')) (\<lambda>scForNFSPvc.
       Option.bind (get_map (field xs ''nodeSelector'')) (\<lambda>nodeSelector.
       Option.bind (get_string (field xs ''scForNFS'')) (\<lambda>scForNFS. Some
         \<lparr>HostPathDir = hostPathDir, Pvc = pvc, StorageSize = storageSize, SCForNFSPvc = scForNFSPvc,
          NodeSelector = nodeSelector, SCForNFSProvisioner = scForNFS\<rparr>))))))
   | _ \<Rightarrow> None)"

definition encode_status :: "NFSProvisionerStatus \<Rightarrow> json" where
  "encode_status st = JObject
     [(''nodes'', case Nodes st of None \<Rightarrow> JNull | Some ns \<Rightarrow> JArray (map JString ns)),
      (''error'', JString (Error st))]"

definition decode_status :: "json \<Rightarrow> NFSProvisionerStatus option" where
  "decode_status j = (case j of
     JNull \<Rightarrow> Some (Status zeroNFSProvisioner)
   | JObject xs \<Rightarrow>
       Option.bind (get_slice (field xs ''nodes'')) (\<lambda>nodes.
       Option.bind (get_string (field xs ''error'')) (\<lambda>error. Some \<lparr>Nodes = nodes, Error = error\<rparr>))
   | _ \<Rightarrow> None)"

section \<open>Reading back what was written\<close>

text \<open>What the wire keeps of a spec: the empty node selector becomes the missing one.\<close>

definition wire_spec :: "NFSProvisionerSpec \<Rightarrow> NFSProvisionerSpec" where
  "wire_spec sp = sp\<lparr>NodeSelector := (if NodeSelector sp = Some fmempty then None else NodeSelector sp)\<rparr>"

lemma get_strings_map [simp]: "get_strings (map JString xs) = Some xs"
  by (induction xs) simp_all

lemma get_pairs_map [simp]: "get_pairs (map (\<lambda>(a, b). (a, JString b)) ps) = Some ps"
  by (induction ps) (auto split: prod.split)

lemma fmap_of_rev_sorted [simp]: "fmap_of_list (rev (sorted_list_of_fmap m)) = m"
proof (rule fmap_ext)
  fix k
  have d: "distinct (map fst (sorted_list_of_fmap m))"
    by (simp add: sorted_list_of_fmap_def comp_def sorted_list_of_fset.rep_eq)
  then have "distinct (map fst (rev (sorted_list_of_fmap m)))" by (simp add: rev_map [symmetric])
  from map_of_inject_set [OF this d]
  have "map_of (rev (sorted_list_of_fmap m)) = map_of (sorted_list_of_fmap m)"
    by (simp del: map_of_sorted_list)
  then show "fmlookup (fmap_of_list (rev (sorted_list_of_fmap m))) k = fmlookup m k"
    by (simp add: fmlookup_of_list)
qed

lemma field_append: "field (xs @ ys) k = (case field ys k of Some v \<Rightarrow> Some v | None \<Rightarrow> field xs k)"
  unfolding field_def by (simp add: map_add_def)

lemma field_omit [simp]:
  "field (omit_string k v) k' = (if k' = k \<and> v \<noteq> '''' then Some (JString v) else None)"
  "field [] k = None" "field [(k, j)] k' = (if k' = k then Some j else None)"
  by (simp_all add: field_def omit_string_def)

lemma field_omit_map: "k' \<noteq> k \<Longrightarrow> field (omit_map k v) k' = None"
  by (simp add: field_def omit_map_def split: option.split)

lemma get_omit [simp]:
  "get_string (if b \<and> v \<noteq> '''' then Some (JString v) else None) = Some (if b then v else '''')"
  "get_map (field (omit_map k w) k) = Some (if w = Some fmempty then None else w)"
  by (auto simp: field_def omit_map_def split: option.split)

lemma option_case_id [simp]: "(case x of None \<Rightarrow> None | Some v \<Rightarrow> Some v) = x"
  by (cases x) simp_all

lemma decode_encode_spec: "decode_spec (encode_spec sp) = Some (wire_spec sp)"
proof -
  let ?xs = "omit_string ''hostPathDir'' (HostPathDir sp) @ omit_string ''pvc'' (Pvc sp) @
      omit_string ''storageSize'' (StorageSize sp) @ omit_string ''scForNFSPvc'' (SCForNFSPvc sp) @
      omit_map ''nodeSelector'' (NodeSelector sp) @ omit_string ''scForNFS'' (SCForNFSProvisioner sp)"
  have "get_string (field ?xs ''hostPathDir'') = Some (HostPathDir sp)"
    "get_string (field ?xs ''pvc'') = Some (Pvc sp)"
    "get_string (field ?xs ''storageSize'') = Some (StorageSize sp)"
    "get_string (field ?xs ''scForNFSPvc'') = Some (SCForNFSPvc sp)"
    "get_string (field ?xs ''scForNFS'') = Some (SCForNFSProvisioner sp)"
    by (simp_all add: field_append field_omit_map)
  moreover have "get_map (field ?xs ''nodeSelector'') =
      Some (if NodeSelector sp = Some fmempty then None else NodeSelector sp)"
    by (simp only: field_append field_omit get_omit) simp
  ultimately show ?thesis by (simp add: decode_spec_def encode_spec_def wire_spec_def)
qed

lemma decode_encode_status: "decode_status (encode_status st) = Some st"
  by (cases "Nodes st") (simp_all add: decode_status_def encode_status_def field_def)


text \<open>
  C19. Round trip, for strings that are valid UTF-8: reading back what was written gives the status unchanged and the
  spec except that an empty node selector is missing afterwards.  Two specs are
  written alike exactly when they differ in nothing else, validation does not see
  the difference, and the pod does: with a host path the empty selector, which fits
  every node, becomes the default one.
\<close>

theorem resource_roundtrip:
  "decode_status (encode_status st) = Some st \<and>
   decode_spec (encode_spec sp) = Some (wire_spec sp) \<and>
   (encode_spec sp = encode_spec sp' \<longleftrightarrow> wire_spec sp = wire_spec sp') \<and>
   validate (m\<lparr>Spec := wire_spec (Spec m)\<rparr>) = validate m \<and>
   ps_nodeSelector (dep_podSpec (io_value (deploymentForNFSProvisioner L
       (m\<lparr>Spec := wire_spec (Spec m)\<rparr>) ''HOSTPATH''))) =
     Some (case NodeSelector (Spec m) of
        None \<Rightarrow> NodeSelector_default
      | Some ns \<Rightarrow> if ns = fmempty then NodeSelector_default else ns)"
proof (intro conjI decode_encode_status decode_encode_spec)
  have "encode_spec (wire_spec s) = encode_spec s" for s
    by (simp add: encode_spec_def wire_spec_def omit_map_def)
  then show "encode_spec sp = encode_spec sp' \<longleftrightarrow> wire_spec sp = wire_spec sp'"
    by (metis decode_encode_spec option.inject)
  show "validate (m\<lparr>Spec := wire_spec (Spec m)\<rparr>) = validate m"
    by (simp add: validate_def wire_spec_def)
  show "ps_nodeSelector (dep_podSpec (io_value (deploymentForNFSProvisioner L
       (m\<lparr>Spec := wire_spec (Spec m)\<rparr>) ''HOSTPATH''))) =
     Some (case NodeSelector (Spec m) of
        None \<Rightarrow> NodeSelector_default
      | Some ns \<Rightarrow> if ns = fmempty then NodeSelector_default else ns)"
    by (simp add: deploymentForNFSProvisioner_def getVolumeSpec_def io_value_def wire_spec_def Let_def
        split: option.split)
qed

end
