(* ===== verification/NfsWellformed.thy ===== *)
theory NfsWellformed
  imports NfsObjects Scenarios
begin

text \<open>
  Conditions the API server puts on new objects, as a predicate: form and length of the
  names, namespaces, label values, and the fields of one object that have to agree with
  each other.  It is a selection: the server also checks the syntax of the values that
  come from the spec of the resource (path of the host directory, names of storage
  classes, node selector), which the controller passes on as they are.
\<close>

section \<open>Well-formed objects\<close>

text \<open>A name of lower-case letters, digits and inner dashes, at most 63 characters long.\<close>

definition dns_label :: "string \<Rightarrow> bool" where
  "dns_label s \<longleftrightarrow> s \<noteq> '''' \<and> length s \<le> 63 \<and> hd s \<noteq> CHR ''-'' \<and> last s \<noteq> CHR ''-'' \<and>
     list_all (\<lambda>c. c \<in> set ''abcdefghijklmnopqrstuvwxyz0123456789-'') s"

text \<open>The value of a label has at most 63 characters.\<close>

definition short_labels :: "string_map option \<Rightarrow> bool" where
  "short_labels ls \<longleftrightarrow> (case ls of None \<Rightarrow> True | Some f \<Rightarrow> fmpred (\<lambda>_ v. length v \<le> 63) f)"

lemma short_labels_simps [simp]:
  "short_labels None" "short_labels (Some fmempty)"
  by (simp_all add: short_labels_def)

definition port_ok :: "int32 \<Rightarrow> bool" where
  "port_ok p \<longleftrightarrow> 0 < sint p \<and> sint p \<le> 65535"

text \<open>The protocol of a port is TCP unless it is given.\<close>

definition transport :: "string \<Rightarrow> string" where
  "transport p = (if p = '''' then ''TCP'' else p)"

definition pod_ok :: "PodSpec \<Rightarrow> bool" where
  "pod_ok ps \<longleftrightarrow> ps_containers ps \<noteq> [] \<and> distinct (map c_name (ps_containers ps)) \<and>
     distinct (map v_name (ps_volumes ps)) \<and>
     list_all (\<lambda>v. (vs_hostPath (v_source v) = None) \<noteq> (vs_claimName (v_source v) = None)) (ps_volumes ps) \<and>
     list_all (\<lambda>c. c_name c \<noteq> '''' \<and> c_image c \<noteq> '''' \<and> distinct (map cp_name (c_ports c)) \<and>
       list_all (\<lambda>p. port_ok (cp_containerPort p)) (c_ports c) \<and>
       distinct (map (\<lambda>p. (cp_containerPort p, transport (cp_protocol p))) (c_ports c)) \<and>
       list_all (\<lambda>vm. vm_name vm \<in> set (map v_name (ps_volumes ps))) (c_volumeMounts c)) (ps_containers ps)"

definition rule_ok :: "PolicyRule \<Rightarrow> bool" where
  "rule_ok r \<longleftrightarrow> pr_verbs r \<noteq> [] \<and> pr_apiGroups r \<noteq> [] \<and> pr_resources r \<noteq> []"

fun spec_ok :: "kobj \<Rightarrow> bool" where
  "spec_ok (DeploymentO d) \<longleftrightarrow>
     dep_matchLabels d \<noteq> None \<and> dep_matchLabels d = dep_templateLabels d \<and>
     short_labels (dep_matchLabels d) \<and> pod_ok (dep_podSpec d)"
| "spec_ok (ServiceO v) \<longleftrightarrow> svc_ports v \<noteq> [] \<and> distinct (map sp_name (svc_ports v)) \<and>
     list_all (\<lambda>p. port_ok (sp_port p)) (svc_ports v) \<and> short_labels (svc_selector v) \<and>
     distinct (map (\<lambda>p. (sp_port p, transport (sp_protocol p))) (svc_ports v))"
| "spec_ok (PersistentVolumeClaimO c) \<longleftrightarrow> pvc_accessModes c \<noteq> [] \<and>
     (case fmlookup (pvc_requests c) ''storage'' of None \<Rightarrow> False | Some q \<Rightarrow> 0 < q)"
| "spec_ok (ClusterRoleO r) \<longleftrightarrow> list_all rule_ok (role_rules r)"
| "spec_ok (RoleO r) \<longleftrightarrow> list_all rule_ok (role_rules r)"
| "spec_ok (ClusterRoleBindingO b) \<longleftrightarrow> rr_kind (rb_roleRef b) = ''ClusterRole'' \<and>
     rr_name (rb_roleRef b) \<noteq> '''' \<and> list_all (\<lambda>u. sub_name u \<noteq> '''' \<and> sub_namespace u \<noteq> '''') (rb_subjects b)"
| "spec_ok (RoleBindingO b) \<longleftrightarrow> rr_kind (rb_roleRef b) \<in> {''Role'', ''ClusterRole''} \<and>
     rr_name (rb_roleRef b) \<noteq> '''' \<and> list_all (\<lambda>u. sub_name u \<noteq> '''' \<and> sub_namespace u \<noteq> '''') (rb_subjects b)"
| "spec_ok (StorageClassO c) \<longleftrightarrow> stc_provisioner c \<noteq> ''''"
| "spec_ok _ \<longleftrightarrow> True"

text \<open>
  The namespace is that of the resource for the namespaced kinds and empty for the
  cluster-wide ones, with one exception: the security context constraints, cluster-wide
  too, carry the namespace of the resource, as the source writes it.
\<close>

definition own_namespace :: "string \<Rightarrow> kobj \<Rightarrow> bool" where
  "own_namespace ns x \<longleftrightarrow> om_namespace (kobj_meta x) =
     (if cluster_scoped (kobj_kind x) \<and> kobj_kind x \<noteq> SCCK then '''' else ns)"

definition well_formed :: "string \<Rightarrow> kobj \<Rightarrow> bool" where
  "well_formed ns x \<longleftrightarrow> dns_label (om_name (kobj_meta x)) \<and> own_namespace ns x \<and>
     short_labels (om_labels (kobj_meta x)) \<and>
     om_finalizers (kobj_meta x) = [] \<and> om_deletionTimestamp (kobj_meta x) = None \<and> spec_ok x"

section \<open>The objects of the finished controller\<close>

lemma default_names:
  "dns_label SecurityContextContrants" "dns_label Pvc_default" "dns_label ServiceAccount_default"
  "dns_label ClusterRole_default" "dns_label ClusterRoleBinding_default" "dns_label Role_default"
  "dns_label RoleBinding_default" "dns_label Deployment_default" "dns_label Service_default"
  "dns_label SCForNFSProvisioner_default"
  by code_simp+

lemma labels_short: "length n \<le> 63 \<Longrightarrow> short_labels (Some (labelsForNFSProvisioner n))"
  by (auto simp: short_labels_def labelsForNFSProvisioner_def)

lemma service_ports_ok:
  "nfsServicePorts \<noteq> []" "distinct (map sp_name nfsServicePorts)"
  "list_all (\<lambda>p. port_ok (sp_port p)) nfsServicePorts"
  "distinct (map (\<lambda>p. (sp_port p, transport (sp_protocol p))) nfsServicePorts)"
  by code_simp+

lemma container_ports_ok:
  "distinct (map cp_name nfsContainerPorts)" "list_all (\<lambda>p. port_ok (cp_containerPort p)) nfsContainerPorts"
  "distinct (map (\<lambda>p. (cp_containerPort p, transport (cp_protocol p))) nfsContainerPorts)"
  by code_simp+

context k8s_lib
begin

lemma ownedBy_deletion [simp]: "om_deletionTimestamp (ownedBy L m k om) = om_deletionTimestamp om"
  by (simp add: ownedBy_def)

lemma ownedBy_labels [simp]: "om_labels (ownedBy L m k om) = om_labels om"
  by (simp add: ownedBy_def)

lemma pod_ok_deployment:
  "pod_ok (dep_podSpec (io_value (deploymentForNFSProvisioner L m (storageTypeOf m))))"
  by (simp add: deploymentForNFSProvisioner_def getVolumeSpec_def io_value_def container_ports_ok
      pod_ok_def storageTypeOf_def Let_def)

lemma builders_unmarked [simp]:
  "om_deletionTimestamp (scc_meta (sccForNFSProvisioner L m)) = None"
  "om_deletionTimestamp (sa_meta (serviceAccountForNFSProvisioner L m)) = None"
  "om_deletionTimestamp (role_meta (clusterRoleForNFSProvisioner L m)) = None"
  "om_deletionTimestamp (rb_meta (clusterRoleBindingForNFSProvisioner L m)) = None"
  "om_deletionTimestamp (role_meta (roleForNFSProvisioner L m)) = None"
  "om_deletionTimestamp (rb_meta (roleBindingForNFSProvisioner L m)) = None"
  "om_deletionTimestamp (svc_meta (serviceForNFSProvisioner L m)) = None"
  "om_deletionTimestamp (stc_meta (storageclassForNFSProvisioner L m)) = None"
  by (simp_all add: builder_defs mkMeta_def Let_def)

lemma builders_unlabelled [simp]:
  "om_labels (scc_meta (sccForNFSProvisioner L m)) = None"
  "om_labels (sa_meta (serviceAccountForNFSProvisioner L m)) = None"
  "om_labels (role_meta (clusterRoleForNFSProvisioner L m)) = None"
  "om_labels (rb_meta (clusterRoleBindingForNFSProvisioner L m)) = None"
  "om_labels (role_meta (roleForNFSProvisioner L m)) = None"
  "om_labels (rb_meta (roleBindingForNFSProvisioner L m)) = None"
  "om_labels (svc_meta (serviceForNFSProvisioner L m)) = Some (labelsForNFSProvisioner (nfsName m))"
  "om_labels (stc_meta (storageclassForNFSProvisioner L m)) = None"
  by (simp_all add: builder_defs mkMeta_def Let_def)

lemma builders_spec_ok:
  "list_all rule_ok (role_rules (clusterRoleForNFSProvisioner L m))"
  "list_all rule_ok (role_rules (roleForNFSProvisioner L m))"
  "stc_provisioner (storageclassForNFSProvisioner L m) \<noteq> ''''"
  "svc_ports (serviceForNFSProvisioner L m) = nfsServicePorts"
  "svc_selector (serviceForNFSProvisioner L m) = Some (labelsForNFSProvisioner (nfsName m))"
  by (simp_all add: clusterRoleForNFSProvisioner_def roleForNFSProvisioner_def
      storageclassForNFSProvisioner_def serviceForNFSProvisioner_def rule_ok_def Let_def)

lemma bindings_spec_ok:
  assumes "nfsNamespace m \<noteq> ''''"
  shows "spec_ok (ClusterRoleBindingO (clusterRoleBindingForNFSProvisioner L m))"
    "spec_ok (RoleBindingO (roleBindingForNFSProvisioner L m))"
  using assms
  by (simp_all add: clusterRoleBindingForNFSProvisioner_def roleBindingForNFSProvisioner_def
      ClusterRole_default_def Role_default_def ServiceAccount_default_def)

lemma builders_well_formed:
  assumes "nfsNamespace m \<noteq> ''''" "length (nfsName m) \<le> 63"
  shows "well_formed (nfsNamespace m) (SCCO (sccForNFSProvisioner L m))"
    "well_formed (nfsNamespace m) (ServiceAccountO (serviceAccountForNFSProvisioner L m))"
    "well_formed (nfsNamespace m) (ClusterRoleO (clusterRoleForNFSProvisioner L m))"
    "well_formed (nfsNamespace m) (ClusterRoleBindingO (clusterRoleBindingForNFSProvisioner L m))"
    "well_formed (nfsNamespace m) (RoleO (roleForNFSProvisioner L m))"
    "well_formed (nfsNamespace m) (RoleBindingO (roleBindingForNFSProvisioner L m))"
    "well_formed (nfsNamespace m) (ServiceO (serviceForNFSProvisioner L m))"
proof -
  note wf = well_formed_def own_namespace_def cluster_scoped_def default_names
  show "well_formed (nfsNamespace m) (SCCO (sccForNFSProvisioner L m))"
    "well_formed (nfsNamespace m) (ServiceAccountO (serviceAccountForNFSProvisioner L m))"
    by (simp_all add: wf)
  show "well_formed (nfsNamespace m) (ClusterRoleO (clusterRoleForNFSProvisioner L m))"
    "well_formed (nfsNamespace m) (RoleO (roleForNFSProvisioner L m))"
    using builders_spec_ok(1,2) [of m] by (simp_all add: wf)
  show "well_formed (nfsNamespace m) (ClusterRoleBindingO (clusterRoleBindingForNFSProvisioner L m))"
    "well_formed (nfsNamespace m) (RoleBindingO (roleBindingForNFSProvisioner L m))"
    using bindings_spec_ok [OF assms(1)] by (simp_all add: wf del: spec_ok.simps)
  have "spec_ok (ServiceO (serviceForNFSProvisioner L m))"
    unfolding spec_ok.simps builders_spec_ok(4,5) by (intro conjI service_ports_ok labels_short assms)
  then show "well_formed (nfsNamespace m) (ServiceO (serviceForNFSProvisioner L m))"
    using labels_short [OF assms(2)] by (simp add: wf del: spec_ok.simps)
qed

lemma storageclass_well_formed:
  "SCForNFSProvisioner (Spec m) = '''' \<Longrightarrow>
    well_formed (nfsNamespace m) (StorageClassO (storageclassForNFSProvisioner L m))"
  using builders_spec_ok(3) [of m]
  by (simp add: well_formed_def own_namespace_def cluster_scoped_def default_names)

lemma deployment_well_formed:
  assumes "length (nfsName m) \<le> 63"
  shows "well_formed (nfsNamespace m) (DeploymentO (io_value (deploymentForNFSProvisioner L m (storageTypeOf m))))"
proof -
  let ?d = "io_value (deploymentForNFSProvisioner L m (storageTypeOf m))"
  have "om_deletionTimestamp (dep_meta ?d) = None" "om_labels (dep_meta ?d) = None"
    "om_name (dep_meta ?d) = Deployment_default" "om_finalizers (dep_meta ?d) = []"
    by (simp_all add: deploymentForNFSProvisioner_def getVolumeSpec_def io_value_def mkMeta_def Let_def)
  with pod_ok_deployment [of m] labels_short [OF assms] show ?thesis
    by (simp add: well_formed_def own_namespace_def cluster_scoped_def deployment_fields
        deployment_namespace default_names)
qed

lemma claim_well_formed:
  assumes "pvcForNFSProvisioner L m = Inr c" "\<And>q. MustParse L (pvcSizeOf m) = Some q \<Longrightarrow> 0 < q"
  shows "well_formed (nfsNamespace m) (PersistentVolumeClaimO c)"
proof -
  obtain q where q: "MustParse L (pvcSizeOf m) = Some q"
    by (rule pvcFor_cases [of L m]) (use assms(1) in simp_all)
  have "map_option (\<lambda>c. spec_ok (PersistentVolumeClaimO c) \<and> om_deletionTimestamp (pvc_meta c) = None \<and>
        om_labels (pvc_meta c) = None)
      (case pvcForNFSProvisioner L m of Inr c \<Rightarrow> Some c | Inl _ \<Rightarrow> None) = Some True"
    by (simp add: pvcForNFSProvisioner_def Let_def q mkMeta_def assms(2) [OF q])
  with assms(1) have "spec_ok (PersistentVolumeClaimO c)" "om_deletionTimestamp (pvc_meta c) = None"
    "om_labels (pvc_meta c) = None" by simp_all
  with pvc_meta [OF assms(1)] show ?thesis
    by (simp add: well_formed_def own_namespace_def cluster_scoped_def default_names del: spec_ok.simps)
qed

lemma managed_well_formed:
  assumes "x \<in> set (managed_objects L m)" "nfsNamespace m \<noteq> ''''" "length (nfsName m) \<le> 63"
    and "\<And>q. MustParse L (pvcSizeOf m) = Some q \<Longrightarrow> 0 < q"
  shows "well_formed (nfsNamespace m) x"
  using assms(1) builders_well_formed [OF assms(2,3)] storageclass_well_formed [of m]
    deployment_well_formed [OF assms(3)] claim_well_formed [OF _ assms(4)]
  by (auto simp: managed_objects_def split: if_split_asm sum.split_asm)

end

text \<open>
  C16. Every object a run creates, whatever the answers, is well-formed, provided that the
  resource has a namespace, its name has at most 63 characters and the size of its claim
  is positive.  Well-formed means: the name is a DNS label; the namespace is that of the
  resource for a namespaced kind and empty for a cluster-wide one, except that the
  security constraints carry one; there is no finalizer and no deletion mark; label
  values have at most 63 characters; the selector of the Deployment is that of its
  template, its container has a name and an image and mounts a declared volume with
  exactly one source; ports lie between 1 and 65535 and are not declared twice; rules,
  role references and subjects are complete; the claim asks for a positive size.  The
  values taken over from the spec (host directory, names of storage classes, node
  selector) are not checked, as the controller does not check them.
\<close>

theorem Reconcile_creates_well_formed:
  assumes "k8s_lib L"
    and "runs (Reconcile L req) ((Get NFSProvisionerK req, Inr (NFSProvisionerO m)) # t) r"
    and "nfsNamespace m \<noteq> ''''" and "length (nfsName m) \<le> 63"
    and "\<And>q. MustParse L (pvcSizeOf m) = Some q \<Longrightarrow> 0 < q"
    and "(Create x, a) \<in> set t"
  shows "well_formed (nfsNamespace m) x"
  by (rule k8s_lib.managed_well_formed [OF assms(1) k8s_lib.claims_of_run(2) [OF assms(1,2,6)] assms(3-5)])

lemma Reconcile_creates_well_formed_witness:
  "\<exists>x a. (Create x, a) \<in> set (fst (demoRun [] (demoCluster demoSpec [] None))) \<and>
     kobj_kind x = DeploymentK \<and> well_formed ''ns'' x"
proof -
  let ?m = "demoCR demoSpec [] None" and ?t = "tl (fst (demoRun [] (demoCluster demoSpec [] None)))"
  have "list_ex (\<lambda>(q, a). case q of Create x \<Rightarrow> kobj_kind x = DeploymentK | _ \<Rightarrow> False) ?t"
    by code_simp
  then obtain x a where x: "(Create x, a) \<in> set ?t" "kobj_kind x = DeploymentK"
    by (auto simp: list_ex_iff split: request.splits)
  have m: "nfsNamespace ?m \<noteq> ''''" "length (nfsName ?m) \<le> 63" "nfsNamespace ?m = ''ns''" by code_simp+
  have "0 < q" if "MustParse demoLib (pvcSizeOf ?m) = Some q" for q
    using that by (simp add: demoLib_def std_lib_def split: if_split_asm)
  from Reconcile_creates_well_formed [OF demoLib demoRun_fetch m(1,2) this x(1)] x m(3)
  have "well_formed ''ns'' x" by simp
  moreover have "(Create x, a) \<in> set (fst (demoRun [] (demoCluster demoSpec [] None)))"
    using x(1) demoRun_starts [of demoSpec "[]" None] by (metis list.set_intros(2))
  ultimately show ?thesis using x(2) by blast
qed

end
