(* ===== verification/CallBounds.thy ===== *)
theory CallBounds
  imports NfsSafety MemcachedServer PvcTraces EarlyRuns
begin

text \<open>
  How many API calls a run of each controller makes at most, whatever answers it gets:
  the sum of the bounds of its blocks.  Every bound is reached on a small cluster.
\<close>

section \<open>The fourth stage\<close>

context k8s_lib
begin

lemma ensurePVC_pvc_calls: "calls_at_most 2 (ensurePVC_pvc L lg m)"
  unfolding calls_at_most_def ensurePVC_pvc_def Let_def stmt_defs
  by (auto simp: io_simps split: if_split_asm sum.splits)

lemma ensureAll_pvc_calls: "calls_at_most 20 (ensureAll_pvc L lg m)"
proof -
  have "calls_at_most (2+(2+(2+(2+(2+(2+(2+(2+(2+2))))))))) (ensureAll_pvc L lg m)"
    unfolding ensureAll_pvc_def
    by (intro calls_at_most_andthen scc4.pass_calls ensurePVC_pvc_calls sa4.pass_calls cr4.pass_calls
        crb4.pass_calls role4.pass_calls rb4.pass_calls dep4.pass_calls svc4.pass_calls stc4.pass_calls)
  then show ?thesis by simp
qed

lemma deleteExternal_pvc_calls: "calls_at_most 4 (deleteExternalResources_pvc m)"
  unfolding calls_at_most_def deleteExternalResources_pvc_def deleteIfFound_pvc_def logError_def
  by (auto elim!: runs_andthenE simp: io_simps)

lemma finalize_pvc_calls: "calls_at_most 5 (finalize_pvc L lg m)"
  unfolding calls_at_most_def
  by (auto elim!: finalize_pvc_run dest: calls_at_mostD [OF deleteExternal_pvc_calls])

lemma Reconcile_pvc_calls:
  assumes "runs (Reconcile_pvc L req) t r"
  shows "api_calls t \<le> 26"
  using assms
proof (cases rule: Reconcile_pvc_run)
  case not_fetched
  then show ?thesis unfolding fetch_pvc_def stmt_defs by (auto simp: io_simps split: if_split_asm)
next
  case (panicked y t')
  then show ?thesis using calls_at_mostD [OF ensureAll_pvc_calls] by fastforce
next
  case (finished y t' t'')
  then show ?thesis
    using calls_at_mostD [OF ensureAll_pvc_calls, of _ _ t' "Inr ()"]
      calls_at_mostD [OF finalize_pvc_calls, of _ _ t'' "Inl r"] by fastforce
qed

end

section \<open>The first three tutorials\<close>

lemma table_lengths:
  "length (table_sa L lg m) = 1" "length (table_deploy L lg m) = 2"
  "length (table_rbac L lg m) = 6" "length (table_hostpath L lg n m c) = 9"
  by (simp_all add: table_sa_def table_deploy_def table_rbac_def table_hostpath_def Let_def)

lemma early_calls:
  assumes "(P, es) \<in> set (early_controllers L req)" "MustParse L ''1Gi'' \<noteq> None" "\<And>m. length (es m) = n"
  shows "calls_at_most (1 + 2 * n) P"
  unfolding calls_at_most_def
proof (intro allI impI)
  fix t r
  assume run: "runs P t r"
  show "api_calls t \<le> 1 + 2 * n"
  proof (cases "snd (hd t)")
    case (Inl e)
    with early_ends [OF assms(1,2) run] show ?thesis by simp
  next
    case (Inr y)
    with early_ends [OF assms(1,2) run] assms(3) [of "asNFSProvisioner y"] show ?thesis by simp
  qed
qed

text \<open>
  C17. The number of API calls of one run, log calls not counted, whatever answers the
  server gives: at most 26 for the finished controller and for the fourth stage, 4 for
  the memcached controller, and 3, 5, 13 and 19 for the controllers of the files 1, the
  two files 2 and file 3, each object costing a lookup and a creation.
\<close>

theorem controllers_call_bounds:
  assumes "k8s_lib L" and "MustParse L ''1Gi'' \<noteq> None"
  shows "calls_at_most 26 (Reconcile L req) \<and> calls_at_most 26 (Reconcile_pvc L req) \<and>
    calls_at_most 4 (ReconcileMemcached L req) \<and>
    calls_at_most 3 (Reconcile_sa L req) \<and> calls_at_most 5 (Reconcile_deploy L req) \<and>
    calls_at_most 13 (Reconcile_rbac L req) \<and> calls_at_most 19 (Reconcile_hostpath L req)"
proof (intro conjI)
  show "calls_at_most 26 (Reconcile L req)" "calls_at_most 26 (Reconcile_pvc L req)"
    using k8s_lib.Reconcile_calls [OF assms(1)] k8s_lib.Reconcile_pvc_calls [OF assms(1)]
    by (auto simp: calls_at_most_def)
  show "calls_at_most 4 (ReconcileMemcached L req)"
    using memcached_calls_and_writes by (auto simp: calls_at_most_def)
  have controllers: "(Reconcile_sa L req, table_sa L (RLog req)) \<in> set (early_controllers L req)"
    "(Reconcile_deploy L req, table_deploy L (RLog req)) \<in> set (early_controllers L req)"
    "(Reconcile_rbac L req, table_rbac L (RLog req)) \<in> set (early_controllers L req)"
    "(Reconcile_hostpath L req, \<lambda>m. table_hostpath L (RLog req) req m (claim_hostpath L m))
       \<in> set (early_controllers L req)"
    by (simp_all add: early_controllers_def)
  show "calls_at_most 3 (Reconcile_sa L req)"
    using early_calls [OF controllers(1) assms(2) table_lengths(1)] by (simp add: eval_nat_numeral)
  show "calls_at_most 5 (Reconcile_deploy L req)"
    using early_calls [OF controllers(2) assms(2) table_lengths(2)] by simp
  show "calls_at_most 13 (Reconcile_rbac L req)"
    using early_calls [OF controllers(3) assms(2) table_lengths(3)] by simp
  show "calls_at_most 19 (Reconcile_hostpath L req)"
    using early_calls [OF controllers(4) assms(2) table_lengths(4)] by simp
qed

text \<open>
  All bounds are reached, that of the finished controller by ten lookups and ten
  creations before the two roles are looked up again and deleted and the finalizer is
  removed; that of the fourth stage when the first lookup of a binding
  that exists fails.
\<close>

definition fourthRun :: "event list \<times> ret" where
  "fourthRun = demoRun_pvc (replicate 13 None @ [Some ''down''])
     (cluster_of [NFSProvisionerO (demoCR (demoSpec\<lparr>Pvc := ''data''\<rparr>) [finalizerName_pvc] None),
        ClusterRoleBindingO (clusterRoleBindingForNFSProvisioner demoLib (demoCR demoSpec [] None))] [])"

lemma fourthRun_runs: "runs (Reconcile_pvc demoLib demoReq) (fst fourthRun) (snd fourthRun)"
  by (simp add: fourthRun_def demoRun_pvc_runs)

lemma controllers_call_bounds_witness:
  "api_calls (fst (demoRun [] (demoCluster demoSpec [finalizerName] (Some 5)))) = 26 \<and>
   api_calls (fst fourthRun) = 26 \<and>
   api_calls (fst (demoTrace (Reconcile_sa demoLib demoReq))) = 3 \<and>
   api_calls (fst (demoTrace (Reconcile_deploy demoLib demoReq))) = 5 \<and>
   api_calls (fst (demoTrace (Reconcile_rbac demoLib demoReq))) = 13 \<and>
   api_calls (fst (demoTrace (Reconcile_hostpath demoLib demoReq))) = 19"
proof -
  have "26 \<le> api_calls (fst (demoRun [] (demoCluster demoSpec [finalizerName] (Some 5))))"
    "26 \<le> api_calls (fst fourthRun)"
    "3 \<le> api_calls (fst (demoTrace (Reconcile_sa demoLib demoReq)))"
    "5 \<le> api_calls (fst (demoTrace (Reconcile_deploy demoLib demoReq)))"
    "13 \<le> api_calls (fst (demoTrace (Reconcile_rbac demoLib demoReq)))"
    "19 \<le> api_calls (fst (demoTrace (Reconcile_hostpath demoLib demoReq)))"
    by code_simp+
  with controllers_call_bounds [OF demoLib demo_parses, of demoReq] show ?thesis
    using demoRun_runs fourthRun_runs demoTrace_runs
    by (meson calls_at_mostD le_antisym)
qed

end
