(* ===== verification/Operator.thy ===== *)
theory Operator
  imports ApiServer
begin

text \<open>
  The controllers under their manager.  A \<open>SetupWithManager\<close> method registers which
  events wake its controller; the manager keeps a queue of requests, takes one at a
  time, runs \<open>Reconcile\<close> call by call, and puts the request back after an error or
  when a requeue is asked for.  Other clients work on the cluster between any two
  calls, and the process may be restarted at any moment.

  The manager is not part of the repository.  What it does with an event is a
  parameter (\<open>wake\<close>) under the documented behaviour of \<open>For\<close> and \<open>Owns\<close>, stated by
  \<open>notifies\<close>; the step relation \<open>operated\<close> has what its documentation says of the
  queue: no request twice, one worker, requeued on an error.
\<close>

section \<open>Registration\<close>

datatype watch = For kind | Owns kind

definition SetupWithManager_memcached :: "watch list" where
  "SetupWithManager_memcached = [For MemcachedK, Owns DeploymentK]"

definition SetupWithManager_sa :: "watch list" where
  "SetupWithManager_sa = [For NFSProvisionerK]"

definition SetupWithManager_deploy :: "watch list" where
  "SetupWithManager_deploy = [For NFSProvisionerK]"

definition SetupWithManager_rbac :: "watch list" where
  "SetupWithManager_rbac = [For NFSProvisionerK]"

definition SetupWithManager_hostpath :: "watch list" where
  "SetupWithManager_hostpath = [For NFSProvisionerK]"

definition SetupWithManager_pvc :: "watch list" where
  "SetupWithManager_pvc = [For NFSProvisionerK]"

definition SetupWithManager :: "watch list" where
  "SetupWithManager = [For NFSProvisionerK]"

lemmas registrations = SetupWithManager_memcached_def SetupWithManager_sa_def
  SetupWithManager_deploy_def SetupWithManager_rbac_def SetupWithManager_hostpath_def
  SetupWithManager_pvc_def SetupWithManager_def

section \<open>Events\<close>

definition own_request :: "kobj \<Rightarrow> NamespacedName" where
  "own_request x = \<lparr>nn_namespace = om_namespace (kobj_meta x), nn_name = om_name (kobj_meta x)\<rparr>"

text \<open>The kind an owner reference names; the custom resources are the only owners.\<close>

definition owner_kind :: "kind \<Rightarrow> string" where
  "owner_kind k = (if k = MemcachedK then ''Memcached'' else ''NFSProvisioner'')"

definition controls :: "kind \<Rightarrow> string \<Rightarrow> OwnerReference \<Rightarrow> bool" where
  "controls k n r \<longleftrightarrow> or_controller r \<and> or_kind r = owner_kind k \<and> or_name r = n"

definition owned_by :: "kind \<Rightarrow> string \<Rightarrow> kobj \<Rightarrow> bool" where
  "owned_by k n x \<longleftrightarrow> list_ex (controls k n) (om_ownerReferences (kobj_meta x))"

lemma owned_by_cong:
  "om_ownerReferences (kobj_meta y) = om_ownerReferences (kobj_meta x) \<Longrightarrow> owned_by k n y = owned_by k n x"
  by (simp add: owned_by_def)

text \<open>
  The requests an event puts into the queue, from the registration and the object
  before and after it.  \<open>For\<close>: the changed object itself; \<open>Owns\<close>: the resource that
  controls the changed object, before or after the change.
\<close>

type_synonym handler = "watch list \<Rightarrow> kobj option \<Rightarrow> kobj option \<Rightarrow> NamespacedName list"

definition notifies :: "handler \<Rightarrow> bool" where
  "notifies wake \<longleftrightarrow> (\<forall>ws old new x. old \<noteq> new \<and> (old = Some x \<or> new = Some x) \<longrightarrow>
     (For (kobj_kind x) \<in> set ws \<longrightarrow> own_request x \<in> set (wake ws old new)) \<and>
     (\<forall>k n. Owns (kobj_kind x) \<in> set ws \<and> For k \<in> set ws \<and> owned_by k n x \<longrightarrow>
        \<lparr>nn_namespace = om_namespace (kobj_meta x), nn_name = n\<rparr> \<in> set (wake ws old new)))"

definition woken_by :: "watch list \<Rightarrow> kobj \<Rightarrow> NamespacedName list" where
  "woken_by ws x =
     (if For (kobj_kind x) \<in> set ws then [own_request x] else []) @
     (if Owns (kobj_kind x) \<in> set ws
      then map (\<lambda>r. \<lparr>nn_namespace = om_namespace (kobj_meta x), nn_name = or_name r\<rparr>)
             (filter (\<lambda>r. list_ex (\<lambda>w. case w of For k \<Rightarrow> controls k (or_name r) r | Owns _ \<Rightarrow> False) ws)
                (om_ownerReferences (kobj_meta x)))
      else [])"

definition std_wake :: handler where
  "std_wake ws old new =
     (if old = new then [] else concat (map (woken_by ws) (remdups
        ((case old of None \<Rightarrow> [] | Some x \<Rightarrow> [x]) @ (case new of None \<Rightarrow> [] | Some x \<Rightarrow> [x])))))"

lemma woken_by_owner:
  assumes "Owns (kobj_kind x) \<in> set ws" "For k \<in> set ws" "owned_by k n x"
  shows "\<lparr>nn_namespace = om_namespace (kobj_meta x), nn_name = n\<rparr> \<in> set (woken_by ws x)"
proof -
  from assms(3) obtain r where "r \<in> set (om_ownerReferences (kobj_meta x))" "controls k n r"
    by (auto simp: owned_by_def list_ex_iff)
  moreover from this have "or_name r = n" by (simp add: controls_def)
  ultimately show ?thesis using assms(1,2)
    by (force simp: woken_by_def list_ex_iff)
qed

lemma std_wake_changed:
  assumes "old \<noteq> new" "old = Some x \<or> new = Some x"
  shows "set (woken_by ws x) \<subseteq> set (std_wake ws old new)"
  using assms by (auto simp: std_wake_def)

lemma std_wake_notifies: "notifies std_wake"
  unfolding notifies_def
proof (intro allI impI conjI, goal_cases)
  case (1 ws old new x)
  then have "own_request x \<in> set (woken_by ws x)" by (simp add: woken_by_def)
  with std_wake_changed [of old new x ws] 1(1) show ?case by (meson subsetD)
next
  case (2 ws old new x k n)
  with std_wake_changed [of old new x ws] woken_by_owner [of x ws k n] show ?case by (meson subsetD)
qed

text \<open>A write concerns the object filed under one key; its event is the change there.\<close>

fun target :: "request \<Rightarrow> key option" where
  "target (Create x) = Some (key_of x)"
| "target (Update x) = Some (key_of x)"
| "target (StatusUpdate x) = Some (key_of x)"
| "target (Delete x) = Some (key_of x)"
| "target _ = None"

definition woken :: "handler \<Rightarrow> watch list \<Rightarrow> request \<Rightarrow> (key \<Rightarrow> kobj option) \<Rightarrow> (key \<Rightarrow> kobj option) \<Rightarrow>
    NamespacedName set" where
  "woken wake ws q f f' = (case target q of None \<Rightarrow> {} | Some k \<Rightarrow> set (wake ws (f k) (f' k)))"

text \<open>What the start of the process puts into the queue: every resource that exists.\<close>

definition listed :: "watch list \<Rightarrow> (key \<Rightarrow> kobj option) \<Rightarrow> NamespacedName set" where
  "listed ws f = {n. \<exists>k. For k \<in> set ws \<and> f (mkKey k n) \<noteq> None}"

section \<open>Ownership on the server\<close>

text \<open>The documented effect of \<open>SetControllerReference\<close> on an object without owners.\<close>

locale owner_lib = k8s_lib +
  assumes setController_owner: "om_ownerReferences m = [] \<Longrightarrow> om_namespace om = om_namespace m \<Longrightarrow>
    list_ex (controls ok (om_name om)) (om_ownerReferences (SetControllerReference L ok om k m))"

text \<open>The server keeps the owner references it is given.\<close>

locale owner_server = api_server +
  assumes create_owners: "srv (Create x) s = (Inr y, s') \<Longrightarrow>
      om_ownerReferences (kobj_meta y) = om_ownerReferences (kobj_meta x)"
    and update_owners: "srv (Update x) s = (Inr y, s') \<Longrightarrow> store s' (key_of x) = Some w \<Longrightarrow>
      om_ownerReferences (kobj_meta w) = om_ownerReferences (kobj_meta x)"
    and delete_owners: "srv (Delete x) s = (Inr y, s') \<Longrightarrow> store s (key_of x) = Some z \<Longrightarrow>
      store s' (key_of x) = Some w \<Longrightarrow> om_ownerReferences (kobj_meta w) = om_ownerReferences (kobj_meta z)"

lemma std_owner_lib: "owner_lib (std_lib parse)"
proof unfold_locales
  fix m om :: ObjectMeta and ok k
  assume "om_ownerReferences m = []" "om_namespace om = om_namespace m"
  then show "list_ex (controls ok (om_name om))
      (om_ownerReferences (SetControllerReference (std_lib parse) ok om k m))"
    by (simp add: std_lib_def set_owner_def controls_def owner_kind_def)
qed

interpretation std_owner: owner_lib "std_lib parse" for parse
  by (rule std_owner_lib)

lemma owners_map_meta:
  "(\<And>m. om_ownerReferences (f m) = om_ownerReferences m) \<Longrightarrow>
   om_ownerReferences (kobj_meta (map_meta f x)) = om_ownerReferences (kobj_meta x)"
  by (cases x) simp_all

lemma owners_admitted [simp]:
  "om_ownerReferences (kobj_meta (admitted x)) = om_ownerReferences (kobj_meta x)"
  by (simp add: admitted_def owners_map_meta)

lemma owners_merged [simp]:
  "om_ownerReferences (kobj_meta (merged z x)) = om_ownerReferences (kobj_meta x)"
  by (simp add: merged_def owners_map_meta)

lemma mem_owner_server: "owner_server (std_lib parse) mem_srv mem_store"
proof (intro owner_server.intro owner_server_axioms.intro, goal_cases)
  case 1
  show ?case using mem_healthy by (rule healthy_server.axioms(1))
next
  case (2 x s y s')
  then show ?case by (auto split: option.splits if_splits)
next
  case (3 x s y s' w)
  then obtain z where "mem_store s (key_of x) = Some z" by (auto split: option.splits)
  with 3 mem_store_addressed [OF this] show ?case by (auto split: if_splits)
next
  case (4 x s y s' z w)
  then have "addressable (key_of x)" "key_of z = key_of x" by (auto dest: mem_store_addressed mem_store_keyed)
  with 4 show ?case by (auto simp: owners_map_meta split: option.splits if_splits)
qed

interpretation mem_owner: owner_server "std_lib parse" mem_srv mem_store for parse
  by (rule mem_owner_server)

section \<open>The manager's steps\<close>

text \<open>
  The cluster, the queue, and the run that is under way: its request and what is
  left of its calls.
\<close>

record 's operator =
  now :: 's
  pending :: "NamespacedName set"
  working :: "(NamespacedName \<times> ret io) option"

fun retried :: "ret \<Rightarrow> bool" where
  "retried (Return res err) \<longleftrightarrow> Requeue res \<or> err \<noteq> None"
| "retried (Panic _) \<longleftrightarrow> True"

text \<open>
  The states the manager of a controller \<open>rec\<close> with the registration \<open>ws\<close> reaches from
  the cluster \<open>s0\<close>.  Each call is answered by some server under the contract, which
  may fail; other clients send requests that satisfy \<open>P\<close>.  A panic ends the process,
  so that only a restart follows it.
\<close>

inductive operated :: "lib \<Rightarrow> ('s \<Rightarrow> key \<Rightarrow> kobj option) \<Rightarrow> handler \<Rightarrow> watch list \<Rightarrow>
    (NamespacedName \<Rightarrow> ret io) \<Rightarrow> (request \<Rightarrow> bool) \<Rightarrow> 's \<Rightarrow> 's operator \<Rightarrow> bool"
  for L store wake ws rec P s0 where
  started: "operated L store wake ws rec P s0
    \<lparr>now = s0, pending = listed ws (store s0), working = None\<rparr>"
| foreign: "operated L store wake ws rec P s0 a \<Longrightarrow> owner_server L srv store \<Longrightarrow> P q \<Longrightarrow>
    srv q (now a) = (r, s') \<Longrightarrow> operated L store wake ws rec P s0
      (a\<lparr>now := s', pending := pending a \<union> woken wake ws q (store (now a)) (store s')\<rparr>)"
| taken: "operated L store wake ws rec P s0 a \<Longrightarrow> working a = None \<Longrightarrow> req \<in> pending a \<Longrightarrow>
    operated L store wake ws rec P s0
      (a\<lparr>pending := pending a - {req}, working := Some (req, rec req)\<rparr>)"
| called: "operated L store wake ws rec P s0 a \<Longrightarrow> working a = Some (req, Req q k) \<Longrightarrow>
    owner_server L srv store \<Longrightarrow> srv q (now a) = (r, s') \<Longrightarrow> operated L store wake ws rec P s0
      (a\<lparr>now := s', pending := pending a \<union> woken wake ws q (store (now a)) (store s'),
         working := Some (req, k r)\<rparr>)"
| finished: "operated L store wake ws rec P s0 a \<Longrightarrow>
    working a = Some (req, Ret (Return res err)) \<Longrightarrow> operated L store wake ws rec P s0
      (a\<lparr>pending := pending a \<union> (if retried (Return res err) then {req} else {}), working := None\<rparr>)"
| restarted: "operated L store wake ws rec P s0 a \<Longrightarrow> operated L store wake ws rec P s0
    (a\<lparr>pending := listed ws (store (now a)), working := None\<rparr>)"

section \<open>What the calls of a run are like\<close>

text \<open>As long as the answers satisfy \<open>T\<close>, every request of the program satisfies \<open>P\<close>.\<close>

definition obedient :: "(event \<Rightarrow> bool) \<Rightarrow> (request \<Rightarrow> bool) \<Rightarrow> ret io \<Rightarrow> bool" where
  "obedient T P p \<longleftrightarrow> (\<forall>t x. runs p t x \<longrightarrow> list_all T t \<longrightarrow> list_all (\<lambda>e. P (fst e)) t)"

lemma obedientI:
  assumes "\<And>t x q. runs p t x \<Longrightarrow> list_all T t \<Longrightarrow> q \<in> fst ` set t \<Longrightarrow> P q"
  shows "obedient T P p"
  using assms unfolding obedient_def list_all_iff by blast

text \<open>Every program has a run in which all its calls fail.\<close>

lemma failing_run:
  fixes T :: "event \<Rightarrow> bool"
  assumes "\<And>q e. T (q, Inl e)"
  shows "\<exists>t x. runs p t x \<and> list_all T t"
proof (induction p)
  case (Ret x)
  show ?case by (intro exI [of _ "[]"]) simp
next
  case (Req q k)
  from Req.IH [of "k (Inl (Errorf ''''))"] obtain t x where
    "runs (k (Inl (Errorf ''''))) t x" "list_all T t" by auto
  then show ?case
    by (intro exI [of _ "(q, Inl (Errorf '''')) # t"] exI [of _ x]) (simp add: assms)
qed

lemma obedient_call:
  assumes "obedient T P (Req q k)" "\<And>q e. T (q, Inl e)"
  shows "P q"
proof -
  obtain t x where "runs (k (Inl (Errorf ''''))) t x" "list_all T t"
    using failing_run [where T = T and p = "k (Inl (Errorf ''''))", OF assms(2)] by blast
  then have "runs (Req q k) ((q, Inl (Errorf '''')) # t) x" "list_all T ((q, Inl (Errorf '''')) # t)"
    by (simp_all add: assms(2))
  with assms(1) have "list_all (\<lambda>e. P (fst e)) ((q, Inl (Errorf '''')) # t)"
    unfolding obedient_def by blast
  then show ?thesis by simp
qed

lemma obedient_next:
  assumes "obedient T P (Req q k)" "T (q, r)"
  shows "obedient T P (k r)"
  unfolding obedient_def
proof (intro allI impI)
  fix t x assume "runs (k r) t x" "list_all T t"
  with assms(2) have "runs (Req q k) ((q, r) # t) x" "list_all T ((q, r) # t)" by simp_all
  with assms(1) have "list_all (\<lambda>e. P (fst e)) ((q, r) # t)"
    unfolding obedient_def by blast
  then show "list_all (\<lambda>e. P (fst e)) t" by simp
qed

section \<open>No work is lost\<close>

text \<open>
  What a request needs so that the manager never forgets it: every change of the
  objects it depends on (\<open>keys\<close>) wakes it, and a run for it (\<open>track\<close>) that is not
  retried leaves them \<open>settled\<close>, unless they were changed meanwhile.  \<open>I\<close> is an
  invariant of the cluster: every answer then satisfies \<open>T\<close>, and it is kept by requests that
  satisfy \<open>P\<close>, those of the other clients and those of all runs.
\<close>

locale tracked_work =
  fixes L :: lib and store :: "'s \<Rightarrow> key \<Rightarrow> kobj option" and wake :: handler
    and ws :: "watch list" and rec :: "NamespacedName \<Rightarrow> ret io" and P :: "request \<Rightarrow> bool"
    and req :: NamespacedName and keys :: "key set" and I settled :: "(key \<Rightarrow> kobj option) \<Rightarrow> bool"
    and T :: "event \<Rightarrow> bool" and track :: "ret io \<Rightarrow> (key \<Rightarrow> kobj option) \<Rightarrow> bool"
  assumes invariant: "owner_server L srv store \<Longrightarrow> P q \<Longrightarrow> I (store s) \<Longrightarrow> srv q s = (r, s') \<Longrightarrow> I (store s')"
    and wakes: "owner_server L srv store \<Longrightarrow> I (store s) \<Longrightarrow> I (store s') \<Longrightarrow> srv q s = (r, s') \<Longrightarrow>
      key \<in> keys \<Longrightarrow> store s' key \<noteq> store s key \<Longrightarrow> req \<in> woken wake ws q (store s) (store s')"
    and lists: "\<not> settled (store s) \<Longrightarrow> req \<in> listed ws (store s)"
    and settled_frame: "settled f \<Longrightarrow> (\<And>key. key \<in> keys \<Longrightarrow> g key = f key) \<Longrightarrow> settled g"
    and track_frame: "track p f \<Longrightarrow> (\<And>key. key \<in> keys \<Longrightarrow> g key = f key) \<Longrightarrow> track p g"
    and answers: "owner_server L srv store \<Longrightarrow> I (store s) \<Longrightarrow> srv q s = (r, s') \<Longrightarrow> T (q, r)"
    and failures: "T (q, Inl e)"
    and obedience: "obedient T P (rec n)"
    and track_start: "n = req \<Longrightarrow> track (rec n) f"
    and track_call: "track (Req q k) (store s) \<Longrightarrow> I (store s) \<Longrightarrow> owner_server L srv store \<Longrightarrow>
      srv q s = (r, s') \<Longrightarrow> (\<And>key. key \<in> keys \<Longrightarrow> store s' key = store s key) \<Longrightarrow> track (k r) (store s')"
    and track_end: "track (Ret x) f \<Longrightarrow> retried x \<or> settled f"
begin

definition kept :: "'s operator \<Rightarrow> bool" where
  "kept a \<longleftrightarrow> I (store (now a)) \<and> (\<forall>n p. working a = Some (n, p) \<longrightarrow> obedient T P p) \<and>
     (req \<in> pending a \<or> settled (store (now a)) \<or>
      (\<exists>p. working a = Some (req, p) \<and> track p (store (now a))))"

lemma keptI:
  assumes "I (store (now a))" "\<And>n p. working a = Some (n, p) \<Longrightarrow> obedient T P p"
    and "req \<notin> pending a \<Longrightarrow> \<not> settled (store (now a)) \<Longrightarrow>
      \<exists>p. working a = Some (req, p) \<and> track p (store (now a))"
  shows "kept a"
  using assms unfolding kept_def by blast

text \<open>A call, of a run or of another client: the request is woken, or it sees nothing of the call.\<close>

lemma changed_or_same:
  assumes "owner_server L srv store" "P q" "I (store s)" "srv q s = (r, s')"
  shows "I (store s')"
    and "req \<notin> woken wake ws q (store s) (store s') \<Longrightarrow> key \<in> keys \<Longrightarrow> store s' key = store s key"
proof -
  show "I (store s')" by (rule invariant [OF assms])
  from wakes [OF assms(1,3) this assms(4)]
  show "req \<notin> woken wake ws q (store s) (store s') \<Longrightarrow> key \<in> keys \<Longrightarrow> store s' key = store s key"
    by blast
qed

lemma kept_call:
  assumes "kept a" "working a = Some (n, Req q k)" "owner_server L srv store" "srv q (now a) = (r, s')"
  shows "kept (a\<lparr>now := s', pending := pending a \<union> woken wake ws q (store (now a)) (store s'),
    working := Some (n, k r)\<rparr>)"
proof (rule keptI)
  let ?b = "a\<lparr>now := s', pending := pending a \<union> woken wake ws q (store (now a)) (store s'),
    working := Some (n, k r)\<rparr>"
  from assms(1,2) have I: "I (store (now a))" and m: "obedient T P (Req q k)" by (simp_all add: kept_def)
  note same = changed_or_same [OF assms(3) obedient_call [OF m failures] I assms(4)]
  show "I (store (now ?b))" using same(1) by simp
  show "obedient T P p" if "working ?b = Some (n', p)" for n' p
    using that obedient_next [OF m answers [OF assms(3) I assms(4)]] by simp
  assume quiet: "req \<notin> pending ?b"
    and unsettled: "\<not> settled (store (now ?b))"
  from quiet same(2) have view: "store s' key = store (now a) key" if "key \<in> keys" for key
    using that by simp
  with unsettled settled_frame [of "store (now a)" "store s'"] have "\<not> settled (store (now a))" by auto
  with assms(1,2) quiet have "n = req" "track (Req q k) (store (now a))" by (auto simp: kept_def)
  with track_call [OF this(2) I assms(3,4) view]
  show "\<exists>p. working ?b = Some (req, p) \<and> track p (store (now ?b))"
    by simp
qed

lemma kept_foreign:
  assumes "kept a" "owner_server L srv store" "P q" "srv q (now a) = (r, s')"
  shows "kept (a\<lparr>now := s', pending := pending a \<union> woken wake ws q (store (now a)) (store s')\<rparr>)"
proof (rule keptI)
  from assms(1) have I: "I (store (now a))" by (simp add: kept_def)
  note same = changed_or_same [OF assms(2,3) I assms(4)]
  let ?b = "a\<lparr>now := s', pending := pending a \<union> woken wake ws q (store (now a)) (store s')\<rparr>"
  show "I (store (now ?b))" using same(1) by simp
  show "obedient T P p" if "working ?b = Some (n, p)" for n p using assms(1) that by (simp add: kept_def)
  assume quiet: "req \<notin> pending ?b" and unsettled: "\<not> settled (store (now ?b))"
  from quiet same(2) have view: "store s' key = store (now a) key" if "key \<in> keys" for key
    using that by simp
  with unsettled settled_frame [of "store (now a)" "store s'"] have "\<not> settled (store (now a))" by auto
  with assms(1) quiet obtain p where "working a = Some (req, p)" "track p (store (now a))"
    by (auto simp: kept_def)
  with track_frame [OF this(2) view] show "\<exists>p. working ?b = Some (req, p) \<and> track p (store (now ?b))"
    by simp
qed

lemma operated_kept:
  assumes "operated L store wake ws rec P s0 a" "I (store s0)"
  shows "kept a"
  using assms(1)
proof induction
  case started
  with lists [of s0] assms(2) show ?case by (intro keptI) auto
next
  case (foreign a srv q r s')
  from foreign.IH foreign.hyps(2-4) show ?case by (rule kept_foreign)
next
  case (taken a n)
  then show ?case by (intro keptI) (auto simp: kept_def obedience intro: track_start)
next
  case (called a n q k srv r s')
  from called.IH called.hyps(2-4) show ?case by (rule kept_call)
next
  case (finished a n res err)
  then show ?case
    by (intro keptI) (auto simp: kept_def dest!: track_end)
next
  case (restarted a)
  with lists [of "now a"] show ?case by (intro keptI) (auto simp: kept_def)
qed

end

context tracked_work
begin

lemma not_lost:
  assumes "operated L store wake ws rec P s0 a" "I (store s0)"
  shows "I (store (now a))" "req \<in> pending a \<or> settled (store (now a)) \<or> (\<exists>p. working a = Some (req, p))"
  using operated_kept [OF assms] by (auto simp: kept_def)

end

section \<open>Running the manager\<close>

text \<open>A run that is left alone: from its first call to its result.\<close>

lemma run_through:
  assumes "operated L store wake ws rec P s0 a" "owner_server L srv store" "working a = Some (n, p)"
  shows "\<exists>b. operated L store wake ws rec P s0 b \<and> now b = snd (exec srv p (now a)) \<and>
    working b = Some (n, Ret (fst (exec srv p (now a)))) \<and> pending a \<subseteq> pending b"
  using assms(1,3)
proof (induction p arbitrary: a)
  case (Ret x)
  then show ?case by (intro exI [of _ a]) simp
next
  case (Req q k)
  obtain r s' where call: "srv q (now a) = (r, s')" by (cases "srv q (now a)")
  from called [OF Req.prems assms(2) call] Req.IH [of "k r"] obtain b where
    "operated L store wake ws rec P s0 b" "now b = snd (exec srv (k r) s')"
    "working b = Some (n, Ret (fst (exec srv (k r) s')))" "pending a \<subseteq> pending b" by fastforce
  with call show ?case by (intro exI [of _ b]) simp
qed

text \<open>A request is taken, run and, if it is to be, put back.\<close>

lemma run_next:
  assumes "operated L store wake ws rec P s0 a" "owner_server L srv store"
    and "working a = None" "n \<in> pending a" and "exec srv (rec n) (now a) = (Return res err, s')"
  shows "\<exists>b. operated L store wake ws rec P s0 b \<and> now b = s' \<and> working b = None \<and>
    (retried (Return res err) \<longrightarrow> n \<in> pending b)"
proof -
  let ?a = "a\<lparr>pending := pending a - {n}, working := Some (n, rec n)\<rparr>"
  have "operated L store wake ws rec P s0 ?a" by (rule taken [OF assms(1,3,4)])
  from run_through [OF this assms(2), of n "rec n"] assms(5) obtain b where
    b: "operated L store wake ws rec P s0 b" "now b = s'" "working b = Some (n, Ret (Return res err))"
    by auto
  from finished [OF b(1,3)] show ?thesis
    using b(2) by (intro exI [of _ "b\<lparr>pending := pending b \<union> (if retried (Return res err) then {n} else {}),
      working := None\<rparr>"]) auto
qed

text \<open>A script of steps, executed.\<close>

datatype move = Foreign request | Take NamespacedName | Call | Finish

fun play :: "(request \<Rightarrow> 's \<Rightarrow> response \<times> 's) \<Rightarrow> ('s \<Rightarrow> key \<Rightarrow> kobj option) \<Rightarrow> handler \<Rightarrow> watch list \<Rightarrow>
    (NamespacedName \<Rightarrow> ret io) \<Rightarrow> move \<Rightarrow> 's operator \<Rightarrow> 's operator option" where
  "play srv store wake ws rec (Foreign q) a = (case srv q (now a) of (r, s') \<Rightarrow>
     Some (a\<lparr>now := s', pending := pending a \<union> woken wake ws q (store (now a)) (store s')\<rparr>))"
| "play srv store wake ws rec (Take n) a = (case working a of
     None \<Rightarrow> if n \<in> pending a
       then Some (a\<lparr>pending := pending a - {n}, working := Some (n, rec n)\<rparr>) else None
   | Some _ \<Rightarrow> None)"
| "play srv store wake ws rec Call a = (case working a of
     Some (n, Req q k) \<Rightarrow> (case srv q (now a) of (r, s') \<Rightarrow>
       Some (a\<lparr>now := s', pending := pending a \<union> woken wake ws q (store (now a)) (store s'),
         working := Some (n, k r)\<rparr>))
   | _ \<Rightarrow> None)"
| "play srv store wake ws rec Finish a = (case working a of
     Some (n, Ret (Return res err)) \<Rightarrow>
       Some (a\<lparr>pending := pending a \<union> (if retried (Return res err) then {n} else {}), working := None\<rparr>)
   | _ \<Rightarrow> None)"

fun plays :: "(request \<Rightarrow> 's \<Rightarrow> response \<times> 's) \<Rightarrow> ('s \<Rightarrow> key \<Rightarrow> kobj option) \<Rightarrow> handler \<Rightarrow> watch list \<Rightarrow>
    (NamespacedName \<Rightarrow> ret io) \<Rightarrow> move list \<Rightarrow> 's operator \<Rightarrow> 's operator option" where
  "plays srv store wake ws rec [] a = Some a"
| "plays srv store wake ws rec (m # ms) a =
     Option.bind (play srv store wake ws rec m a) (plays srv store wake ws rec ms)"

lemma play_operated:
  assumes "operated L store wake ws rec P s0 a" "owner_server L srv store"
    and "play srv store wake ws rec m a = Some b" "\<And>q. m = Foreign q \<Longrightarrow> P q"
  shows "operated L store wake ws rec P s0 b"
proof (cases m)
  case (Foreign q)
  then show ?thesis
    using assms(3) foreign [OF assms(1,2) assms(4) [OF Foreign]] by (auto split: prod.splits)
next
  case (Take n)
  with assms(3) taken [OF assms(1)] show ?thesis by (auto split: option.splits if_splits)
next
  case Call
  with assms(3) called [OF assms(1) _ assms(2)] show ?thesis
    by (auto split: option.splits prod.splits prog.splits)
next
  case Finish
  with assms(3) finished [OF assms(1)] show ?thesis
    by (auto split: option.splits prog.splits ret.splits)
qed

lemma plays_operated:
  assumes "operated L store wake ws rec P s0 a" "owner_server L srv store"
    and "plays srv store wake ws rec ms a = Some b" "\<And>q. Foreign q \<in> set ms \<Longrightarrow> P q"
  shows "operated L store wake ws rec P s0 b"
  using assms(1,3,4)
proof (induction ms arbitrary: a)
  case (Cons m ms)
  then obtain c where c: "play srv store wake ws rec m a = Some c" "plays srv store wake ws rec ms c = Some b"
    by (auto split: bind_splits)
  from Cons.prems have "operated L store wake ws rec P s0 c"
    by (intro play_operated [OF _ assms(2) c(1)]) auto
  with Cons.IH c(2) Cons.prems(3) show ?case by simp
qed simp

end
