(* ===== verification/OperatorRuns.thy ===== *)
theory OperatorRuns
  imports Operator NfsRecovery NfsSafety EarlyRuns
begin

text \<open>
  The controllers of \<open>NFSProvisioner\<close> under their manager.  They watch only the
  resource itself, but ask to be run again whenever a run did not release it, so that
  no resource is ever forgotten.
\<close>

section \<open>Single calls\<close>

lemma key_of_request:
  assumes "key_of x = mkKey k req" "\<not> cluster_scoped k"
  shows "kobj_kind x = k" "\<lparr>nn_namespace = om_namespace (kobj_meta x), nn_name = om_name (kobj_meta x)\<rparr> = req"
  using assms by (cases req; auto simp: key_of_def mkKey_def split: if_split_asm)+

context api_server
begin

lemma only_target:
  assumes "srv q s = (r, s')" "store s' key \<noteq> store s key"
  shows "target q = Some key"
proof (cases "is_write q \<and> (\<exists>y. r = Inr y)")
  case False
  then have "store s' = store s"
    using assms(1) reads [of q s r s'] failed_writes [of q s _ s'] by (cases r) auto
  with assms(2) show ?thesis by simp
next
  case True
  then obtain y where "srv q s = (Inr y, s')" using assms(1) by blast
  with True assms(2) show ?thesis
    using create_ok [of _ s y s'] update_ok [of _ s y s'] status_ok [of _ s y s'] delete_ok [of _ s y s']
    by (cases q) (fastforce split: if_split_asm)+
qed

lemma failed_call:
  assumes "srv q s = (Inl e, s')"
  shows "store s' = store s"
  using reads [OF _ assms] failed_writes [OF _ assms] by (cases "is_write q") simp_all

lemma wakes_itself:
  assumes "notifies wake" "For k \<in> set ws" "\<not> cluster_scoped k"
    and "srv q s = (r, s')" "store s' (mkKey k req) \<noteq> store s (mkKey k req)"
  shows "req \<in> woken wake ws q (store s) (store s')"
proof -
  from assms(5) obtain x where x: "store s (mkKey k req) = Some x \<or> store s' (mkKey k req) = Some x"
    by (metis option.exhaust)
  then have "key_of x = mkKey k req" using keyed by blast
  with assms(3) have "kobj_kind x = k" "own_request x = req"
    by (simp_all add: key_of_request own_request_def)
  with assms(1,2,5) x have "req \<in> set (wake ws (store s (mkKey k req)) (store s' (mkKey k req)))"
    unfolding notifies_def by metis
  with only_target [OF assms(4,5)] show ?thesis by (simp add: woken_def)
qed

lemma wakes_owner:
  assumes "notifies wake" "Owns k \<in> set ws" "For k' \<in> set ws" "\<not> cluster_scoped k"
    and "srv q s = (r, s')" "store s' (mkKey k req) \<noteq> store s (mkKey k req)"
    and "\<And>x. store s (mkKey k req) = Some x \<or> store s' (mkKey k req) = Some x \<Longrightarrow> owned_by k' (nn_name req) x"
  shows "req \<in> woken wake ws q (store s) (store s')"
proof -
  from assms(6) obtain x where x: "store s (mkKey k req) = Some x \<or> store s' (mkKey k req) = Some x"
    by (metis option.exhaust)
  then have "key_of x = mkKey k req" "owned_by k' (nn_name req) x" using keyed assms(7) by blast+
  moreover from this key_of_request [OF this(1) assms(4)] have "kobj_kind x = k"
    "\<lparr>nn_namespace = om_namespace (kobj_meta x), nn_name = nn_name req\<rparr> = req" by auto
  ultimately have "req \<in> set (wake ws (store s (mkKey k req)) (store s' (mkKey k req)))"
    using assms(1,2,3,6) x unfolding notifies_def by metis
  with only_target [OF assms(5,6)] show ?thesis by (simp add: woken_def)
qed

end

section \<open>Controllers that ask to be run again\<close>

definition ending :: "(event list \<Rightarrow> ret \<Rightarrow> bool) \<Rightarrow> ret io \<Rightarrow> bool" where
  "ending D p \<longleftrightarrow> (\<forall>t x. runs p t x \<longrightarrow> D t x)"

text \<open>
  A run is retried, or one of its calls has succeeded that changes the resource \<open>y\<close>
  it has fetched.
\<close>

definition pressed :: "(kobj \<Rightarrow> request \<Rightarrow> bool) \<Rightarrow> kobj \<Rightarrow> event list \<Rightarrow> ret \<Rightarrow> bool" where
  "pressed alters y t x \<longleftrightarrow> retried x \<or> (\<exists>q z. (q, Inr z) \<in> set t \<and> alters y q)"

text \<open>
  A controller whose run fetches the resource first, and is retried when the fetch
  failed or the resource is \<open>wanted\<close>, unless the run has changed the resource.
\<close>

locale restless_controller =
  fixes L :: lib and store :: "'s \<Rightarrow> key \<Rightarrow> kobj option" and wake :: handler
    and ws :: "watch list" and rec :: "NamespacedName \<Rightarrow> ret io" and k :: kind
    and wanted :: "kobj \<Rightarrow> bool" and alters :: "kobj \<Rightarrow> request \<Rightarrow> bool"
  assumes wake: "notifies wake" and watched: "For k \<in> set ws" "\<not> cluster_scoped k"
    and fetches: "\<exists>p. rec n = Req (Get k n) p"
    and fetch_fails: "runs (rec n) ((Get k n, Inl e) # t) x \<Longrightarrow> \<not> IsNotFound L e \<Longrightarrow> retried x"
    and persists: "runs (rec n) ((Get k n, Inr y) # t) x \<Longrightarrow> wanted y \<Longrightarrow> pressed alters y t x"
    and altered: "api_server L srv store \<Longrightarrow> store s (mkKey k n) = Some y \<Longrightarrow> wanted y \<Longrightarrow> alters y q \<Longrightarrow>
      srv q s = (Inr z, s') \<Longrightarrow> store s' (mkKey k n) \<noteq> Some y"
begin

definition attended :: "NamespacedName \<Rightarrow> (key \<Rightarrow> kobj option) \<Rightarrow> bool" where
  "attended req f \<longleftrightarrow> (\<forall>y. f (mkKey k req) = Some y \<longrightarrow> \<not> wanted y)"

definition followed :: "NamespacedName \<Rightarrow> ret io \<Rightarrow> (key \<Rightarrow> kobj option) \<Rightarrow> bool" where
  "followed req p f \<longleftrightarrow> attended req f \<or> p = rec req \<or> ending (\<lambda>_. retried) p \<or>
     (\<exists>y. f (mkKey k req) = Some y \<and> wanted y \<and> ending (pressed alters y) p)"

lemma followed_first:
  assumes srv: "api_server L srv store" and first: "rec req = Req q p" and call: "srv q s = (r, s')"
  shows "followed req (p r) (store s)"
proof -
  from fetches [of req] first have q: "q = Get k req" by auto
  show ?thesis
  proof (cases r)
    case (Inl e)
    show ?thesis
    proof (cases "IsNotFound L e")
      case True
      with srv call q Inl have "store s (mkKey k req) = None" by (simp add: api_server.get_missing)
      then show ?thesis by (simp add: followed_def attended_def)
    next
      case False
      have "retried x" if "runs (p r) t x" for t x
        using fetch_fails [of req e t x] False that first q Inl by simp
      then show ?thesis by (simp add: followed_def ending_def)
    qed
  next
    case (Inr y)
    with srv call q have y: "store s (mkKey k req) = Some y" by (simp add: api_server.get_found)
    have "pressed alters y t x" if "wanted y" "runs (p r) t x" for t x
      using persists [of req y t x] that first q Inr by simp
    with y show ?thesis by (auto simp: followed_def attended_def ending_def)
  qed
qed

lemma followed_call:
  assumes "followed req (Req q p) (store s)" and srv: "api_server L srv store" and call: "srv q s = (r, s')"
    and same: "store s' (mkKey k req) = store s (mkKey k req)"
  shows "followed req (p r) (store s')"
proof -
  consider "attended req (store s)" | "rec req = Req q p" | "ending (\<lambda>_. retried) (Req q p)"
    | y where "store s (mkKey k req) = Some y" "wanted y" "ending (pressed alters y) (Req q p)"
    using assms(1) unfolding followed_def by metis
  then show ?thesis
  proof cases
    case 1
    with same show ?thesis by (simp add: followed_def attended_def)
  next
    case 2
    from followed_first [OF srv this call] 2 fetches [of req] same show ?thesis
      by (auto simp: followed_def attended_def)
  next
    case 3
    then have "ending (\<lambda>_. retried) (p r)" by (auto simp: ending_def)
    then show ?thesis by (simp add: followed_def)
  next
    case 4
    have "\<not> alters y q" if "r = Inr z" for z
      using altered [OF srv 4(1,2)] call same 4(1) that by metis
    moreover have "pressed alters y ((q, r) # t) x" if "runs (p r) t x" for t x
      using 4(3) that by (simp add: ending_def)
    ultimately have "pressed alters y t x" if "runs (p r) t x" for t x
      using that unfolding pressed_def by (metis prod.inject set_ConsD)
    with 4(1,2) same show ?thesis by (auto simp: followed_def ending_def)
  qed
qed

text \<open>Whatever else is known of the cluster, such a controller loses no work.\<close>

lemma tracked_under:
  assumes "\<And>srv s q r s'. owner_server L srv store \<Longrightarrow> P q \<Longrightarrow> I (store s) \<Longrightarrow> srv q s = (r, s') \<Longrightarrow>
      I (store s')"
    and "\<And>srv s q r s'. owner_server L srv store \<Longrightarrow> I (store s) \<Longrightarrow> srv q s = (r, s') \<Longrightarrow> T (q, r)"
    and "\<And>q e. T (q, Inl e)" and "\<And>n. obedient T P (rec n)"
  shows "tracked_work L store wake ws rec P req {mkKey k req} I (attended req) T (followed req)"
proof (unfold_locales, goal_cases)
  case (1 srv q s r s')
  then show ?case by (rule assms(1))
next
  case (2 srv s s' q r key)
  then show ?case
    using api_server.wakes_itself [OF owner_server.axioms(1) [OF 2(1)] wake watched 2(4)] by simp
next
  case (3 s)
  then show ?case using watched by (auto simp: attended_def listed_def)
next
  case (4 f g)
  then show ?case by (simp add: attended_def)
next
  case (5 p f g)
  then show ?case by (auto simp: followed_def attended_def)
next
  case (6 srv s q r s')
  then show ?case by (rule assms(2))
next
  case (10 q p s srv r s')
  then show ?case using followed_call [OF 10(1) owner_server.axioms(1) [OF 10(3)] 10(4)] by simp
next
  case (11 x f)
  moreover from fetches [of req] have "Ret x \<noteq> rec req" by auto
  ultimately show ?case by (auto simp: followed_def ending_def pressed_def)
qed (auto simp: followed_def assms(3,4))

end

sublocale restless_controller \<subseteq> tracked_work L store wake ws rec "\<lambda>_. True" req "{mkKey k req}" "\<lambda>_. True"
  "attended req" "\<lambda>_. True" "followed req" for req
  by (rule tracked_under) (simp_all add: obedient_def list_all_iff)

text \<open>
  The finished controller: a valid resource that is live, or still carries the
  finalizer, is not released.
\<close>

definition unreleased :: "lib \<Rightarrow> kobj \<Rightarrow> bool" where
  "unreleased L y \<longleftrightarrow> (case y of
     NFSProvisionerO m \<Rightarrow> validate m = None \<and>
       (IsZero L (om_deletionTimestamp (nfs_meta m)) \<or> finalizerName \<in> set (om_finalizers (nfs_meta m)))
   | _ \<Rightarrow> False)"

definition releases :: "kobj \<Rightarrow> request \<Rightarrow> bool" where
  "releases y q \<longleftrightarrow> (case q of
     Update x \<Rightarrow> key_of x = key_of y \<and> finalizerName \<in> set (om_finalizers (kobj_meta y)) \<and>
       finalizerName \<notin> set (om_finalizers (kobj_meta x))
   | _ \<Rightarrow> False)"

context k8s_lib
begin

lemma Reconcile_pressed:
  assumes "runs (Reconcile L req) ((Get NFSProvisionerK req, Inr y) # t) x" "unreleased L y"
  shows "pressed releases y t x"
proof -
  from assms(2) obtain m where m: "y = NFSProvisionerO m" "validate m = None"
    "IsZero L (om_deletionTimestamp (nfs_meta m)) \<or> finalizerName \<in> set (om_finalizers (nfs_meta m))"
    by (auto simp: unreleased_def split: kobj.splits)
  from assms(1) show ?thesis
  proof (cases rule: Reconcile_run)
    case not_fetched
    then show ?thesis by (auto elim: fetch_run)
  next
    case (rejected y' t' err)
    then have "asNFSProvisioner y' = m" using m(1) by auto
    with rejected m(2) show ?thesis by simp
  next
    case (stopped y' t')
    have "obeys (ends_in retried) (ensureAll L (RLog req) (asNFSProvisioner y'))"
      by (rule ensureAll_ending) simp_all
    with stopped(3) have "retried x" using obeys_returned by (fastforce simp: ends_in_def)
    then show ?thesis by (simp add: pressed_def)
  next
    case (finished y' t' t'')
    then have "runs (finalizeNFSProvisioner L (RLog req) m) t'' (Inl x)" "set t'' \<subseteq> set t"
      using m(1) by auto
    then show ?thesis
    proof (cases rule: finalize_run)
      case (removed t1 r z)
      then have "(Update (NFSProvisionerO (m\<lparr>nfs_meta := RemoveFinalizer L (nfs_meta m) finalizerName\<rparr>)), Inr z) \<in> set t"
        using \<open>set t'' \<subseteq> set t\<close> by auto
      moreover have "releases y (Update (NFSProvisionerO (m\<lparr>nfs_meta := RemoveFinalizer L (nfs_meta m) finalizerName\<rparr>)))"
        using m(1) removed by (simp add: releases_def key_of_def)
      ultimately show ?thesis unfolding pressed_def by blast
    qed (use m(3) in \<open>simp_all add: pressed_def\<close>)
  qed
qed

lemma Reconcile_fetch_fails:
  assumes "runs (Reconcile L req) ((Get NFSProvisionerK req, Inl e) # t) x" "\<not> IsNotFound L e"
  shows "retried x"
  using assms by (cases rule: Reconcile_run) (auto elim!: fetch_run simp: ignoreNotFound)

end

lemma releases_alters:
  assumes srv: "api_server L srv store" and y: "store s key = Some y" and q: "releases y q"
    and call: "srv q s = (Inr z, s')"
  shows "store s' key \<noteq> Some y"
proof -
  from q obtain x where x: "q = Update x" "key_of x = key_of y"
    "finalizerName \<in> set (om_finalizers (kobj_meta y))" "finalizerName \<notin> set (om_finalizers (kobj_meta x))"
    by (auto simp: releases_def split: request.splits)
  have "key_of x = key" using x(2) api_server.keyed [OF srv y] by simp
  moreover from call x(1) have "srv (Update x) s = (Inr z, s')" by simp
  ultimately have "store s' key = None \<or> (\<exists>w. store s' key = Some w \<and> updated y x w)"
    using api_server.update_ok [OF srv, of x s z s'] y by (auto split: if_split_asm)
  with x(3,4) show ?thesis by (auto simp: updated_def)
qed

lemma Reconcile_restless:
  assumes "k8s_lib L" "notifies wake"
  shows "restless_controller L store wake SetupWithManager (Reconcile L) NFSProvisionerK (unreleased L) releases"
proof (unfold_locales, goal_cases)
  case (4 n)
  then show ?case
    by (simp add: Reconcile_def Reconcile_body_def fetchNFSProvisioner_def)
next
  case (5 n e t x)
  then show ?case by (rule k8s_lib.Reconcile_fetch_fails [OF assms(1)])
next
  case (6 n y t x)
  then show ?case by (rule k8s_lib.Reconcile_pressed [OF assms(1)])
next
  case (7 srv s n y q z s')
  then show ?case using releases_alters [OF 7(1,2,4,5)] by simp
qed (use assms(2) in \<open>simp_all add: registrations cluster_scoped_def\<close>)

interpretation std_Reconcile: restless_controller "std_lib parse" mem_store std_wake SetupWithManager
    "Reconcile (std_lib parse)" NFSProvisionerK "unreleased (std_lib parse)" releases for parse
  by (rule Reconcile_restless [OF std_lib_laws std_wake_notifies])

text \<open>The first three tutorials: every resource that exists.\<close>

definition early_operators :: "lib \<Rightarrow> (watch list \<times> (NamespacedName \<Rightarrow> ret io)) list" where
  "early_operators L =
     [(SetupWithManager_sa, Reconcile_sa L), (SetupWithManager_deploy, Reconcile_deploy L),
      (SetupWithManager_rbac, Reconcile_rbac L), (SetupWithManager_hostpath, Reconcile_hostpath L)]"

lemma early_operator:
  assumes "(ws, rec) \<in> set (early_operators L)"
  shows "ws = [For NFSProvisionerK]" "\<exists>es. (rec n, es) \<in> set (early_controllers L n)"
  using assms by (auto simp: early_operators_def early_controllers_def registrations)

lemma early_restless:
  assumes "(ws, rec) \<in> set (early_operators L)" "MustParse L ''1Gi'' \<noteq> None" "notifies wake"
  shows "restless_controller L store wake ws rec NFSProvisionerK (\<lambda>_. True) (\<lambda>_ _. False)"
proof (unfold_locales, goal_cases)
  case (4 n)
  from early_operator(2) [OF assms(1), of n] obtain es where "(rec n, es) \<in> set (early_controllers L n)" by blast
  from early_controller(1) [OF this assms(2)] show ?case
    by (simp add: early_reconcile_def fetch_sa_def)
next
  case (5 n e t x)
  from early_operator(2) [OF assms(1), of n] obtain es where "(rec n, es) \<in> set (early_controllers L n)" by blast
  from early_ends [OF this assms(2) 5(1)] 5(2) show ?case by simp
next
  case (6 n y t x)
  from early_operator(2) [OF assms(1), of n] obtain es where "(rec n, es) \<in> set (early_controllers L n)" by blast
  from early_ends [OF this assms(2) 6(1)] show ?case by (simp add: pressed_def)
qed (use assms(3) early_operator(1) [OF assms(1)] in \<open>simp_all add: cluster_scoped_def\<close>)

section \<open>Never forgotten\<close>

context restless_controller
begin

lemma never_forgotten:
  assumes "operated L store wake ws rec (\<lambda>_. True) s0 a"
    and "store (now a) (mkKey k req) = Some y" "wanted y"
  shows "req \<in> pending a \<or> (\<exists>p. working a = Some (req, p))"
  using not_lost(2) [OF assms(1), of req] assms(2,3) by (auto simp: attended_def)

end

text \<open>The controllers with their registrations, and the resources they look after.\<close>

definition operators :: "lib \<Rightarrow> (watch list \<times> (NamespacedName \<Rightarrow> ret io) \<times> (kobj \<Rightarrow> bool)) list" where
  "operators L = (SetupWithManager, Reconcile L, unreleased L) #
     map (\<lambda>(ws, rec). (ws, rec, \<lambda>_. True)) (early_operators L)"

text \<open>
  C11. Nothing is forgotten: in every state the manager of the finished controller or of
  one of the first three tutorials can reach, with servers that fail in any way, with
  other clients that do anything between any two calls and with restarts at any moment,
  a resource to be looked after is in the queue or being worked on.  For the finished
  controller that is every valid resource that is live or still carries the finalizer,
  for the tutorials every resource.
\<close>

theorem controllers_never_forget:
  assumes "k8s_lib L" and "MustParse L ''1Gi'' \<noteq> None" and "notifies wake"
    and "(ws, rec, wanted) \<in> set (operators L)"
    and "operated L store wake ws rec (\<lambda>_. True) s0 a"
    and "store (now a) (mkKey NFSProvisionerK req) = Some y" and "wanted y"
  shows "req \<in> pending a \<or> (\<exists>p. working a = Some (req, p))"
proof -
  obtain alters where "restless_controller L store wake ws rec NFSProvisionerK wanted alters"
    using assms(4) Reconcile_restless [OF assms(1,3)] early_restless [OF _ assms(2,3)]
    by (fastforce simp: operators_def)
  from restless_controller.never_forgotten [OF this assms(5)] assms(6,7) show ?thesis by blast
qed

section \<open>Self-healing\<close>

text \<open>Answers of a server on which \<open>req\<close> is live and valid with the spec \<open>sp\<close>.\<close>

definition tending :: "lib \<Rightarrow> NamespacedName \<Rightarrow> NFSProvisionerSpec \<Rightarrow> event \<Rightarrow> bool" where
  "tending L req sp e \<longleftrightarrow> (case e of
     (Get k n, Inr y) \<Rightarrow> key_of y = mkKey k n \<and>
       (mkKey k n = mkKey NFSProvisionerK req \<longrightarrow> (\<exists>m. y = NFSProvisionerO m \<and> Spec m = sp \<and>
          IsZero L (om_deletionTimestamp (nfs_meta m)) \<and> validate m = None))
   | _ \<Rightarrow> True)"

context api_server
begin

lemma tending_answer:
  assumes "tended L req sp (store s)" "srv q s = (r, s')"
  shows "tending L req sp (q, r)"
proof -
  have "tending L req sp (Get k n, Inr y)" if "q = Get k n" "r = Inr y" for k n y
  proof -
    from assms(2) that have y: "store s (mkKey k n) = Some y" by (auto dest: get_found)
    from assms(1) show ?thesis
      by (rule tendedE) (use y keyed [OF y] in \<open>auto simp: tending_def serviceable_def\<close>)
  qed
  then show ?thesis by (auto simp: tending_def split: request.split sum.split)
qed

end

lemma tending_genuine: "list_all (tending L req sp) t \<Longrightarrow> genuine t"
  by (induction t) (auto simp: tending_def split: request.splits sum.splits)

context k8s_lib
begin

lemma Reconcile_obedient: "obedient (tending L req sp) (harmless req sp) (Reconcile L n)"
proof (rule obedientI)
  fix t x q
  assume run: "runs (Reconcile L n) t x" and t: "list_all (tending L req sp) t" and "q \<in> fst ` set t"
  then obtain r where q: "(q, r) \<in> set t" by force
  show "harmless req sp q"
  proof (cases "is_write q")
    case True
    from Reconcile_confined [OF run tending_genuine [OF t] q True] obtain m t' where
      m: "t = (Get NFSProvisionerK n, Inr (NFSProvisionerO m)) # t'" "nn (nfsNamespace m) (nfsName m) = n"
        "permitted L m q" by blast
    have "crKey m = mkKey NFSProvisionerK n" using m(2) by (auto simp: key_of_def)
    moreover from t m(1) have "Spec m = sp" if "mkKey NFSProvisionerK n = mkKey NFSProvisionerK req"
      using that by (simp add: tending_def)
    ultimately show ?thesis using m(3)
      by (cases q) (auto simp: only_finalizer_frame external_keys_def mkKey_def)
  qed (cases q; simp)
qed

end

lemma Reconcile_tended:
  assumes "k8s_lib L" "notifies wake"
  shows "tracked_work L store wake SetupWithManager (Reconcile L) (harmless req sp) req
    {mkKey NFSProvisionerK req} (tended L req sp) (restless_controller.attended NFSProvisionerK (unreleased L) req)
    (tending L req sp) (restless_controller.followed (Reconcile L) NFSProvisionerK (unreleased L) releases req)"
proof (rule restless_controller.tracked_under [OF Reconcile_restless [OF assms]], goal_cases)
  case (1 srv s q r s')
  then show ?case using api_server.tended_step [OF owner_server.axioms(1) [OF 1(1)] 1(3,2)] by simp
next
  case (2 srv s q r s')
  then show ?case by (intro api_server.tending_answer owner_server.axioms(1))
next
  case (3 q e)
  show ?case by (simp add: tending_def split: request.split)
next
  case (4 n)
  show ?case by (rule k8s_lib.Reconcile_obedient [OF assms(1)])
qed

text \<open>
  C3. Self-healing: let the resource be live, valid and served when the operator starts,
  and let the other clients do anything but change its spec, delete it or delete the
  claim it names.  Then in every reachable state, after failures, interference and
  restarts, its request is in the queue or being worked on, and whenever no run is
  under way, one run that is left alone on a server that answers puts every required
  object and the finalizer in place and leaves the request in the queue.
\<close>

theorem Reconcile_operator_heals:
  assumes "healthy_server L srv store" and "owner_server L srv store" and "notifies wake"
    and "store s0 (mkKey NFSProvisionerK req) = Some (NFSProvisionerO m)"
    and "IsZero L (om_deletionTimestamp (nfs_meta m))" and "serviceable L (store s0) m"
    and "operated L store wake SetupWithManager (Reconcile L) (harmless req (Spec m)) s0 a"
  shows "(req \<in> pending a \<or> (\<exists>p. working a = Some (req, p))) \<and>
    (working a = None \<longrightarrow> (\<exists>b. now b = snd (exec srv (Reconcile L req) (now a)) \<and>
       operated L store wake SetupWithManager (Reconcile L) (harmless req (Spec m)) s0 b \<and>
       served L req (store (now b)) \<and> working b = None \<and> req \<in> pending b))"
proof -
  have lib: "k8s_lib L" using assms(1) by (intro api_server.axioms(1) healthy_server.axioms(1))
  have "tended L req (Spec m) (store s0)" using assms(4-6) by (simp add: tended_def)
  note kept = tracked_work.not_lost [OF Reconcile_tended [OF lib assms(3)] assms(7) this]
  from kept(1) obtain m' where "store (now a) (mkKey NFSProvisionerK req) = Some (NFSProvisionerO m')"
    "validate m' = None" "IsZero L (om_deletionTimestamp (nfs_meta m'))"
    by (auto elim!: tendedE simp: serviceable_def)
  then have waiting: "req \<in> pending a \<or> (\<exists>p. working a = Some (req, p))"
    using kept(2) restless_controller.attended_def [OF Reconcile_restless [OF lib assms(3)]]
    by (auto simp: unreleased_def)
  moreover have "\<exists>b. now b = snd (exec srv (Reconcile L req) (now a)) \<and>
      operated L store wake SetupWithManager (Reconcile L) (harmless req (Spec m)) s0 b \<and>
      served L req (store (now b)) \<and> working b = None \<and> req \<in> pending b" if idle: "working a = None"
  proof -
    from healthy_server.recovers [OF assms(1) kept(1)] obtain s' where
      s': "exec srv (Reconcile L req) (now a) = (Return \<lparr>Requeue = True\<rparr> None, s')" "served L req (store s')"
      by blast
    from waiting idle have "req \<in> pending a" by simp
    from run_next [OF assms(7,2) idle this s'(1)] s' show ?thesis by fastforce
  qed
  ultimately show ?thesis by blast
qed

section \<open>A concrete operator\<close>

definition demoStart :: "cluster operator" where
  "demoStart = \<lparr>now = demoCluster demoSpec [] None, pending = {demoReq}, working = None\<rparr>"

lemma demo_started: "demoStart = \<lparr>now = demoCluster demoSpec [] None,
    pending = listed SetupWithManager (mem_store (demoCluster demoSpec [] None)), working = None\<rparr>"
proof -
  have "n = demoReq" if "mem_store (demoCluster demoSpec [] None) (mkKey NFSProvisionerK n) \<noteq> None" for n
    using that
    by (cases n) (auto simp: mem_store_def demoCluster_def cluster_of_def demoReq_def demoCR_def key_of_def
        mkKey_def cluster_scoped_def split: if_split_asm)
  then have "listed SetupWithManager (mem_store (demoCluster demoSpec [] None)) = {demoReq}"
    by (auto simp: listed_def registrations)
  then show ?thesis by (simp add: demoStart_def)
qed

text \<open>
  The first run, during which another client deletes the ClusterRole the run has just
  created.
\<close>

definition demoScript :: "move list" where
  "demoScript = Take demoReq # replicate 13 Call @
     [Foreign (Delete (ClusterRoleO (clusterRoleForNFSProvisioner demoLib (demoCR demoSpec [] None))))] @
     replicate 21 Call @ [Finish]"

definition demoPlayed :: "cluster operator option" where
  "demoPlayed = plays mem_srv mem_store std_wake SetupWithManager (Reconcile demoLib) demoScript demoStart"

lemma demo_played: "(case demoPlayed of None \<Rightarrow> False | Some b \<Rightarrow>
    mem_store (now b) (mkKey ClusterRoleK (nn '''' ClusterRole_default)) = None \<and>
    (case working b of None \<Rightarrow> True | Some _ \<Rightarrow> False) \<and>
    (case mem_store (now b) (mkKey NFSProvisionerK demoReq) of None \<Rightarrow> False | Some y \<Rightarrow> unreleased demoLib y))"
  by code_simp

lemma demo_owner_server: "owner_server demoLib mem_srv mem_store"
  by (simp add: demoLib_def mem_owner_server)

lemma demo_operated:
  assumes "demoPlayed = Some b"
    and "P (Delete (ClusterRoleO (clusterRoleForNFSProvisioner demoLib (demoCR demoSpec [] None))))"
  shows "operated demoLib mem_store std_wake SetupWithManager (Reconcile demoLib) P
    (demoCluster demoSpec [] None) b"
proof (rule plays_operated [OF _ demo_owner_server])
  show "operated demoLib mem_store std_wake SetupWithManager (Reconcile demoLib) P
      (demoCluster demoSpec [] None) demoStart"
    unfolding demo_started by (rule started)
  show "plays mem_srv mem_store std_wake SetupWithManager (Reconcile demoLib) demoScript demoStart = Some b"
    using assms(1) by (simp add: demoPlayed_def)
  show "P q" if "Foreign q \<in> set demoScript" for q
    using that assms(2) by (auto simp: demoScript_def)
qed

lemma controllers_never_forget_witness:
  "\<exists>b. demoPlayed = Some b \<and> (demoReq \<in> pending b \<or> (\<exists>p. working b = Some (demoReq, p)))"
proof -
  from demo_played obtain b y where b: "demoPlayed = Some b"
    "mem_store (now b) (mkKey NFSProvisionerK demoReq) = Some y" "unreleased demoLib y"
    by (auto split: option.splits)
  have "MustParse demoLib ''1Gi'' \<noteq> None" by code_simp
  moreover have "(SetupWithManager, Reconcile demoLib, unreleased demoLib) \<in> set (operators demoLib)"
    by (simp add: operators_def)
  moreover have "operated demoLib mem_store std_wake SetupWithManager (Reconcile demoLib) (\<lambda>_. True)
      (demoCluster demoSpec [] None) b" by (rule demo_operated [OF b(1)]) simp
  ultimately have "demoReq \<in> pending b \<or> (\<exists>p. working b = Some (demoReq, p))"
    using controllers_never_forget [OF demoLib _ std_wake_notifies, of SetupWithManager "Reconcile demoLib"
      "unreleased demoLib" mem_store "demoCluster demoSpec [] None" b demoReq y] b(2,3) by blast
  with b(1) show ?thesis by blast
qed

lemma Reconcile_operator_heals_witness:
  "\<exists>a (b :: cluster operator). demoPlayed = Some a \<and>
     mem_store (now a) (mkKey ClusterRoleK (nn '''' ClusterRole_default)) = None \<and>
     now b = snd (exec mem_srv (Reconcile demoLib demoReq) (now a)) \<and> served demoLib demoReq (mem_store (now b))"
proof -
  let ?m = "demoCR demoSpec [] None"
  from demo_played obtain a where a: "demoPlayed = Some a" "working a = None"
    "mem_store (now a) (mkKey ClusterRoleK (nn '''' ClusterRole_default)) = None"
    by (auto split: option.splits)
  have m: "IsZero demoLib (om_deletionTimestamp (nfs_meta ?m))"
    "serviceable demoLib (mem_store (demoCluster demoSpec [] None)) ?m" "Spec ?m = demoSpec"
    by code_simp+
  have "harmless demoReq (Spec ?m) (Delete (ClusterRoleO (clusterRoleForNFSProvisioner demoLib ?m)))"
    by (simp add: key_of_def)
  then have "operated demoLib mem_store std_wake SetupWithManager (Reconcile demoLib) (harmless demoReq (Spec ?m))
      (demoCluster demoSpec [] None) a" by (rule demo_operated [OF a(1)])
  from Reconcile_operator_heals [OF demo_healthy demo_owner_server std_wake_notifies demo_fetched m(1,2) this] a
  obtain b :: "cluster operator" where "now b = snd (exec mem_srv (Reconcile demoLib demoReq) (now a))"
    "served demoLib demoReq (mem_store (now b))" by blast
  with a(1,3) show ?thesis by (intro exI [of _ a] exI [of _ b]) simp
qed

end
