(* ===== verification/OperatorMemcached.thy ===== *)
theory OperatorMemcached
  imports OperatorRuns MemcachedServer
begin

text \<open>
  The memcached controller under its manager.  Its runs do not ask to be repeated
  when there was nothing to do, so that it rests on the events of the Deployments the
  resource owns: those bring every change of the size back to it, and a Deployment
  it does not own is out of its sight.
\<close>

text \<open>
  Requests that leave the Deployment of the resource \<open>req\<close> to it: whoever creates or
  updates it keeps the resource as its controller.
\<close>

definition respectful :: "NamespacedName \<Rightarrow> request \<Rightarrow> bool" where
  "respectful req q \<longleftrightarrow> (case q of
     Create x \<Rightarrow> key_of x = mkKey DeploymentK req \<longrightarrow> owned_by MemcachedK (nn_name req) x
   | Update x \<Rightarrow> key_of x = mkKey DeploymentK req \<longrightarrow> owned_by MemcachedK (nn_name req) x
   | _ \<Rightarrow> True)"

definition governed :: "NamespacedName \<Rightarrow> (key \<Rightarrow> kobj option) \<Rightarrow> bool" where
  "governed req f \<longleftrightarrow> (case f (mkKey DeploymentK req) of
     None \<Rightarrow> True | Some x \<Rightarrow> owned_by MemcachedK (nn_name req) x)"

lemma governedD: "governed req f \<Longrightarrow> f (mkKey DeploymentK req) = Some x \<Longrightarrow> owned_by MemcachedK (nn_name req) x"
  by (simp add: governed_def)

lemma respectful_read [simp]: "\<not> is_write q \<Longrightarrow> respectful req q"
  by (cases q) (simp_all add: respectful_def)

context owner_server
begin

lemma governed_step:
  assumes "respectful req q" "governed req (store s)" "srv q s = (r, s')"
  shows "governed req (store s')"
proof (cases "store s' (mkKey DeploymentK req) = store s (mkKey DeploymentK req)")
  case True
  with assms(2) show ?thesis by (simp add: governed_def)
next
  case False
  then have t: "target q = Some (mkKey DeploymentK req)" by (rule only_target [OF assms(3)])
  from False obtain y where ok: "srv q s = (Inr y, s')"
    using assms(3) failed_call [of q s _ s'] by (cases r) auto
  have owned: "owned_by MemcachedK (nn_name req) z" if "store s (mkKey DeploymentK req) = Some z" for z
    using assms(2) that by (simp add: governed_def)
  have "owned_by MemcachedK (nn_name req) w" if w: "store s' (mkKey DeploymentK req) = Some w" for w
  proof (cases q)
    case (Create x)
    with ok t w create_ok [of x s y s'] have "w = y" by auto
    with create_owners [of x s y s'] ok Create t assms(1) show ?thesis
      by (simp add: respectful_def owned_by_def)
  next
    case (Update x)
    with update_owners [of x s y s' w] ok t w assms(1) show ?thesis
      by (simp add: respectful_def owned_by_def)
  next
    case (StatusUpdate x)
    with ok t w status_ok [of x s y s'] obtain z where
      "store s (mkKey DeploymentK req) = Some z" "w = with_status z x" by auto
    with owned show ?thesis by (simp add: owned_by_def)
  next
    case (Delete x)
    with ok t delete_ok [of x s y s'] obtain z where z: "store s (mkKey DeploymentK req) = Some z" by auto
    with delete_owners [of x s y s' z w] ok t w Delete owned [OF z] show ?thesis
      by (simp add: owned_by_def)
  qed (use t in auto)
  then show ?thesis by (simp add: governed_def split: option.split)
qed

end

text \<open>Answers of a server whose Deployment of \<open>req\<close> is owned by it.\<close>

definition trusted :: "NamespacedName \<Rightarrow> event \<Rightarrow> bool" where
  "trusted req e \<longleftrightarrow> (case e of (q, r) \<Rightarrow> \<forall>k n y. q = Get k n \<and> r = Inr y \<longrightarrow>
     key_of y = mkKey k n \<and> (mkKey k n = mkKey DeploymentK req \<longrightarrow> owned_by MemcachedK (nn_name req) y))"

lemma trusted_failure [simp]: "trusted req (q, Inl e)"
  by (simp add: trusted_def)

context owner_server
begin

lemma trusted_answer:
  assumes "governed req (store s)" "srv q s = (r, s')"
  shows "trusted req (q, r)"
proof -
  have "key_of y = mkKey k n \<and> (mkKey k n = mkKey DeploymentK req \<longrightarrow> owned_by MemcachedK (nn_name req) y)"
    if "q = Get k n" "r = Inr y" for k n y
  proof -
    from assms(2) that have y: "store s (mkKey k n) = Some y" by (auto dest: get_found)
    with keyed [OF y] assms(1) show ?thesis
      by (cases "mkKey k n = mkKey DeploymentK req") (simp_all add: governed_def)
  qed
  then show ?thesis by (simp add: trusted_def)
qed

end

lemma own_deployment_owned:
  assumes "owner_lib L" "key_of (DeploymentO (deploymentForMemcached L m)) = mkKey DeploymentK req"
  shows "owned_by MemcachedK (nn_name req) (DeploymentO (deploymentForMemcached L m))"
proof -
  note name = k8s_lib.setController_name [OF owner_lib.axioms(1) [OF assms(1)]]
  from assms(2) have "om_name (mc_meta m) = nn_name req"
    by (simp add: key_of_def mkKey_def deploymentForMemcached_def Let_def name)
  with owner_lib.setController_owner [OF assms(1), of "mkMeta (om_name (mc_meta m)) (om_namespace (mc_meta m))"
      "mc_meta m" MemcachedK DeploymentK]
  show ?thesis by (simp add: owned_by_def deploymentForMemcached_def Let_def mkMeta_def)
qed

lemma memcached_obedient:
  assumes "owner_lib L"
  shows "obedient (trusted req) (respectful req) (ReconcileMemcached L n)"
proof (rule obedientI)
  fix t x q0 assume run: "runs (ReconcileMemcached L n) t x" and t: "list_all (trusted req) t"
    and q0: "q0 \<in> fst ` set t"
  have "respectful req q" if "q \<in> set (writes t)" for q
  proof -
    from that memcached_calls_and_writes [OF run] obtain y where
      "mc_permitted L (asMemcached y) t q" by auto
    then show ?thesis
    proof (cases q)
      case (Create y')
      with \<open>mc_permitted L _ t q\<close> show ?thesis
        by (auto simp: respectful_def intro: own_deployment_owned [OF assms])
    next
      case (Update y')
      with \<open>mc_permitted L _ t q\<close> obtain z d where
        z: "(Get DeploymentK (memcachedName (asMemcached y)), Inr z) \<in> set t"
          "y' = DeploymentO ((asDeployment z)\<lparr>dep_replicas := d\<rparr>)" by auto
      with t have "key_of z = mkKey DeploymentK (memcachedName (asMemcached y))"
        "key_of z = mkKey DeploymentK req \<longrightarrow> owned_by MemcachedK (nn_name req) z"
        by (auto simp: list_all_iff trusted_def)
      moreover from this(1) obtain d' where "z = DeploymentO d'"
        by (cases z) (auto simp: key_of_def mkKey_def)
      ultimately show ?thesis using Update z(2) by (simp add: respectful_def key_of_def owned_by_def)
    qed (auto simp: respectful_def)
  qed
  then show "respectful req q0"
    using q0 respectful_read by (fastforce simp: writes_def)
qed

text \<open>What is left of a run once it has fetched the resource.\<close>

definition after_fetch :: "lib \<Rightarrow> NamespacedName \<Rightarrow> Memcached \<Rightarrow> ret io" where
  "after_fetch L req m =
     prog_bind (andthen (findDeployment L (RLog req) m) (\<lambda>found.
        andthen (syncSize (RLog req) m found) (\<lambda>_. updateNodes (RLog req) m)))
       (\<lambda>x. case x of Inl r \<Rightarrow> Ret r | Inr _ \<Rightarrow> Ret (Return \<lparr>Requeue = False\<rparr> None))"

lemma memcached_fetches:
  obtains p where "ReconcileMemcached L req = Req (Get MemcachedK req) p"
    "\<And>x. p (Inr x) = after_fetch L req (asMemcached x)"
  by (simp add: ReconcileMemcached_def ReconcileMemcached_body_def after_fetch_def fetchMemcached_def)

lemma memcached_fetch_fails:
  assumes "runs (ReconcileMemcached L req) ((Get MemcachedK req, Inl e) # t) x" "\<not> IsNotFound L e"
  shows "retried x"
  using assms unfolding runs_ReconcileMemcached ReconcileMemcached_body_def
  by (auto elim!: runs_andthenE fetchMemcached_run)

lemma after_fetch_asks:
  obtains p where "after_fetch L req m = Req (Get DeploymentK (memcachedName m)) p"
  by (simp add: after_fetch_def findDeployment_def)

lemma after_fetch_ends:
  assumes "runs (after_fetch L req m) ((Get DeploymentK (memcachedName m), r) # t) x"
  shows "retried x \<or> (\<exists>y. r = Inr y \<and> dep_replicas (asDeployment y) = Some (mc_Size m))"
proof -
  let ?p = "andthen (findDeployment L (RLog req) m) (\<lambda>found.
        andthen (syncSize (RLog req) m found) (\<lambda>_. updateNodes (RLog req) m))"
  have "\<not> runs ?p t' (Inr a)" for t' a by (auto elim!: runs_andthenE updateNodes_run)
  with assms have "runs ?p ((Get DeploymentK (memcachedName m), r) # t) (Inl x)"
    unfolding after_fetch_def runs_prog_bind by (auto simp: io_simps split: sum.splits)
  then show ?thesis
    by (auto elim!: runs_andthenE findDeployment_run syncSize_run updateNodes_run)
qed

definition attended_mc :: "NamespacedName \<Rightarrow> (key \<Rightarrow> kobj option) \<Rightarrow> bool" where
  "attended_mc req f \<longleftrightarrow> (\<forall>m. f (mkKey MemcachedK req) = Some (MemcachedO m) \<longrightarrow>
     key_of (MemcachedO m) = mkKey MemcachedK req \<longrightarrow> sized f m)"

definition followed_mc :: "lib \<Rightarrow> NamespacedName \<Rightarrow> ret io \<Rightarrow> (key \<Rightarrow> kobj option) \<Rightarrow> bool" where
  "followed_mc L req p f \<longleftrightarrow> attended_mc req f \<or> p = ReconcileMemcached L req \<or>
     ending (\<lambda>_. retried) p \<or>
     (\<exists>m. f (mkKey MemcachedK req) = Some (MemcachedO m) \<and> p = after_fetch L req m)"

lemma followed_mc_call:
  assumes followed: "followed_mc L req (Req q p) (store s)" and srv: "api_server L srv store"
    and call: "srv q s = (r, s')" and same: "\<And>key. key \<in> {mkKey MemcachedK req, mkKey DeploymentK req} \<Longrightarrow>
      store s' key = store s key"
  shows "followed_mc L req (p r) (store s')"
proof -
  have frame: "followed_mc L req p' (store s')" if "followed_mc L req p' (store s)" for p'
    using that same by (auto simp: followed_mc_def attended_mc_def sized_def key_of_def mkKey_def cluster_scoped_def)
  consider "attended_mc req (store s)" | "ReconcileMemcached L req = Req q p" | "ending (\<lambda>_. retried) (Req q p)"
    | m where "store s (mkKey MemcachedK req) = Some (MemcachedO m)" "Req q p = after_fetch L req m"
    using followed unfolding followed_mc_def by metis
  then have "followed_mc L req (p r) (store s)"
  proof cases
    case 1
    then show ?thesis by (simp add: followed_mc_def)
  next
    case 2
    obtain p' where "ReconcileMemcached L req = Req (Get MemcachedK req) p'"
      "\<And>x. p' (Inr x) = after_fetch L req (asMemcached x)"
      by (rule memcached_fetches [of L req]) (rule that)
    with 2 have q: "q = Get MemcachedK req" and p: "\<And>x. p (Inr x) = after_fetch L req (asMemcached x)"
      by simp_all
    show ?thesis
    proof (cases r)
      case (Inl e)
      show ?thesis
      proof (cases "IsNotFound L e")
        case True
        with srv call q Inl have "store s (mkKey MemcachedK req) = None" by (simp add: api_server.get_missing)
        then show ?thesis by (simp add: followed_mc_def attended_mc_def)
      next
        case False
        have "retried x" if "runs (p r) t x" for t x
          using memcached_fetch_fails [of L req e t x] False that 2 q Inl by simp
        then show ?thesis by (simp add: followed_mc_def ending_def)
      qed
    next
      case (Inr y)
      with srv call q have y: "store s (mkKey MemcachedK req) = Some y" by (simp add: api_server.get_found)
      from api_server.keyed [OF srv y] obtain m where "y = MemcachedO m"
        by (cases y) (auto simp: key_of_def mkKey_def)
      with y p Inr show ?thesis by (auto simp: followed_mc_def)
    qed
  next
    case 3
    then have "ending (\<lambda>_. retried) (p r)" by (auto simp: ending_def)
    then show ?thesis by (simp add: followed_mc_def)
  next
    case 4
    have key: "memcachedName m = req"
      using key_of_request(2) [OF api_server.keyed [OF srv 4(1)]] by (simp add: cluster_scoped_def)
    have q: "q = Get DeploymentK req"
      by (rule after_fetch_asks [of L req m]) (use 4(2) key in simp)
    show ?thesis
    proof (cases "\<exists>y. r = Inr y \<and> dep_replicas (asDeployment y) = Some (mc_Size m)")
      case True
      then obtain y where y: "r = Inr y" "dep_replicas (asDeployment y) = Some (mc_Size m)" by blast
      with srv call q have st: "store s (mkKey DeploymentK req) = Some y" by (simp add: api_server.get_found)
      from api_server.keyed [OF srv this] obtain d where "y = DeploymentO d"
        by (cases y) (auto simp: key_of_def mkKey_def)
      with st y key have "sized (store s) m" by (simp add: sized_def)
      with 4(1) show ?thesis by (simp add: followed_mc_def attended_mc_def)
    next
      case False
      have "retried x" if "runs (p r) t x" for t x
        using after_fetch_ends [of L req m r t x] False that
        unfolding 4(2) [symmetric] key q by simp
      then show ?thesis by (simp add: followed_mc_def ending_def)
    qed
  qed
  then show ?thesis by (rule frame)
qed

lemma memcached_tracked:
  assumes "owner_lib L" "notifies wake"
  shows "tracked_work L store wake SetupWithManager_memcached (ReconcileMemcached L) (respectful req) req
    {mkKey MemcachedK req, mkKey DeploymentK req} (governed req) (attended_mc req) (trusted req)
    (followed_mc L req)"
proof (unfold_locales, goal_cases)
  case (1 srv q s r s')
  then show ?case by (intro owner_server.governed_step)
next
  case (2 srv s s' q r key)
  note api = owner_server.axioms(1) [OF 2(1)]
  from 2(5) show ?case
  proof
    assume "key = mkKey MemcachedK req"
    with api_server.wakes_itself [OF api assms(2), of MemcachedK] 2 show ?thesis
      by (simp add: registrations cluster_scoped_def)
  next
    assume "key \<in> {mkKey DeploymentK req}"
    with 2 have changed: "store s' (mkKey DeploymentK req) \<noteq> store s (mkKey DeploymentK req)" by simp
    show ?thesis
    proof (rule api_server.wakes_owner [OF api assms(2) _ _ _ 2(4) changed])
      fix x assume "store s (mkKey DeploymentK req) = Some x \<or> store s' (mkKey DeploymentK req) = Some x"
      with 2(2,3) show "owned_by MemcachedK (nn_name req) x" using governedD by blast
    qed (simp_all add: registrations cluster_scoped_def)
  qed
next
  case (3 s)
  then show ?case by (auto simp: attended_mc_def listed_def registrations)
next
  case (4 f g)
  then show ?case by (auto simp: attended_mc_def sized_def key_of_def mkKey_def cluster_scoped_def)
next
  case (5 p f g)
  then show ?case
    by (auto simp: followed_mc_def attended_mc_def sized_def key_of_def mkKey_def cluster_scoped_def)
next
  case (6 srv s q r s')
  then show ?case by (intro owner_server.trusted_answer)
next
  case (7 q e)
  show ?case by simp
next
  case (8 n)
  show ?case by (rule memcached_obedient [OF assms(1)])
next
  case (9 n f)
  then show ?case by (simp add: followed_mc_def)
next
  case (10 q p s srv r s')
  then show ?case using followed_mc_call [OF 10(1) owner_server.axioms(1) [OF 10(3)] 10(4)] by blast
next
  case (11 x f)
  obtain p where "ReconcileMemcached L req = Req (Get MemcachedK req) p" by (rule memcached_fetches)
  moreover have "Ret x \<noteq> after_fetch L req m" for m by (rule after_fetch_asks [of L req m]) simp
  ultimately show ?case using 11 by (auto simp: followed_mc_def ending_def)
qed

interpretation std_memcached: tracked_work "std_lib parse" mem_store std_wake SetupWithManager_memcached
    "ReconcileMemcached (std_lib parse)" "respectful req" req "{mkKey MemcachedK req, mkKey DeploymentK req}"
    "governed req" "attended_mc req" "trusted req" "followed_mc (std_lib parse) req" for parse req
  by (rule memcached_tracked [OF std_owner_lib std_wake_notifies])

section \<open>The size is kept\<close>

text \<open>
  C12. The size is never lost: let no other client create or update the Deployment of a
  resource without keeping the resource as its controller.  Then in every state the
  manager can reach, with servers that fail in any way, other clients at work between
  any two calls and restarts, the request of the resource is in the queue or being
  worked on, or the Deployment exists with as many replicas as the spec asks for.  So
  when the queue is empty and no run is under way every size is right.
\<close>

theorem ReconcileMemcached_keeps_size:
  assumes "owner_lib L" and "notifies wake"
    and "operated L store wake SetupWithManager_memcached (ReconcileMemcached L) (respectful req) s0 a"
    and "governed req (store s0)"
    and "store (now a) (mkKey MemcachedK req) = Some (MemcachedO m)"
    and "key_of (MemcachedO m) = mkKey MemcachedK req"
  shows "req \<in> pending a \<or> (\<exists>p. working a = Some (req, p)) \<or> sized (store (now a)) m"
  using tracked_work.not_lost(2) [OF memcached_tracked [OF assms(1,2)] assms(3,4)] assms(5,6)
  by (auto simp: attended_mc_def)

section \<open>A Deployment it does not own\<close>

text \<open>
  The other direction of the documented behaviour of \<open>For\<close> and \<open>Owns\<close>: nothing but a
  change of the resource itself, or of an object it controls, wakes a request.
\<close>

definition precise :: "handler \<Rightarrow> bool" where
  "precise wake \<longleftrightarrow> (\<forall>ws old new n. n \<in> set (wake ws old new) \<longrightarrow>
     (\<exists>x. (old = Some x \<or> new = Some x) \<and>
        (For (kobj_kind x) \<in> set ws \<and> n = own_request x \<or>
         Owns (kobj_kind x) \<in> set ws \<and> (\<exists>k. For k \<in> set ws \<and> owned_by k (nn_name n) x))))"

lemma woken_by_reason:
  assumes "n \<in> set (woken_by ws x)"
  shows "For (kobj_kind x) \<in> set ws \<and> n = own_request x \<or>
    Owns (kobj_kind x) \<in> set ws \<and> (\<exists>k. For k \<in> set ws \<and> owned_by k (nn_name n) x)"
proof (cases "For (kobj_kind x) \<in> set ws \<and> n = own_request x")
  case False
  with assms obtain r where r: "Owns (kobj_kind x) \<in> set ws" "nn_name n = or_name r"
      "r \<in> set (om_ownerReferences (kobj_meta x))"
      "list_ex (\<lambda>w. case w of For k \<Rightarrow> controls k (or_name r) r | Owns _ \<Rightarrow> False) ws"
    by (auto simp: woken_by_def split: if_split_asm)
  from r(4) obtain w where w: "w \<in> set ws" "case w of For k \<Rightarrow> controls k (or_name r) r | Owns _ \<Rightarrow> False"
    by (auto simp: list_ex_iff)
  from w(2) obtain k where "w = For k" "controls k (or_name r) r" by (simp split: watch.splits)
  with r w(1) show ?thesis by (auto simp: owned_by_def list_ex_iff)
qed simp

lemma std_wake_precise: "precise std_wake"
  unfolding precise_def
proof (intro allI impI)
  fix ws old new n assume "n \<in> set (std_wake ws old new)"
  then obtain x where "n \<in> set (woken_by ws x)" "old = Some x \<or> new = Some x"
    by (auto simp: std_wake_def split: if_split_asm option.split_asm)
  then show "\<exists>x. (old = Some x \<or> new = Some x) \<and>
        (For (kobj_kind x) \<in> set ws \<and> n = own_request x \<or>
         Owns (kobj_kind x) \<in> set ws \<and> (\<exists>k. For k \<in> set ws \<and> owned_by k (nn_name n) x))"
    using woken_by_reason by blast
qed

lemma precise_unowned:
  assumes "precise wake" "om_ownerReferences (dep_meta d) = []" "om_ownerReferences (dep_meta d') = []"
  shows "wake SetupWithManager_memcached (Some (DeploymentO d)) (Some (DeploymentO d')) = []"
proof -
  have "n \<notin> set (wake SetupWithManager_memcached (Some (DeploymentO d)) (Some (DeploymentO d')))" for n
  proof
    assume "n \<in> set (wake SetupWithManager_memcached (Some (DeploymentO d)) (Some (DeploymentO d')))"
    with assms(1) obtain x where "DeploymentO d = x \<or> DeploymentO d' = x"
      "For (kobj_kind x) \<in> set SetupWithManager_memcached \<or> (\<exists>k. owned_by k (nn_name n) x)"
      unfolding precise_def by blast
    with assms(2,3) show False by (auto simp: registrations owned_by_def)
  qed
  then show ?thesis by (meson list.set_sel(1))
qed

text \<open>A run that only reads wakes nobody.\<close>

lemma run_reads:
  assumes "operated L store wake ws rec P s0 a" "owner_server L srv store" "working a = Some (n, p)"
    and "list_all (\<lambda>e. \<not> is_write (fst e)) (fst (traced srv p (now a)))"
  shows "operated L store wake ws rec P s0
    (a\<lparr>now := snd (exec srv p (now a)), working := Some (n, Ret (fst (exec srv p (now a))))\<rparr>)"
  using assms(1,3,4)
proof (induction p arbitrary: a)
  case (Ret x)
  then have "a = a\<lparr>now := snd (exec srv (Ret x) (now a)), working := Some (n, Ret (fst (exec srv (Ret x) (now a))))\<rparr>"
    by (cases a) simp
  from subst [of _ _ "operated L store wake ws rec P s0", OF this Ret(1)] show ?case .
next
  case (Req q k)
  obtain r s' where call: "srv q (now a) = (r, s')" by (cases "srv q (now a)")
  with Req.prems(3) have "\<not> is_write q" and rest: "list_all (\<lambda>e. \<not> is_write (fst e)) (fst (traced srv (k r) s'))"
    by (simp_all add: case_prod_beta)
  then have "woken wake ws q (store (now a)) (store s') = {}" by (cases q) (simp_all add: woken_def)
  with called [OF Req.prems(1,2) assms(2) call]
  have "operated L store wake ws rec P s0 (a\<lparr>now := s', working := Some (n, k r)\<rparr>)" by simp
  from Req.IH [OF _ this] rest call show ?case by simp
qed

text \<open>The runs on the reference server, exactly.\<close>

lemma mem_found:
  assumes "mem_store s (mkKey MemcachedK req) = Some (MemcachedO m)"
    and "mem_store s (mcDepKey m) = Some (DeploymentO d)"
  shows "mem_srv (Get MemcachedK req) s = (Inr (MemcachedO m), s)"
    "mem_srv (Get DeploymentK (memcachedName m)) s = (Inr (DeploymentO d), s)"
  using assms by simp_all

lemmas memcached_run_defs = ReconcileMemcached_def ReconcileMemcached_body_def fetchMemcached_def
  findDeployment_def syncSize_def updateNodes_def proceed_def returns_def Let_def

lemma mem_resizes:
  assumes found: "mem_store s (mkKey MemcachedK req) = Some (MemcachedO m)"
      "mem_store s (mcDepKey m) = Some (DeploymentO d)"
    and "dep_replicas d = Some r" "r \<noteq> mc_Size m" "om_deletionTimestamp (dep_meta d) = None"
  shows "exec mem_srv (ReconcileMemcached (std_lib parse) req) s = (Return \<lparr>Requeue = True\<rparr> None,
    s\<lparr>objs := (objs s)(mcDepKey m \<mapsto> DeploymentO (d\<lparr>dep_replicas := Some (mc_Size m)\<rparr>))\<rparr>)"
proof -
  let ?x = "DeploymentO (d\<lparr>dep_replicas := Some (mc_Size m)\<rparr>)"
  have key: "key_of ?x = mcDepKey m" using mem_store_keyed [OF found(2)] by (simp add: key_of_def)
  have "merged (DeploymentO d) ?x = ?x" using assms(5) by (simp add: merged_def)
  then have "mem_srv (Update ?x) s = (Inr ?x, s\<lparr>objs := (objs s)(mcDepKey m \<mapsto> ?x)\<rparr>)"
    using found(2) assms(5) key by (simp add: marked_def)
  with mem_found [OF found] assms(3,4) show ?thesis by (simp add: memcached_run_defs del: mem_srv.simps)
qed

lemma mem_reports:
  assumes found: "mem_store s (mkKey MemcachedK req) = Some (MemcachedO m)"
      "mem_store s (mcDepKey m) = Some (DeploymentO d)" "dep_replicas d = Some (mc_Size m)"
  obtains (quiet) t where
      "traced mem_srv (ReconcileMemcached (std_lib parse) req) s = (t, Return \<lparr>Requeue = False\<rparr> None, s)"
      "list_all (\<lambda>e. \<not> is_write (fst e)) t"
  | (written) ns where
      "exec mem_srv (ReconcileMemcached (std_lib parse) req) s = (Return \<lparr>Requeue = False\<rparr> None,
         s\<lparr>objs := (objs s)(mcKey m \<mapsto> MemcachedO (m\<lparr>mc_Nodes := ns\<rparr>))\<rparr>)"
      "\<exists>ps. mem_srv (podQuery m) s = (Inr (PodListO ps), s) \<and> ns = getPodNames ps" "ns \<noteq> mc_Nodes m"
proof -
  obtain ps where l: "mem_srv (podQuery m) s = (Inr (PodListO ps), s)" by simp
  have key: "mkKey MemcachedK req = mcKey m" using mem_store_keyed [OF found(1)] by simp
  show thesis
  proof (cases "getPodNames ps = mc_Nodes m")
    case True
    with mem_found [OF found(1,2)] found(3) l show thesis
      by (intro quiet [of "[(Get MemcachedK req, Inr (MemcachedO m)),
        (Get DeploymentK (memcachedName m), Inr (DeploymentO d)), (podQuery m, Inr (PodListO ps))]"])
        (simp_all add: memcached_run_defs del: mem_srv.simps)
  next
    case False
    let ?x = "MemcachedO (m\<lparr>mc_Nodes := getPodNames ps\<rparr>)"
    have "key_of ?x = mcKey m" by simp
    then have "mem_srv (StatusUpdate ?x) s = (Inr ?x, s\<lparr>objs := (objs s)(mcKey m \<mapsto> ?x)\<rparr>)"
      using found(1) key by simp
    with False mem_found [OF found(1,2)] found(3) l show thesis
      by (intro written [of "getPodNames ps"])
        (simp_all add: memcached_run_defs del: mem_srv.simps)
  qed
qed

section \<open>A concrete operator\<close>

definition mcStart :: "cluster \<Rightarrow> cluster operator" where
  "mcStart s = \<lparr>now = s, pending = {mcReq}, working = None\<rparr>"

text \<open>The cluster with the resource, and with a Deployment of its name that nobody owns.\<close>

definition mcUnowned :: cluster where
  "mcUnowned = mcCluster\<lparr>objs := (objs mcCluster)(mcDepKey (mcDemo None) \<mapsto>
     DeploymentO ((deploymentForMemcached mcLib (mcDemo None))\<lparr>dep_meta := mkMeta ''cache'' ''ns''\<rparr>))\<rparr>"

lemma mc_listed:
  assumes "s = mcCluster \<or> s = mcUnowned"
  shows "listed SetupWithManager_memcached (mem_store s) = {mcReq}"
proof -
  have only: "objs s (mkKey MemcachedK n) \<noteq> None \<longleftrightarrow> n = mcReq" for n
    using assms by (cases n) (auto simp: mcUnowned_def mcCluster_def mcDemo_def mcReq_def key_of_def
        mkKey_def cluster_scoped_def split: if_split_asm)
  have "mem_store s (mkKey MemcachedK n) \<noteq> None \<longleftrightarrow> n = mcReq" for n
    using only [of n] assms
    by (auto simp: mem_store_def mcUnowned_def mcCluster_def mcDemo_def mcReq_def key_of_def
        mkKey_def cluster_scoped_def addressable_def split: option.splits)
  then show ?thesis by (auto simp: listed_def registrations)
qed

lemma mc_started:
  assumes "s = mcCluster \<or> s = mcUnowned"
  shows "operated mcLib mem_store std_wake SetupWithManager_memcached (ReconcileMemcached mcLib) P s (mcStart s)"
  using started [of mcLib mem_store std_wake SetupWithManager_memcached "ReconcileMemcached mcLib" P s]
  by (simp add: mcStart_def mc_listed [OF assms])

definition mcPlayed :: "nat list \<Rightarrow> cluster \<Rightarrow> cluster operator option" where
  "mcPlayed ns s = plays mem_srv mem_store std_wake SetupWithManager_memcached (ReconcileMemcached mcLib)
     (concat (map (\<lambda>n. Take mcReq # replicate n Call @ [Finish]) ns)) (mcStart s)"

lemma mc_played:
  assumes "mcPlayed ns s = Some b" "s = mcCluster \<or> s = mcUnowned"
  shows "operated mcLib mem_store std_wake SetupWithManager_memcached (ReconcileMemcached mcLib) P s b"
  by (rule plays_operated [OF mc_started [OF assms(2)] mem_owner_server])
    (use assms(1) in \<open>auto simp: mcPlayed_def split: if_splits\<close>)

text \<open>Three runs: one creates the Deployment, one reports the pods, one finds nothing to do.\<close>

lemma mc_played_quiet: "(case mcPlayed [4, 4, 3] mcCluster of None \<Rightarrow> False | Some b \<Rightarrow>
    mcReq \<notin> pending b \<and> (case working b of None \<Rightarrow> True | Some _ \<Rightarrow> False) \<and>
    mem_store (now b) (mkKey MemcachedK mcReq) = Some (MemcachedO (mcDemo (Some [''cache-1'']))))"
  by code_simp

lemma ReconcileMemcached_keeps_size_witness:
  "\<exists>b. mcPlayed [4, 4, 3] mcCluster = Some b \<and> sized (mem_store (now b)) (mcDemo (Some [''cache-1'']))"
proof -
  let ?m = "mcDemo (Some [''cache-1''])"
  from mc_played_quiet obtain b where b: "mcPlayed [4, 4, 3] mcCluster = Some b" "mcReq \<notin> pending b"
    "working b = None" "mem_store (now b) (mkKey MemcachedK mcReq) = Some (MemcachedO ?m)"
    by (auto split: option.splits)
  have op: "operated mcLib mem_store std_wake SetupWithManager_memcached (ReconcileMemcached mcLib)
      (respectful mcReq) mcCluster b" by (rule mc_played [OF b(1)]) simp
  have "governed mcReq (mem_store mcCluster)" by code_simp
  moreover have "key_of (MemcachedO ?m) = mkKey MemcachedK mcReq"
    by (simp add: key_of_def mcDemo_def mcReq_def)
  ultimately have "sized (mem_store (now b)) ?m"
    using ReconcileMemcached_keeps_size [OF std_owner_lib std_wake_notifies op] b(2-4) by fastforce
  with b(1) show ?thesis by blast
qed

section \<open>Adoption without ownership\<close>

lemma mem_store_objs: "key_of y = k \<Longrightarrow> addressable k \<Longrightarrow> mem_store (s\<lparr>objs := (objs s)(k \<mapsto> y)\<rparr>) = (mem_store s)(k \<mapsto> y)"
  by (rule mem_store_upd(1))

text \<open>
  Runs that are left alone on the reference server, from a state in which the request
  waits: the request ends up out of the queue, with the Deployment at its size, and
  with the owners it had.
\<close>

definition adopted :: "lib \<Rightarrow> NamespacedName \<Rightarrow> Memcached \<Rightarrow> Deployment \<Rightarrow> cluster \<Rightarrow> cluster operator \<Rightarrow> bool" where
  "adopted L req m d s b \<longleftrightarrow> working b = None \<and> req \<notin> pending b \<and>
     (\<exists>k. now b = (mcRun mem_srv L req ^^ Suc k) s) \<and>
     mem_store (now b) (mcDepKey m) = Some (DeploymentO (d\<lparr>dep_replicas := Some (mc_Size m)\<rparr>))"

lemma adopted_later:
  assumes "adopted L req m d (mcRun mem_srv L req s) b"
  shows "adopted L req m d s b"
  using assms unfolding adopted_def by (metis funpow_Suc_right comp_apply)

lemma adopts_sized:
  fixes parse :: "string \<Rightarrow> quantity option"
  defines "L \<equiv> std_lib parse"
  assumes "operated L mem_store wake SetupWithManager_memcached (ReconcileMemcached L) P s0 a"
    and "working a = None" "req \<in> pending a"
    and "mem_store (now a) (mkKey MemcachedK req) = Some (MemcachedO m)"
    and "mem_store (now a) (mcDepKey m) = Some (DeploymentO d)" and size: "dep_replicas d = Some (mc_Size m)"
    and trace: "traced mem_srv (ReconcileMemcached L req) (now a) = (t, Return \<lparr>Requeue = False\<rparr> None, now a)"
      "list_all (\<lambda>e. \<not> is_write (fst e)) t"
  shows "\<exists>b. operated L mem_store wake SetupWithManager_memcached (ReconcileMemcached L) P s0 b \<and>
    adopted L req m d (now a) b"
proof -
  let ?a = "a\<lparr>pending := pending a - {req}, working := Some (req, ReconcileMemcached L req)\<rparr>"
  have e: "exec mem_srv (ReconcileMemcached L req) (now a) = (Return \<lparr>Requeue = False\<rparr> None, now a)"
    using trace(1) snd_traced [of mem_srv "ReconcileMemcached L req" "now a"] by simp
  have "operated L mem_store wake SetupWithManager_memcached (ReconcileMemcached L) P s0 ?a"
    by (rule taken [OF assms(2-4)])
  from run_reads [OF this, of mem_srv req "ReconcileMemcached L req"] trace e
  have "operated L mem_store wake SetupWithManager_memcached (ReconcileMemcached L) P s0
      (?a\<lparr>now := now a, working := Some (req, Ret (Return \<lparr>Requeue = False\<rparr> None))\<rparr>)"
    by (simp add: L_def mem_owner_server)
  from finished [OF this, of req "\<lparr>Requeue = False\<rparr>" None]
  have "operated L mem_store wake SetupWithManager_memcached (ReconcileMemcached L) P s0
      (a\<lparr>now := now a, pending := pending a - {req}, working := None\<rparr>)" by simp
  moreover have "mcRun mem_srv L req (now a) = now a" using e by (simp add: mcRun_def)
  moreover have "d\<lparr>dep_replicas := Some (mc_Size m)\<rparr> = d" using size by (cases d) simp
  ultimately show ?thesis using assms(6)
    by (intro exI [of _ "a\<lparr>now := now a, pending := pending a - {req}, working := None\<rparr>"])
      (auto simp: adopted_def intro!: exI [of _ 0])
qed

lemma adopted_nodes: "adopted L req (m\<lparr>mc_Nodes := ns\<rparr>) d s b = adopted L req m d s b"
  by (simp add: adopted_def)

lemma adopts_reported:
  fixes parse :: "string \<Rightarrow> quantity option"
  defines "L \<equiv> std_lib parse"
  assumes op: "operated L mem_store wake SetupWithManager_memcached (ReconcileMemcached L) P s0 a"
      "working a = None" "req \<in> pending a"
    and cr: "mem_store (now a) (mkKey MemcachedK req) = Some (MemcachedO m)"
    and dep: "mem_store (now a) (mcDepKey m) = Some (DeploymentO d)" "dep_replicas d = Some (mc_Size m)"
  shows "\<exists>b. operated L mem_store wake SetupWithManager_memcached (ReconcileMemcached L) P s0 b \<and>
    adopted L req m d (now a) b"
proof (rule mem_reports [OF cr dep, of parse])
  fix t
  assume "traced mem_srv (ReconcileMemcached (std_lib parse) req) (now a) = (t, Return \<lparr>Requeue = False\<rparr> None, now a)"
    "list_all (\<lambda>e. \<not> is_write (fst e)) t"
  with adopts_sized [of parse] op cr dep show ?thesis unfolding L_def by blast
next
  fix ns
  let ?m = "m\<lparr>mc_Nodes := ns\<rparr>" and ?s = "(now a)\<lparr>objs := (objs (now a))(mcKey m \<mapsto> MemcachedO (m\<lparr>mc_Nodes := ns\<rparr>))\<rparr>"
  assume e: "exec mem_srv (ReconcileMemcached (std_lib parse) req) (now a) = (Return \<lparr>Requeue = False\<rparr> None, ?s)"
    and "\<exists>ps. mem_srv (podQuery m) (now a) = (Inr (PodListO ps), now a) \<and> ns = getPodNames ps" "ns \<noteq> mc_Nodes m"
  then have shown: "mem_srv (podQuery ?m) ?s = (Inr (PodListO ps), ?s) \<Longrightarrow> getPodNames ps = ns" for ps by auto
  have key: "mkKey MemcachedK req = mcKey m" using mem_store_keyed [OF cr] by simp
  then have "addressable (mcKey m)" using mem_store_addressed [OF cr] by simp
  then have st: "mem_store ?s = (mem_store (now a))(mcKey m \<mapsto> MemcachedO ?m)" by (intro mem_store_objs) simp_all
  with cr dep(1) key have found: "mem_store ?s (mkKey MemcachedK req) = Some (MemcachedO ?m)"
    "mem_store ?s (mcDepKey ?m) = Some (DeploymentO d)" by simp_all
  have run: "mcRun mem_srv L req (now a) = ?s" using e by (simp add: mcRun_def L_def)
  from run_next [OF op(1) _ op(2,3), of mem_srv] e obtain b where
    b: "operated L mem_store wake SetupWithManager_memcached (ReconcileMemcached L) P s0 b"
    "now b = ?s" "working b = None" by (auto simp: L_def mem_owner_server)
  show ?thesis
  proof (cases "req \<in> pending b")
    case False
    have "d\<lparr>dep_replicas := Some (mc_Size m)\<rparr> = d" using dep(2) by (cases d) simp
    with False b found(2) run have "adopted L req m d (now a) b"
      by (auto simp: adopted_def intro!: exI [of _ 0])
    with b(1) show ?thesis by blast
  next
    case True
    show ?thesis
    proof (rule mem_reports [OF found, of parse])
      show "dep_replicas d = Some (mc_Size ?m)" using dep(2) by simp
    next
      fix t
      assume "traced mem_srv (ReconcileMemcached (std_lib parse) req) ?s = (t, Return \<lparr>Requeue = False\<rparr> None, ?s)"
        "list_all (\<lambda>e. \<not> is_write (fst e)) t"
      with adopts_sized [of parse wake P s0 b req ?m d t] b True found dep(2) obtain c where
        "operated L mem_store wake SetupWithManager_memcached (ReconcileMemcached L) P s0 c"
        "adopted L req ?m d ?s c" unfolding L_def by auto
      with adopted_later [of L req m d "now a" c] run show ?thesis by (auto simp: adopted_nodes)
    next
      fix ns'
      assume "\<exists>ps. mem_srv (podQuery ?m) ?s = (Inr (PodListO ps), ?s) \<and> ns' = getPodNames ps" "ns' \<noteq> mc_Nodes ?m"
      with shown show ?thesis by auto
    qed
  qed
qed

lemma adopts:
  fixes parse :: "string \<Rightarrow> quantity option"
  defines "L \<equiv> std_lib parse"
  assumes op: "operated L mem_store wake SetupWithManager_memcached (ReconcileMemcached L) P s0 a"
      "working a = None" "req \<in> pending a"
    and cr: "mem_store (now a) (mkKey MemcachedK req) = Some (MemcachedO m)"
    and dep: "mem_store (now a) (mcDepKey m) = Some (DeploymentO d)" "dep_replicas d = Some r"
      "om_deletionTimestamp (dep_meta d) = None"
  shows "\<exists>b. operated L mem_store wake SetupWithManager_memcached (ReconcileMemcached L) P s0 b \<and>
    adopted L req m d (now a) b"
proof (cases "r = mc_Size m")
  case True
  with adopts_reported [of parse, OF op [unfolded L_def] cr dep(1)] dep(2) show ?thesis by (simp add: L_def)
next
  case False
  let ?d = "d\<lparr>dep_replicas := Some (mc_Size m)\<rparr>"
  let ?s = "(now a)\<lparr>objs := (objs (now a))(mcDepKey m \<mapsto> DeploymentO ?d)\<rparr>"
  have e: "exec mem_srv (ReconcileMemcached L req) (now a) = (Return \<lparr>Requeue = True\<rparr> None, ?s)"
    unfolding L_def by (rule mem_resizes [OF cr dep(1,2) False dep(3)])
  have "key_of (DeploymentO ?d) = mcDepKey m" using mem_store_keyed [OF dep(1)] by (simp add: key_of_def)
  with mem_store_addressed [OF dep(1)] have st: "mem_store ?s = (mem_store (now a))(mcDepKey m \<mapsto> DeploymentO ?d)"
    by (intro mem_store_objs)
  from run_next [OF op(1) _ op(2,3), of mem_srv] e obtain b where
    b: "operated L mem_store wake SetupWithManager_memcached (ReconcileMemcached L) P s0 b"
    "now b = ?s" "working b = None" "req \<in> pending b" by (auto simp: L_def mem_owner_server)
  have "mkKey MemcachedK req \<noteq> mcDepKey m" by (simp add: mkKey_def)
  with cr st b(2) have found: "mem_store (now b) (mkKey MemcachedK req) = Some (MemcachedO m)"
    "mem_store (now b) (mcDepKey m) = Some (DeploymentO ?d)" by simp_all
  from adopts_reported [of parse, OF b(1) [unfolded L_def] b(3,4) found] obtain c where
    "operated L mem_store wake SetupWithManager_memcached (ReconcileMemcached L) P s0 c"
    "adopted L req m ?d (now b) c" by (auto simp: L_def)
  moreover have "adopted L req m ?d (now b) c = adopted L req m d (mcRun mem_srv L req (now a)) c"
    using e b(2) by (simp add: adopted_def mcRun_def)
  ultimately show ?thesis using adopted_later by blast
qed

lemma resize_unnoticed:
  assumes "operated (std_lib parse) mem_store wake SetupWithManager_memcached rec (\<lambda>_. True) s0 a"
    and "precise wake" and "mem_store (now a) (mcDepKey m) = Some (DeploymentO d)"
    and "om_ownerReferences (dep_meta d) = []" "om_deletionTimestamp (dep_meta d) = None"
  shows "\<exists>b. operated (std_lib parse) mem_store wake SetupWithManager_memcached rec (\<lambda>_. True) s0 b \<and>
    pending b = pending a \<and> working b = working a \<and>
    mem_store (now b) = (mem_store (now a))(mcDepKey m \<mapsto> DeploymentO (d\<lparr>dep_replicas := Some n\<rparr>))"
proof -
  let ?x = "DeploymentO (d\<lparr>dep_replicas := Some n\<rparr>)"
  have key: "key_of ?x = mcDepKey m" using mem_store_keyed [OF assms(3)] by (simp add: key_of_def)
  have "merged (DeploymentO d) ?x = ?x" using assms(5) by (simp add: merged_def)
  then have call: "mem_srv (Update ?x) (now a) =
      (Inr ?x, (now a)\<lparr>objs := (objs (now a))(mcDepKey m \<mapsto> ?x)\<rparr>)"
    using assms(3,5) key by (simp add: marked_def)
  let ?s = "(now a)\<lparr>objs := (objs (now a))(mcDepKey m \<mapsto> ?x)\<rparr>"
  have st: "mem_store ?s = (mem_store (now a))(mcDepKey m \<mapsto> ?x)"
    using mem_store_addressed [OF assms(3)] key by (intro mem_store_objs)
  have "woken wake SetupWithManager_memcached (Update ?x) (mem_store (now a)) (mem_store ?s) = {}"
    using assms(3,4) key unfolding st by (simp add: woken_def precise_unowned [OF assms(2)])
  with foreign [OF assms(1) mem_owner_server _ call] st show ?thesis
    by (intro exI [of _ "a\<lparr>now := ?s\<rparr>"]) simp
qed

text \<open>
  C32. A Deployment of the resource's name that has no owner: let the request wait and no
  run be under way while such a Deployment exists on the reference server, with a number
  of replicas and not being deleted.  Then runs of the controller that
  are left alone bring it to the size of the spec and settle, so that the request waits
  no more, but the Deployment still has no owner; and from then on a client can give it
  any number of replicas without putting anything into the queue, under every event
  handler that wakes a request for the documented reasons only.
\<close>

theorem ReconcileMemcached_adopts_unowned:
  assumes "precise wake"
    and "operated (std_lib parse) mem_store wake SetupWithManager_memcached
      (ReconcileMemcached (std_lib parse)) (\<lambda>_. True) s0 a" and "working a = None" and "req \<in> pending a"
    and "mem_store (now a) (mkKey MemcachedK req) = Some (MemcachedO m)"
    and "mem_store (now a) (mcDepKey m) = Some (DeploymentO d)" and "dep_replicas d \<noteq> None"
    and "om_ownerReferences (dep_meta d) = []" and "om_deletionTimestamp (dep_meta d) = None"
  shows "\<exists>b k d'. operated (std_lib parse) mem_store wake SetupWithManager_memcached
      (ReconcileMemcached (std_lib parse)) (\<lambda>_. True) s0 b \<and>
    now b = (mcRun mem_srv (std_lib parse) req ^^ Suc k) (now a) \<and>
    working b = None \<and> req \<notin> pending b \<and>
    mem_store (now b) (mcDepKey m) = Some (DeploymentO d') \<and>
    dep_replicas d' = Some (mc_Size m) \<and> om_ownerReferences (dep_meta d') = [] \<and>
    (\<forall>n. \<exists>c. operated (std_lib parse) mem_store wake SetupWithManager_memcached
        (ReconcileMemcached (std_lib parse)) (\<lambda>_. True) s0 c \<and>
      working c = None \<and> pending c = pending b \<and>
      mem_store (now c) = (mem_store (now b))(mcDepKey m \<mapsto> DeploymentO (d'\<lparr>dep_replicas := Some n\<rparr>)))"
proof -
  let ?d = "d\<lparr>dep_replicas := Some (mc_Size m)\<rparr>"
  from assms(7) obtain r where "dep_replicas d = Some r" by blast
  from adopts [OF assms(2-6) this assms(9)] obtain b where
    b: "operated (std_lib parse) mem_store wake SetupWithManager_memcached
      (ReconcileMemcached (std_lib parse)) (\<lambda>_. True) s0 b" "adopted (std_lib parse) req m d (now a) b" by blast
  then obtain k where k: "now b = (mcRun mem_srv (std_lib parse) req ^^ Suc k) (now a)"
    and idle: "working b = None" "req \<notin> pending b"
    and dep: "mem_store (now b) (mcDepKey m) = Some (DeploymentO ?d)"
    unfolding adopted_def by blast
  have later: "\<exists>c. operated (std_lib parse) mem_store wake SetupWithManager_memcached
        (ReconcileMemcached (std_lib parse)) (\<lambda>_. True) s0 c \<and>
      working c = None \<and> pending c = pending b \<and>
      mem_store (now c) = (mem_store (now b))(mcDepKey m \<mapsto> DeploymentO (?d\<lparr>dep_replicas := Some n\<rparr>))" for n
    using resize_unnoticed [OF b(1) assms(1) dep, of n] assms(8,9) idle(1) by auto
  show ?thesis
    by (intro exI [of _ b] exI [of _ k] exI [of _ ?d] conjI allI b(1) k idle dep later) (simp_all add: assms(8))
qed

lemma ReconcileMemcached_adopts_unowned_witness:
  "\<exists>c. operated mcLib mem_store std_wake SetupWithManager_memcached (ReconcileMemcached mcLib)
       (\<lambda>_. True) mcUnowned c \<and>
     mcReq \<notin> pending c \<and> working c = None \<and> \<not> sized (mem_store (now c)) (mcDemo None)"
proof -
  let ?d = "(deploymentForMemcached mcLib (mcDemo None))\<lparr>dep_meta := mkMeta ''cache'' ''ns''\<rparr>"
  have op: "operated mcLib mem_store std_wake SetupWithManager_memcached (ReconcileMemcached mcLib)
      (\<lambda>_. True) mcUnowned (mcStart mcUnowned)" by (rule mc_started) simp
  have start: "working (mcStart mcUnowned) = None" "mcReq \<in> pending (mcStart mcUnowned)"
    by (simp_all add: mcStart_def)
  have "mem_store mcUnowned (mkKey MemcachedK mcReq) = Some (MemcachedO (mcDemo None))"
    "mem_store mcUnowned (mcDepKey (mcDemo None)) = Some (DeploymentO ?d)" by code_simp+
  then have found: "mem_store (now (mcStart mcUnowned)) (mkKey MemcachedK mcReq) = Some (MemcachedO (mcDemo None))"
    "mem_store (now (mcStart mcUnowned)) (mcDepKey (mcDemo None)) = Some (DeploymentO ?d)"
    by (simp_all add: mcStart_def)
  have d: "dep_replicas ?d \<noteq> None" "om_ownerReferences (dep_meta ?d) = []" "om_deletionTimestamp (dep_meta ?d) = None"
    by code_simp+
  note claim = ReconcileMemcached_adopts_unowned [OF std_wake_precise op start found d]
  from claim obtain b k d' where
    b: "operated mcLib mem_store std_wake SetupWithManager_memcached (ReconcileMemcached mcLib)
        (\<lambda>_. True) mcUnowned b \<and>
      now b = (mcRun mem_srv mcLib mcReq ^^ Suc k) (now (mcStart mcUnowned)) \<and>
      working b = None \<and> mcReq \<notin> pending b \<and>
      mem_store (now b) (mcDepKey (mcDemo None)) = Some (DeploymentO d') \<and>
      dep_replicas d' = Some (mc_Size (mcDemo None)) \<and> om_ownerReferences (dep_meta d') = [] \<and>
      (\<forall>n. \<exists>c. operated mcLib mem_store std_wake SetupWithManager_memcached (ReconcileMemcached mcLib)
          (\<lambda>_. True) mcUnowned c \<and> working c = None \<and> pending c = pending b \<and>
        mem_store (now c) = (mem_store (now b))(mcDepKey (mcDemo None) \<mapsto> DeploymentO (d'\<lparr>dep_replicas := Some n\<rparr>)))"
    by (elim exE) (rule that)
  then have idle: "mcReq \<notin> pending b" by (elim conjE)
  from b have "\<forall>n. \<exists>c. operated mcLib mem_store std_wake SetupWithManager_memcached (ReconcileMemcached mcLib)
          (\<lambda>_. True) mcUnowned c \<and> working c = None \<and> pending c = pending b \<and>
        mem_store (now c) = (mem_store (now b))(mcDepKey (mcDemo None) \<mapsto> DeploymentO (d'\<lparr>dep_replicas := Some n\<rparr>))"
    by (elim conjE)
  from spec [OF this, of 5] obtain c where
    c: "operated mcLib mem_store std_wake SetupWithManager_memcached (ReconcileMemcached mcLib)
        (\<lambda>_. True) mcUnowned c" "working c = None" "pending c = pending b"
    and st: "mem_store (now c) = (mem_store (now b))(mcDepKey (mcDemo None) \<mapsto> DeploymentO (d'\<lparr>dep_replicas := Some 5\<rparr>))"
    by (elim exE conjE) (rule that)
  have "\<not> sized (mem_store (now c)) (mcDemo None)" unfolding st by (simp add: sized_def mcDemo_def)
  with c idle show ?thesis by (intro exI [of _ c]) simp
qed

end
