(* ===== verification/OperatorPvc.thy ===== *)
theory OperatorPvc
  imports OperatorRuns PvcTraces
begin

text \<open>
  The fourth stage under its manager.  It drops the errors of its creations and asks for
  no requeue for a live resource, so that its manager forgets work the other stages
  would repeat.
\<close>

section \<open>A cluster that accepts no write\<close>

definition readonly :: "go_error \<Rightarrow> (request \<Rightarrow> 's \<Rightarrow> response \<times> 's) \<Rightarrow> request \<Rightarrow> 's \<Rightarrow> response \<times> 's" where
  "readonly e srv = refusing e is_write srv"

lemma readonly_get [simp]: "readonly e srv (Get k n) s = srv (Get k n) s"
  by (simp add: readonly_def refusing_def)

lemma readonly_owner_server:
  assumes "owner_server L srv store" "\<not> IsNotFound L e"
  shows "owner_server L (readonly e srv) store"
proof -
  have "api_server L (readonly e srv) store"
    unfolding readonly_def by (rule refusing_contract [OF owner_server.axioms(1) [OF assms(1)] assms(2)])
  then show ?thesis
    by (rule owner_server.intro) (unfold_locales, auto simp: readonly_def refusing_def)
qed

lemma readonly_store:
  assumes "api_server L srv store"
  shows "store (snd (readonly e srv q s)) = store s"
  using api_server.reads [OF assms, of q s] by (cases "srv q s") (simp add: readonly_def refusing_def)

text \<open>A run whose calls change nothing wakes nobody, when events need a change.\<close>

lemma run_through_readonly:
  assumes "operated L store wake ws rec P s0 a" "owner_server L srv store"
    and same: "\<And>q s. store (snd (srv q s)) = store s" and silent: "\<And>ws x. wake ws x x = []"
    and "working a = Some (n, p)"
  shows "\<exists>b. operated L store wake ws rec P s0 b \<and> now b = snd (exec srv p (now a)) \<and>
    store (now b) = store (now a) \<and> pending b = pending a \<and>
    working b = Some (n, Ret (fst (exec srv p (now a))))"
  using assms(1,5)
proof (induction p arbitrary: a)
  case (Ret x)
  then show ?case by (intro exI [of _ a]) simp
next
  case (Req q k)
  obtain r s' where call: "srv q (now a) = (r, s')" by (cases "srv q (now a)")
  have st: "store s' = store (now a)" using same [of q "now a"] call by simp
  then have quiet: "woken wake ws q (store (now a)) (store s') = {}"
    by (simp add: woken_def silent split: option.split)
  let ?a = "a\<lparr>now := s', pending := pending a \<union> woken wake ws q (store (now a)) (store s'), working := Some (n, k r)\<rparr>"
  have "operated L store wake ws rec P s0 ?a" by (rule called [OF Req.prems assms(2) call])
  with Req.IH [of "k r" ?a] obtain b where
    "operated L store wake ws rec P s0 b" "now b = snd (exec srv (k r) s')" "store (now b) = store s'"
    "pending b = pending a" "working b = Some (n, Ret (fst (exec srv (k r) s')))" unfolding quiet by auto
  with call st show ?case by (intro exI [of _ b]) simp
qed

section \<open>The run that gives up\<close>

context k8s_lib
begin

lemma Reconcile_pvc_gives_up:
  assumes "runs (Reconcile_pvc L req) ((Get NFSProvisionerK req, Inr (NFSProvisionerO m)) # t) r"
    and "om_deletionTimestamp (nfs_meta m) = None" "finalizerName_pvc \<notin> set (om_finalizers (nfs_meta m))"
    and "MustParse L ''10Gi'' \<noteq> None"
  shows "r = Return \<lparr>Requeue = False\<rparr> None"
  using assms(1)
proof (cases rule: Reconcile_pvc_run)
  case not_fetched
  then show ?thesis unfolding fetch_pvc_def stmt_defs by (auto simp: io_simps split: if_split_asm)
next
  case (panicked y t')
  with assms(4) show ?thesis by (auto dest: ensureAll_pvc_panics)
next
  case (finished y t' t'')
  then have "runs (finalize_pvc L (RLog req) m) t'' (Inl r)" by auto
  then show ?thesis by (cases rule: finalize_pvc_run) (use assms(2,3) in auto)
qed

end

text \<open>
  C40. Work is forgotten.  Let the cluster answer every lookup and refuse every write
  with the same error, let the quantity \<open>10Gi\<close> parse, and let the request of a live
  resource that does not carry the finalizer wait in the queue of the fourth stage's
  manager while no run is under way.  Then its run changes nothing and still ends without an error and without a
  requeue; the manager can go through just this run, and at its end the request is
  neither in the queue nor under way, provided that an object left as it is wakes
  nobody.  Nothing will repeat the work, whichever objects are missing.
\<close>

theorem Reconcile_pvc_forgets:
  assumes "healthy_server L srv store" and "owner_server L srv store" and "\<And>ws x. wake ws x x = []"
    and "MustParse L ''10Gi'' \<noteq> None" and "\<not> IsNotFound L e"
    and "operated L store wake SetupWithManager_pvc (Reconcile_pvc L) P s0 a"
    and "working a = None" and "req \<in> pending a"
    and "store (now a) (mkKey NFSProvisionerK req) = Some (NFSProvisionerO m)"
    and "om_deletionTimestamp (nfs_meta m) = None" and "finalizerName_pvc \<notin> set (om_finalizers (nfs_meta m))"
  shows "\<exists>s. exec (readonly e srv) (Reconcile_pvc L req) (now a) = (Return \<lparr>Requeue = False\<rparr> None, s) \<and>
    store s = store (now a) \<and>
    (\<exists>b. operated L store wake SetupWithManager_pvc (Reconcile_pvc L) P s0 b \<and>
      now b = s \<and> pending b = pending a - {req} \<and> working b = None)"
proof -
  have api: "api_server L srv store" by (rule healthy_server.axioms(1) [OF assms(1)])
  have lib: "k8s_lib L" by (rule api_server.axioms(1) [OF api])
  let ?srv = "readonly e srv" and ?a = "a\<lparr>pending := pending a - {req}, working := Some (req, Reconcile_pvc L req)\<rparr>"
  have "operated L store wake SetupWithManager_pvc (Reconcile_pvc L) P s0 ?a"
    by (rule taken [OF assms(6-8)])
  from run_through_readonly [OF this readonly_owner_server [OF assms(2,5)] readonly_store [OF api] assms(3)]
  obtain b where b: "operated L store wake SetupWithManager_pvc (Reconcile_pvc L) P s0 b"
    "now b = snd (exec ?srv (Reconcile_pvc L req) (now a))"
    "store (now b) = store (now a)" "pending b = pending a - {req}"
    "working b = Some (req, Ret (fst (exec ?srv (Reconcile_pvc L req) (now a))))" by fastforce
  have "fst (srv (Get NFSProvisionerK req) (now a)) = Inr (NFSProvisionerO m)"
    by (rule healthy_server.get_serves [OF assms(1) assms(9)])
  then have "\<exists>t. fst (traced ?srv (Reconcile_pvc L req) (now a)) =
      (Get NFSProvisionerK req, Inr (NFSProvisionerO m)) # t"
    by (simp add: Reconcile_pvc_def Reconcile_pvc_body_def fetch_pvc_def case_prod_beta)
  with runs_traced [of "Reconcile_pvc L req" ?srv "now a"]
    k8s_lib.Reconcile_pvc_gives_up [OF lib _ assms(10,11,4), of req]
  have run: "fst (exec ?srv (Reconcile_pvc L req) (now a)) = Return \<lparr>Requeue = False\<rparr> None"
    by (auto simp: snd_traced)
  have "operated L store wake SetupWithManager_pvc (Reconcile_pvc L) P s0
      (b\<lparr>pending := pending a - {req}, working := None\<rparr>)"
    using finished [OF b(1), of req "\<lparr>Requeue = False\<rparr>" None] b run by simp
  moreover have "exec ?srv (Reconcile_pvc L req) (now a) = (Return \<lparr>Requeue = False\<rparr> None, now b)"
    using run b(2) by (metis prod.collapse)
  ultimately show ?thesis using b(3)
    by (intro exI [of _ "now b"] conjI exI [of _ "b\<lparr>pending := pending a - {req}, working := None\<rparr>"]) simp_all
qed

lemma Reconcile_pvc_forgets_witness:
  "\<exists>b. operated demoLib mem_store std_wake SetupWithManager_pvc (Reconcile_pvc demoLib) (\<lambda>_. True)
       (demoCluster demoSpec [] None) b \<and>
     pending b = {} \<and> working b = None \<and> mem_store (now b) roleKey = None"
proof -
  let ?m = "demoCR demoSpec [] None"
  have wake: "std_wake ws x x = []" for ws x by (simp add: std_wake_def)
  have facts: "om_deletionTimestamp (nfs_meta ?m) = None" "finalizerName_pvc \<notin> set (om_finalizers (nfs_meta ?m))"
    "MustParse demoLib ''10Gi'' \<noteq> None" "mem_store (demoCluster demoSpec [] None) roleKey = None"
    by code_simp+
  have op: "operated demoLib mem_store std_wake SetupWithManager_pvc (Reconcile_pvc demoLib) (\<lambda>_. True)
      (demoCluster demoSpec [] None) demoStart"
    using started [of demoLib mem_store std_wake SetupWithManager_pvc "Reconcile_pvc demoLib" "\<lambda>_. True"
      "demoCluster demoSpec [] None"] demo_started by (simp add: registrations)
  have e: "\<not> IsNotFound demoLib (StatusError ''Forbidden'' ''no'')" by code_simp
  from Reconcile_pvc_forgets [OF demo_healthy demo_owner_server wake facts(3) e op, of demoReq ?m] facts(1,2,4)
  show ?thesis by (auto simp: demoStart_def simp del: not_None_eq)
qed

end
