(* ===== verification/Spec2Isabelle.thy ===== *)
theory Spec2Isabelle
  imports NfsShared MemcachedServer PvcTraces EarlyObjects NfsOrder NfsLifecycle NfsJson
    NfsWellformed CallBounds OperatorMemcached OperatorPvc
begin

text \<open>
  A verification library for the Go code of the NFS provisioner operator tutorials,
  under \<open>src/test_cases/operator/go-operator/nfs-provisioner-tutorial-files\<close>.

  The program.  Each numbered file is one stage of a Kubernetes operator written with
  controller-runtime.  File 0 is the memcached controller the tutorial starts from;
  the files 1, 2 (two of them), 3 and 4 build up the controller of the custom resource \<open>NFSProvisioner\<close>; file 5
  is the finished one; file 6 is the package \<open>defaults\<close> and file 7 the type of the
  resource.  The program keeps no state of its own.  Its one entry point is
  \<open>Reconcile(req)\<close>, called by the controller manager, and all its effects are requests
  to the API server: it reads the resource \<open>req\<close> names, validates it, makes sure that
  ten further objects exist (security context constraints, volume claim, service
  account, cluster role and binding, role and binding, deployment, service, storage
  class), and runs the finalizer logic that deletes the cluster-wide ones before the
  resource may go.

  How it is modelled.  A method of the reconciler is a request tree (\<open>Prelude.prog\<close>):
  it has finished, or it sends one request and goes on with the answer.  A Go
  statement that may return from its function is a tree of type
  \<open>(ret + 'a) io\<close>: \<open>Inl\<close> leaves the function, with a result and an error or with a
  panic, and \<open>Inr\<close> falls through; \<open>andthen\<close> is the sequencing of Go.  Log calls are
  requests too, so that their order against the calls of the server is kept.  Request
  trees are well founded, so every method of the model finishes after finitely many
  requests whatever the answers are, and no fuel occurs anywhere; \<open>CallBounds\<close> bounds the
  API calls of one run of each controller.  A record of the model is a struct of the Go
  code with the fields the sources set or read, an \<open>int32\<close> is a word of 32 bits, a
  string is a string of characters, a nil-able slice, map or pointer is an option, and
  a \<open>map[string]string\<close> is a finite map.

  What is a parameter.  The library functions the controllers call and that are not
  part of the repository (the tests on errors, the finalizer helpers of controllerutil,
  \<open>SetControllerReference\<close>, \<open>resource.MustParse\<close>, \<open>DeepEqual\<close> on objects) are the fields of
  the record \<open>lib\<close> in \<open>KubeApi\<close>; the locale \<open>k8s_lib\<close> holds their documented behaviour and
  \<open>std_lib\<close> is a concrete instance.  The API server is an argument of \<open>exec\<close> and
  \<open>traced\<close>; the locale \<open>api_server\<close> of \<open>ApiServer\<close> says what it may answer and
  \<open>healthy_server\<close> that it does not fail; the map-based server \<open>mem_srv\<close> is an instance of
  the second and its version with injected failures of the first.

  The theories, in the order of the imports.

    \<^item> \<open>Prelude\<close>: request trees, sequencing, the relation \<open>runs\<close> (all traces against an
      arbitrary environment), \<open>exec\<close> and \<open>traced\<close> (against a server), and the two locales
      under which properties of traces are proved once per statement and composed.
    \<^item> \<open>KubeTypes\<close>, \<open>Defaults\<close> (file 6), \<open>NfsTypes\<close> (file 7), \<open>KubeApi\<close>: the data.
    \<^item> \<open>NfsBuilders\<close>, \<open>NfsReconcile\<close>: file 5.  One definition per method, and one per block
      of the body of \<open>Reconcile\<close>, composed in the order of the source
      (\<open>fetchNFSProvisioner\<close>, \<open>rejectInvalid\<close>, the ten \<open>ensure\<close> blocks,
      \<open>finalizeNFSProvisioner\<close>).
    \<^item> \<open>EnsureBlock\<close>: the shape all "create it if it is not found" blocks share, as the
      locales \<open>creating_block\<close>, \<open>managed_block\<close> and \<open>swallowing_block\<close>, with what every run
      of such a block looks like; the contracts of traces (errors are reported, a creation
      follows a failed lookup, requests are of a given form, how a function ends).
    \<^item> \<open>NfsTraces\<close>: every block of file 5 is an instance of that shape (the sublocales);
      the ways through the finalizer logic and through \<open>Reconcile\<close>; the table
      \<open>managed_objects\<close> of all objects a run may create.
    \<^item> \<open>ApiServer\<close>: the contract of the server, the reference server, the same server with
      failures, and what it means that a block brings its objects into existence.
    \<^item> \<open>Scenarios\<close>: the concrete clusters on which the properties are evaluated.
    \<^item> \<open>NfsSafety\<close>: what holds of every run whatever the server answers (errors, confinement
      of the writes, validation, panics, order of the clean-up, number of calls).
    \<^item> \<open>NfsServer\<close>: what one run does to the objects of a server (convergence, idempotence,
      deletion), and the states from which it does not get there.
    \<^item> \<open>Rbac\<close>, \<open>NfsObjects\<close>: what a rule grants; how the created objects fit together and
      the permissions of the markers; the claim a run looks up, mounts and creates.
      \<open>NfsWellformed\<close>: every created object meets a selection of the server's conditions.
    \<^item> \<open>NfsOrder\<close>: on a healthy server the ten creation blocks may run in any order.
    \<^item> \<open>NfsShared\<close>: several resources on one cluster.
    \<^item> \<open>NfsLifecycle\<close>: the abstract life cycle of a resource (its phase and the set of the
      keys that exist), which \<open>Reconcile\<close> refines on a healthy server, run after run.
    \<^item> \<open>NfsRecovery\<close>: runs cut short at any call, failing calls and interference of other
      clients, after which one complete run restores everything; and what a run cut short
      before the finalizer, or an outage during the clean-up, leaves behind for good.
    \<^item> \<open>NfsJson\<close>: the wire format the struct tags of file 7 fix, as encoder and decoder.
    \<^item> \<open>Memcached\<close>, \<open>MemcachedServer\<close>: file 0, its errors, writes and panics on arbitrary
      answers; its convergence to the size of the spec and to the names of the pods each
      run is shown, whatever the pods are (\<open>pod_server\<close>; \<open>rolling\<close> is a server whose pods
      change with every write).
    \<^item> \<open>EnsureTable\<close>: a reference loop (\<open>run_table\<close>) over a table with one entry per object,
      its abstract effect \<open>spec_table\<close>, and the refinement between the two.
    \<^item> \<open>SaStage\<close> (file 1), \<open>DeployStage\<close> and \<open>RbacStage\<close> (the two files 2), \<open>HostPathStage\<close>
      (file 3), with the suffixes \<open>_sa\<close>, \<open>_deploy\<close>, \<open>_rbac\<close> and \<open>_hostpath\<close>.  \<open>EarlyStages\<close>:
      their creation blocks are equal to tables.  \<open>EarlyRuns\<close>: all their runs, and what one
      run does to a server.  \<open>EarlyObjects\<close>: their objects and markers.
    \<^item> \<open>PvcStage\<close>, \<open>PvcTraces\<close>: file 4 (suffix \<open>_pvc\<close>) and where it differs from file 5.
    \<^item> \<open>CallBounds\<close>: the largest number of API calls of one run of each controller.
    \<^item> \<open>Operator\<close>: the registrations (\<open>SetupWithManager\<close> of every file) and the manager around
      them: its queue, the run under way, call by call, other clients and restarts, as the
      step relation \<open>operated\<close>; the locale \<open>tracked_work\<close>, under which no work is lost.
      \<open>OperatorRuns\<close>, \<open>OperatorMemcached\<close>, \<open>OperatorPvc\<close>: which controllers lose no work,
      and which lose some (an unowned Deployment in file 0, refused writes in file 4).

  What is not modelled.  The generated deep-copy code and the manager are not in the
  repository.  Of the manager the model has what its documentation says: which events
  wake a request is the parameter \<open>wake\<close> under the hypothesis \<open>notifies\<close> (it wakes for
  these events) or \<open>precise\<close> (it wakes for no others), one worker takes requests from a
  queue without duplicates, and a request returns to it after an error or when a requeue
  is asked for.  Delays between retries, several workers and stale reads
  from the client's cache are left out.  Owner-based
  garbage collection and the scheduling of pods are the cluster's, not the program's.
  The rest of the repository is documentation, shell scripts and configuration.
\<close>

end
